(* ===== verification/Prelude.thy ===== *)
theory Prelude
  imports Main "HOL-Library.AList"
begin

text \<open>
  Shared vocabulary of the development.

  \<^item> Python exceptions are values of \<open>py_error\<close>; an \<open>AssistantError\<close> carries the
    error code, the message argument, the tenant and the structured context of
    \<^verbatim>\<open>domain/common/exceptions.py\<close>.
  \<^item> An expression that may raise has type \<open>'a result\<close>; a method that may raise and
    mutates the object \<open>'s\<close> has type \<open>('s, 'a) op\<close>: it returns the outcome together
    with the object as it is left, also when it raises.
  \<^item> A Python dict is an association list in insertion order with distinct keys
    (\<open>map_of\<close> is \<^verbatim>\<open>dict.get\<close>, \<open>AList.update\<close> is item assignment, which
    keeps the position of an existing key).
  \<^item> An aware \<open>datetime\<close> is its UTC instant in microseconds; the range of the type
    (years 1 to 9999) is kept, so that date arithmetic can overflow as in Python.
  \<^item> A string is a list of characters with code points below 256; \<open>py_strip\<close>,
    \<open>py_lower\<close> follow Python on that range.
\<close>

named_theorems op_simps \<open>unfolding rules of the operation combinators\<close>
named_theorems step_intros \<open>how operations keep the invariants of the stores\<close>

section \<open>Errors and outcomes\<close>

datatype error_code =
    VALIDATION_FAILED | AUTHENTICATION_REQUIRED | PERMISSION_DENIED | TENANT_REQUIRED
  | TOKEN_BUDGET_EXCEEDED | GUARDRAIL_BLOCKED | PII_DETECTED | PROMPT_INJECTION_DETECTED
  | NOT_FOUND | CONFLICT | INTERNAL_ERROR | PAYLOAD_TOO_LARGE

datatype ctx_value = CStr string | CInt int | CList "string list"
  | CItems "(string \<times> ctx_value) list list"

datatype py_error =
    ValueError string
  | TypeError string
  | RuntimeError string
  | OverflowError
  | KeyError
  | IndexError
  | AssertionError
  | AssistantError error_code string "string option" "(string \<times> ctx_value) list"

type_synonym 'a result = "py_error + 'a"
type_synonym ('s, 'a) op = "'s \<Rightarrow> 'a result \<times> 's"

definition bindR :: "'a result \<Rightarrow> ('a \<Rightarrow> 'b result) \<Rightarrow> 'b result" where
  "bindR r f = (case r of Inl e \<Rightarrow> Inl e | Inr x \<Rightarrow> f x)"

text \<open>A list comprehension whose element expression may raise.\<close>

fun mapR :: "('a \<Rightarrow> 'b result) \<Rightarrow> 'a list \<Rightarrow> 'b list result" where
  "mapR f [] = Inr []"
| "mapR f (x # xs) = bindR (f x) (\<lambda>y. bindR (mapR f xs) (\<lambda>ys. Inr (y # ys)))"

definition ret :: "'a \<Rightarrow> ('s, 'a) op" where
  "ret x = (\<lambda>s. (Inr x, s))"

definition raise :: "py_error \<Rightarrow> ('s, 'a) op" where
  "raise e = (\<lambda>s. (Inl e, s))"

definition lift :: "'a result \<Rightarrow> ('s, 'a) op" where
  "lift r = (\<lambda>s. (r, s))"

definition bindS :: "('s, 'a) op \<Rightarrow> ('a \<Rightarrow> ('s, 'b) op) \<Rightarrow> ('s, 'b) op" where
  "bindS m f = (\<lambda>s. case m s of (Inl e, t) \<Rightarrow> (Inl e, t) | (Inr x, t) \<Rightarrow> f x t)"

text \<open>\<^verbatim>\<open>try: m except e: h(e)\<close>: the handler sees the state the failed body left.\<close>

definition catchS :: "('s, 'a) op \<Rightarrow> (py_error \<Rightarrow> ('s, 'a) op) \<Rightarrow> ('s, 'a) op" where
  "catchS m h = (\<lambda>s. case m s of (Inl e, t) \<Rightarrow> h e t | (Inr x, t) \<Rightarrow> (Inr x, t))"

text \<open>An operation on one field of a larger object.\<close>

definition on_field :: "('r \<Rightarrow> 's) \<Rightarrow> ('s \<Rightarrow> 'r \<Rightarrow> 'r) \<Rightarrow> ('s, 'a) op \<Rightarrow> ('r, 'a) op" where
  "on_field get put m = (\<lambda>r. case m (get r) of (x, s) \<Rightarrow> (x, put s r))"

lemma bindR_simps [simp]: "bindR (Inl e) f = Inl e" "bindR (Inr x) f = f x"
  by (simp_all add: bindR_def)

lemma bindR_eq_Inr: "bindR r f = Inr y \<longleftrightarrow> (\<exists>x. r = Inr x \<and> f x = Inr y)"
  by (cases r) simp_all

lemma bindR_eq_Inl: "bindR r f = Inl e \<longleftrightarrow> r = Inl e \<or> (\<exists>x. r = Inr x \<and> f x = Inl e)"
  by (cases r) simp_all

lemma op_apply [simp, op_simps]:
  "ret x s = (Inr x, s)" "raise e s = (Inl e, s)" "lift r s = (r, s)"
  by (simp_all add: ret_def raise_def lift_def)

lemma bindS_cases [op_simps]:
  "bindS m f s = (case m s of (r, t) \<Rightarrow> (case r of Inl e \<Rightarrow> (Inl e, t) | Inr x \<Rightarrow> f x t))"
  by (simp add: bindS_def split: prod.splits sum.splits)

lemma bindS_Inr: "m s = (Inr x, t) \<Longrightarrow> bindS m f s = f x t"
  by (simp add: bindS_def)

lemma bindS_Inl: "m s = (Inl e, t) \<Longrightarrow> bindS m f s = (Inl e, t)"
  by (simp add: bindS_def)

lemma bindS_ret [simp]: "bindS (ret x) f = f x"
  by (simp add: bindS_def ret_def)

lemma bindS_raise [simp]: "bindS (raise e) f = raise e"
  by (simp add: bindS_def raise_def)

lemma bindS_eq_Inr:
  "bindS m f s = (Inr y, u) \<longleftrightarrow> (\<exists>x t. m s = (Inr x, t) \<and> f x t = (Inr y, u))"
  by (auto simp: bindS_def split: prod.splits sum.splits)

lemma bindS_lift_Inr: "m = Inr x \<Longrightarrow> bindS (lift m) f = f x"
  by (simp add: bindS_def fun_eq_iff)

lemma bindS_eq_Inl:
  "bindS m f s = (Inl e, u) \<longleftrightarrow>
     m s = (Inl e, u) \<or> (\<exists>x t. m s = (Inr x, t) \<and> f x t = (Inl e, u))"
  by (auto simp: bindS_def split: prod.splits sum.splits)

text \<open>
  An invariant of the state that every branch keeps: the rule the stores' proofs use.
  \<open>keeps P m\<close> says that \<open>m\<close> leads from a state with \<open>P\<close> to one with \<open>P\<close>,
  whether it returns or raises.
\<close>

definition keeps :: "('s \<Rightarrow> bool) \<Rightarrow> ('s, 'a) op \<Rightarrow> bool" where
  "keeps P m \<longleftrightarrow> (\<forall>s. P s \<longrightarrow> P (snd (m s)))"

lemma keepsI: "(\<And>s. P s \<Longrightarrow> P (snd (m s))) \<Longrightarrow> keeps P m"
  by (simp add: keeps_def)

lemma keepsD: "keeps P m \<Longrightarrow> P s \<Longrightarrow> P (snd (m s))"
  by (simp add: keeps_def)

lemma keeps_ret [step_intros]: "keeps P (ret x)"
  by (simp add: keeps_def)

lemma keeps_raise [step_intros]: "keeps P (raise e)"
  by (simp add: keeps_def)

lemma keeps_lift [step_intros]: "keeps P (lift r)"
  by (simp add: keeps_def)

lemma keeps_bindS [step_intros]:
  "keeps P m \<Longrightarrow> (\<And>x. keeps P (f x)) \<Longrightarrow> keeps P (bindS m f)"
  by (force simp: keeps_def bindS_cases split: prod.splits sum.splits)

lemma keeps_catchS [step_intros]:
  "keeps P m \<Longrightarrow> (\<And>e. keeps P (h e)) \<Longrightarrow> keeps P (catchS m h)"
  by (force simp: keeps_def catchS_def split: prod.splits sum.splits)

lemma keeps_on_field:
  assumes "\<And>r. P r \<Longrightarrow> Q (get r)" and "\<And>r s. P r \<Longrightarrow> Q s \<Longrightarrow> P (put s r)" and "keeps Q m"
  shows "keeps P (on_field get put m)"
  using assms by (force simp: keeps_def on_field_def split: prod.splits)

section \<open>Dictionaries\<close>

type_synonym ('k, 'v) dict = "('k \<times> 'v) list"

text \<open>A dict entry belongs to a tenant when the first part of its key is that tenant.\<close>

definition tenant_part :: "'t \<Rightarrow> (('t \<times> 'k) \<times> 'v) list \<Rightarrow> (('t \<times> 'k) \<times> 'v) list" where
  "tenant_part t d = filter (\<lambda>((u, _), _). u = t) d"

lemma tenant_part_update_other [simp]:
  "u \<noteq> t \<Longrightarrow> tenant_part t (AList.update (u, k) v d) = tenant_part t d"
  by (induction d) (auto simp: tenant_part_def split: prod.splits)

lemma tenant_part_update_same:
  "tenant_part t (AList.update (t, k) v d) = AList.update (t, k) v (tenant_part t d)"
  by (induction d) (auto simp: tenant_part_def split: prod.splits)

lemma set_tenant_part: "set (tenant_part t d) = {e \<in> set d. fst (fst e) = t}"
  by (auto simp: tenant_part_def)

lemma map_of_tenant_part: "map_of (tenant_part t d) (t, k) = map_of d (t, k)"
  by (induction d) (auto simp: tenant_part_def split: prod.splits)

lemma distinct_keys_update [intro, simp]:
  "distinct (map fst d) \<Longrightarrow> distinct (map fst (AList.update k v d))"
  by (rule distinct_update)

lemma map_of_update: "map_of (AList.update k v d) k' = (if k' = k then Some v else map_of d k')"
  by (simp add: update_conv')

lemma in_set_update_distinct:
  assumes "distinct (map fst d)"
  shows "(k', v') \<in> set (AList.update k v d) \<longleftrightarrow>
           (if k' = k then v' = v else (k', v') \<in> set d)"
  using assms by (metis distinct_update map_of_eq_Some_iff map_of_update option.inject)

lemma map_of_None_notin: "map_of d k = None \<Longrightarrow> (k, v) \<notin> set d"
  by (metis map_of_eq_None_iff fst_conv imageI)

lemma update_append_new:
  "map_of d k = None \<Longrightarrow> AList.update k v d = d @ [(k, v)]"
  by (induction d) (auto split: if_splits)

lemma map_of_dom: "map_of d k = Some v \<Longrightarrow> k \<in> set (map fst d)"
  by (metis list.set_map map_of_eq_None_iff option.distinct(1))

lemma dom_map_of: "k \<in> set (map fst d) \<Longrightarrow> \<exists>v. map_of d k = Some v"
  by (metis list.set_map map_of_eq_None_iff option.exhaust)

lemma update_keys_same: "map_of d k = Some v \<Longrightarrow> map fst (AList.update k w d) = map fst d"
  by (induction d) (auto split: if_splits)

lemma find_SomeD: "find P xs = Some x \<Longrightarrow> x \<in> set xs \<and> P x"
  by (induction xs) (auto split: if_splits)

lemma find_NoneD: "find P xs = None \<Longrightarrow> x \<in> set xs \<Longrightarrow> \<not> P x"
  by (auto simp: find_None_iff)

section \<open>Time\<close>

type_synonym instant = int

datatype py_datetime = Naive int | Aware instant

definition datetime_min :: instant where "datetime_min = -62135596800000000"
definition datetime_max :: instant where "datetime_max = 253402300799999999"

definition in_datetime_range :: "instant \<Rightarrow> bool" where
  "in_datetime_range t \<longleftrightarrow> datetime_min \<le> t \<and> t \<le> datetime_max"

definition seconds :: "int \<Rightarrow> int" where "seconds n = n * 1000000"
definition minutes :: "int \<Rightarrow> int" where "minutes n = seconds (60 * n)"

text \<open>\<^verbatim>\<open>t + timedelta(...)\<close>: raises \<open>OverflowError\<close> outside the range.\<close>

definition dt_add :: "instant \<Rightarrow> int \<Rightarrow> instant result" where
  "dt_add t d = (if in_datetime_range (t + d) then Inr (t + d) else Inl OverflowError)"

lemma dt_add_Inr: "dt_add t d = Inr u \<longleftrightarrow> u = t + d \<and> in_datetime_range u"
  by (auto simp: dt_add_def)

section \<open>Strings\<close>

definition py_isspace :: "char \<Rightarrow> bool" where
  "py_isspace c \<longleftrightarrow> c \<in> {CHR 0x09, CHR 0x0A, CHR 0x0B, CHR 0x0C, CHR 0x0D,
     CHR 0x1C, CHR 0x1D, CHR 0x1E, CHR 0x1F, CHR 0x20, CHR 0x85, CHR 0xA0}"

definition py_strip :: "string \<Rightarrow> string" where
  "py_strip s = rev (dropWhile py_isspace (rev (dropWhile py_isspace s)))"

definition py_lower_char :: "char \<Rightarrow> char" where
  "py_lower_char c = (let n = (of_char c :: nat) in
     if 65 \<le> n \<and> n \<le> 90 \<or> 192 \<le> n \<and> n \<le> 222 \<and> n \<noteq> 215 then char_of (n + 32) else c)"

text \<open>The same test on binary integers, which evaluate faster than unary naturals.\<close>

lemma py_lower_char_int [code]:
  "py_lower_char c = (let n = (of_char c :: int) in
     if 65 \<le> n \<and> n \<le> 90 \<or> 192 \<le> n \<and> n \<le> 222 \<and> n \<noteq> 215 then char_of (n + 32) else c)"
proof -
  obtain n where n: "(of_char c :: nat) = n" by blast
  then have i: "(of_char c :: int) = int n" by (metis of_nat_of_char)
  have "char_of (int n + 32) = char_of (n + 32)" using char_of_nat [of "n + 32"] by (metis of_nat_add of_nat_numeral)
  then show ?thesis unfolding py_lower_char_def Let_def n i by auto
qed

definition py_lower :: "string \<Rightarrow> string" where
  "py_lower s = map py_lower_char s"

lemma py_strip_Nil [simp]: "py_strip [] = []"
  by (simp add: py_strip_def)

text \<open>Stripping is idempotent, and a string without blank ends is its own strip.\<close>

lemma dropWhile_rev_dropWhile:
  "dropWhile P (rev (dropWhile P (rev (dropWhile P xs)))) = rev (dropWhile P (rev (dropWhile P xs)))"
proof (cases "dropWhile P xs")
  case Nil
  show ?thesis unfolding Nil by simp
next
  case (Cons y ys)
  then have y: "\<not> P y" by (metis hd_dropWhile list.distinct(1) list.sel(1))
  then have "dropWhile P (rev (y # ys)) = dropWhile P (rev ys) @ [y] \<or>
             dropWhile P (rev (y # ys)) = [y]"
    by (cases "\<forall>z \<in> set ys. P z") (auto simp: dropWhile_append)
  with y Cons show ?thesis by auto
qed

lemma py_strip_idem [simp]: "py_strip (py_strip s) = py_strip s"
  by (simp add: py_strip_def dropWhile_rev_dropWhile)

lemma py_strip_no_space:
  assumes "s = [] \<or> (\<not> py_isspace (hd s) \<and> \<not> py_isspace (last s))"
  shows "py_strip s = s"
proof (cases s)
  case (Cons c cs)
  with assms have "dropWhile py_isspace s = s" by auto
  moreover have "dropWhile py_isspace (rev s) = rev s"
    using assms Cons by (metis dropWhile_eq_self_iff hd_rev list.distinct(1))
  ultimately show ?thesis by (simp add: py_strip_def)
qed simp

text \<open>Truthiness of an optional string: \<^verbatim>\<open>if not value\<close> holds for None and the empty string.\<close>

definition truthy_str :: "string option \<Rightarrow> bool" where
  "truthy_str v \<longleftrightarrow> v \<noteq> None \<and> v \<noteq> Some []"

section \<open>Decimal rendering\<close>

fun nat_digits :: "nat \<Rightarrow> string" where
  "nat_digits n = (if n < 10 then [char_of (48 + n)]
                   else nat_digits (n div 10) @ [char_of (48 + n mod 10)])"

declare nat_digits.simps [simp del]

definition str_of_int :: "int \<Rightarrow> string" where
  "str_of_int i = (if i < 0 then CHR ''-'' # nat_digits (nat (- i)) else nat_digits (nat i))"

text \<open>The same on binary integers, for evaluation.\<close>

function int_digits :: "int \<Rightarrow> string" where
  "int_digits n = (if n < 10 then [char_of (48 + n)] else int_digits (n div 10) @ [char_of (48 + n mod 10)])"
  by pat_completeness auto
termination
  by (relation "measure nat") auto

declare int_digits.simps [simp del]

lemma char_of_int: "(char_of (int n) :: char) = char_of n"
  by (metis char_of_nat)

lemma int_digits_nat: "int_digits (int n) = nat_digits n"
proof (induction n rule: nat_digits.induct)
  case (1 n)
  have "char_of (48 + int m) = char_of (48 + m)" for m using char_of_int [of "48 + m"] by simp
  moreover have "int n div 10 = int (n div 10)" "int n mod 10 = int (n mod 10)" by (simp_all add: zdiv_int zmod_int)
  ultimately show ?case
    using 1 by (simp add: int_digits.simps [of "int n"] nat_digits.simps [of n])
qed

lemma str_of_int_code [code]:
  "str_of_int i = (if i < 0 then CHR ''-'' # int_digits (- i) else int_digits i)"
  using int_digits_nat [of "nat i"] int_digits_nat [of "nat (- i)"] by (simp add: str_of_int_def split: if_splits)

end
