(* ===== verification/Access_Control.thy ===== *)
theory Access_Control
  imports Prelude
begin

text \<open>
  Permission tiers, principals and approval grants:
  \<^verbatim>\<open>domain/common/permissions.py\<close> and \<^verbatim>\<open>domain/common/identity.py\<close>.
  A value of a record type below is a constructed (validated) object of the class; the
  \<open>_make\<close> and \<open>_issue\<close> functions are the constructors with their validators, which
  raise pydantic's \<open>ValidationError\<close>, a \<open>ValueError\<close>. The current time is an
  argument where the code reads the clock.
\<close>

section \<open>Tiers\<close>

datatype permission_tier = P0 | P1 | P2 | P3 | P4 | P5 | P6

fun rank :: "permission_tier \<Rightarrow> nat" where
  "rank P0 = 0" | "rank P1 = 1" | "rank P2 = 2" | "rank P3 = 3"
| "rank P4 = 4" | "rank P5 = 5" | "rank P6 = 6"

fun tier_value :: "permission_tier \<Rightarrow> string" where
  "tier_value P0 = ''P0''" | "tier_value P1 = ''P1''" | "tier_value P2 = ''P2''"
| "tier_value P3 = ''P3''" | "tier_value P4 = ''P4''" | "tier_value P5 = ''P5''"
| "tier_value P6 = ''P6''"

definition allows :: "permission_tier \<Rightarrow> permission_tier \<Rightarrow> bool" where
  "allows t required \<longleftrightarrow> rank required \<le> rank t"

lemma rank_inject: "rank a = rank b \<longleftrightarrow> a = b"
  by (cases a; cases b) simp_all

instantiation permission_tier :: linorder
begin
definition "a \<le> b \<longleftrightarrow> rank a \<le> rank b"
definition "a < b \<longleftrightarrow> rank a < rank b"
instance
  by standard (auto simp: less_eq_permission_tier_def less_permission_tier_def rank_inject)
end

lemma allows_iff_le: "allows t r \<longleftrightarrow> r \<le> t"
  by (simp add: allows_def less_eq_permission_tier_def)

definition coerce_tier :: "string \<Rightarrow> permission_tier result" where
  "coerce_tier v =
     (if v = ''P0'' then Inr P0 else if v = ''P1'' then Inr P1
      else if v = ''P2'' then Inr P2 else if v = ''P3'' then Inr P3
      else if v = ''P4'' then Inr P4 else if v = ''P5'' then Inr P5
      else if v = ''P6'' then Inr P6
      else Inl (ValueError ''not a valid PermissionTier''))"

fun max_tier :: "permission_tier list \<Rightarrow> permission_tier" where
  "max_tier [] = P0"
| "max_tier [t] = t"
| "max_tier (t # u # ts) = max_tier ((if rank t < rank u then u else t) # ts)"

section \<open>Principals\<close>

record permission_grant =
  grant_name :: string
  grant_tier :: permission_tier

definition PermissionGrant_make :: "string \<Rightarrow> permission_tier \<Rightarrow> permission_grant result" where
  "PermissionGrant_make name tier =
     (let n = py_strip name in
      if n = [] \<or> length n > 120 then Inl (ValueError ''permission name'')
      else Inr \<lparr>grant_name = py_lower n, grant_tier = tier\<rparr>)"

text \<open>An element of a principal's permission collection: a typed grant, or a bare legacy name.\<close>

datatype grant_item = Grant permission_grant | Legacy string

record principal =
  pr_principal_id :: string
  pr_tenant_id :: string
  pr_auth_subject :: string
  pr_auth_provider :: "string option"
  pr_permission_tier :: permission_tier
  pr_permissions :: "grant_item list"
  pr_scopes :: "string set"
  pr_trusted_source :: "string option"

definition is_trusted :: "principal \<Rightarrow> bool" where
  "is_trusted p \<longleftrightarrow> pr_trusted_source p \<noteq> None"

definition mark_trusted :: "string \<Rightarrow> (principal, unit) op" where
  "mark_trusted source p =
     (if py_strip source = [] then (Inl (ValueError ''trusted source cannot be blank''), p)
      else (Inr (), p\<lparr>pr_trusted_source := Some source\<rparr>))"

fun py_split_acc :: "string \<Rightarrow> string \<Rightarrow> string list" where
  "py_split_acc w [] = (if w = [] then [] else [rev w])"
| "py_split_acc w (c # cs) =
     (if py_isspace c then (if w = [] then py_split_acc [] cs else rev w # py_split_acc [] cs)
      else py_split_acc (c # w) cs)"

definition py_split :: "string \<Rightarrow> string list" where
  "py_split s = py_split_acc [] s"

datatype scopes_value = NoScopes | ScopesText string | ScopesItems "string list"

fun normalize_scopes :: "scopes_value \<Rightarrow> string set" where
  "normalize_scopes NoScopes = {}"
| "normalize_scopes (ScopesText s) =
     set (map (\<lambda>i. py_lower (py_strip i)) (filter (\<lambda>i. py_strip i \<noteq> []) (py_split s)))"
| "normalize_scopes (ScopesItems xs) =
     set (map (\<lambda>i. py_lower (py_strip i)) (filter (\<lambda>i. py_strip i \<noteq> []) xs))"

text \<open>
  The before-validator of \<open>Principal\<close> on a mapping of string values: the first
  non-empty of four keys becomes the identity, and the three aliases are removed.
\<close>

definition dict_or :: "string option \<Rightarrow> string option \<Rightarrow> string option" where
  "dict_or a b = (if truthy_str a then a else b)"

definition derive_identity_fields :: "(string, string) dict \<Rightarrow> (string, string) dict" where
  "derive_identity_fields values =
     (let identity = dict_or (map_of values ''principal_id'')
                       (dict_or (map_of values ''actor_id'')
                         (dict_or (map_of values ''sub'') (map_of values ''subject'')));
          v1 = (if truthy_str identity \<and> map_of values ''principal_id'' = None
                then AList.update ''principal_id'' (the identity) values else values);
          v2 = (if truthy_str identity \<and> map_of v1 ''auth_subject'' = None
                then AList.update ''auth_subject'' (the identity) v1 else v1)
      in AList.delete ''subject'' (AList.delete ''sub'' (AList.delete ''actor_id'' v2)))"

definition valid_identity :: "nat \<Rightarrow> string \<Rightarrow> bool" where
  "valid_identity n s \<longleftrightarrow> 1 \<le> length (py_strip s) \<and> length (py_strip s) \<le> n"

definition Principal_for_test ::
    "string \<Rightarrow> string \<Rightarrow> permission_tier \<Rightarrow> principal result" where
  "Principal_for_test pid tenant tier =
     (if \<not> (valid_identity 200 pid \<and> valid_identity 120 tenant)
      then Inl (ValueError ''identity field'')
      else Inr \<lparr>pr_principal_id = py_strip pid, pr_tenant_id = py_strip tenant,
                pr_auth_subject = py_strip pid, pr_auth_provider = Some ''test'',
                pr_permission_tier = tier, pr_permissions = [], pr_scopes = {},
                pr_trusted_source = Some ''test''\<rparr>)"

text \<open>What the validators of \<open>Principal\<close> leave: stripped, non-blank identities.\<close>

definition wf_principal :: "principal \<Rightarrow> bool" where
  "wf_principal p \<longleftrightarrow> py_strip (pr_tenant_id p) = pr_tenant_id p \<and> pr_tenant_id p \<noteq> []
     \<and> py_strip (pr_principal_id p) = pr_principal_id p \<and> pr_principal_id p \<noteq> []"

definition require_trusted_principal :: "principal \<Rightarrow> unit result" where
  "require_trusted_principal p =
     (if is_trusted p then Inr ()
      else Inl (AssistantError AUTHENTICATION_REQUIRED
                  ''principal must be derived from verified auth'' (Some (pr_tenant_id p)) []))"

section \<open>Permission decisions\<close>

record permission_request =
  req_action :: string
  req_resource :: string
  req_required_tier :: permission_tier
  req_permission :: "string option"

definition norm_request_text :: "nat \<Rightarrow> string \<Rightarrow> string result" where
  "norm_request_text n v =
     (let s = py_strip v in
      if s = [] \<or> length s > n then Inl (ValueError ''value cannot be blank'')
      else Inr (py_lower s))"

definition PermissionRequest_make ::
    "string \<Rightarrow> string \<Rightarrow> permission_tier \<Rightarrow> string option \<Rightarrow> permission_request result" where
  "PermissionRequest_make action resource tier permission =
     bindR (norm_request_text 120 action) (\<lambda>a.
     bindR (norm_request_text 200 resource) (\<lambda>r.
     case permission of
       None \<Rightarrow> Inr \<lparr>req_action = a, req_resource = r, req_required_tier = tier,
                    req_permission = None\<rparr>
     | Some q \<Rightarrow> bindR (norm_request_text 120 q) (\<lambda>q'.
         Inr \<lparr>req_action = a, req_resource = r, req_required_tier = tier,
               req_permission = Some q'\<rparr>)))"

record permission_decision =
  dec_allowed :: bool
  dec_required_tier :: permission_tier
  dec_principal_tier :: permission_tier
  dec_reason :: string

definition typed_grant_matches :: "permission_request \<Rightarrow> string \<Rightarrow> grant_item \<Rightarrow> bool" where
  "typed_grant_matches request name g =
     (case g of Grant h \<Rightarrow> grant_name h = name \<and> allows (grant_tier h) (req_required_tier request)
              | Legacy _ \<Rightarrow> False)"

definition legacy_grant_matches :: "string \<Rightarrow> grant_item \<Rightarrow> bool" where
  "legacy_grant_matches name g =
     (case g of Grant _ \<Rightarrow> False | Legacy s \<Rightarrow> py_lower (py_strip s) = name)"

definition evaluate_permission :: "principal \<Rightarrow> permission_request \<Rightarrow> permission_decision" where
  "evaluate_permission p request =
     (let required = req_required_tier request; tier = pr_permission_tier p;
          decision = (\<lambda>ok pt why. \<lparr>dec_allowed = ok, dec_required_tier = required,
                                    dec_principal_tier = pt, dec_reason = why\<rparr>)
      in if \<not> is_trusted p
           then decision False P0 ''principal must be derived from verified auth''
         else if \<not> allows tier required
           then decision False tier ''principal tier is below the required tier''
         else (case req_permission request of
                 None \<Rightarrow> decision True tier ''tier requirement satisfied''
               | Some name \<Rightarrow>
                   (let ok = find (typed_grant_matches request name) (pr_permissions p) \<noteq> None
                             \<or> list_ex (legacy_grant_matches name) (pr_permissions p)
                    in decision ok tier (if ok then ''permission grant satisfied''
                          else ''missing permission grant at required tier''))))"

definition require_permission :: "principal \<Rightarrow> permission_request \<Rightarrow> permission_decision result" where
  "require_permission p request =
     (let d = evaluate_permission p request in
      if \<not> dec_allowed d
      then Inl (AssistantError PERMISSION_DENIED (dec_reason d) (Some (pr_tenant_id p))
             [(''action'', CStr (req_action request)), (''resource'', CStr (req_resource request)),
              (''required_tier'', CStr (tier_value (req_required_tier request))),
              (''principal_tier'', CStr (tier_value (dec_principal_tier d)))])
      else Inr d)"

section \<open>Approval grants\<close>

record approval_grant =
  ap_approval_id :: string
  ap_tenant_id :: string
  ap_principal_id :: string
  ap_action :: string
  ap_resource :: string
  ap_tier :: permission_tier
  ap_approved :: bool
  ap_expires_at :: "instant option"
  ap_request_hash :: "string option"
  ap_trusted_source :: "string option"

definition grant_is_trusted :: "approval_grant \<Rightarrow> bool" where
  "grant_is_trusted g \<longleftrightarrow> ap_trusted_source g \<noteq> None"

definition ApprovalGrant_issue ::
    "principal \<Rightarrow> string \<Rightarrow> permission_tier \<Rightarrow> string \<Rightarrow> string \<Rightarrow> py_datetime option
       \<Rightarrow> string option \<Rightarrow> approval_grant result" where
  "ApprovalGrant_issue p action tier resource approval_id expires_at request_hash =
     (if py_strip approval_id = [] \<or> py_strip (pr_tenant_id p) = []
         \<or> py_strip (pr_principal_id p) = [] \<or> py_strip action = [] \<or> py_strip resource = []
      then Inl (ValueError ''approval grant field'')
      else case expires_at of
             Some (Naive _) \<Rightarrow> Inl (ValueError ''expires_at must be timezone-aware'')
           | _ \<Rightarrow>
         Inr \<lparr>ap_approval_id = py_strip approval_id, ap_tenant_id = py_strip (pr_tenant_id p),
              ap_principal_id = py_strip (pr_principal_id p), ap_action = py_strip action,
              ap_resource = py_strip resource, ap_tier = tier, ap_approved = True,
              ap_expires_at = (case expires_at of Some (Aware t) \<Rightarrow> Some t | _ \<Rightarrow> None),
              ap_request_hash = map_option py_strip request_hash,
              ap_trusted_source = Some ''trusted_runtime''\<rparr>)"

definition approval_errors ::
    "instant \<Rightarrow> principal \<Rightarrow> permission_tier \<Rightarrow> approval_grant \<Rightarrow> string \<Rightarrow> string
       \<Rightarrow> string option \<Rightarrow> string list" where
  "approval_errors now p required g action resource request_hash =
     (if \<not> grant_is_trusted g then [''approval grant is not trusted''] else [])
     @ (if \<not> ap_approved g then [''approval grant is not approved''] else [])
     @ (if ap_tenant_id g \<noteq> pr_tenant_id p then [''approval tenant mismatch''] else [])
     @ (if ap_principal_id g \<noteq> pr_principal_id p then [''approval principal mismatch''] else [])
     @ (if ap_action g \<noteq> action then [''approval action mismatch''] else [])
     @ (if ap_resource g \<noteq> resource then [''approval resource mismatch''] else [])
     @ (if \<not> allows (ap_tier g) required then [''approval tier too low''] else [])
     @ (case ap_expires_at g of None \<Rightarrow> []
        | Some t \<Rightarrow> if t \<le> now then [''approval expired''] else [])
     @ (case request_hash of None \<Rightarrow> []
        | Some h \<Rightarrow> if ap_request_hash g \<noteq> Some h then [''approval request hash mismatch''] else [])"

definition require_approval ::
    "instant \<Rightarrow> principal \<Rightarrow> permission_tier \<Rightarrow> approval_grant option \<Rightarrow> string \<Rightarrow> string
       \<Rightarrow> string option \<Rightarrow> permission_decision result" where
  "require_approval now p tier approval action resource request_hash =
     bindR (PermissionRequest_make action resource tier None) (\<lambda>request.
     bindR (require_permission p request) (\<lambda>decision.
     (case approval of
        None \<Rightarrow>
          if rank P3 \<le> rank tier
          then Inl (AssistantError PERMISSION_DENIED
                 ''trusted approval grant required for P3+ action'' (Some (pr_tenant_id p))
                 [(''action'', CStr action), (''resource'', CStr resource),
                  (''required_tier'', CStr (tier_value tier))])
          else Inr decision
      | Some g \<Rightarrow>
          if rank tier < rank P3 then Inr decision
          else (let errs = approval_errors now p tier g action resource request_hash in
                if errs \<noteq> []
                then Inl (AssistantError PERMISSION_DENIED ''approval grant rejected''
                       (Some (pr_tenant_id p))
                       [(''action'', CStr action), (''resource'', CStr resource),
                        (''required_tier'', CStr (tier_value tier)),
                        (''approval_errors'', CList errs)])
                else Inr decision))))"


section \<open>Properties\<close>

lemma coerce_tier_value [simp]: "coerce_tier (tier_value t) = Inr t"
  by (cases t) (simp_all add: coerce_tier_def)

lemma max_tier_in: "ts \<noteq> [] \<Longrightarrow> max_tier ts \<in> set ts"
  by (induction ts rule: max_tier.induct) (auto split: if_splits)

lemma max_tier_ge: "t \<in> set ts \<Longrightarrow> t \<le> max_tier ts"
proof (induction ts arbitrary: t rule: max_tier.induct)
  case (3 a b ts)
  let ?m = "if rank a < rank b then b else a"
  have "?m \<le> max_tier (?m # ts)" by (rule "3.IH") simp
  moreover have "t \<le> ?m \<or> t \<in> set ts"
    using "3.prems" by (auto simp: less_eq_permission_tier_def)
  ultimately show ?case using "3.IH" [of t] by (auto intro: order_trans)
qed auto

lemma require_trusted_principal_iff [simp]:
  "require_trusted_principal p = Inr () \<longleftrightarrow> is_trusted p"
  by (simp add: require_trusted_principal_def)

lemma require_trusted_principal_cases:
  "require_trusted_principal p = (if is_trusted p then Inr () else
     Inl (AssistantError AUTHENTICATION_REQUIRED
       ''principal must be derived from verified auth'' (Some (pr_tenant_id p)) []))"
  by (simp add: require_trusted_principal_def)

lemma find_typed_grant:
  "find (typed_grant_matches r n) gs \<noteq> None \<longleftrightarrow>
     (\<exists>h. Grant h \<in> set gs \<and> grant_name h = n \<and> req_required_tier r \<le> grant_tier h)"
  by (induction gs) (auto simp: typed_grant_matches_def allows_iff_le split: grant_item.splits)

lemma legacy_grant_ex:
  "list_ex (legacy_grant_matches n) gs \<longleftrightarrow>
     (\<exists>l. Legacy l \<in> set gs \<and> py_lower (py_strip l) = n)"
  by (induction gs) (auto simp: legacy_grant_matches_def split: grant_item.splits)

lemma dec_allowed_evaluate:
  "dec_allowed (evaluate_permission p r) \<longleftrightarrow>
     is_trusted p \<and> req_required_tier r \<le> pr_permission_tier p \<and>
     (case req_permission r of
        None \<Rightarrow> True
      | Some n \<Rightarrow>
          (\<exists>h. Grant h \<in> set (pr_permissions p) \<and> grant_name h = n
                \<and> req_required_tier r \<le> grant_tier h)
          \<or> (\<exists>l. Legacy l \<in> set (pr_permissions p) \<and> py_lower (py_strip l) = n))"
proof (cases "req_permission r")
  case None
  then show ?thesis by (simp add: evaluate_permission_def allows_iff_le Let_def)
next
  case (Some n)
  have "dec_allowed (evaluate_permission p r) \<longleftrightarrow>
      is_trusted p \<and> req_required_tier r \<le> pr_permission_tier p \<and>
      (find (typed_grant_matches r n) (pr_permissions p) \<noteq> None
       \<or> list_ex (legacy_grant_matches n) (pr_permissions p))"
    using Some by (simp add: evaluate_permission_def allows_iff_le Let_def)
  then show ?thesis unfolding find_typed_grant legacy_grant_ex using Some by simp
qed

lemma PermissionRequest_make_fields:
  "PermissionRequest_make a r t q = Inr x \<Longrightarrow>
     req_required_tier x = t \<and> (req_permission x = None \<longleftrightarrow> q = None)"
  by (auto simp: PermissionRequest_make_def bindR_eq_Inr split: option.splits)

lemma require_permission_Inr:
  "require_permission p r = Inr d \<longleftrightarrow>
     dec_allowed (evaluate_permission p r) \<and> d = evaluate_permission p r"
  by (auto simp: require_permission_def Let_def)

lemma require_permission_code:
  "require_permission p r = Inl e \<Longrightarrow> \<exists>msg t ctx. e = AssistantError PERMISSION_DENIED msg t ctx"
  by (auto simp: require_permission_def Let_def split: if_splits)

lemma approval_errors_Nil:
  "approval_errors now p t g a r h = [] \<longleftrightarrow>
     grant_is_trusted g \<and> ap_approved g \<and> ap_tenant_id g = pr_tenant_id p
     \<and> ap_principal_id g = pr_principal_id p \<and> ap_action g = a \<and> ap_resource g = r
     \<and> t \<le> ap_tier g \<and> (case ap_expires_at g of None \<Rightarrow> True | Some e \<Rightarrow> now < e)
     \<and> (case h of None \<Rightarrow> True | Some x \<Rightarrow> ap_request_hash g = Some x)"
  by (auto simp: approval_errors_def allows_iff_le split: option.splits if_splits)

lemma require_approval_Inr:
  "require_approval now p t a act res h = Inr d \<longleftrightarrow>
     (\<exists>q. PermissionRequest_make act res t None = Inr q
          \<and> dec_allowed (evaluate_permission p q) \<and> d = evaluate_permission p q
          \<and> (t < P3 \<or> (\<exists>g. a = Some g \<and> approval_errors now p t g act res h = [])))"
  by (cases a)
    (auto simp: require_approval_def bindR_eq_Inr require_permission_Inr Let_def
        less_permission_tier_def split: if_splits)

text \<open>the permission decision, exactly.
  A request is allowed if and only if the principal comes from verified
  authentication, its tier is at least the required tier and, when the request names a
  permission, the principal holds a typed grant of that name at the required tier (or
  a legacy grant of that name).\<close>

theorem evaluate_permission_exact:
  "dec_allowed (evaluate_permission p r) \<longleftrightarrow>
     is_trusted p \<and> req_required_tier r \<le> pr_permission_tier p \<and>
     (case req_permission r of
        None \<Rightarrow> True
      | Some n \<Rightarrow>
          (\<exists>h. Grant h \<in> set (pr_permissions p) \<and> grant_name h = n
                \<and> req_required_tier r \<le> grant_tier h)
          \<or> (\<exists>l. Legacy l \<in> set (pr_permissions p) \<and> py_lower (py_strip l) = n))"
  by (rule dec_allowed_evaluate)

text \<open>C29: the approval gate, exactly.
  \<open>require_approval\<close> returns if and only if action and resource are well-formed, the
  principal is trusted with a sufficient tier and, for tier P3 and above, a grant is
  supplied that is trusted, approved, issued to the same tenant and principal for
  exactly this action and resource at a sufficient tier, unexpired, and (when a request
  hash is demanded) bound to that hash. In every other case it raises.\<close>

theorem require_approval_exact:
  "(\<exists>d. require_approval now p t a act res h = Inr d) \<longleftrightarrow>
     1 \<le> length (py_strip act) \<and> length (py_strip act) \<le> 120
     \<and> 1 \<le> length (py_strip res) \<and> length (py_strip res) \<le> 200
     \<and> is_trusted p \<and> t \<le> pr_permission_tier p
     \<and> (t < P3 \<or>
        (\<exists>g. a = Some g \<and> grant_is_trusted g \<and> ap_approved g
             \<and> ap_tenant_id g = pr_tenant_id p \<and> ap_principal_id g = pr_principal_id p
             \<and> ap_action g = act \<and> ap_resource g = res \<and> t \<le> ap_tier g
             \<and> (case ap_expires_at g of None \<Rightarrow> True | Some e \<Rightarrow> now < e)
             \<and> (case h of None \<Rightarrow> True | Some x \<Rightarrow> ap_request_hash g = Some x)))"
  (is "?L \<longleftrightarrow> ?la \<and> ?ua \<and> ?lr \<and> ?ur \<and> ?auth \<and> ?tier \<and> ?gate")
proof -
  have make: "(\<exists>q. PermissionRequest_make act res t None = Inr q) \<longleftrightarrow> ?la \<and> ?ua \<and> ?lr \<and> ?ur"
    by (simp add: PermissionRequest_make_def norm_request_text_def Let_def Suc_le_eq not_less bindR_def
        split: if_split)
  have gate: "?gate \<longleftrightarrow> t < P3 \<or> (\<exists>g. a = Some g \<and> approval_errors now p t g act res h = [])"
    by (simp only: approval_errors_Nil)
  have allowed: "dec_allowed (evaluate_permission p q) \<longleftrightarrow> ?auth \<and> ?tier"
    if "PermissionRequest_make act res t None = Inr q" for q
    using PermissionRequest_make_fields [OF that] by (simp add: dec_allowed_evaluate)
  show ?thesis
    unfolding gate require_approval_Inr using make allowed by blast
qed

text \<open>Issuing and checking agree.
  A grant issued for a trusted principal of sufficient tier is accepted by
  \<open>require_approval\<close> for the same action, resource and tier until it expires, and is
  rejected for every other resource at tier P3 and above.\<close>

theorem issued_grant_accepted_only_for_its_resource:
  assumes "ApprovalGrant_issue p act t res aid exp rh = Inr g"
    and "is_trusted p" and "t \<le> pr_permission_tier p" and "P3 \<le> t"
    and "py_strip (pr_tenant_id p) = pr_tenant_id p"
    and "py_strip (pr_principal_id p) = pr_principal_id p"
    and "py_strip act = act" and "length act \<le> 120"
    and "py_strip res = res" and "length res \<le> 200"
    and "case exp of Some (Aware e) \<Rightarrow> now < e | _ \<Rightarrow> True"
  shows "(\<exists>d. require_approval now p t (Some g) act res' None = Inr d) \<longleftrightarrow> res' = res"
proof -
  have g: "grant_is_trusted g" "ap_approved g" "ap_tenant_id g = pr_tenant_id p"
    "ap_principal_id g = pr_principal_id p" "ap_action g = act" "ap_resource g = res"
    "ap_tier g = t" "act \<noteq> []" "res \<noteq> []"
    "case ap_expires_at g of None \<Rightarrow> True | Some e \<Rightarrow> now < e"
    using assms
    by (auto simp: ApprovalGrant_issue_def grant_is_trusted_def
        split: if_splits option.splits py_datetime.splits)
  show ?thesis
    unfolding require_approval_exact using g assms(2-4,7-10) by (auto simp: Suc_le_eq)
qed

theorem issued_grant_accepted_only_for_its_resource_witness:
  "\<exists>p g. ApprovalGrant_issue p ''calendar.create_event'' P3 ''k:calendar'' ''ap_1'' None None = Inr g
     \<and> ((\<exists>d. require_approval 0 p P3 (Some g) ''calendar.create_event'' ''k:calendar'' None = Inr d)
          \<longleftrightarrow> ''k:calendar'' = ''k:calendar'')"
proof -
  let ?p = "\<lparr>pr_principal_id = ''u1'', pr_tenant_id = ''t1'', pr_auth_subject = ''u1'',
             pr_auth_provider = Some ''test'', pr_permission_tier = P3, pr_permissions = [],
             pr_scopes = {}, pr_trusted_source = Some ''test''\<rparr>"
  obtain g where g: "ApprovalGrant_issue ?p ''calendar.create_event'' P3 ''k:calendar'' ''ap_1'' None None = Inr g"
    by (simp add: ApprovalGrant_issue_def py_strip_def py_isspace_def)
  have "(\<exists>d. require_approval 0 ?p P3 (Some g) ''calendar.create_event'' ''k:calendar'' None = Inr d)
          \<longleftrightarrow> ''k:calendar'' = ''k:calendar''"
    by (rule issued_grant_accepted_only_for_its_resource [OF g])
      (simp_all add: is_trusted_def less_eq_permission_tier_def py_strip_def py_isspace_def)
  with g show ?thesis by blast
qed

text \<open>identity derivation never touches the tenant.
  The before-validator of \<open>Principal\<close> leaves every field other than
  \<open>principal_id\<close> and \<open>auth_subject\<close> as supplied (the tenant in particular), keeps a
  supplied \<open>principal_id\<close> and \<open>auth_subject\<close>, and removes the alias keys.\<close>

theorem derive_identity_fields_frame:
  "map_of (derive_identity_fields v) k =
     (if k \<in> {''actor_id'', ''sub'', ''subject''} then None
      else case map_of v k of
             Some x \<Rightarrow> Some x
           | None \<Rightarrow>
               (if k \<in> {''principal_id'', ''auth_subject''} \<and>
                   truthy_str (dict_or (map_of v ''principal_id'') (dict_or (map_of v ''actor_id'')
                     (dict_or (map_of v ''sub'') (map_of v ''subject''))))
                then dict_or (map_of v ''principal_id'') (dict_or (map_of v ''actor_id'')
                     (dict_or (map_of v ''sub'') (map_of v ''subject'')))
                else None))"
proof -
  let ?id = "dict_or (map_of v ''principal_id'') (dict_or (map_of v ''actor_id'')
               (dict_or (map_of v ''sub'') (map_of v ''subject'')))"
  show ?thesis
  proof (cases "truthy_str ?id")
    case True
    then show ?thesis
      by (cases "map_of v k"; cases "map_of v ''principal_id''"; cases "map_of v ''auth_subject''")
        (auto simp: derive_identity_fields_def Let_def delete_conv' map_of_update truthy_str_def)
  next
    case False
    then show ?thesis
      by (simp add: derive_identity_fields_def Let_def delete_conv' split: option.split)
  qed
qed

section \<open>A concrete principal\<close>

text \<open>Used by the witnesses of the other theories.\<close>

definition demo_principal :: principal where
  "demo_principal = \<lparr>pr_principal_id = ''u1'', pr_tenant_id = ''t1'', pr_auth_subject = ''u1'',
     pr_auth_provider = Some ''test'', pr_permission_tier = P4, pr_permissions = [],
     pr_scopes = {}, pr_trusted_source = Some ''test''\<rparr>"

lemma demo_principal_facts [simp]:
  "is_trusted demo_principal" "pr_tenant_id demo_principal = ''t1''" "wf_principal demo_principal"
  "pr_principal_id demo_principal = ''u1''" "pr_permission_tier demo_principal = P4"
  by (simp_all add: demo_principal_def is_trusted_def wf_principal_def py_strip_def py_isspace_def)

end
