(* ===== verification/Json.thy ===== *)
theory Json
  imports Prelude "HOL-Library.Char_ord" "HOL-Library.List_Lexorder"
begin

text \<open>
  JSON values and the canonical text the fingerprints and keys are computed from:
  \<^verbatim>\<open>json.dumps(value, sort_keys=True, separators=(",", ":"), ensure_ascii=False)\<close>
  followed by \<^verbatim>\<open>encode("utf-8")\<close>. \<open>render\<close> prints a value in the order it has,
  \<open>canon\<close> sorts the keys of every object, \<open>canonical_json\<close> is their composition. The
  theory proves that the text determines the value: printing is injective and no printed
  value is a proper prefix of another inside a document.
\<close>

datatype json = JNull | JBool bool | JInt int | JStr string | JList "json list"
  | JDict "(string \<times> json) list"

section \<open>Printing\<close>

definition hex_digit :: "nat \<Rightarrow> char" where
  "hex_digit n = (if n < 10 then char_of (48 + n) else char_of (87 + n))"

definition escape_char :: "char \<Rightarrow> string" where
  "escape_char c =
     (if c = CHR 0x22 then [CHR 0x5C, CHR 0x22]
      else if c = CHR 0x5C then [CHR 0x5C, CHR 0x5C]
      else if c = CHR 0x0A then [CHR 0x5C, CHR ''n'']
      else if c = CHR 0x0D then [CHR 0x5C, CHR ''r'']
      else if c = CHR 0x09 then [CHR 0x5C, CHR ''t'']
      else if c = CHR 0x0C then [CHR 0x5C, CHR ''f'']
      else if c = CHR 0x08 then [CHR 0x5C, CHR ''b'']
      else if (of_char c :: nat) < 32
      then [CHR 0x5C, CHR ''u'', CHR ''0'', CHR ''0'', hex_digit (of_char c div 16), hex_digit (of_char c mod 16)]
      else [c])"

definition json_string :: "string \<Rightarrow> string" where
  "json_string s = CHR 0x22 # concat (map escape_char s) @ [CHR 0x22]"

fun comma_sep :: "char \<Rightarrow> string list \<Rightarrow> string" where
  "comma_sep close [] = [close]"
| "comma_sep close [x] = x @ [close]"
| "comma_sep close (x # y # xs) = x @ CHR '','' # comma_sep close (y # xs)"

fun render :: "json \<Rightarrow> string" where
  "render JNull = ''null''"
| "render (JBool b) = (if b then ''true'' else ''false'')"
| "render (JInt i) = str_of_int i"
| "render (JStr s) = json_string s"
| "render (JList xs) = CHR ''['' # comma_sep (CHR '']'') (map render xs)"
| "render (JDict d) = CHR ''{'' # comma_sep (CHR ''}'') (map (\<lambda>(k, v). json_string k @ CHR '':'' # render v) d)"

fun canon :: "json \<Rightarrow> json" where
  "canon (JList xs) = JList (map canon xs)"
| "canon (JDict d) = JDict (sort_key fst (map (\<lambda>(k, v). (k, canon v)) d))"
| "canon v = v"

definition canonical_json :: "json \<Rightarrow> string" where
  "canonical_json v = render (canon v)"

text \<open>UTF-8 of code points below 256: one byte below 128, else two; a byte is a character.\<close>

definition utf8_char :: "char \<Rightarrow> string" where
  "utf8_char c = (let n = (of_char c :: nat) in
     if n < 128 then [c] else [char_of (192 + n div 64), char_of (128 + n mod 64)])"

definition utf8_encode :: "string \<Rightarrow> string" where
  "utf8_encode s = concat (map utf8_char s)"

section \<open>Prefix codes\<close>

text \<open>A function on characters is a prefix code when what it emits can be read back.\<close>

locale prefix_code =
  fixes code :: "'c \<Rightarrow> 'b list"
    and decode :: "'b list \<Rightarrow> ('c \<times> 'b list) option"
  assumes decode: "decode (code c @ r) = Some (c, r)"
begin

lemma code_cancel: "code c @ r = code d @ r' \<Longrightarrow> c = d \<and> r = r'"
  by (metis decode option.inject prod.inject)

lemma code_nonempty: "decode [] = None \<Longrightarrow> code c \<noteq> []"
  using decode [of c "[]"] by auto

text \<open>Words closed by an end marker that no code word starts with are prefix free.\<close>

lemma concat_cancel:
  assumes close: "\<And>c. code c \<noteq> [] \<and> hd (code c) \<noteq> e"
  shows "concat (map code s) @ e # r = concat (map code s') @ e # r' \<Longrightarrow> s = s' \<and> r = r'"
proof (induction s arbitrary: s')
  case Nil
  show ?case
  proof (cases s')
    case (Cons d t)
    with Nil.prems close [of d] show ?thesis by (cases "code d") auto
  qed (use Nil.prems in simp)
next
  case (Cons c s)
  show ?case
  proof (cases s')
    case Nil
    with Cons.prems close [of c] show ?thesis by (cases "code c") auto
  next
    case (Cons d t)
    with Cons.prems have "code c @ (concat (map code s) @ e # r) = code d @ (concat (map code t) @ e # r')"
      by simp
    from code_cancel [OF this] Cons.IH [of t] Cons show ?thesis by simp
  qed
qed

lemma concat_inj:
  assumes "decode [] = None"
  shows "concat (map code s) = concat (map code s') \<Longrightarrow> s = s'"
proof (induction s arbitrary: s')
  case Nil
  then show ?case using code_nonempty [OF assms] by (cases s') auto
next
  case (Cons c s)
  then obtain d t where s': "s' = d # t"
    using code_nonempty [OF assms, of c] by (cases s') auto
  with Cons.prems have "code c @ concat (map code s) = code d @ concat (map code t)" by simp
  from code_cancel [OF this] Cons.IH [of t] s' show ?case by simp
qed

end

definition hex_value :: "char \<Rightarrow> nat" where
  "hex_value c = (if of_char c < (58 :: nat) then of_char c - 48 else of_char c - 87)"

lemma hex_value_digit: "n < 16 \<Longrightarrow> hex_value (hex_digit n) = n"
  by (simp add: hex_value_def hex_digit_def of_char_of)

definition unescape :: "string \<Rightarrow> (char \<times> string) option" where
  "unescape s = (case s of [] \<Rightarrow> None
     | c # r \<Rightarrow>
        if c \<noteq> CHR 0x5C then Some (c, r)
        else (case r of [] \<Rightarrow> None
          | d # r' \<Rightarrow>
             if d = CHR 0x22 \<or> d = CHR 0x5C then Some (d, r')
             else if d = CHR ''n'' then Some (CHR 0x0A, r')
             else if d = CHR ''r'' then Some (CHR 0x0D, r')
             else if d = CHR ''t'' then Some (CHR 0x09, r')
             else if d = CHR ''f'' then Some (CHR 0x0C, r')
             else if d = CHR ''b'' then Some (CHR 0x08, r')
             else Some (char_of (hex_value (r' ! 2) * 16 + hex_value (r' ! 3)), drop 4 r')))"

lemma unescape_escape: "unescape (escape_char c @ r) = Some (c, r)"
proof (cases "(of_char c :: nat) < 32")
  case True
  then have "(of_char c :: nat) div 16 < 16" by simp
  with hex_value_digit [of "of_char c div 16"] hex_value_digit [of "of_char c mod 16"]
  have "char_of (hex_value (hex_digit (of_char c div 16)) * 16 + hex_value (hex_digit (of_char c mod 16))) = c"
    by (simp add: char_of_char)
  with True show ?thesis by (auto simp: escape_char_def unescape_def)
next
  case False
  then show ?thesis by (auto simp: escape_char_def unescape_def)
qed

interpretation esc: prefix_code escape_char unescape
  by unfold_locales (rule unescape_escape)

definition utf8_decode :: "string \<Rightarrow> (char \<times> string) option" where
  "utf8_decode s = (case s of [] \<Rightarrow> None
     | c # r \<Rightarrow> if (of_char c :: nat) < 128 then Some (c, r)
               else Some (char_of ((of_char c - 192) * 64 + (of_char (hd r) - 128) :: nat), tl r))"

lemma utf8_decode_char: "utf8_decode (utf8_char c @ r) = Some (c, r)"
proof -
  have d: "(of_char c :: nat) div 64 < 4" by (rule less_mult_imp_div_less) simp
  show ?thesis
  proof (cases "(of_char c :: nat) < 128")
    case False
    from d have "(192 + of_char c div 64 :: nat) < 256" "(128 + of_char c mod 64 :: nat) < 256"
      by simp_all
    then show ?thesis using False by (simp add: utf8_decode_def utf8_char_def Let_def of_char_of)
  qed (simp add: utf8_decode_def utf8_char_def)
qed

interpretation utf8: prefix_code utf8_char utf8_decode
  by unfold_locales (rule utf8_decode_char)

lemma utf8_encode_inj: "utf8_encode s = utf8_encode t \<longleftrightarrow> s = t"
  using utf8.concat_inj [of s t] by (auto simp: utf8_encode_def utf8_decode_def)

section \<open>The text determines the value\<close>

lemma escape_not_quote: "escape_char c \<noteq> [] \<and> hd (escape_char c) \<noteq> CHR 0x22"
  by (auto simp: escape_char_def)

lemma json_string_cancel: "json_string s @ r = json_string s' @ r' \<Longrightarrow> s = s' \<and> r = r'"
  using esc.concat_cancel [of "CHR 0x22" s r s' r', OF escape_not_quote] by (simp add: json_string_def)

text \<open>Decimal text: the digits are read back, and a number ends at the first non-digit.\<close>

definition digits_value :: "string \<Rightarrow> nat" where
  "digits_value s = foldl (\<lambda>n c. 10 * n + (of_char c - 48)) 0 s"

lemma nat_digits_value: "digits_value (nat_digits n) = n"
proof (induction n rule: nat_digits.induct)
  case (1 n)
  show ?case
  proof (cases "n < 10")
    case True
    then show ?thesis by (simp add: nat_digits.simps [of n] digits_value_def of_char_of)
  next
    case False
    then show ?thesis using "1.IH"
      by (simp add: nat_digits.simps [of n] digits_value_def of_char_of mult_div_mod_eq)
  qed
qed

definition is_digit :: "char \<Rightarrow> bool" where
  "is_digit c \<longleftrightarrow> 48 \<le> (of_char c :: nat) \<and> (of_char c :: nat) \<le> 57"

lemma nat_digits_all: "c \<in> set (nat_digits n) \<Longrightarrow> is_digit c"
proof (induction n rule: nat_digits.induct)
  case (1 n)
  show ?case
  proof (cases "n < 10")
    case True
    with "1.prems" show ?thesis by (simp add: nat_digits.simps [of n] is_digit_def of_char_of)
  next
    case False
    moreover have "n mod 10 < 10" by simp
    ultimately show ?thesis using "1.prems" "1.IH"
      by (auto simp: nat_digits.simps [of n] is_digit_def of_char_of)
  qed
qed

lemma nat_digits_nonempty [simp]: "nat_digits n \<noteq> []"
  by (subst nat_digits.simps) simp

definition int_char :: "char \<Rightarrow> bool" where
  "int_char c \<longleftrightarrow> is_digit c \<or> c = CHR ''-''"

lemma str_of_int_chars: "c \<in> set (str_of_int i) \<Longrightarrow> int_char c"
  by (auto simp: str_of_int_def int_char_def nat_digits_all split: if_splits)

lemma hd_nat_digits: "hd (nat_digits n) \<noteq> CHR ''-''"
  using nat_digits_all [of "hd (nat_digits n)" n] by (auto simp: is_digit_def)

lemma str_of_int_inj: "str_of_int i = str_of_int j \<Longrightarrow> i = j"
proof -
  assume eq: "str_of_int i = str_of_int j"
  have sign: "i < 0 \<longleftrightarrow> j < 0"
    using eq hd_nat_digits [of "nat i"] hd_nat_digits [of "nat j"]
    by (cases "i < 0"; cases "j < 0") (auto simp: str_of_int_def, (metis list.sel(1))+)
  show "i = j"
  proof (cases "i < 0")
    case True
    with sign eq have "nat_digits (nat (- i)) = nat_digits (nat (- j))" by (simp add: str_of_int_def)
    then have "nat (- i) = nat (- j)" by (metis nat_digits_value)
    with True sign show ?thesis by simp
  next
    case False
    with sign eq have "nat_digits (nat i) = nat_digits (nat j)" by (simp add: str_of_int_def)
    then have "nat i = nat j" by (metis nat_digits_value)
    with False sign show ?thesis by simp
  qed
qed

definition delim :: "string \<Rightarrow> bool" where
  "delim r \<longleftrightarrow> r = [] \<or> hd r \<in> {CHR '','', CHR '']'', CHR ''}''}"

lemma takeWhile_int: "delim r \<Longrightarrow> takeWhile int_char (str_of_int i @ r) = str_of_int i"
proof -
  assume "delim r"
  then have "takeWhile int_char r = []"
    by (cases r) (auto simp: delim_def int_char_def is_digit_def)
  then show ?thesis using str_of_int_chars by (simp add: takeWhile_append2)
qed

lemma str_of_int_cancel:
  "str_of_int i @ r = str_of_int j @ r' \<Longrightarrow> delim r \<Longrightarrow> delim r' \<Longrightarrow> i = j \<and> r = r'"
  using takeWhile_int [of r i] takeWhile_int [of r' j] str_of_int_inj by (metis same_append_eq)

text \<open>The first character tells the constructor.\<close>

lemma str_of_int_nonempty: "str_of_int i \<noteq> []"
  by (simp add: str_of_int_def)

lemma str_of_int_hd: "int_char (hd (str_of_int i))"
  by (rule str_of_int_chars [of _ i]) (simp add: str_of_int_def)

fun kind :: "json \<Rightarrow> nat" where
  "kind JNull = 0" | "kind (JBool b) = (if b then 1 else 2)" | "kind (JInt _) = 3"
| "kind (JStr _) = 4" | "kind (JList _) = 5" | "kind (JDict _) = 6"

definition kind_of_char :: "char \<Rightarrow> nat" where
  "kind_of_char c =
     (if c = CHR ''n'' then 0 else if c = CHR ''t'' then 1 else if c = CHR ''f'' then 2
      else if int_char c then 3 else if c = CHR 0x22 then 4 else if c = CHR ''['' then 5 else 6)"

lemma render_hd: "render v \<noteq> [] \<and> kind_of_char (hd (render v)) = kind v \<and> hd (render v) \<notin> {CHR '','', CHR '']'', CHR ''}''}"
proof (cases v)
  case (JInt i)
  then show ?thesis using str_of_int_hd [of i] str_of_int_nonempty [of i]
    by (auto simp: kind_of_char_def int_char_def is_digit_def)
qed (auto simp: kind_of_char_def int_char_def is_digit_def json_string_def)

lemma render_kind: "render v @ r = render w @ r' \<Longrightarrow> kind v = kind w"
  using render_hd [of v] render_hd [of w] by (metis hd_append)

text \<open>Comma-separated items cancel when each item does.\<close>

lemma comma_sep_cancel:
  assumes item: "\<And>x y r r'. x \<in> set xs \<Longrightarrow> f x @ r = f y @ r' \<Longrightarrow> delim r \<Longrightarrow> delim r' \<Longrightarrow> x = y \<and> r = r'"
    and hd: "\<And>x. f x \<noteq> [] \<and> hd (f x) \<noteq> close" and c: "close = CHR '']'' \<or> close = CHR ''}''"
  shows "comma_sep close (map f xs) @ r = comma_sep close (map f ys) @ r' \<Longrightarrow> xs = ys \<and> r = r'"
  using item
proof (induction xs arbitrary: ys)
  case Nil
  show ?case
  proof (cases ys)
    case (Cons y ys')
    with Nil.prems(1) hd [of y] show ?thesis by (cases ys'; cases "f y") auto
  qed (use Nil.prems in simp)
next
  case (Cons x xs)
  define tail where "tail zs q = (if zs = [] then close # q else CHR '','' # comma_sep close (map f zs) @ q)" for zs q
  have cs: "comma_sep close (map f (z # zs)) @ q = f z @ tail zs q" for z zs q
    by (cases zs) (simp_all add: tail_def)
  have dl: "delim (tail zs q)" for zs q using c by (auto simp: tail_def delim_def)
  show ?case
  proof (cases ys)
    case Nil
    with Cons.prems(1) hd [of x] show ?thesis by (cases xs; cases "f x") auto
  next
    case ys: (Cons y ys')
    with Cons.prems(1) have "f x @ tail xs r = f y @ tail ys' r'" by (simp only: cs)
    from Cons.prems(2) [OF _ this dl dl] have xy: "x = y" and t: "tail xs r = tail ys' r'" by auto
    show ?thesis
    proof (cases "xs = []")
      case True
      with t c xy ys show ?thesis by (auto simp: tail_def split: if_splits)
    next
      case False
      with t c have "comma_sep close (map f xs) @ r = comma_sep close (map f ys') @ r'"
        by (auto simp: tail_def split: if_splits)
      from Cons.IH [OF this Cons.prems(2)] xy ys show ?thesis by simp
    qed
  qed
qed

lemma render_cancel:
  "render v @ r = render w @ r' \<Longrightarrow> delim r \<Longrightarrow> delim r' \<Longrightarrow> v = w \<and> r = r'"
proof (induction v arbitrary: w r r')
  case JNull
  then show ?case using render_kind [OF JNull.prems(1)] by (cases w) (auto split: if_splits)
next
  case (JBool b)
  then show ?case using render_kind [OF JBool.prems(1)] by (cases w) (auto split: if_splits)
next
  case (JInt i)
  from render_kind [OF JInt.prems(1)] obtain j where w: "w = JInt j"
    by (cases w) (auto split: if_splits)
  with str_of_int_cancel [of i r j r'] JInt.prems show ?case by simp
next
  case (JStr s)
  from render_kind [OF JStr.prems(1)] obtain s' where w: "w = JStr s'"
    by (cases w) (auto split: if_splits)
  with json_string_cancel [of s r s' r'] JStr.prems show ?case by simp
next
  case (JList xs)
  from render_kind [OF JList.prems(1)] obtain ys where w: "w = JList ys"
    by (cases w) (auto split: if_splits)
  with JList.prems(1) have "comma_sep (CHR '']'') (map render xs) @ r = comma_sep (CHR '']'') (map render ys) @ r'"
    by simp
  note eq = this
  have hd: "render x \<noteq> [] \<and> hd (render x) \<noteq> CHR '']''" for x using render_hd [of x] by simp
  have "xs = ys \<and> r = r'"
    by (rule comma_sep_cancel [OF JList.IH hd _ eq]) simp_all
  with w show ?case by simp
next
  case (JDict d)
  let ?f = "\<lambda>(k, v). json_string k @ CHR '':'' # render v"
  from render_kind [OF JDict.prems(1)] obtain e where w: "w = JDict e"
    by (cases w) (auto split: if_splits)
  with JDict.prems(1) have eq: "comma_sep (CHR ''}'') (map ?f d) @ r = comma_sep (CHR ''}'') (map ?f e) @ r'"
    by simp
  have item: "x = y \<and> q = q'"
    if "x \<in> set d" "?f x @ q = ?f y @ q'" "delim q" "delim q'" for x y q q'
  proof -
    obtain k v k' v' where xy: "x = (k, v)" "y = (k', v')" by (cases x; cases y)
    with that(2) have "json_string k @ CHR '':'' # render v @ q = json_string k' @ CHR '':'' # render v' @ q'"
      by simp
    from json_string_cancel [OF this] have "k = k'" "render v @ q = render v' @ q'" by simp_all
    moreover have "v \<in> Basic_BNFs.snds x" by (simp add: xy)
    ultimately show ?thesis using JDict.IH [OF that(1)] that(3,4) xy by blast
  qed
  have hd: "?f x \<noteq> [] \<and> hd (?f x) \<noteq> CHR ''}''" for x
    by (cases x) (simp add: json_string_def)
  have "d = e \<and> r = r'"
    by (rule comma_sep_cancel [OF item hd _ eq]) simp_all
  with w show ?case by simp
qed

lemma render_inj: "render v = render w \<longleftrightarrow> v = w"
  using render_cancel [of v "[]" w "[]"] by (auto simp: delim_def)

end
