(* ===== verification/Delivery.thy ===== *)
theory Delivery
  imports Json
begin

text \<open>
  Delivery states, delivery errors, event envelopes and outbox messages:
  \<^verbatim>\<open>application/dto/delivery.py\<close> and \<^verbatim>\<open>application/dto/events.py\<close>.
  \<open>require_state_metadata\<close> is the model validator of \<open>OutboxMessage\<close>; a stored
  message is well-formed when validating it returns it unchanged. The zone database
  (\<^verbatim>\<open>zoneinfo\<close> data) is an argument that maps a name to its canonical key.
\<close>

section \<open>Delivery states and errors\<close>

definition MAX_CLAIM_LIMIT :: int where "MAX_CLAIM_LIMIT = 1000"
definition MAX_CLAIM_LEASE_SECONDS :: int where "MAX_CLAIM_LEASE_SECONDS = 86400"
definition MAX_CLAIM_OWNER_LENGTH :: nat where "MAX_CLAIM_OWNER_LENGTH = 200"

definition ascii_alnum :: "char \<Rightarrow> bool" where
  "ascii_alnum c \<longleftrightarrow> c \<in> set ''ABCDEFGHIJKLMNOPQRSTUVWXYZabcdefghijklmnopqrstuvwxyz0123456789''"

definition is_valid_claim_owner :: "string \<Rightarrow> bool" where
  "is_valid_claim_owner v =
     (case v of [] \<Rightarrow> False
      | c # cs \<Rightarrow> ascii_alnum c \<and> list_all (\<lambda>d. ascii_alnum d \<or> d \<in> set ''._:-'') cs
                   \<and> length cs \<le> 199)"

datatype delivery_status = pending | claimed | sending | published | failed | uncertain

datatype delivery_error_category =
  cat_network | cat_rate_limited | cat_rejected | cat_configuration | cat_internal | cat_unknown

datatype delivery_error_code =
    code_timeout | code_connection_failed | code_rate_limited | code_provider_unavailable
  | code_authentication_failed | code_request_rejected | code_invalid_configuration
  | code_internal_error | code_unknown

record delivery_error =
  de_category :: delivery_error_category
  de_code :: delivery_error_code
  de_provider_code :: "int option"
  de_occurred_at :: instant

definition canonical_utc :: "py_datetime \<Rightarrow> string \<Rightarrow> instant result" where
  "canonical_utc v field =
     (case v of Naive _ \<Rightarrow> Inl (ValueError (field @ '' must be timezone-aware''))
      | Aware t \<Rightarrow> if in_datetime_range t then Inr t else Inl OverflowError)"

definition DeliveryError_make ::
    "delivery_error_category \<Rightarrow> delivery_error_code \<Rightarrow> int option \<Rightarrow> py_datetime
       \<Rightarrow> delivery_error result" where
  "DeliveryError_make cat code provider occurred =
     bindR (case provider of
              Some n \<Rightarrow> if 0 \<le> n \<and> n \<le> 9999 then Inr () else Inl (ValueError ''provider_code'')
            | None \<Rightarrow> Inr ()) (\<lambda>_.
     bindR (canonical_utc occurred ''occurred_at'') (\<lambda>t.
       Inr \<lparr>de_category = cat, de_code = code, de_provider_code = provider, de_occurred_at = t\<rparr>))"

section \<open>Events\<close>

record cloud_event =
  ev_id :: string
  ev_specversion :: string
  ev_type :: string
  ev_source :: string
  ev_subject :: "string option"
  ev_tenant_id :: string
  ev_correlation_id :: string
  ev_causation_id :: "string option"
  ev_source_event_id :: "string option"
  ev_payload_fingerprint :: "string option"
  ev_timezone :: "string option"
  ev_data :: "(string, json) dict"
  ev_time :: instant

definition is_hex64 :: "string \<Rightarrow> bool" where
  "is_hex64 s \<longleftrightarrow> length s = 64 \<and> list_all (\<lambda>c. c \<in> set ''0123456789abcdef'') s"

definition opt_ok :: "(string \<Rightarrow> bool) \<Rightarrow> string option \<Rightarrow> bool" where
  "opt_ok P v = (case v of None \<Rightarrow> True | Some s \<Rightarrow> P s)"

text \<open>
  Construction of a \<open>CloudEvent\<close>: strings are stripped, then the length, pattern and
  zone validators run; the zone is replaced by its canonical key.
\<close>

definition strip_event :: "cloud_event \<Rightarrow> cloud_event" where
  "strip_event e = e\<lparr>ev_id := py_strip (ev_id e), ev_specversion := py_strip (ev_specversion e),
     ev_type := py_strip (ev_type e), ev_source := py_strip (ev_source e),
     ev_subject := map_option py_strip (ev_subject e),
     ev_tenant_id := py_strip (ev_tenant_id e),
     ev_correlation_id := py_strip (ev_correlation_id e),
     ev_causation_id := map_option py_strip (ev_causation_id e),
     ev_source_event_id := map_option py_strip (ev_source_event_id e),
     ev_payload_fingerprint := map_option py_strip (ev_payload_fingerprint e),
     ev_timezone := map_option py_strip (ev_timezone e)\<rparr>"

definition event_fields_ok :: "cloud_event \<Rightarrow> bool" where
  "event_fields_ok e \<longleftrightarrow> ev_type e \<noteq> [] \<and> ev_source e \<noteq> [] \<and> ev_tenant_id e \<noteq> []
     \<and> opt_ok (\<lambda>s. s \<noteq> []) (ev_source_event_id e)
     \<and> opt_ok is_hex64 (ev_payload_fingerprint e)
     \<and> opt_ok (\<lambda>s. s \<noteq> []) (ev_timezone e)"

definition CloudEvent_validate ::
    "(string \<Rightarrow> string option) \<Rightarrow> cloud_event \<Rightarrow> cloud_event result" where
  "CloudEvent_validate zoneinfo e =
     (let e' = strip_event e in
      if \<not> event_fields_ok e' then Inl (ValueError ''CloudEvent'')
      else case ev_timezone e' of
             None \<Rightarrow> Inr e'
           | Some z \<Rightarrow>
               (case zoneinfo z of
                  None \<Rightarrow> Inl (ValueError ''timezone must be a valid IANA timezone'')
                | Some key \<Rightarrow> Inr (e'\<lparr>ev_timezone := Some key\<rparr>)))"

section \<open>Outbox messages\<close>

record outbox_message =
  ob_id :: string
  ob_tenant_id :: string
  ob_event :: cloud_event
  ob_idempotency_key :: string
  ob_dispatch_status :: delivery_status
  ob_claim_token :: "string option"
  ob_claim_owner :: "string option"
  ob_claimed_until :: "instant option"
  ob_next_attempt_at :: "instant option"
  ob_attempts :: int
  ob_created_at :: instant
  ob_sending_at :: "instant option"
  ob_published_at :: "instant option"
  ob_last_error :: "delivery_error option"

definition claim_metadata :: "outbox_message \<Rightarrow> bool" where
  "claim_metadata m \<longleftrightarrow> ob_claim_token m \<noteq> None \<or> ob_claim_owner m \<noteq> None
                       \<or> ob_claimed_until m \<noteq> None"

definition require_state_metadata :: "outbox_message \<Rightarrow> unit result" where
  "require_state_metadata m =
     (case ob_dispatch_status m of
        pending \<Rightarrow>
          if claim_metadata m \<or> ob_sending_at m \<noteq> None \<or> ob_published_at m \<noteq> None
          then Inl (ValueError ''pending outbox messages cannot retain claim or sending metadata'')
          else Inr ()
      | claimed \<Rightarrow>
          if \<not> truthy_str (ob_claim_token m) \<or> \<not> truthy_str (ob_claim_owner m)
             \<or> ob_claimed_until m = None
          then Inl (ValueError ''claimed outbox messages require token, owner, and lease'')
          else if ob_sending_at m \<noteq> None \<or> ob_published_at m \<noteq> None
          then Inl (ValueError ''claimed outbox messages cannot have delivery timestamps'')
          else Inr ()
      | sending \<Rightarrow>
          if \<not> truthy_str (ob_claim_token m) \<or> \<not> truthy_str (ob_claim_owner m)
             \<or> ob_claimed_until m = None \<or> ob_sending_at m = None \<or> ob_attempts m < 1
          then Inl (ValueError ''sending outbox messages require claim metadata, sending_at, and attempt'')
          else if ob_published_at m \<noteq> None
          then Inl (ValueError ''sending outbox messages cannot have published_at'')
          else Inr ()
      | published \<Rightarrow>
          if ob_published_at m = None
          then Inl (ValueError ''published outbox messages require published_at'')
          else if ob_last_error m \<noteq> None
          then Inl (ValueError ''published outbox messages cannot retain last_error'')
          else if claim_metadata m
          then Inl (ValueError ''published outbox messages cannot retain a claim'')
          else Inr ()
      | failed \<Rightarrow>
          (let pre_io = ob_sending_at m = None \<and> ob_attempts m = 0;
               post_io = ob_sending_at m \<noteq> None \<and> ob_attempts m \<ge> 1
           in if ob_last_error m = None \<or> \<not> (pre_io \<or> post_io)
              then Inl (ValueError ''failed outbox messages require pre-I/O or sending evidence'')
              else if ob_published_at m \<noteq> None
              then Inl (ValueError ''failed messages cannot have published_at'')
              else if claim_metadata m
              then Inl (ValueError ''terminal outbox messages cannot retain a claim'')
              else Inr ())
      | uncertain \<Rightarrow>
          if ob_sending_at m = None \<or> ob_last_error m = None \<or> ob_attempts m < 1
          then Inl (ValueError ''uncertain outbox messages require attempt, sending_at, and error'')
          else if ob_published_at m \<noteq> None
          then Inl (ValueError ''failed or uncertain messages cannot have published_at'')
          else if claim_metadata m
          then Inl (ValueError ''terminal outbox messages cannot retain a claim'')
          else Inr ())"

text \<open>
  \<open>OutboxMessage.model_validate\<close>. The nested event is an already constructed
  \<open>CloudEvent\<close>, whose validation is the identity (see
  \<open>CloudEvent_validate_idem\<close> below).
\<close>

definition strip_message :: "outbox_message \<Rightarrow> outbox_message" where
  "strip_message m = m\<lparr>ob_id := py_strip (ob_id m), ob_tenant_id := py_strip (ob_tenant_id m),
     ob_idempotency_key := py_strip (ob_idempotency_key m),
     ob_claim_token := map_option py_strip (ob_claim_token m),
     ob_claim_owner := map_option py_strip (ob_claim_owner m)\<rparr>"

definition OutboxMessage_validate :: "outbox_message \<Rightarrow> outbox_message result" where
  "OutboxMessage_validate m =
     (let m' = strip_message m in
      if ob_tenant_id m' = [] \<or> ob_idempotency_key m' = [] \<or> ob_attempts m' < 0
      then Inl (ValueError ''OutboxMessage'')
      else bindR (require_state_metadata m') (\<lambda>_. Inr m'))"

definition wf_message :: "outbox_message \<Rightarrow> bool" where
  "wf_message m \<longleftrightarrow> OutboxMessage_validate m = Inr m"

section \<open>Properties\<close>

lemma require_state_metadata_iff:
  "require_state_metadata m = Inr () \<longleftrightarrow>
     (case ob_dispatch_status m of
        pending \<Rightarrow> \<not> claim_metadata m \<and> ob_sending_at m = None \<and> ob_published_at m = None
      | claimed \<Rightarrow> truthy_str (ob_claim_token m) \<and> truthy_str (ob_claim_owner m)
          \<and> ob_claimed_until m \<noteq> None \<and> ob_sending_at m = None \<and> ob_published_at m = None
      | sending \<Rightarrow> truthy_str (ob_claim_token m) \<and> truthy_str (ob_claim_owner m)
          \<and> ob_claimed_until m \<noteq> None \<and> ob_sending_at m \<noteq> None \<and> 1 \<le> ob_attempts m
          \<and> ob_published_at m = None
      | published \<Rightarrow> ob_published_at m \<noteq> None \<and> ob_last_error m = None \<and> \<not> claim_metadata m
      | failed \<Rightarrow> ob_last_error m \<noteq> None
          \<and> (ob_sending_at m = None \<and> ob_attempts m = 0 \<or> ob_sending_at m \<noteq> None \<and> 1 \<le> ob_attempts m)
          \<and> ob_published_at m = None \<and> \<not> claim_metadata m
      | uncertain \<Rightarrow> ob_sending_at m \<noteq> None \<and> ob_last_error m \<noteq> None \<and> 1 \<le> ob_attempts m
          \<and> ob_published_at m = None \<and> \<not> claim_metadata m)"
  by (cases "ob_dispatch_status m") (auto simp: require_state_metadata_def Let_def)

lemma require_state_metadata_error:
  "require_state_metadata m = Inl e \<Longrightarrow> \<exists>msg. e = ValueError msg"
  by (auto simp: require_state_metadata_def Let_def split: delivery_status.splits if_splits)

lemma strip_message_idem [simp]: "strip_message (strip_message m) = strip_message m"
  by (simp add: strip_message_def option.map_comp comp_def)

lemma strip_message_sel [simp]:
  "ob_event (strip_message m) = ob_event m" "ob_attempts (strip_message m) = ob_attempts m"
  "ob_dispatch_status (strip_message m) = ob_dispatch_status m"
  "ob_claimed_until (strip_message m) = ob_claimed_until m"
  "ob_next_attempt_at (strip_message m) = ob_next_attempt_at m"
  "ob_created_at (strip_message m) = ob_created_at m"
  "ob_sending_at (strip_message m) = ob_sending_at m"
  "ob_published_at (strip_message m) = ob_published_at m"
  "ob_last_error (strip_message m) = ob_last_error m"
  by (simp_all add: strip_message_def)

lemma OutboxMessage_validate_Inr:
  "OutboxMessage_validate m = Inr m' \<longleftrightarrow>
     m' = strip_message m \<and> ob_tenant_id m' \<noteq> [] \<and> ob_idempotency_key m' \<noteq> []
     \<and> 0 \<le> ob_attempts m' \<and> require_state_metadata m' = Inr ()"
  by (auto simp: OutboxMessage_validate_def Let_def bindR_eq_Inr)

lemma OutboxMessage_validate_error:
  "OutboxMessage_validate m = Inl e \<Longrightarrow> \<exists>msg. e = ValueError msg"
  by (auto simp: OutboxMessage_validate_def Let_def bindR_eq_Inl
      dest: require_state_metadata_error split: if_splits)

lemma wf_message_iff:
  "wf_message m \<longleftrightarrow> strip_message m = m \<and> ob_tenant_id m \<noteq> [] \<and> ob_idempotency_key m \<noteq> []
     \<and> 0 \<le> ob_attempts m \<and> require_state_metadata m = Inr ()"
  by (auto simp: wf_message_def OutboxMessage_validate_Inr)

lemma validate_wf: "OutboxMessage_validate m = Inr m' \<Longrightarrow> wf_message m'"
  by (auto simp: wf_message_iff OutboxMessage_validate_Inr)

lemma strip_message_eq:
  "strip_message m = m \<longleftrightarrow> py_strip (ob_id m) = ob_id m \<and> py_strip (ob_tenant_id m) = ob_tenant_id m
     \<and> py_strip (ob_idempotency_key m) = ob_idempotency_key m
     \<and> map_option py_strip (ob_claim_token m) = ob_claim_token m
     \<and> map_option py_strip (ob_claim_owner m) = ob_claim_owner m"
  by (cases m) (auto simp: strip_message_def)

lemma strip_event_idem [simp]: "strip_event (strip_event e) = strip_event e"
  by (simp add: strip_event_def option.map_comp comp_def)

text \<open>constructing an event is idempotent.
  For a zone database that maps a canonical key to itself and whose keys carry no
  surrounding blanks, validating an already constructed event returns it unchanged; so
  the re-validation of stored messages does not alter their events.\<close>

theorem CloudEvent_validate_idem:
  assumes "\<And>z k. zoneinfo z = Some k \<Longrightarrow> zoneinfo k = Some k \<and> py_strip k = k \<and> k \<noteq> []"
    and "CloudEvent_validate zoneinfo e = Inr e'"
  shows "CloudEvent_validate zoneinfo e' = Inr e'"
proof (cases "ev_timezone (strip_event e)")
  case None
  with assms(2) have "e' = strip_event e" "event_fields_ok e'"
    by (auto simp: CloudEvent_validate_def Let_def split: if_splits)
  with None show ?thesis by (simp add: CloudEvent_validate_def)
next
  case (Some z)
  with assms(2) obtain k where k: "zoneinfo z = Some k"
    and e': "e' = (strip_event e)\<lparr>ev_timezone := Some k\<rparr>" and ok: "event_fields_ok (strip_event e)"
    by (auto simp: CloudEvent_validate_def Let_def split: if_splits option.splits)
  from assms(1) [OF k] have key: "zoneinfo k = Some k" "py_strip k = k" "k \<noteq> []" by simp_all
  have "strip_event e' = e'" using key by (simp add: e' strip_event_def option.map_comp comp_def)
  moreover have "event_fields_ok e'" using ok key by (simp add: e' event_fields_ok_def opt_ok_def)
  ultimately show ?thesis using key by (simp add: CloudEvent_validate_def e')
qed

theorem CloudEvent_validate_idem_witness:
  "\<exists>e. CloudEvent_validate (\<lambda>z. if z = ''UTC'' then Some ''UTC'' else None) e = Inr e
     \<and> ev_timezone e = Some ''UTC''"
proof -
  let ?z = "\<lambda>z. if z = ''UTC'' then Some ''UTC'' else None"
  let ?e = "\<lparr>ev_id = ''e1'', ev_specversion = ''1.0'', ev_type = ''reminder.created'',
             ev_source = ''app'', ev_subject = None, ev_tenant_id = '' t1 '', ev_correlation_id = ''c'',
             ev_causation_id = None, ev_source_event_id = None, ev_payload_fingerprint = None,
             ev_timezone = Some '' UTC'', ev_data = [], ev_time = 0\<rparr>"
  have z: "\<And>z k. ?z z = Some k \<Longrightarrow> ?z k = Some k \<and> py_strip k = k \<and> k \<noteq> []"
    by (auto simp: py_strip_def py_isspace_def split: if_splits)
  obtain e' where e': "CloudEvent_validate ?z ?e = Inr e'" and tz: "ev_timezone e' = Some ''UTC''"
    by (simp add: CloudEvent_validate_def strip_event_def event_fields_ok_def opt_ok_def
        py_strip_def py_isspace_def)
  have "CloudEvent_validate ?z e' = Inr e'"
    by (rule CloudEvent_validate_idem [OF _ e']) (rule z)
  with tz show ?thesis by blast
qed

end
