(* ===== verification/Contracts.thy ===== *)
theory Contracts
  imports Prelude
begin

text \<open>
  The contracts the components promise each other, as locales. Every locale is
  interpreted on the model's definitions in the theory of the component that provides
  them: the stores of \<^verbatim>\<open>adapters/persistence\<close>, the scheduler and calendar of
  \<^verbatim>\<open>adapters/outbound\<close>.

  \<^item> \<open>machine\<close>: a step relation labelled with the caller, and its invariant.
  \<^item> \<open>tenant_machine\<close>: every caller acts for one tenant, and a step leaves what the
    other tenants see alone; the lemma is non-interference for whole runs.
  \<^item> \<open>keyed_store\<close>: a write under an idempotency key: repeating it returns the first
    outcome, changing its content is refused, and neither changes the store.
  \<^item> \<open>participant\<close>: a store that can be put back to a snapshot, whatever happened since.
\<close>

section \<open>Machines\<close>

locale machine =
  fixes step :: "'p \<Rightarrow> 's \<Rightarrow> 's \<Rightarrow> bool"
    and inv :: "'s \<Rightarrow> bool"
    and init :: 's
  assumes init_inv: "inv init"
    and step_inv: "step p s s' \<Longrightarrow> inv s \<Longrightarrow> inv s'"
begin

lemma run_inv: "(\<lambda>s s'. \<exists>p \<in> P. step p s s')\<^sup>*\<^sup>* s s' \<Longrightarrow> inv s \<Longrightarrow> inv s'"
  by (induction rule: rtranclp_induct) (auto dest: step_inv)

lemma reachable_inv: "(\<lambda>s s'. \<exists>p \<in> P. step p s s')\<^sup>*\<^sup>* init s \<Longrightarrow> inv s"
  using run_inv init_inv by blast

text \<open>A relation that every step respects, and that is reflexive and transitive, is respected by runs.\<close>

lemma run_rel:
  assumes "(\<lambda>s s'. \<exists>p \<in> P. step p s s')\<^sup>*\<^sup>* s s'" and "inv s"
    and "\<And>x. R x x" and "\<And>x y z. R x y \<Longrightarrow> R y z \<Longrightarrow> R x z"
    and "\<And>p x y. p \<in> P \<Longrightarrow> step p x y \<Longrightarrow> inv x \<Longrightarrow> R x y"
  shows "R s s'"
  using assms(1)
proof (induction rule: rtranclp_induct)
  case base
  show ?case by (rule assms(3))
next
  case (step y z)
  from run_inv [OF step.hyps(1) assms(2)] step.hyps(2) have "R y z" using assms(5) by blast
  with step.IH show ?case by (rule assms(4))
qed

end

locale tenant_machine = machine step inv init
  for step :: "'p \<Rightarrow> 's \<Rightarrow> 's \<Rightarrow> bool" and inv and init +
  fixes owner :: "'p \<Rightarrow> 't"
    and view :: "'t \<Rightarrow> 's \<Rightarrow> 'v"
  assumes isolation: "step p s s' \<Longrightarrow> inv s \<Longrightarrow> t \<noteq> owner p \<Longrightarrow> view t s' = view t s"
begin

lemma run_isolation:
  assumes "(\<lambda>s s'. \<exists>p \<in> P. step p s s')\<^sup>*\<^sup>* s s'" and "inv s" and "t \<notin> owner ` P"
  shows "view t s' = view t s"
  by (rule run_rel [OF assms(1,2), where R = "\<lambda>x y. view t y = view t x"])
    (use assms(3) in \<open>auto intro!: isolation\<close>)

end

section \<open>Writes under an idempotency key\<close>

text \<open>
  \<open>put w\<close> stores the write \<open>w\<close>; \<open>same w w'\<close> says that two writes name the same
  record with the same content, \<open>clash w w'\<close> that they name the same record with
  different content. \<open>content\<close> is the part of the answer that a retry repeats.
\<close>

locale keyed_store =
  fixes put :: "'w \<Rightarrow> ('s, 'r) op"
    and same :: "'w \<Rightarrow> 'w \<Rightarrow> bool"
    and clash :: "'w \<Rightarrow> 'w \<Rightarrow> bool"
    and refused :: "'w \<Rightarrow> py_error"
    and content :: "'r \<Rightarrow> 'c"
  assumes put_same: "put w s = (Inr r, s') \<Longrightarrow> same w w' \<Longrightarrow>
           \<exists>r'. put w' s' = (Inr r', s') \<and> content r' = content r"
    and put_clash: "put w s = (Inr r, s') \<Longrightarrow> clash w w' \<Longrightarrow> put w' s' = (Inl (refused w'), s')"
begin

fun put_all_writes :: "'w list \<Rightarrow> 's \<Rightarrow> 's" where
  "put_all_writes [] s = s"
| "put_all_writes (w # ws) s = put_all_writes ws (snd (put w s))"

text \<open>Any number of retries, equal or conflicting, leaves the store as the first write left it.\<close>

lemma retries_change_nothing:
  assumes "put w s = (Inr r, s')" and "\<And>w'. w' \<in> set ws \<Longrightarrow> same w w' \<or> clash w w'"
  shows "put_all_writes ws s' = s'"
  using assms(2)
proof (induction ws)
  case (Cons w' ws)
  have "snd (put w' s') = s'"
    using Cons.prems [of w'] put_same [OF assms(1), of w'] put_clash [OF assms(1), of w'] by auto
  then show ?case using Cons by simp
qed simp

end

section \<open>Transaction participants\<close>

locale participant =
  fixes snapshot :: "'s \<Rightarrow> 'n" and restore :: "'n \<Rightarrow> 's \<Rightarrow> 's"
  assumes restore_snapshot: "restore (snapshot s) s' = s"
begin

lemma snapshot_inj: "snapshot s = snapshot t \<Longrightarrow> s = t"
  by (metis restore_snapshot)

end

end
