(* ===== verification/Calendar.thy ===== *)
theory Calendar
  imports Access_Control Delivery Contracts
begin

text \<open>
  The calendar: \<open>CalendarEventRequest\<close> and \<open>CalendarEventResult\<close> of
  \<^verbatim>\<open>application/ports/calendar.py\<close> and the class \<open>LocalCalendarTool\<close> of
  \<^verbatim>\<open>adapters/outbound/calendar/local.py\<close>. \<open>fp\<close> is JSON and SHA-256 of the request
  without its event id; \<open>zi\<close> the zone database, \<open>uuid\<close> the digits drawn, \<open>now\<close> the
  time \<open>require_approval\<close> reads.
\<close>

section \<open>Requests and results\<close>

record calendar_request =
  cr_event_id :: "string option"
  cr_title :: string
  cr_starts_at :: instant
  cr_ends_at :: "instant option"
  cr_timezone :: string
  cr_idempotency_key :: string
  cr_source_event_id :: "string option"
  cr_payload_fingerprint :: "string option"

definition CalendarEventRequest_validate ::
    "(string \<Rightarrow> string option) \<Rightarrow> calendar_request \<Rightarrow> calendar_request result" where
  "CalendarEventRequest_validate zi r =
     (if \<not> opt_ok (\<lambda>s. s \<noteq> []) (cr_event_id r) \<or> cr_title r = [] \<or> cr_idempotency_key r = []
         \<or> \<not> opt_ok (\<lambda>s. s \<noteq> []) (cr_source_event_id r) \<or> \<not> opt_ok is_hex64 (cr_payload_fingerprint r)
      then Inl (ValueError ''CalendarEventRequest'')
      else case zi (cr_timezone r) of
             None \<Rightarrow> Inl (ValueError ''timezone must be a valid IANA timezone'')
           | Some key \<Rightarrow> Inr (r\<lparr>cr_timezone := key\<rparr>))"

record calendar_result =
  ce_event_id :: string
  ce_title :: string
  ce_starts_at :: instant
  ce_timezone :: string
  ce_idempotency_key :: string
  ce_source_event_id :: "string option"
  ce_payload_fingerprint :: "string option"
  ce_reused :: bool

definition CalendarEventResult_validate ::
    "(string \<Rightarrow> string option) \<Rightarrow> calendar_result \<Rightarrow> calendar_result result" where
  "CalendarEventResult_validate zi r =
     (if \<not> opt_ok (\<lambda>s. s \<noteq> []) (ce_source_event_id r) \<or> \<not> opt_ok is_hex64 (ce_payload_fingerprint r)
      then Inl (ValueError ''CalendarEventResult'')
      else case zi (ce_timezone r) of
             None \<Rightarrow> Inl (ValueError ''timezone must be a valid IANA timezone'')
           | Some key \<Rightarrow> Inr (r\<lparr>ce_timezone := key\<rparr>))"

section \<open>The store\<close>

record calendar =
  cal_events_by_key :: "(string \<times> string, calendar_result) dict"
  cal_key_by_event_id :: "(string \<times> string, string) dict"
  cal_fingerprints :: "(string \<times> string, string) dict"

record calendar_snapshot =
  cals_events_by_key :: "(string \<times> string, calendar_result) dict"
  cals_key_by_event_id :: "(string \<times> string, string) dict"
  cals_fingerprints :: "(string \<times> string, string) dict"

definition LocalCalendarTool_init :: calendar where
  "LocalCalendarTool_init = \<lparr>cal_events_by_key = [], cal_key_by_event_id = [], cal_fingerprints = []\<rparr>"

definition snapshot_calendar :: "calendar \<Rightarrow> calendar_snapshot" where
  "snapshot_calendar s = \<lparr>cals_events_by_key = cal_events_by_key s,
     cals_key_by_event_id = cal_key_by_event_id s, cals_fingerprints = cal_fingerprints s\<rparr>"

definition restore_calendar :: "calendar_snapshot \<Rightarrow> calendar \<Rightarrow> calendar" where
  "restore_calendar n s = s\<lparr>cal_events_by_key := cals_events_by_key n,
     cal_key_by_event_id := cals_key_by_event_id n, cal_fingerprints := cals_fingerprints n\<rparr>"

definition calendar_fingerprint :: "(calendar_request \<Rightarrow> string) \<Rightarrow> calendar_request \<Rightarrow> string" where
  "calendar_fingerprint fp r = fp (r\<lparr>cr_event_id := None\<rparr>)"

definition calendar_permission_tier :: permission_tier where
  "calendar_permission_tier = P3"

definition request_event_id :: "string \<Rightarrow> calendar_request \<Rightarrow> string" where
  "request_event_id uuid request =
     (if truthy_str (cr_event_id request) then the (cr_event_id request) else ''cal_'' @ uuid)"

definition new_event ::
    "(string \<Rightarrow> string option) \<Rightarrow> string \<Rightarrow> calendar_request \<Rightarrow> calendar_result result" where
  "new_event zi event_id request = CalendarEventResult_validate zi
     \<lparr>ce_event_id = event_id, ce_title = cr_title request, ce_starts_at = cr_starts_at request,
      ce_timezone = cr_timezone request, ce_idempotency_key = cr_idempotency_key request,
      ce_source_event_id = cr_source_event_id request,
      ce_payload_fingerprint = cr_payload_fingerprint request, ce_reused = False\<rparr>"

definition create_event ::
    "(calendar_request \<Rightarrow> string) \<Rightarrow> (string \<Rightarrow> string option) \<Rightarrow> string \<Rightarrow> instant \<Rightarrow> principal
       \<Rightarrow> calendar_request \<Rightarrow> approval_grant option \<Rightarrow> (calendar, calendar_result) op" where
  "create_event fp zi uuid now p request approval s =
     (case require_approval now p calendar_permission_tier approval ''calendar.create_event''
             (cr_idempotency_key request) None of
        Inl e \<Rightarrow> (Inl e, s)
      | Inr _ \<Rightarrow>
       (let key = (pr_tenant_id p, cr_idempotency_key request);
            request_fp = calendar_fingerprint fp request in
        case map_of (cal_events_by_key s) key of
          Some existing \<Rightarrow>
            (case map_of (cal_fingerprints s) key of
               None \<Rightarrow> (Inl KeyError, s)
             | Some f \<Rightarrow>
                 if f \<noteq> request_fp
                 then (Inl (AssistantError CONFLICT ''calendar idempotency conflict'' (Some (pr_tenant_id p)) []), s)
                 else (Inr (existing\<lparr>ce_reused := True\<rparr>), s))
        | None \<Rightarrow>
            (let event_id = request_event_id uuid request;
                 event_key = (pr_tenant_id p, event_id);
                 existing_key = map_of (cal_key_by_event_id s) event_key in
             if existing_key \<noteq> None \<and> existing_key \<noteq> Some (cr_idempotency_key request)
             then (Inl (AssistantError CONFLICT ''calendar event id conflict'' (Some (pr_tenant_id p)) []), s)
             else case new_event zi event_id request of
                 Inl e \<Rightarrow> (Inl e, s)
               | Inr result \<Rightarrow>
                  (Inr result,
                   s\<lparr>cal_events_by_key := AList.update key result (cal_events_by_key s),
                     cal_key_by_event_id := AList.update event_key (cr_idempotency_key request) (cal_key_by_event_id s),
                     cal_fingerprints := AList.update key request_fp (cal_fingerprints s)\<rparr>))))"

definition list_events :: "principal \<Rightarrow> (calendar, calendar_result list) op" where
  "list_events p s =
     (case require_trusted_principal p of Inl e \<Rightarrow> (Inl e, s)
      | Inr _ \<Rightarrow> (Inr (map snd (filter (\<lambda>(k, _). fst k = pr_tenant_id p) (cal_events_by_key s))), s))"

inductive calendar_step :: "(calendar_request \<Rightarrow> string) \<Rightarrow> (string \<Rightarrow> string option) \<Rightarrow> principal \<Rightarrow> calendar \<Rightarrow> calendar \<Rightarrow> bool"
  for fp zi p where
  create: "create_event fp zi uuid now p request approval s = (r, s') \<Longrightarrow> calendar_step fp zi p s s'"

inductive_cases calendar_stepE: "calendar_step fp zi p s s'"

definition calendar_inv :: "calendar \<Rightarrow> bool" where
  "calendar_inv s \<longleftrightarrow> distinct (map fst (cal_events_by_key s))
     \<and> (\<forall>t k e. map_of (cal_events_by_key s) (t, k) = Some e \<longrightarrow>
          ce_idempotency_key e = k \<and> \<not> ce_reused e \<and> map_of (cal_key_by_event_id s) (t, ce_event_id e) = Some k
          \<and> map_of (cal_fingerprints s) (t, k) \<noteq> None)
     \<and> (\<forall>t i k. map_of (cal_key_by_event_id s) (t, i) = Some k \<longrightarrow>
          (\<exists>e. map_of (cal_events_by_key s) (t, k) = Some e \<and> ce_event_id e = i))"

section \<open>Behaviour\<close>

definition event_added :: "principal \<Rightarrow> string \<Rightarrow> calendar_result \<Rightarrow> string \<Rightarrow> calendar \<Rightarrow> calendar" where
  "event_added p key e f s =
     s\<lparr>cal_events_by_key := AList.update (pr_tenant_id p, key) e (cal_events_by_key s),
       cal_key_by_event_id := AList.update (pr_tenant_id p, ce_event_id e) key (cal_key_by_event_id s),
       cal_fingerprints := AList.update (pr_tenant_id p, key) f (cal_fingerprints s)\<rparr>"

lemma result_validate_Inr:
  "CalendarEventResult_validate zi r = Inr e \<Longrightarrow> e = r\<lparr>ce_timezone := ce_timezone e\<rparr>"
  by (auto simp: CalendarEventResult_validate_def split: if_splits option.splits)

lemma new_event_sel:
  assumes "new_event zi i request = Inr e"
  shows "ce_event_id e = i" "ce_idempotency_key e = cr_idempotency_key request" "\<not> ce_reused e"
    "ce_title e = cr_title request" "ce_starts_at e = cr_starts_at request"
  by (subst result_validate_Inr [OF assms [unfolded new_event_def]], simp)+

definition event_created ::
    "(calendar_request \<Rightarrow> string) \<Rightarrow> principal \<Rightarrow> calendar_request \<Rightarrow> calendar_result \<Rightarrow> calendar \<Rightarrow> calendar \<Rightarrow> bool" where
  "event_created fp p request e s s' \<longleftrightarrow>
     map_of (cal_events_by_key s) (pr_tenant_id p, cr_idempotency_key request) = None
     \<and> map_of (cal_key_by_event_id s) (pr_tenant_id p, ce_event_id e) \<in> {None, Some (cr_idempotency_key request)}
     \<and> ce_idempotency_key e = cr_idempotency_key request \<and> \<not> ce_reused e
     \<and> ce_title e = cr_title request \<and> ce_starts_at e = cr_starts_at request
     \<and> s' = event_added p (cr_idempotency_key request) e (calendar_fingerprint fp request) s"

lemma create_event_effect:
  assumes "create_event fp zi uuid now p request approval s = (r, s')" and "s' \<noteq> s"
  obtains e d where "r = Inr e" "event_created fp p request e s s'"
    "require_approval now p P3 approval ''calendar.create_event'' (cr_idempotency_key request) None = Inr d"
proof -
  let ?i = "request_event_id uuid request"
  show ?thesis
  proof (cases "new_event zi ?i request")
    case (Inl x)
    with assms show ?thesis
      by (auto simp: create_event_def Let_def split: if_splits sum.splits option.splits)
  next
    case (Inr e)
    with assms obtain d where c: "r = Inr e"
      "map_of (cal_events_by_key s) (pr_tenant_id p, cr_idempotency_key request) = None"
      "map_of (cal_key_by_event_id s) (pr_tenant_id p, ?i) \<in> {None, Some (cr_idempotency_key request)}"
      "s' = event_added p (cr_idempotency_key request) e (calendar_fingerprint fp request) s"
      "require_approval now p P3 approval ''calendar.create_event'' (cr_idempotency_key request) None = Inr d"
      by (auto simp: create_event_def event_added_def calendar_permission_tier_def Let_def new_event_sel [OF Inr]
          split: if_splits sum.splits option.splits)
    then have "event_created fp p request e s s'"
      by (auto simp: event_created_def new_event_sel [OF Inr])
    with that c show ?thesis by blast
  qed
qed

lemma calendar_inv_event:
  "calendar_inv s \<Longrightarrow> map_of (cal_events_by_key s) (t, k) = Some e \<Longrightarrow>
     ce_idempotency_key e = k \<and> \<not> ce_reused e \<and> map_of (cal_key_by_event_id s) (t, ce_event_id e) = Some k
     \<and> map_of (cal_fingerprints s) (t, k) \<noteq> None"
  unfolding calendar_inv_def by blast

lemma calendar_inv_index:
  "calendar_inv s \<Longrightarrow> map_of (cal_key_by_event_id s) (t, i) = Some k \<Longrightarrow>
     \<exists>e. map_of (cal_events_by_key s) (t, k) = Some e \<and> ce_event_id e = i"
  unfolding calendar_inv_def by blast

lemma event_added_inv:
  assumes inv: "calendar_inv s" and new: "map_of (cal_events_by_key s) (pr_tenant_id p, key) = None"
    and idx: "map_of (cal_key_by_event_id s) (pr_tenant_id p, ce_event_id e) \<in> {None, Some key}"
    and e: "ce_idempotency_key e = key" "\<not> ce_reused e"
  shows "calendar_inv (event_added p key e f s)"
proof -
  let ?t = "pr_tenant_id p"
  have fresh: "map_of (cal_key_by_event_id s) (?t, ce_event_id e) = None"
    using calendar_inv_index [OF inv, of ?t "ce_event_id e" key] new idx by auto
  have "ce_idempotency_key x = k \<and> \<not> ce_reused x
     \<and> map_of (cal_key_by_event_id (event_added p key e f s)) (t, ce_event_id x) = Some k
     \<and> map_of (cal_fingerprints (event_added p key e f s)) (t, k) \<noteq> None"
    if look: "map_of (cal_events_by_key (event_added p key e f s)) (t, k) = Some x" for t k x
  proof (cases "(t, k) = (?t, key)")
    case True
    with look e show ?thesis by (simp add: event_added_def map_of_update)
  next
    case False
    with look have "map_of (cal_events_by_key s) (t, k) = Some x"
      by (auto simp: event_added_def map_of_update split: if_splits)
    from calendar_inv_event [OF inv this] fresh show ?thesis by (auto simp: event_added_def map_of_update)
  qed
  moreover have "\<exists>x. map_of (cal_events_by_key (event_added p key e f s)) (t, k) = Some x \<and> ce_event_id x = i"
    if look: "map_of (cal_key_by_event_id (event_added p key e f s)) (t, i) = Some k" for t i k
  proof (cases "(t, i) = (?t, ce_event_id e)")
    case True
    with look show ?thesis by (auto simp: event_added_def map_of_update)
  next
    case False
    with look have "map_of (cal_key_by_event_id s) (t, i) = Some k"
      by (auto simp: event_added_def map_of_update split: if_splits)
    with calendar_inv_index [OF inv this] new show ?thesis by (auto simp: event_added_def map_of_update)
  qed
  ultimately show ?thesis using inv unfolding calendar_inv_def by (simp add: event_added_def)
qed

lemma calendar_step_effect:
  assumes "calendar_step fp zi p s s'"
  shows "s' = s \<or> (\<exists>request e. event_created fp p request e s s')"
  using assms by (elim calendar_stepE) (metis create_event_effect)

lemma event_created_inv: "event_created fp p request e s s' \<Longrightarrow> calendar_inv s \<Longrightarrow> calendar_inv s'"
  unfolding event_created_def by (auto intro!: event_added_inv)

interpretation cal: tenant_machine "calendar_step fp zi" calendar_inv LocalCalendarTool_init
    pr_tenant_id "\<lambda>t s. tenant_part t (cal_events_by_key s)" for fp zi
proof unfold_locales
  show "calendar_inv LocalCalendarTool_init" by (simp add: calendar_inv_def LocalCalendarTool_init_def)
  show "calendar_inv s'" if "calendar_step fp zi p s s'" "calendar_inv s" for p s s'
    using calendar_step_effect [OF that(1)] that(2) event_created_inv by blast
  show "tenant_part t (cal_events_by_key s') = tenant_part t (cal_events_by_key s)"
    if "calendar_step fp zi p s s'" "calendar_inv s" "t \<noteq> pr_tenant_id p" for p s s' t
    using calendar_step_effect [OF that(1)] that(3) by (auto simp: event_created_def event_added_def)
qed

interpretation cal_txn: participant snapshot_calendar restore_calendar
  by unfold_locales (simp add: snapshot_calendar_def restore_calendar_def)

section \<open>Idempotent creation\<close>

lemma create_event_Inr:
  assumes "create_event fp zi uuid now p request approval s = (Inr r, s')"
  shows "(\<exists>e. map_of (cal_events_by_key s') (pr_tenant_id p, cr_idempotency_key request) = Some e
           \<and> r\<lparr>ce_reused := True\<rparr> = e\<lparr>ce_reused := True\<rparr>)
     \<and> map_of (cal_fingerprints s') (pr_tenant_id p, cr_idempotency_key request) = Some (calendar_fingerprint fp request)
     \<and> (\<exists>d. require_approval now p P3 approval ''calendar.create_event'' (cr_idempotency_key request) None = Inr d)"
  using assms
  by (auto simp: create_event_def calendar_permission_tier_def Let_def map_of_update
      split: if_splits sum.splits option.splits)

lemma create_event_existing:
  assumes "\<exists>d. require_approval now q P3 approval ''calendar.create_event'' (cr_idempotency_key b) None = Inr d"
    and "map_of (cal_events_by_key s) (pr_tenant_id q, cr_idempotency_key b) = Some e"
    and "map_of (cal_fingerprints s) (pr_tenant_id q, cr_idempotency_key b) = Some f"
  shows "create_event fp zi uuid now q b approval s = (if f = calendar_fingerprint fp b then Inr (e\<lparr>ce_reused := True\<rparr>)
     else Inl (AssistantError CONFLICT ''calendar idempotency conflict'' (Some (pr_tenant_id q)) []), s)"
  using assms by (auto simp: create_event_def calendar_permission_tier_def)

text \<open>A calendar write with everything it reads.\<close>

record calendar_write =
  cw_uuid :: string
  cw_now :: instant
  cw_principal :: principal
  cw_request :: calendar_request
  cw_approval :: "approval_grant option"

definition calendar_retry :: "calendar_write \<Rightarrow> calendar_write \<Rightarrow> bool" where
  "calendar_retry w w' \<longleftrightarrow> pr_tenant_id (cw_principal w') = pr_tenant_id (cw_principal w)
     \<and> cr_idempotency_key (cw_request w') = cr_idempotency_key (cw_request w)
     \<and> (\<exists>d. require_approval (cw_now w') (cw_principal w') P3 (cw_approval w') ''calendar.create_event''
              (cr_idempotency_key (cw_request w')) None = Inr d)"

definition put_event ::
    "(calendar_request \<Rightarrow> string) \<Rightarrow> (string \<Rightarrow> string option) \<Rightarrow> calendar_write \<Rightarrow> (calendar, calendar_result) op" where
  "put_event fp zi w =
     create_event fp zi (cw_uuid w) (cw_now w) (cw_principal w) (cw_request w) (cw_approval w)"

interpretation cal_put: keyed_store "put_event fp zi"
    "\<lambda>w w'. calendar_retry w w' \<and> calendar_fingerprint fp (cw_request w') = calendar_fingerprint fp (cw_request w)"
    "\<lambda>w w'. calendar_retry w w' \<and> calendar_fingerprint fp (cw_request w') \<noteq> calendar_fingerprint fp (cw_request w)"
    "\<lambda>w. AssistantError CONFLICT ''calendar idempotency conflict'' (Some (pr_tenant_id (cw_principal w))) []"
    "\<lambda>r. r\<lparr>ce_reused := True\<rparr>" for fp zi
proof unfold_locales
  fix w w' :: calendar_write and s s' :: calendar and r :: calendar_result
  assume put: "put_event fp zi w s = (Inr r, s')"
  obtain e where e: "map_of (cal_events_by_key s') (pr_tenant_id (cw_principal w), cr_idempotency_key (cw_request w)) = Some e"
    "r\<lparr>ce_reused := True\<rparr> = e\<lparr>ce_reused := True\<rparr>"
    using create_event_Inr [OF put [unfolded put_event_def]] by blast
  have f: "map_of (cal_fingerprints s') (pr_tenant_id (cw_principal w), cr_idempotency_key (cw_request w))
      = Some (calendar_fingerprint fp (cw_request w))"
    using create_event_Inr [OF put [unfolded put_event_def]] by blast
  have ex: "put_event fp zi w' s' = (if calendar_fingerprint fp (cw_request w) = calendar_fingerprint fp (cw_request w')
      then Inr (e\<lparr>ce_reused := True\<rparr>)
      else Inl (AssistantError CONFLICT ''calendar idempotency conflict'' (Some (pr_tenant_id (cw_principal w'))) []), s')"
    if "calendar_retry w w'"
    unfolding put_event_def
    by (rule create_event_existing) (use that e(1) f in \<open>auto simp: calendar_retry_def\<close>)
  show "\<exists>r'. put_event fp zi w' s' = (Inr r', s') \<and> r'\<lparr>ce_reused := True\<rparr> = r\<lparr>ce_reused := True\<rparr>"
    if "calendar_retry w w' \<and> calendar_fingerprint fp (cw_request w') = calendar_fingerprint fp (cw_request w)"
    using ex that e(2) by auto
  show "put_event fp zi w' s' =
      (Inl (AssistantError CONFLICT ''calendar idempotency conflict'' (Some (pr_tenant_id (cw_principal w'))) []), s')"
    if "calendar_retry w w' \<and> calendar_fingerprint fp (cw_request w') \<noteq> calendar_fingerprint fp (cw_request w)"
    using ex that by auto
qed

section \<open>Properties\<close>

text \<open>C28: no calendar write without a matching approval.
  If \<open>create_event\<close> changes the calendar, the principal is authenticated with tier P3 or
  above and presented a trusted, approved, unexpired grant of tier P3 or above for its own
  tenant and identity, for the action \<open>calendar.create_event\<close> and exactly the
  idempotency key written; the change is one new event under that key.\<close>

theorem calendar_write_needs_grant:
  assumes "create_event fp zi uuid now p request approval s = (r, s')" and "s' \<noteq> s"
  shows "\<exists>g. approval = Some g \<and> is_trusted p \<and> P3 \<le> pr_permission_tier p
     \<and> grant_is_trusted g \<and> ap_approved g \<and> ap_tenant_id g = pr_tenant_id p
     \<and> ap_principal_id g = pr_principal_id p \<and> ap_action g = ''calendar.create_event''
     \<and> ap_resource g = cr_idempotency_key request \<and> P3 \<le> ap_tier g
     \<and> (case ap_expires_at g of None \<Rightarrow> True | Some e \<Rightarrow> now < e)
     \<and> (\<exists>e. r = Inr e \<and> map_of (cal_events_by_key s) (pr_tenant_id p, cr_idempotency_key request) = None
           \<and> cal_events_by_key s' = cal_events_by_key s @ [((pr_tenant_id p, cr_idempotency_key request), e)])"
proof -
  obtain e d where e: "r = Inr e" "event_created fp p request e s s'"
    and d: "require_approval now p P3 approval ''calendar.create_event'' (cr_idempotency_key request) None = Inr d"
    by (rule create_event_effect [OF assms])
  from d obtain q g where q: "PermissionRequest_make ''calendar.create_event'' (cr_idempotency_key request) P3 None = Inr q"
    "dec_allowed (evaluate_permission p q)"
    and g: "approval = Some g" "approval_errors now p P3 g ''calendar.create_event'' (cr_idempotency_key request) None = []"
    by (auto simp: require_approval_Inr)
  from PermissionRequest_make_fields [OF q(1)] q(2) have "is_trusted p" "P3 \<le> pr_permission_tier p"
    by (simp_all add: dec_allowed_evaluate)
  moreover have "cal_events_by_key s' = cal_events_by_key s @ [((pr_tenant_id p, cr_idempotency_key request), e)]"
    "map_of (cal_events_by_key s) (pr_tenant_id p, cr_idempotency_key request) = None"
    using e(2) by (auto simp: event_created_def event_added_def update_append_new)
  ultimately show ?thesis using g e(1) unfolding approval_errors_Nil by auto
qed

text \<open>calendar creation is idempotent.
  After a successful call, an approved retry under the same tenant and key returns the
  stored event, marked as reused, when the request is the same up to the event id, and raises
  CONFLICT otherwise; the calendar does not change.\<close>

theorem create_event_idempotent:
  assumes "put_event fp zi w s = (Inr r, s')" and "calendar_retry w w'"
  shows "put_event fp zi w' s' =
     (if calendar_fingerprint fp (cw_request w') = calendar_fingerprint fp (cw_request w)
      then Inr (r\<lparr>ce_reused := True\<rparr>)
      else Inl (AssistantError CONFLICT ''calendar idempotency conflict''
             (Some (pr_tenant_id (cw_principal w'))) []), s')"
proof -
  obtain e where e: "map_of (cal_events_by_key s') (pr_tenant_id (cw_principal w), cr_idempotency_key (cw_request w)) = Some e"
    "r\<lparr>ce_reused := True\<rparr> = e\<lparr>ce_reused := True\<rparr>"
    and f: "map_of (cal_fingerprints s') (pr_tenant_id (cw_principal w), cr_idempotency_key (cw_request w))
      = Some (calendar_fingerprint fp (cw_request w))"
    using create_event_Inr [OF assms(1) [unfolded put_event_def]] by blast
  show ?thesis
    using create_event_existing [of "cw_now w'" "cw_principal w'" "cw_approval w'" "cw_request w'" s' e]
      assms(2) e f by (auto simp: put_event_def calendar_retry_def)
qed

section \<open>Concrete instances\<close>

definition demo_request :: "string \<Rightarrow> calendar_request" where
  "demo_request title = \<lparr>cr_event_id = Some ''cal_1'', cr_title = title, cr_starts_at = 0, cr_ends_at = None,
     cr_timezone = ''UTC'', cr_idempotency_key = ''k1'', cr_source_event_id = None, cr_payload_fingerprint = None\<rparr>"

definition demo_grant :: approval_grant where
  "demo_grant = \<lparr>ap_approval_id = ''ap_1'', ap_tenant_id = ''t1'', ap_principal_id = ''u1'',
     ap_action = ''calendar.create_event'', ap_resource = ''k1'', ap_tier = P3, ap_approved = True,
     ap_expires_at = None, ap_request_hash = None, ap_trusted_source = Some ''trusted_runtime''\<rparr>"

definition demo_event_result :: calendar_result where
  "demo_event_result = \<lparr>ce_event_id = ''cal_1'', ce_title = ''x'', ce_starts_at = 0, ce_timezone = ''UTC'',
     ce_idempotency_key = ''k1'', ce_source_event_id = None, ce_payload_fingerprint = None, ce_reused = False\<rparr>"

definition demo_calendar :: calendar where
  "demo_calendar = event_added demo_principal ''k1'' demo_event_result ''x'' LocalCalendarTool_init"

lemma demo_gate: "\<exists>d. require_approval 0 demo_principal P3 (Some demo_grant) ''calendar.create_event'' ''k1'' None = Inr d"
  by (simp add: require_approval_def PermissionRequest_make_def norm_request_text_def Let_def py_strip_def
      py_isspace_def require_permission_def evaluate_permission_def allows_def approval_errors_def
      grant_is_trusted_def demo_grant_def)

lemma demo_create:
  "create_event cr_title Some ''0a'' 0 demo_principal (demo_request ''x'') (Some demo_grant) LocalCalendarTool_init
     = (Inr demo_event_result, demo_calendar)"
proof -
  have k: "cr_idempotency_key (demo_request ''x'') = ''k1''" by (simp add: demo_request_def)
  have i: "request_event_id ''0a'' (demo_request ''x'') = ''cal_1''"
    by (simp add: request_event_id_def demo_request_def truthy_str_def)
  have n: "new_event Some ''cal_1'' (demo_request ''x'') = Inr demo_event_result"
    by (simp add: new_event_def demo_request_def CalendarEventResult_validate_def opt_ok_def demo_event_result_def)
  have f: "calendar_fingerprint cr_title (demo_request ''x'') = ''x''"
    by (simp add: calendar_fingerprint_def demo_request_def)
  obtain d where "require_approval 0 demo_principal P3 (Some demo_grant) ''calendar.create_event'' ''k1'' None = Inr d"
    using demo_gate by blast
  then show ?thesis
    by (simp add: create_event_def calendar_permission_tier_def k i n f LocalCalendarTool_init_def
        demo_calendar_def event_added_def) (simp add: demo_event_result_def Let_def)
qed

theorem calendar_write_needs_grant_witness:
  "create_event cr_title Some ''0a'' 0 demo_principal (demo_request ''x'') (Some demo_grant) LocalCalendarTool_init
     = (Inr demo_event_result, demo_calendar)
   \<and> (\<exists>g. Some demo_grant = Some g \<and> ap_resource g = ''k1'')"
proof -
  have "demo_calendar \<noteq> LocalCalendarTool_init"
    by (simp add: demo_calendar_def event_added_def LocalCalendarTool_init_def)
  from calendar_write_needs_grant [OF demo_create this] demo_create show ?thesis
    by (auto simp: demo_request_def)
qed

definition demo_cal_write :: "string \<Rightarrow> calendar_write" where
  "demo_cal_write title = \<lparr>cw_uuid = ''0a'', cw_now = 0, cw_principal = demo_principal,
     cw_request = demo_request title, cw_approval = Some demo_grant\<rparr>"

theorem create_event_idempotent_witness:
  "put_event cr_title Some (demo_cal_write ''y'') demo_calendar =
     (Inl (AssistantError CONFLICT ''calendar idempotency conflict'' (Some ''t1'') []), demo_calendar)"
proof -
  have p: "put_event cr_title Some (demo_cal_write ''x'') LocalCalendarTool_init = (Inr demo_event_result, demo_calendar)"
    using demo_create by (simp add: put_event_def demo_cal_write_def)
  have r: "calendar_retry (demo_cal_write ''x'') (demo_cal_write ''y'')"
    using demo_gate by (simp add: calendar_retry_def demo_cal_write_def demo_request_def)
  from create_event_idempotent [OF p r] show ?thesis
    by (simp add: demo_cal_write_def calendar_fingerprint_def demo_request_def)
qed

end
