(* ===== verification/Scheduler.thy ===== *)
theory Scheduler
  imports Access_Control Delivery Contracts "HOL-Library.Product_Lexorder"
begin

text \<open>
  The reminder scheduler: \<open>ScheduledReminder\<close> of \<^verbatim>\<open>application/ports/scheduler.py\<close> and
  the class \<open>ReminderScheduler\<close> of \<^verbatim>\<open>adapters/outbound/scheduler/local.py\<close>.
  \<open>zi\<close> is the zone database, \<open>uuid\<close> the digits drawn for a generated reminder id,
  \<open>clock\<close> the time read.
\<close>

section \<open>Jobs\<close>

record scheduled_reminder =
  sr_reminder_id :: string
  sr_tenant_id :: string
  sr_calendar_event_id :: string
  sr_notify_at :: instant
  sr_timezone :: string
  sr_source_event_id :: string
  sr_payload_fingerprint :: string
  sr_channel :: string
  sr_recipient :: string
  sr_body :: string
  sr_idempotency_key :: string
  sr_delivery_status :: delivery_status
  sr_attempts :: int
  sr_next_attempt_at :: "instant option"
  sr_sending_at :: "instant option"
  sr_published_at :: "instant option"
  sr_last_error :: "delivery_error option"
  sr_sent :: bool

text \<open>Validation recomputes the legacy flag \<open>sent\<close> from the delivery status.\<close>

definition ScheduledReminder_validate ::
    "(string \<Rightarrow> string option) \<Rightarrow> scheduled_reminder \<Rightarrow> scheduled_reminder result" where
  "ScheduledReminder_validate zi r =
     (if sr_timezone r = [] \<or> sr_source_event_id r = [] \<or> \<not> is_hex64 (sr_payload_fingerprint r)
         \<or> sr_attempts r < 0
      then Inl (ValueError ''ScheduledReminder'')
      else case zi (sr_timezone r) of
             None \<Rightarrow> Inl (ValueError ''timezone must be a valid IANA timezone'')
           | Some key \<Rightarrow> Inr (r\<lparr>sr_timezone := key, sr_sent := (sr_delivery_status r \<noteq> pending)\<rparr>))"

text \<open>The keyword arguments of \<open>schedule_before_event\<close>.\<close>

record schedule_args =
  sa_calendar_event_id :: string
  sa_starts_at :: py_datetime
  sa_channel :: string
  sa_recipient :: string
  sa_body :: string
  sa_timezone :: string
  sa_source_event_id :: string
  sa_payload_fingerprint :: string
  sa_minutes_before :: int
  sa_idempotency_key :: string
  sa_reminder_id :: "string option"

definition build_job ::
    "(string \<Rightarrow> string option) \<Rightarrow> string \<Rightarrow> principal \<Rightarrow> schedule_args \<Rightarrow> scheduled_reminder result" where
  "build_job zi uuid p a =
     bindR (canonical_utc (sa_starts_at a) ''starts_at'') (\<lambda>starts.
     bindR (dt_add starts (- minutes (sa_minutes_before a))) (\<lambda>notify_at.
       ScheduledReminder_validate zi
         \<lparr>sr_reminder_id = (case sa_reminder_id a of Some i \<Rightarrow> i | None \<Rightarrow> ''rem_'' @ uuid),
          sr_tenant_id = pr_tenant_id p, sr_calendar_event_id = sa_calendar_event_id a,
          sr_notify_at = notify_at, sr_timezone = sa_timezone a,
          sr_source_event_id = sa_source_event_id a,
          sr_payload_fingerprint = sa_payload_fingerprint a, sr_channel = sa_channel a,
          sr_recipient = sa_recipient a, sr_body = sa_body a,
          sr_idempotency_key = sa_idempotency_key a, sr_delivery_status = pending,
          sr_attempts = 0, sr_next_attempt_at = None, sr_sending_at = None,
          sr_published_at = None, sr_last_error = None, sr_sent = False\<rparr>))"

section \<open>The store\<close>

record scheduler =
  sc_jobs_by_key :: "(string \<times> string, scheduled_reminder) dict"
  sc_key_by_reminder_id :: "(string \<times> string, string) dict"

record scheduler_snapshot =
  scs_jobs_by_key :: "(string \<times> string, scheduled_reminder) dict"
  scs_key_by_reminder_id :: "(string \<times> string, string) dict"

definition ReminderScheduler_init :: scheduler where
  "ReminderScheduler_init = \<lparr>sc_jobs_by_key = [], sc_key_by_reminder_id = []\<rparr>"

definition snapshot_scheduler :: "scheduler \<Rightarrow> scheduler_snapshot" where
  "snapshot_scheduler s =
     \<lparr>scs_jobs_by_key = sc_jobs_by_key s, scs_key_by_reminder_id = sc_key_by_reminder_id s\<rparr>"

definition restore_scheduler :: "scheduler_snapshot \<Rightarrow> scheduler \<Rightarrow> scheduler" where
  "restore_scheduler n s =
     s\<lparr>sc_jobs_by_key := scs_jobs_by_key n, sc_key_by_reminder_id := scs_key_by_reminder_id n\<rparr>"

definition same_job :: "scheduled_reminder \<Rightarrow> scheduled_reminder \<Rightarrow> bool" where
  "same_job existing job \<longleftrightarrow>
     \<not> (sr_calendar_event_id existing \<noteq> sr_calendar_event_id job
        \<or> sr_notify_at existing \<noteq> sr_notify_at job
        \<or> sr_timezone existing \<noteq> sr_timezone job
        \<or> sr_source_event_id existing \<noteq> sr_source_event_id job
        \<or> sr_payload_fingerprint existing \<noteq> sr_payload_fingerprint job
        \<or> sr_channel existing \<noteq> sr_channel job
        \<or> sr_recipient existing \<noteq> sr_recipient job
        \<or> sr_body existing \<noteq> sr_body job)"

abbreviation scheduler_error :: "error_code \<Rightarrow> string \<Rightarrow> principal \<Rightarrow> py_error" where
  "scheduler_error code msg p \<equiv> AssistantError code msg (Some (pr_tenant_id p)) []"

definition schedule_before_event ::
    "(string \<Rightarrow> string option) \<Rightarrow> string \<Rightarrow> principal \<Rightarrow> schedule_args \<Rightarrow> (scheduler, scheduled_reminder) op" where
  "schedule_before_event zi uuid p a s =
     (case bindR (require_trusted_principal p) (\<lambda>_. build_job zi uuid p a) of
        Inl e \<Rightarrow> (Inl e, s)
      | Inr job \<Rightarrow>
       (let key = (pr_tenant_id p, sa_idempotency_key a) in
        case map_of (sc_jobs_by_key s) key of
          Some existing \<Rightarrow>
            if \<not> same_job existing job
            then (Inl (scheduler_error CONFLICT ''reminder scheduler idempotency conflict'' p), s)
            else (Inr existing, s)
        | None \<Rightarrow>
            (let reminder_key = (pr_tenant_id p, sr_reminder_id job);
                 existing_key = map_of (sc_key_by_reminder_id s) reminder_key in
             if existing_key \<noteq> None \<and> existing_key \<noteq> Some (sa_idempotency_key a)
             then (Inl (scheduler_error CONFLICT ''scheduled reminder id conflict'' p), s)
             else (Inr job,
                   s\<lparr>sc_jobs_by_key := AList.update key job (sc_jobs_by_key s),
                     sc_key_by_reminder_id :=
                       AList.update reminder_key (sa_idempotency_key a) (sc_key_by_reminder_id s)\<rparr>))))"

definition is_due :: "principal \<Rightarrow> instant \<Rightarrow> scheduled_reminder \<Rightarrow> bool" where
  "is_due p now job \<longleftrightarrow> sr_tenant_id job = pr_tenant_id p \<and> sr_delivery_status job = pending
     \<and> sr_notify_at job \<le> now
     \<and> (case sr_next_attempt_at job of None \<Rightarrow> True | Some t \<Rightarrow> t \<le> now)"

definition due :: "principal \<Rightarrow> py_datetime \<Rightarrow> (scheduler, scheduled_reminder list) op" where
  "due p now s =
     (case require_trusted_principal p of Inl e \<Rightarrow> (Inl e, s) | Inr _ \<Rightarrow>
      case now of
        Naive _ \<Rightarrow> (Inl (ValueError ''now must be timezone-aware''), s)
      | Aware t \<Rightarrow>
          (Inr (sort_key (\<lambda>job. (sr_notify_at job, sr_reminder_id job))
                  (filter (is_due p t) (map snd (sc_jobs_by_key s)))), s))"

definition is_job :: "principal \<Rightarrow> string \<Rightarrow> (string \<times> string) \<times> scheduled_reminder \<Rightarrow> bool" where
  "is_job p reminder_id e \<longleftrightarrow> fst (fst e) = pr_tenant_id p \<and> sr_reminder_id (snd e) = reminder_id"

definition set_job :: "string \<times> string \<Rightarrow> scheduled_reminder \<Rightarrow> scheduler \<Rightarrow> scheduler" where
  "set_job k j s = s\<lparr>sc_jobs_by_key := AList.update k j (sc_jobs_by_key s)\<rparr>"

definition mirrored :: "outbox_message \<Rightarrow> scheduled_reminder \<Rightarrow> scheduled_reminder" where
  "mirrored m job =
     job\<lparr>sr_delivery_status := ob_dispatch_status m, sr_attempts := ob_attempts m,
         sr_next_attempt_at := ob_next_attempt_at m, sr_sending_at := ob_sending_at m,
         sr_published_at := ob_published_at m, sr_last_error := ob_last_error m,
         sr_sent := (ob_dispatch_status m \<noteq> pending)\<rparr>"

definition mirror_delivery ::
    "(string \<Rightarrow> string option) \<Rightarrow> principal \<Rightarrow> string \<Rightarrow> outbox_message \<Rightarrow> (scheduler, scheduled_reminder) op" where
  "mirror_delivery zi p reminder_id message s =
     (case require_trusted_principal p of Inl e \<Rightarrow> (Inl e, s) | Inr _ \<Rightarrow>
      if ob_tenant_id message \<noteq> pr_tenant_id p \<or> ev_subject (ob_event message) \<noteq> Some reminder_id
      then (Inl (scheduler_error PERMISSION_DENIED ''delivery mirror identity mismatch'' p), s)
      else case find (is_job p reminder_id) (sc_jobs_by_key s) of
        None \<Rightarrow> (Inl (scheduler_error NOT_FOUND ''scheduled reminder not found'' p), s)
      | Some (key, job) \<Rightarrow>
          (case ScheduledReminder_validate zi (mirrored message job) of
             Inl e \<Rightarrow> (Inl e, s)
           | Inr updated \<Rightarrow> (Inr updated, set_job key updated s)))"

definition mark_sent :: "instant \<Rightarrow> principal \<Rightarrow> string \<Rightarrow> (scheduler, scheduled_reminder) op" where
  "mark_sent clock p reminder_id s =
     (case require_trusted_principal p of Inl e \<Rightarrow> (Inl e, s) | Inr _ \<Rightarrow>
      case find (is_job p reminder_id) (sc_jobs_by_key s) of
        None \<Rightarrow> (Inl (scheduler_error NOT_FOUND ''scheduled reminder not found'' p), s)
      | Some (key, job) \<Rightarrow>
          (let updated = job\<lparr>sr_delivery_status := published, sr_sent := True, sr_published_at := Some clock\<rparr>
           in (Inr updated, set_job key updated s)))"

definition scheduler_list_for_tenant :: "principal \<Rightarrow> (scheduler, scheduled_reminder list) op" where
  "scheduler_list_for_tenant p s =
     (case require_trusted_principal p of Inl e \<Rightarrow> (Inl e, s)
      | Inr _ \<Rightarrow> (Inr (map snd (filter (\<lambda>(k, _). fst k = pr_tenant_id p) (sc_jobs_by_key s))), s))"

inductive scheduler_step :: "(string \<Rightarrow> string option) \<Rightarrow> principal \<Rightarrow> scheduler \<Rightarrow> scheduler \<Rightarrow> bool"
  for zi p where
  schedule: "schedule_before_event zi uuid p a s = (r, s') \<Longrightarrow> scheduler_step zi p s s'"
| mirror: "mirror_delivery zi p i m s = (r, s') \<Longrightarrow> scheduler_step zi p s s'"
| sent: "mark_sent clock p i s = (r, s') \<Longrightarrow> scheduler_step zi p s s'"

inductive_cases scheduler_stepE: "scheduler_step zi p s s'"

section \<open>Invariant\<close>

definition scheduler_inv :: "scheduler \<Rightarrow> bool" where
  "scheduler_inv s \<longleftrightarrow> distinct (map fst (sc_jobs_by_key s))
     \<and> (\<forall>t k j. map_of (sc_jobs_by_key s) (t, k) = Some j \<longrightarrow>
          sr_tenant_id j = t \<and> sr_idempotency_key j = k \<and> (sr_sent j \<longleftrightarrow> sr_delivery_status j \<noteq> pending)
          \<and> 0 \<le> sr_attempts j \<and> map_of (sc_key_by_reminder_id s) (t, sr_reminder_id j) = Some k)
     \<and> (\<forall>t i k. map_of (sc_key_by_reminder_id s) (t, i) = Some k \<longrightarrow>
          (\<exists>j. map_of (sc_jobs_by_key s) (t, k) = Some j \<and> sr_reminder_id j = i))"

lemma scheduler_inv_job:
  "scheduler_inv s \<Longrightarrow> map_of (sc_jobs_by_key s) (t, k) = Some j \<Longrightarrow>
     sr_tenant_id j = t \<and> sr_idempotency_key j = k \<and> (sr_sent j \<longleftrightarrow> sr_delivery_status j \<noteq> pending)
     \<and> 0 \<le> sr_attempts j \<and> map_of (sc_key_by_reminder_id s) (t, sr_reminder_id j) = Some k"
  unfolding scheduler_inv_def by blast

lemma scheduler_inv_index:
  "scheduler_inv s \<Longrightarrow> map_of (sc_key_by_reminder_id s) (t, i) = Some k \<Longrightarrow>
     \<exists>j. map_of (sc_jobs_by_key s) (t, k) = Some j \<and> sr_reminder_id j = i"
  unfolding scheduler_inv_def by blast

text \<open>Rewriting a job without touching its identity keeps the invariant.\<close>

definition same_reminder :: "scheduled_reminder \<Rightarrow> scheduled_reminder \<Rightarrow> bool" where
  "same_reminder j j' \<longleftrightarrow> sr_reminder_id j' = sr_reminder_id j \<and> sr_tenant_id j' = sr_tenant_id j
     \<and> sr_idempotency_key j' = sr_idempotency_key j
     \<and> sr_calendar_event_id j' = sr_calendar_event_id j \<and> sr_notify_at j' = sr_notify_at j
     \<and> sr_channel j' = sr_channel j \<and> sr_recipient j' = sr_recipient j \<and> sr_body j' = sr_body j
     \<and> sr_source_event_id j' = sr_source_event_id j \<and> sr_payload_fingerprint j' = sr_payload_fingerprint j"

lemma set_job_inv:
  assumes inv: "scheduler_inv s" and j: "map_of (sc_jobs_by_key s) k = Some j" and "same_reminder j j'"
    and "sr_sent j' \<longleftrightarrow> sr_delivery_status j' \<noteq> pending" and "0 \<le> sr_attempts j'"
  shows "scheduler_inv (set_job k j' s)"
proof -
  obtain t0 k0 where k: "k = (t0, k0)" by force
  note old = scheduler_inv_job [OF inv j [unfolded k]]
  have "sr_tenant_id x = t \<and> sr_idempotency_key x = q \<and> (sr_sent x \<longleftrightarrow> sr_delivery_status x \<noteq> pending)
     \<and> 0 \<le> sr_attempts x \<and> map_of (sc_key_by_reminder_id s) (t, sr_reminder_id x) = Some q"
    if "map_of (AList.update k j' (sc_jobs_by_key s)) (t, q) = Some x" for t q x
  proof (cases "(t, q) = k")
    case True
    with that old assms(3-5) k show ?thesis by (auto simp: map_of_update same_reminder_def)
  next
    case False
    with that have "map_of (sc_jobs_by_key s) (t, q) = Some x"
      by (auto simp: map_of_update split: if_splits)
    from scheduler_inv_job [OF inv this] show ?thesis by simp
  qed
  moreover have "\<exists>x. map_of (AList.update k j' (sc_jobs_by_key s)) (t, q) = Some x \<and> sr_reminder_id x = i"
    if "map_of (sc_key_by_reminder_id s) (t, i) = Some q" for t i q
    using scheduler_inv_index [OF inv that] j assms(3) by (auto simp: map_of_update same_reminder_def)
  ultimately show ?thesis using inv unfolding scheduler_inv_def set_job_def by simp
qed

lemma find_is_job:
  assumes "scheduler_inv s" and "find (is_job p i) (sc_jobs_by_key s) = Some (k, j)"
  shows "map_of (sc_jobs_by_key s) k = Some j" "fst k = pr_tenant_id p" "sr_reminder_id j = i"
proof -
  from find_SomeD [OF assms(2)] have m: "(k, j) \<in> set (sc_jobs_by_key s)" "is_job p i (k, j)" by simp_all
  then show "map_of (sc_jobs_by_key s) k = Some j" using assms(1) by (simp add: scheduler_inv_def)
  from m(2) show "fst k = pr_tenant_id p" "sr_reminder_id j = i" by (simp_all add: is_job_def)
qed

lemma validate_job:
  "ScheduledReminder_validate zi r = Inr j \<Longrightarrow>
     same_reminder r j \<and> (sr_sent j \<longleftrightarrow> sr_delivery_status j \<noteq> pending) \<and> 0 \<le> sr_attempts j
     \<and> j = r\<lparr>sr_timezone := sr_timezone j, sr_sent := sr_sent j\<rparr>
     \<and> zi (sr_timezone r) = Some (sr_timezone j)"
  by (auto simp: ScheduledReminder_validate_def same_reminder_def split: if_splits option.splits)

lemma build_job_Inr:
  "build_job zi uuid p a = Inr j \<Longrightarrow>
     sr_tenant_id j = pr_tenant_id p \<and> sr_idempotency_key j = sa_idempotency_key a
     \<and> sr_delivery_status j = pending \<and> \<not> sr_sent j \<and> sr_attempts j = 0"
  by (auto simp: build_job_def bindR_eq_Inr dest!: validate_job [THEN conjunct1, unfolded same_reminder_def]
      simp: ScheduledReminder_validate_def split: if_splits option.splits)

definition job_added :: "principal \<Rightarrow> string \<Rightarrow> scheduled_reminder \<Rightarrow> scheduler \<Rightarrow> scheduler" where
  "job_added p key j s =
     s\<lparr>sc_jobs_by_key := AList.update (pr_tenant_id p, key) j (sc_jobs_by_key s),
       sc_key_by_reminder_id := AList.update (pr_tenant_id p, sr_reminder_id j) key (sc_key_by_reminder_id s)\<rparr>"

lemma schedule_effect:
  assumes "schedule_before_event zi uuid p a s = (r, s')"
  shows "s' = s \<or> (\<exists>j. build_job zi uuid p a = Inr j \<and> r = Inr j
     \<and> map_of (sc_jobs_by_key s) (pr_tenant_id p, sa_idempotency_key a) = None
     \<and> map_of (sc_key_by_reminder_id s) (pr_tenant_id p, sr_reminder_id j) \<in> {None, Some (sa_idempotency_key a)}
     \<and> s' = job_added p (sa_idempotency_key a) j s)"
  using assms
  by (auto simp: schedule_before_event_def job_added_def Let_def require_trusted_principal_cases bindR_def
      split: if_splits sum.splits option.splits)

lemma job_added_inv:
  assumes inv: "scheduler_inv s" and new: "map_of (sc_jobs_by_key s) (pr_tenant_id p, key) = None"
    and idx: "map_of (sc_key_by_reminder_id s) (pr_tenant_id p, sr_reminder_id j) \<in> {None, Some key}"
    and j: "sr_tenant_id j = pr_tenant_id p" "sr_idempotency_key j = key"
      "sr_sent j \<longleftrightarrow> sr_delivery_status j \<noteq> pending" "0 \<le> sr_attempts j"
  shows "scheduler_inv (job_added p key j s)"
proof -
  let ?t = "pr_tenant_id p"
  have fresh: "map_of (sc_key_by_reminder_id s) (?t, sr_reminder_id j) = None"
    using scheduler_inv_index [OF inv, of ?t "sr_reminder_id j" key] new idx by auto
  have "sr_tenant_id x = t \<and> sr_idempotency_key x = k \<and> (sr_sent x \<longleftrightarrow> sr_delivery_status x \<noteq> pending)
     \<and> 0 \<le> sr_attempts x \<and> map_of (sc_key_by_reminder_id (job_added p key j s)) (t, sr_reminder_id x) = Some k"
    if look: "map_of (sc_jobs_by_key (job_added p key j s)) (t, k) = Some x" for t k x
  proof (cases "(t, k) = (?t, key)")
    case True
    with look j show ?thesis by (simp add: job_added_def map_of_update)
  next
    case False
    with look have "map_of (sc_jobs_by_key s) (t, k) = Some x"
      by (auto simp: job_added_def map_of_update split: if_splits)
    from scheduler_inv_job [OF inv this] fresh show ?thesis by (auto simp: job_added_def map_of_update)
  qed
  moreover have "\<exists>x. map_of (sc_jobs_by_key (job_added p key j s)) (t, k) = Some x \<and> sr_reminder_id x = i"
    if look: "map_of (sc_key_by_reminder_id (job_added p key j s)) (t, i) = Some k" for t i k
  proof (cases "(t, i) = (?t, sr_reminder_id j)")
    case True
    with look show ?thesis by (auto simp: job_added_def map_of_update)
  next
    case False
    with look have "map_of (sc_key_by_reminder_id s) (t, i) = Some k"
      by (auto simp: job_added_def map_of_update split: if_splits)
    with scheduler_inv_index [OF inv this] new show ?thesis by (auto simp: job_added_def map_of_update)
  qed
  ultimately show ?thesis using inv unfolding scheduler_inv_def by (simp add: job_added_def)
qed

text \<open>A rewritten job of the caller's tenant.\<close>

definition job_rewritten :: "principal \<Rightarrow> scheduler \<Rightarrow> scheduler \<Rightarrow> bool" where
  "job_rewritten p s s' \<longleftrightarrow> (\<exists>k j j'. map_of (sc_jobs_by_key s) k = Some j \<and> fst k = pr_tenant_id p
     \<and> same_reminder j j' \<and> (sr_sent j' \<longleftrightarrow> sr_delivery_status j' \<noteq> pending) \<and> 0 \<le> sr_attempts j'
     \<and> s' = set_job k j' s)"

lemma mirrored_sel [simp]: "same_reminder j (mirrored m j)"
  by (simp add: mirrored_def same_reminder_def)

lemma same_reminder_trans: "same_reminder a b \<Longrightarrow> same_reminder b c \<Longrightarrow> same_reminder a c"
  by (simp add: same_reminder_def)

lemma mirror_effect:
  assumes inv: "scheduler_inv s" and r: "mirror_delivery zi p i m s = (r, s')"
  shows "s' = s \<or> job_rewritten p s s'"
proof (cases "s' = s")
  case False
  with r obtain k j u where f: "find (is_job p i) (sc_jobs_by_key s) = Some (k, j)"
    and v: "ScheduledReminder_validate zi (mirrored m j) = Inr u" and s': "s' = set_job k u s"
    by (auto simp: mirror_delivery_def split: if_splits sum.splits option.splits)
  note fk = find_is_job [OF inv f]
  from validate_job [OF v] have "same_reminder j u" using same_reminder_trans mirrored_sel by blast
  with fk validate_job [OF v] s' show ?thesis unfolding job_rewritten_def by blast
qed simp

lemma sent_effect:
  assumes inv: "scheduler_inv s" and r: "mark_sent clock p i s = (r, s')"
  shows "s' = s \<or> job_rewritten p s s'"
proof (cases "s' = s")
  case False
  with r obtain k j where f: "find (is_job p i) (sc_jobs_by_key s) = Some (k, j)"
    and s': "s' = set_job k (j\<lparr>sr_delivery_status := published, sr_sent := True, sr_published_at := Some clock\<rparr>) s"
    by (auto simp: mark_sent_def Let_def split: if_splits sum.splits option.splits)
  note fk = find_is_job [OF inv f]
  obtain t q where k: "k = (t, q)" by force
  have "0 \<le> sr_attempts j" using scheduler_inv_job [OF inv fk(1) [unfolded k]] by simp
  with fk s' show ?thesis unfolding job_rewritten_def
    by (intro disjI2 exI [of _ k] exI [of _ j] exI conjI) (auto simp: same_reminder_def)
qed simp

lemma scheduler_step_effect:
  assumes "scheduler_step zi p s s'" and "scheduler_inv s"
  shows "s' = s \<or> job_rewritten p s s' \<or>
     (\<exists>key j. map_of (sc_jobs_by_key s) (pr_tenant_id p, key) = None \<and> s' = job_added p key j s
        \<and> scheduler_inv s')"
  using assms(1)
proof (elim scheduler_stepE)
  fix uuid a r assume "schedule_before_event zi uuid p a s = (r, s')"
  from schedule_effect [OF this] show ?thesis
  proof
    assume "\<exists>j. build_job zi uuid p a = Inr j \<and> r = Inr j
     \<and> map_of (sc_jobs_by_key s) (pr_tenant_id p, sa_idempotency_key a) = None
     \<and> map_of (sc_key_by_reminder_id s) (pr_tenant_id p, sr_reminder_id j) \<in> {None, Some (sa_idempotency_key a)}
     \<and> s' = job_added p (sa_idempotency_key a) j s"
    then obtain j where j: "build_job zi uuid p a = Inr j"
      "map_of (sc_jobs_by_key s) (pr_tenant_id p, sa_idempotency_key a) = None"
      "map_of (sc_key_by_reminder_id s) (pr_tenant_id p, sr_reminder_id j) \<in> {None, Some (sa_idempotency_key a)}"
      "s' = job_added p (sa_idempotency_key a) j s" by blast
    from build_job_Inr [OF j(1)] job_added_inv [OF assms(2) j(2,3)] j show ?thesis by auto
  qed simp
qed (use mirror_effect [OF assms(2)] sent_effect [OF assms(2)] in blast)+

lemma job_rewritten_facts:
  assumes "scheduler_inv s" and "job_rewritten p s s'"
  shows "scheduler_inv s'" and "t \<noteq> pr_tenant_id p \<Longrightarrow> tenant_part t (sc_jobs_by_key s') = tenant_part t (sc_jobs_by_key s)"
proof -
  from assms(2) obtain k j j' where k: "map_of (sc_jobs_by_key s) k = Some j" "fst k = pr_tenant_id p"
    "same_reminder j j'" "sr_sent j' \<longleftrightarrow> sr_delivery_status j' \<noteq> pending" "0 \<le> sr_attempts j'" "s' = set_job k j' s"
    unfolding job_rewritten_def by blast
  then show "scheduler_inv s'" using set_job_inv [OF assms(1)] by blast
  show "t \<noteq> pr_tenant_id p \<Longrightarrow> tenant_part t (sc_jobs_by_key s') = tenant_part t (sc_jobs_by_key s)"
    using k by (cases k) (auto simp: set_job_def)
qed

interpretation sch: tenant_machine "scheduler_step zi" scheduler_inv ReminderScheduler_init
    pr_tenant_id "\<lambda>t s. tenant_part t (sc_jobs_by_key s)" for zi
proof unfold_locales
  show "scheduler_inv ReminderScheduler_init"
    by (simp add: scheduler_inv_def ReminderScheduler_init_def)
  show "scheduler_inv s'" if "scheduler_step zi p s s'" "scheduler_inv s" for p s s'
    using scheduler_step_effect [OF that] that(2) job_rewritten_facts(1) by blast
  show "tenant_part t (sc_jobs_by_key s') = tenant_part t (sc_jobs_by_key s)"
    if "scheduler_step zi p s s'" "scheduler_inv s" "t \<noteq> pr_tenant_id p" for p s s' t
    using scheduler_step_effect [OF that(1,2)] that(3) job_rewritten_facts(2) [OF that(2)]
    by (auto simp: job_added_def)
qed

interpretation sch_txn: participant snapshot_scheduler restore_scheduler
  by unfold_locales (simp add: snapshot_scheduler_def restore_scheduler_def)

section \<open>Idempotent scheduling\<close>

lemma same_job_refl [simp]: "same_job j j"
  by (simp add: same_job_def)

lemma same_job_eq: "same_job a b \<Longrightarrow> same_job a c \<longleftrightarrow> same_job b c"
  by (auto simp: same_job_def)

lemma schedule_Inr:
  assumes "schedule_before_event zi uuid p a s = (Inr r, s')"
  obtains j where "is_trusted p" "build_job zi uuid p a = Inr j" "same_job r j"
    "map_of (sc_jobs_by_key s') (pr_tenant_id p, sa_idempotency_key a) = Some r"
  using assms
  by (auto simp: schedule_before_event_def Let_def require_trusted_principal_cases bindR_def map_of_update
      split: if_splits sum.splits option.splits)

lemma schedule_existing:
  assumes "is_trusted q" and "build_job zi uuid q a = Inr j"
    and "map_of (sc_jobs_by_key s) (pr_tenant_id q, sa_idempotency_key a) = Some r"
  shows "schedule_before_event zi uuid q a s = (if same_job r j then Inr r
     else Inl (scheduler_error CONFLICT ''reminder scheduler idempotency conflict'' q), s)"
  using assms by (simp add: schedule_before_event_def require_trusted_principal_cases)

text \<open>A retry of a scheduling call under the same tenant and key that builds a valid job.\<close>

definition schedule_retry ::
    "(string \<Rightarrow> string option) \<Rightarrow> bool \<Rightarrow> string \<times> principal \<times> schedule_args \<Rightarrow> string \<times> principal \<times> schedule_args \<Rightarrow> bool" where
  "schedule_retry zi eq w w' \<longleftrightarrow> (case w of (u, p, a) \<Rightarrow> case w' of (u', q, b) \<Rightarrow>
     is_trusted q \<and> pr_tenant_id q = pr_tenant_id p \<and> sa_idempotency_key b = sa_idempotency_key a
     \<and> (\<exists>j j'. build_job zi u p a = Inr j \<and> build_job zi u' q b = Inr j' \<and> same_job j j' = eq))"

interpretation sch_put: keyed_store "\<lambda>(u, p, a). schedule_before_event zi u p a"
    "schedule_retry zi True" "schedule_retry zi False"
    "\<lambda>(u, q, b). scheduler_error CONFLICT ''reminder scheduler idempotency conflict'' q" id for zi
proof unfold_locales
  fix w w' :: "string \<times> principal \<times> schedule_args" and s s' :: scheduler and r :: scheduled_reminder
  obtain u p a u' q b where w: "w = (u, p, a)" "w' = (u', q, b)" by (metis prod_cases3)
  assume put: "(case w of (u, p, a) \<Rightarrow> schedule_before_event zi u p a) s = (Inr r, s')"
  then have put': "schedule_before_event zi u p a s = (Inr r, s')" by (simp add: w)
  from schedule_Inr [OF put'] obtain j where j: "build_job zi u p a = Inr j" "same_job r j"
    and st: "map_of (sc_jobs_by_key s') (pr_tenant_id p, sa_idempotency_key a) = Some r" by blast
  have ex: "(case w' of (u, p, a) \<Rightarrow> schedule_before_event zi u p a) s' =
      (if eq then Inr r else Inl (scheduler_error CONFLICT ''reminder scheduler idempotency conflict'' q), s')"
    if "schedule_retry zi eq w w'" for eq
    using that st schedule_existing [of q zi u' b] j same_job_eq [OF j(2)] by (auto simp: schedule_retry_def w)
  show "\<exists>r'. (case w' of (u, p, a) \<Rightarrow> schedule_before_event zi u p a) s' = (Inr r', s') \<and> id r' = id r"
    if "schedule_retry zi True w w'" using ex [OF that] by simp
  show "(case w' of (u, p, a) \<Rightarrow> schedule_before_event zi u p a) s' =
      (Inl (case w' of (u, q, b) \<Rightarrow> scheduler_error CONFLICT ''reminder scheduler idempotency conflict'' q), s')"
    if "schedule_retry zi False w w'" using ex [OF that] by (simp add: w)
qed

section \<open>Properties\<close>

lemma find_job:
  assumes inv: "scheduler_inv s" and look: "map_of (sc_jobs_by_key s) (pr_tenant_id p, k) = Some j"
  shows "find (is_job p (sr_reminder_id j)) (sc_jobs_by_key s) = Some ((pr_tenant_id p, k), j)"
proof (cases "find (is_job p (sr_reminder_id j)) (sc_jobs_by_key s)")
  case None
  from find_NoneD [OF None map_of_SomeD [OF look]] show ?thesis by (simp add: is_job_def)
next
  case (Some e)
  obtain t' k' j' where e: "e = ((t', k'), j')" by (metis surj_pair)
  note f = find_is_job [OF inv Some [unfolded e]]
  from f(1,2) have l': "map_of (sc_jobs_by_key s) (pr_tenant_id p, k') = Some j'" by simp
  have "Some k' = Some k"
    using scheduler_inv_job [OF inv l'] scheduler_inv_job [OF inv look] f(3) by simp
  with f l' look e Some show ?thesis by simp
qed

lemma mirror_delivery_Inr:
  assumes "scheduler_inv s" and "is_trusted p"
    and "map_of (sc_jobs_by_key s) (pr_tenant_id p, k) = Some j"
    and "ob_tenant_id m = pr_tenant_id p" and "ev_subject (ob_event m) = Some (sr_reminder_id j)"
    and "ScheduledReminder_validate zi (mirrored m j) = Inr u"
  shows "mirror_delivery zi p (sr_reminder_id j) m s = (Inr u, set_job (pr_tenant_id p, k) u s)"
  using assms find_job [OF assms(1,3)] by (simp add: mirror_delivery_def require_trusted_principal_cases)

text \<open>The scheduler mirrors the outbox exactly.
  For a stored job whose zone is known, mirroring a message of the tenant about the job
  copies the delivery status, attempts, times and error of the message into the job, sets
  the legacy flag \<open>sent\<close> exactly when the status is not pending, keeps everything else
  of the job and every other job; the job is then due at a time exactly when the message is
  pending and both its notice time and the message's next attempt have come.\<close>

theorem mirror_delivery_exact:
  assumes "scheduler_inv s" and "is_trusted p"
    and "map_of (sc_jobs_by_key s) (pr_tenant_id p, k) = Some j"
    and "ob_tenant_id m = pr_tenant_id p" and "ev_subject (ob_event m) = Some (sr_reminder_id j)"
    and "0 \<le> ob_attempts m" and "sr_timezone j \<noteq> []" and "zi (sr_timezone j) = Some (sr_timezone j)"
    and "sr_source_event_id j \<noteq> []" and "is_hex64 (sr_payload_fingerprint j)"
  shows "\<exists>u s'. mirror_delivery zi p (sr_reminder_id j) m s = (Inr u, s')
     \<and> u = j\<lparr>sr_delivery_status := ob_dispatch_status m, sr_attempts := ob_attempts m,
             sr_next_attempt_at := ob_next_attempt_at m, sr_sending_at := ob_sending_at m,
             sr_published_at := ob_published_at m, sr_last_error := ob_last_error m,
             sr_sent := (ob_dispatch_status m \<noteq> pending)\<rparr>
     \<and> (\<forall>k'. map_of (sc_jobs_by_key s') k' =
           (if k' = (pr_tenant_id p, k) then Some u else map_of (sc_jobs_by_key s) k'))
     \<and> (\<forall>now. is_due p now u \<longleftrightarrow> ob_dispatch_status m = pending \<and> sr_notify_at j \<le> now
           \<and> (case ob_next_attempt_at m of None \<Rightarrow> True | Some t \<Rightarrow> t \<le> now))"
proof -
  have v: "ScheduledReminder_validate zi (mirrored m j) = Inr (mirrored m j)"
    using assms(6-10) by (simp add: ScheduledReminder_validate_def mirrored_def)
  have t: "sr_tenant_id j = pr_tenant_id p" using scheduler_inv_job [OF assms(1,3)] by simp
  note r = mirror_delivery_Inr [OF assms(1-5) v]
  show ?thesis
    by (intro exI conjI, rule r)
      (simp_all add: mirrored_def set_job_def map_of_update is_due_def t)
qed

text \<open>scheduling is idempotent.
  After a successful call, a retry under the same tenant and key that builds a job equal in
  calendar event, notice time, zone, source event, payload, channel, recipient and body
  returns the stored job (with the reminder id and delivery state it has), any other valid
  one raises CONFLICT, and neither changes the scheduler.\<close>

theorem schedule_idempotent:
  assumes "schedule_before_event zi u p a s = (Inr r, s')" and "is_trusted q"
    and "pr_tenant_id q = pr_tenant_id p" and "sa_idempotency_key b = sa_idempotency_key a"
    and "build_job zi u p a = Inr j" and "build_job zi u' q b = Inr j'"
  shows "schedule_before_event zi u' q b s' =
     (if same_job j j' then Inr r
      else Inl (AssistantError CONFLICT ''reminder scheduler idempotency conflict'' (Some (pr_tenant_id q)) []), s')"
proof -
  have "schedule_retry zi (same_job j j') (u, p, a) (u', q, b)"
    using assms by (simp add: schedule_retry_def)
  then show ?thesis
    using sch_put.put_same [of zi "(u, p, a)" s r s' "(u', q, b)"]
      sch_put.put_clash [of zi "(u, p, a)" s r s' "(u', q, b)"] assms(1)
    by (cases "same_job j j'") simp_all
qed

section \<open>Concrete instances\<close>

definition demo_args :: "string \<Rightarrow> schedule_args" where
  "demo_args body = \<lparr>sa_calendar_event_id = ''cal_1'', sa_starts_at = Aware (minutes 60), sa_channel = ''telegram'',
     sa_recipient = ''r'', sa_body = body, sa_timezone = ''UTC'', sa_source_event_id = ''e'',
     sa_payload_fingerprint = replicate 64 (CHR ''a''), sa_minutes_before = 30,
     sa_idempotency_key = ''k1'', sa_reminder_id = Some ''rem_1''\<rparr>"

definition demo_job :: "string \<Rightarrow> scheduled_reminder" where
  "demo_job body = \<lparr>sr_reminder_id = ''rem_1'', sr_tenant_id = ''t1'', sr_calendar_event_id = ''cal_1'',
     sr_notify_at = minutes 30, sr_timezone = ''UTC'', sr_source_event_id = ''e'',
     sr_payload_fingerprint = replicate 64 (CHR ''a''), sr_channel = ''telegram'', sr_recipient = ''r'',
     sr_body = body, sr_idempotency_key = ''k1'', sr_delivery_status = pending, sr_attempts = 0,
     sr_next_attempt_at = None, sr_sending_at = None, sr_published_at = None, sr_last_error = None,
     sr_sent = False\<rparr>"

definition demo_scheduler :: scheduler where
  "demo_scheduler = \<lparr>sc_jobs_by_key = [((''t1'', ''k1''), demo_job ''hi'')],
     sc_key_by_reminder_id = [((''t1'', ''rem_1''), ''k1'')]\<rparr>"

lemma demo_hex64: "is_hex64 (replicate 64 (CHR ''a''))"
  by (simp add: is_hex64_def list_all_iff)

lemma demo_build: "build_job Some u demo_principal (demo_args body) = Inr (demo_job body)"
  using demo_hex64
  by (simp add: build_job_def demo_args_def demo_job_def canonical_utc_def in_datetime_range_def
      datetime_min_def datetime_max_def minutes_def seconds_def dt_add_def ScheduledReminder_validate_def)

lemma demo_schedule:
  "schedule_before_event Some ''0a'' demo_principal (demo_args ''hi'') ReminderScheduler_init
     = (Inr (demo_job ''hi''), demo_scheduler)"
  by (simp add: schedule_before_event_def require_trusted_principal_cases demo_build ReminderScheduler_init_def
      demo_scheduler_def) (simp add: demo_args_def demo_job_def)

theorem schedule_idempotent_witness:
  "schedule_before_event Some ''0b'' demo_principal (demo_args ''other'') demo_scheduler =
     (Inl (AssistantError CONFLICT ''reminder scheduler idempotency conflict'' (Some ''t1'') []), demo_scheduler)"
proof -
  have k: "sa_idempotency_key (demo_args ''other'') = sa_idempotency_key (demo_args ''hi'')"
    by (simp add: demo_args_def)
  have n: "\<not> same_job (demo_job ''hi'') (demo_job ''other'')" by (simp add: same_job_def demo_job_def)
  from schedule_idempotent [OF demo_schedule _ _ k demo_build demo_build] n show ?thesis by simp
qed

definition demo_note :: outbox_message where
  "demo_note = \<lparr>ob_id = ''m1'', ob_tenant_id = ''t1'',
     ob_event = \<lparr>ev_id = ''e1'', ev_specversion = ''1.0'', ev_type = ''x'', ev_source = ''app'',
       ev_subject = Some ''rem_1'', ev_tenant_id = ''t1'', ev_correlation_id = ''c'', ev_causation_id = None,
       ev_source_event_id = None, ev_payload_fingerprint = None, ev_timezone = None, ev_data = [], ev_time = 0\<rparr>,
     ob_idempotency_key = ''k'', ob_dispatch_status = published, ob_claim_token = None, ob_claim_owner = None,
     ob_claimed_until = None, ob_next_attempt_at = None, ob_attempts = 1, ob_created_at = 0,
     ob_sending_at = Some 5, ob_published_at = Some 6, ob_last_error = None\<rparr>"

lemma demo_scheduler_inv: "scheduler_inv demo_scheduler"
proof -
  have "scheduler_step Some demo_principal ReminderScheduler_init demo_scheduler"
    by (rule scheduler_step.schedule [OF demo_schedule])
  then show ?thesis by (rule sch.step_inv [OF _ sch.init_inv])
qed

theorem mirror_delivery_exact_witness:
  "\<exists>u s'. mirror_delivery Some demo_principal ''rem_1'' demo_note demo_scheduler = (Inr u, s')
     \<and> sr_delivery_status u = published \<and> \<not> is_due demo_principal (minutes 99) u"
proof -
  have look: "map_of (sc_jobs_by_key demo_scheduler) (pr_tenant_id demo_principal, ''k1'') = Some (demo_job ''hi'')"
    by (simp add: demo_scheduler_def)
  have n: "ob_tenant_id demo_note = pr_tenant_id demo_principal"
    "ev_subject (ob_event demo_note) = Some (sr_reminder_id (demo_job ''hi''))" "0 \<le> ob_attempts demo_note"
    "ob_dispatch_status demo_note = published"
    by (simp_all add: demo_note_def demo_job_def)
  have j: "sr_timezone (demo_job ''hi'') \<noteq> []" "Some (sr_timezone (demo_job ''hi'')) = Some (sr_timezone (demo_job ''hi''))"
    "sr_source_event_id (demo_job ''hi'') \<noteq> []" "is_hex64 (sr_payload_fingerprint (demo_job ''hi''))"
    "sr_reminder_id (demo_job ''hi'') = ''rem_1''"
    using demo_hex64 by (simp_all add: demo_job_def)
  from mirror_delivery_exact [where zi = Some, OF demo_scheduler_inv _ look n(1-3) j(1,2,3,4)] n(4) j(5) show ?thesis
    by auto
qed

end
