(* ===== verification/Event_Store.thy ===== *)
theory Event_Store
  imports Access_Control Delivery Contracts
begin

text \<open>
  The append-only event store of \<^verbatim>\<open>adapters/persistence/in_memory.py\<close> (class
  \<open>InMemoryEventStore\<close>). \<open>fp\<close> is the fingerprint of an event: pydantic's JSON dump,
  \<open>json.dumps\<close> and SHA-256.
\<close>

section \<open>Definitions\<close>

record event_store =
  es_events_by_key :: "(string \<times> string, cloud_event) dict"
  es_fingerprints :: "(string \<times> string, string) dict"

record event_store_snapshot =
  ess_events_by_key :: "(string \<times> string, cloud_event) dict"
  ess_fingerprints :: "(string \<times> string, string) dict"

definition InMemoryEventStore_init :: event_store where
  "InMemoryEventStore_init = \<lparr>es_events_by_key = [], es_fingerprints = []\<rparr>"

definition snapshot_events :: "event_store \<Rightarrow> event_store_snapshot" where
  "snapshot_events s = \<lparr>ess_events_by_key = es_events_by_key s, ess_fingerprints = es_fingerprints s\<rparr>"

definition restore_events :: "event_store_snapshot \<Rightarrow> event_store \<Rightarrow> event_store" where
  "restore_events n s = s\<lparr>es_events_by_key := ess_events_by_key n, es_fingerprints := ess_fingerprints n\<rparr>"

definition event_append ::
    "(cloud_event \<Rightarrow> string) \<Rightarrow> principal \<Rightarrow> cloud_event \<Rightarrow> (event_store, cloud_event) op" where
  "event_append fp p event s =
     (case require_trusted_principal p of Inl e \<Rightarrow> (Inl e, s) | Inr _ \<Rightarrow>
      if ev_tenant_id event \<noteq> pr_tenant_id p
      then (Inl (AssistantError PERMISSION_DENIED ''event tenant mismatch'' (Some (pr_tenant_id p)) []), s)
      else
       (let key = (pr_tenant_id p, ev_id event); event_fp = fp event in
        case map_of (es_events_by_key s) key of
          Some existing \<Rightarrow>
            (case map_of (es_fingerprints s) key of
               None \<Rightarrow> (Inl KeyError, s)
             | Some f \<Rightarrow>
                 if f \<noteq> event_fp
                 then (Inl (AssistantError CONFLICT ''event idempotency conflict'' (Some (pr_tenant_id p)) []), s)
                 else (Inr existing, s))
        | None \<Rightarrow>
            (Inr event, s\<lparr>es_events_by_key := AList.update key event (es_events_by_key s),
                          es_fingerprints := AList.update key event_fp (es_fingerprints s)\<rparr>)))"

definition events_list_for_tenant :: "principal \<Rightarrow> (event_store, cloud_event list) op" where
  "events_list_for_tenant p s =
     (case require_trusted_principal p of Inl e \<Rightarrow> (Inl e, s)
      | Inr _ \<Rightarrow> (Inr (map snd (filter (\<lambda>(k, _). fst k = pr_tenant_id p) (es_events_by_key s))), s))"

inductive event_step :: "(cloud_event \<Rightarrow> string) \<Rightarrow> principal \<Rightarrow> event_store \<Rightarrow> event_store \<Rightarrow> bool"
  for fp p where
  append: "event_append fp p event s = (r, s') \<Longrightarrow> event_step fp p s s'"

inductive_cases event_stepE: "event_step fp p s s'"

definition event_store_inv :: "(cloud_event \<Rightarrow> string) \<Rightarrow> event_store \<Rightarrow> bool" where
  "event_store_inv fp s \<longleftrightarrow> distinct (map fst (es_events_by_key s))
     \<and> (\<forall>t i e. map_of (es_events_by_key s) (t, i) = Some e \<longrightarrow>
          ev_tenant_id e = t \<and> ev_id e = i \<and> map_of (es_fingerprints s) (t, i) = Some (fp e))"

section \<open>Behaviour\<close>

lemma event_append_cases:
  assumes "event_append fp p ev s = (r, s')"
  shows "s' = s \<or> (is_trusted p \<and> ev_tenant_id ev = pr_tenant_id p \<and> r = Inr ev
     \<and> map_of (es_events_by_key s) (pr_tenant_id p, ev_id ev) = None
     \<and> s' = s\<lparr>es_events_by_key := es_events_by_key s @ [((pr_tenant_id p, ev_id ev), ev)],
              es_fingerprints := AList.update (pr_tenant_id p, ev_id ev) (fp ev) (es_fingerprints s)\<rparr>)"
  using assms
  by (auto simp: event_append_def Let_def require_trusted_principal_cases update_append_new
      split: if_splits option.splits)

lemma event_append_inv:
  assumes "event_store_inv fp s" and "event_append fp p ev s = (r, s')"
  shows "event_store_inv fp s'"
  using event_append_cases [OF assms(2)]
proof
  assume new: "is_trusted p \<and> ev_tenant_id ev = pr_tenant_id p \<and> r = Inr ev
     \<and> map_of (es_events_by_key s) (pr_tenant_id p, ev_id ev) = None
     \<and> s' = s\<lparr>es_events_by_key := es_events_by_key s @ [((pr_tenant_id p, ev_id ev), ev)],
              es_fingerprints := AList.update (pr_tenant_id p, ev_id ev) (fp ev) (es_fingerprints s)\<rparr>"
  then have "(pr_tenant_id p, ev_id ev) \<notin> set (map fst (es_events_by_key s))"
    by (simp add: map_of_eq_None_iff)
  with new assms(1) show ?thesis
    by (auto simp: event_store_inv_def map_of_update map_add_def split: option.splits)
qed (use assms(1) in simp)

text \<open>What a call may do: append one event of the caller's tenant, or nothing.\<close>

lemma event_step_effect:
  "event_step fp p s s' \<Longrightarrow> s' = s \<or>
     (\<exists>ev. ev_tenant_id ev = pr_tenant_id p
       \<and> map_of (es_events_by_key s) (pr_tenant_id p, ev_id ev) = None
       \<and> es_events_by_key s' = es_events_by_key s @ [((pr_tenant_id p, ev_id ev), ev)])"
  by (elim event_stepE) (auto dest: event_append_cases)

interpretation es: tenant_machine "event_step fp" "event_store_inv fp" InMemoryEventStore_init
    pr_tenant_id "\<lambda>t s. tenant_part t (es_events_by_key s)" for fp
proof unfold_locales
  show "event_store_inv fp InMemoryEventStore_init"
    by (simp add: event_store_inv_def InMemoryEventStore_init_def)
  show "event_store_inv fp s'" if "event_step fp p s s'" "event_store_inv fp s" for p s s'
    using that by (elim event_stepE) (rule event_append_inv)
  show "tenant_part t (es_events_by_key s') = tenant_part t (es_events_by_key s)"
    if "event_step fp p s s'" "event_store_inv fp s" "t \<noteq> pr_tenant_id p" for p s s' t
    using event_step_effect [OF that(1)] that(3) by (auto simp: tenant_part_def)
qed

interpretation es_txn: participant snapshot_events restore_events
  by unfold_locales (simp add: snapshot_events_def restore_events_def)

lemma event_append_Inr:
  assumes "event_append fp p ev s = (Inr e, s')"
  shows "map_of (es_events_by_key s') (pr_tenant_id p, ev_id ev) = Some e
     \<and> map_of (es_fingerprints s') (pr_tenant_id p, ev_id ev) = Some (fp ev)"
  using assms
  by (auto simp: event_append_def Let_def require_trusted_principal_cases map_of_update
      split: if_splits option.splits)

lemma event_append_existing:
  assumes "is_trusted q" and "ev_tenant_id ev' = pr_tenant_id q"
    and "map_of (es_events_by_key s) (pr_tenant_id q, ev_id ev') = Some e"
    and "map_of (es_fingerprints s) (pr_tenant_id q, ev_id ev') = Some f"
  shows "event_append fp q ev' s = (if f = fp ev' then Inr e
     else Inl (AssistantError CONFLICT ''event idempotency conflict'' (Some (pr_tenant_id q)) []), s)"
  using assms by (auto simp: event_append_def Let_def require_trusted_principal_cases)

interpretation es_append: keyed_store "\<lambda>(p, ev). event_append fp p ev"
    "\<lambda>(p, ev) (q, ev'). is_trusted q \<and> pr_tenant_id q = pr_tenant_id p
       \<and> ev_tenant_id ev' = pr_tenant_id p \<and> ev_id ev' = ev_id ev \<and> fp ev' = fp ev"
    "\<lambda>(p, ev) (q, ev'). is_trusted q \<and> pr_tenant_id q = pr_tenant_id p
       \<and> ev_tenant_id ev' = pr_tenant_id p \<and> ev_id ev' = ev_id ev \<and> fp ev' \<noteq> fp ev"
    "\<lambda>(p, ev). AssistantError CONFLICT ''event idempotency conflict'' (Some (pr_tenant_id p)) []" id for fp
  by unfold_locales (auto dest!: event_append_Inr simp: event_append_existing)

text \<open>Events are never lost or altered.
  Over any sequence of calls of any principals the stored events
  of the start are a prefix of those of the end: the store only grows at its end, so a
  recorded event keeps its content and its place.\<close>

theorem event_store_append_only:
  assumes "(\<lambda>s s'. \<exists>p \<in> P. event_step fp p s s')\<^sup>*\<^sup>* s s'"
  shows "\<exists>new. es_events_by_key s' = es_events_by_key s @ new"
  using assms
proof (induction rule: rtranclp_induct)
  case (step y z)
  then obtain p new where "event_step fp p y z" "es_events_by_key y = es_events_by_key s @ new" by blast
  with event_step_effect show ?case by fastforce
qed simp

text \<open>appending is idempotent and reading returns what was written.
  After a successful append, the event is stored under its tenant and id; a repeated append
  with an equal fingerprint returns the stored event, one with a different fingerprint
  raises CONFLICT, and neither changes the store.\<close>

theorem event_append_idempotent:
  assumes "event_append fp p ev s = (Inr e, s')" and "is_trusted q"
    and "pr_tenant_id q = pr_tenant_id p" and "ev_tenant_id ev' = pr_tenant_id p" and "ev_id ev' = ev_id ev"
  shows "event_append fp q ev' s' =
     (if fp ev' = fp ev then Inr e
      else Inl (AssistantError CONFLICT ''event idempotency conflict'' (Some (pr_tenant_id p)) []), s')"
  using es_append.put_same [of fp "(p, ev)" s e s' "(q, ev')"]
    es_append.put_clash [of fp "(p, ev)" s e s' "(q, ev')"] assms by simp


definition sample_event :: "string \<Rightarrow> string \<Rightarrow> cloud_event" where
  "sample_event i src = \<lparr>ev_id = i, ev_specversion = ''1.0'', ev_type = ''x'', ev_source = src,
     ev_subject = None, ev_tenant_id = ''t1'', ev_correlation_id = ''c'', ev_causation_id = None,
     ev_source_event_id = None, ev_payload_fingerprint = None, ev_timezone = None, ev_data = [],
     ev_time = 0\<rparr>"

definition sample_events :: event_store where
  "sample_events = \<lparr>es_events_by_key = [((''t1'', ''e1''), sample_event ''e1'' ''a'')],
     es_fingerprints = [((''t1'', ''e1''), ''a'')]\<rparr>"

lemma sample_append:
  "event_append ev_source demo_principal (sample_event ''e1'' ''a'') InMemoryEventStore_init
     = (Inr (sample_event ''e1'' ''a''), sample_events)"
  by (simp add: event_append_def require_trusted_principal_def is_trusted_def demo_principal_def
      sample_event_def InMemoryEventStore_init_def sample_events_def Let_def)

theorem event_store_append_only_witness:
  "\<exists>new. es_events_by_key sample_events = es_events_by_key InMemoryEventStore_init @ new"
proof (rule event_store_append_only [of UNIV ev_source])
  have "event_step ev_source demo_principal InMemoryEventStore_init sample_events"
    by (rule event_step.append [OF sample_append])
  then show "(\<lambda>s s'. \<exists>p \<in> UNIV. event_step ev_source p s s')\<^sup>*\<^sup>* InMemoryEventStore_init sample_events"
    by blast
qed

theorem event_append_idempotent_witness:
  "event_append ev_source demo_principal (sample_event ''e1'' ''b'') sample_events =
     (Inl (AssistantError CONFLICT ''event idempotency conflict'' (Some ''t1'') []), sample_events)"
  using event_append_idempotent [OF sample_append, of demo_principal "sample_event ''e1'' ''b''"]
  by (simp add: is_trusted_def demo_principal_def sample_event_def)

end
