(* ===== verification/Outbox.thy ===== *)
theory Outbox
  imports Access_Control Delivery
    "HOL-Library.Char_ord" "HOL-Library.List_Lexorder" "HOL-Library.Product_Lexorder"
begin

text \<open>
  The outbox of \<^verbatim>\<open>adapters/persistence/in_memory.py\<close> (class \<open>InMemoryOutbox\<close>): a
  store of messages keyed by tenant and idempotency key, with indexes by message id and
  event id, and the delivery state machine over it. Each method is one operation on the
  record \<open>outbox\<close>; the store's lock makes a call atomic, so an interleaving of callers
  is a sequence of calls (\<open>outbox_step\<close>, \<open>reachable\<close>).

  Arguments that stand for code outside the repository: \<open>fp\<close> is the composition of
  pydantic's JSON dump, \<open>json.dumps\<close> and SHA-256 in \<open>_fingerprint\<close>; \<open>uuid\<close> the
  hexadecimal digits drawn by \<open>uuid4\<close>; \<open>now\<close> or \<open>clock\<close> the time read.
  The \<open>isinstance\<close> guards on integers and strings hold by typing.
\<close>

section \<open>State\<close>

type_synonym tkey = "string \<times> string"
type_synonym write_fp = "cloud_event \<Rightarrow> instant option \<Rightarrow> string option \<Rightarrow> string"

definition fingerprint :: "(string \<Rightarrow> string) \<Rightarrow> ('a \<Rightarrow> string) \<Rightarrow> 'a \<Rightarrow> string" where
  "fingerprint sha256 dumps v = sha256 (dumps v)"

record outbox =
  messages_by_key :: "(tkey, outbox_message) dict"
  key_by_message_id :: "(tkey, string) dict"
  key_by_event_id :: "(tkey, string) dict"
  ob_fingerprints :: "(tkey, string) dict"

definition InMemoryOutbox_init :: outbox where
  "InMemoryOutbox_init = \<lparr>messages_by_key = [], key_by_message_id = [], key_by_event_id = [],
                          ob_fingerprints = []\<rparr>"

record outbox_snapshot =
  obs_messages_by_key :: "(tkey, outbox_message) dict"
  obs_key_by_message_id :: "(tkey, string) dict"
  obs_key_by_event_id :: "(tkey, string) dict"
  obs_fingerprints :: "(tkey, string) dict"

definition snapshot_outbox :: "outbox \<Rightarrow> outbox_snapshot" where
  "snapshot_outbox s = \<lparr>obs_messages_by_key = messages_by_key s, obs_key_by_message_id = key_by_message_id s,
     obs_key_by_event_id = key_by_event_id s, obs_fingerprints = ob_fingerprints s\<rparr>"

definition restore_outbox :: "outbox_snapshot \<Rightarrow> outbox \<Rightarrow> outbox" where
  "restore_outbox n s = s\<lparr>messages_by_key := obs_messages_by_key n, key_by_message_id := obs_key_by_message_id n,
     key_by_event_id := obs_key_by_event_id n, ob_fingerprints := obs_fingerprints n\<rparr>"

abbreviation tenant_error :: "error_code \<Rightarrow> string \<Rightarrow> principal \<Rightarrow> py_error" where
  "tenant_error code msg p \<equiv> AssistantError code msg (Some (pr_tenant_id p)) []"

definition set_message :: "tkey \<Rightarrow> outbox_message \<Rightarrow> outbox \<Rightarrow> outbox" where
  "set_message k m s = s\<lparr>messages_by_key := AList.update k m (messages_by_key s)\<rparr>"

section \<open>Adding messages\<close>

definition new_message ::
    "string \<Rightarrow> instant \<Rightarrow> principal \<Rightarrow> cloud_event \<Rightarrow> string \<Rightarrow> instant option \<Rightarrow> string option
       \<Rightarrow> outbox_message" where
  "new_message uuid clock p event idempotency_key next_attempt message_id =
     \<lparr>ob_id = (case message_id of Some i \<Rightarrow> i | None \<Rightarrow> ''out_'' @ uuid),
      ob_tenant_id = pr_tenant_id p, ob_event = event, ob_idempotency_key = idempotency_key,
      ob_dispatch_status = pending, ob_claim_token = None, ob_claim_owner = None,
      ob_claimed_until = None, ob_next_attempt_at = next_attempt, ob_attempts = 0,
      ob_created_at = clock, ob_sending_at = None, ob_published_at = None, ob_last_error = None\<rparr>"

definition opt_canonical_utc :: "py_datetime option \<Rightarrow> string \<Rightarrow> instant option result" where
  "opt_canonical_utc v field =
     (case v of None \<Rightarrow> Inr None | Some d \<Rightarrow> bindR (canonical_utc d field) (\<lambda>t. Inr (Some t)))"

definition outbox_add ::
    "write_fp \<Rightarrow> string \<Rightarrow> instant \<Rightarrow> principal \<Rightarrow> cloud_event \<Rightarrow> string \<Rightarrow> py_datetime option
       \<Rightarrow> string option \<Rightarrow> (outbox, outbox_message) op" where
  "outbox_add fp uuid clock p event idempotency_key next_attempt_at message_id s =
     (case require_trusted_principal p of Inl e \<Rightarrow> (Inl e, s) | Inr _ \<Rightarrow>
      if ev_tenant_id event \<noteq> pr_tenant_id p
      then (Inl (tenant_error PERMISSION_DENIED ''outbox tenant mismatch'' p), s)
      else case opt_canonical_utc next_attempt_at ''next_attempt_at'' of
        Inl e \<Rightarrow> (Inl e, s)
      | Inr next \<Rightarrow>
       (let key = (pr_tenant_id p, idempotency_key); wfp = fp event next message_id in
        case map_of (messages_by_key s) key of
          Some existing \<Rightarrow>
            (case map_of (ob_fingerprints s) key of
               None \<Rightarrow> (Inl KeyError, s)
             | Some f \<Rightarrow>
                 if f \<noteq> wfp then (Inl (tenant_error CONFLICT ''outbox idempotency conflict'' p), s)
                 else (Inr existing, s))
        | None \<Rightarrow>
            (case OutboxMessage_validate
                    (new_message uuid clock p event idempotency_key next message_id) of
               Inl e \<Rightarrow> (Inl e, s)
             | Inr message \<Rightarrow>
                (let message_key = (pr_tenant_id p, ob_id message);
                     event_key = (pr_tenant_id p, ev_id event);
                     by_message = map_of (key_by_message_id s) message_key;
                     by_event = map_of (key_by_event_id s) event_key
                 in if by_message \<noteq> None \<and> by_message \<noteq> Some idempotency_key
                    then (Inl (tenant_error CONFLICT ''outbox message id conflict'' p), s)
                    else if by_event \<noteq> None \<and> by_event \<noteq> Some idempotency_key
                    then (Inl (tenant_error CONFLICT ''outbox event id conflict'' p), s)
                    else (Inr message,
                      s\<lparr>messages_by_key := AList.update key message (messages_by_key s),
                        key_by_message_id := AList.update message_key idempotency_key (key_by_message_id s),
                        key_by_event_id := AList.update event_key idempotency_key (key_by_event_id s),
                        ob_fingerprints := AList.update key wfp (ob_fingerprints s)\<rparr>)))))"

section \<open>Claiming\<close>

definition claim_eligible ::
    "principal \<Rightarrow> instant \<Rightarrow> string option \<Rightarrow> tkey \<times> outbox_message \<Rightarrow> bool" where
  "claim_eligible p now event_type e =
     (case e of (key, m) \<Rightarrow>
        fst key = pr_tenant_id p
        \<and> (case event_type of None \<Rightarrow> True | Some ty \<Rightarrow> ev_type (ob_event m) = ty)
        \<and> (ob_dispatch_status m = pending
           \<or> ob_dispatch_status m = claimed
             \<and> (case ob_claimed_until m of None \<Rightarrow> False | Some u \<Rightarrow> u \<le> now))
        \<and> \<not> (case ob_next_attempt_at m of None \<Rightarrow> False | Some n \<Rightarrow> n > now))"

definition claim_update :: "string \<Rightarrow> string \<Rightarrow> instant \<Rightarrow> outbox_message \<Rightarrow> outbox_message" where
  "claim_update uuid owner until m =
     m\<lparr>ob_dispatch_status := claimed, ob_claim_token := Some (''claim_'' @ uuid),
       ob_claim_owner := Some owner, ob_claimed_until := Some until\<rparr>"

definition by_creation :: "(tkey, outbox_message) dict \<Rightarrow> (tkey, outbox_message) dict" where
  "by_creation d = sort_key (\<lambda>(_, m). (ob_created_at m, ob_id m)) d"

fun claim_loop ::
    "(nat \<Rightarrow> string) \<Rightarrow> principal \<Rightarrow> instant \<Rightarrow> int \<Rightarrow> string \<Rightarrow> int \<Rightarrow> string option
       \<Rightarrow> (tkey, outbox_message) dict \<Rightarrow> outbox_message list \<Rightarrow> (outbox, outbox_message list) op" where
  "claim_loop uuid p now limit owner lease event_type [] acc s = (Inr acc, s)"
| "claim_loop uuid p now limit owner lease event_type ((key, m) # rest) acc s =
     (if \<not> claim_eligible p now event_type (key, m)
      then claim_loop uuid p now limit owner lease event_type rest acc s
      else case dt_add now (seconds lease) of
        Inl e \<Rightarrow> (Inl e, s)
      | Inr until \<Rightarrow>
         (let updated = claim_update (uuid (length acc)) owner until m;
              s' = set_message key updated s; acc' = acc @ [updated]
          in if int (length acc') \<ge> limit then (Inr acc', s')
             else claim_loop uuid p now limit owner lease event_type rest acc' s'))"

definition check_limit :: "int \<Rightarrow> unit result" where
  "check_limit limit =
     (if 1 \<le> limit \<and> limit \<le> MAX_CLAIM_LIMIT then Inr ()
      else Inl (ValueError ''limit must be between 1 and 1000''))"

definition check_lease :: "int \<Rightarrow> unit result" where
  "check_lease lease =
     (if 1 \<le> lease \<and> lease \<le> MAX_CLAIM_LEASE_SECONDS then Inr ()
      else Inl (ValueError ''lease_seconds must be between 1 and 86400''))"

definition check_owner :: "string \<Rightarrow> string result" where
  "check_owner owner =
     (let o' = py_strip owner in
      if o' = [] then Inl (ValueError ''owner must not be blank'')
      else if length o' > MAX_CLAIM_OWNER_LENGTH
      then Inl (ValueError ''owner must be at most 200 characters'')
      else if \<not> is_valid_claim_owner o' then Inl (ValueError ''owner contains unsupported characters'')
      else Inr o')"

definition claim_due ::
    "(nat \<Rightarrow> string) \<Rightarrow> principal \<Rightarrow> py_datetime \<Rightarrow> int \<Rightarrow> string \<Rightarrow> int \<Rightarrow> string option
       \<Rightarrow> (outbox, outbox_message list) op" where
  "claim_due uuid p now limit owner lease event_type s =
     (case bindR (require_trusted_principal p) (\<lambda>_.
           bindR (canonical_utc now ''now'') (\<lambda>t.
           bindR (check_limit limit) (\<lambda>_.
           bindR (check_lease lease) (\<lambda>_.
           bindR (check_owner owner) (\<lambda>o'. Inr (t, o')))))) of
        Inl e \<Rightarrow> (Inl e, s)
      | Inr (t, o') \<Rightarrow>
          claim_loop uuid p t limit o' lease event_type (by_creation (messages_by_key s)) [] s)"

text \<open>The convenience method that claims at the current time.\<close>

definition claim ::
    "(nat \<Rightarrow> string) \<Rightarrow> instant \<Rightarrow> principal \<Rightarrow> int \<Rightarrow> string \<Rightarrow> int
       \<Rightarrow> (outbox, outbox_message list) op" where
  "claim uuid clock p limit owner lease s =
     (case require_trusted_principal p of Inl e \<Rightarrow> (Inl e, s)
      | Inr _ \<Rightarrow> claim_due uuid p (Aware clock) limit owner lease None s)"

section \<open>Token-guarded transitions\<close>

definition is_message :: "principal \<Rightarrow> string \<Rightarrow> tkey \<times> outbox_message \<Rightarrow> bool" where
  "is_message p message_id e \<longleftrightarrow> fst (fst e) = pr_tenant_id p \<and> ob_id (snd e) = message_id"

definition transition ::
    "principal \<Rightarrow> string \<Rightarrow> string \<Rightarrow> delivery_status \<Rightarrow> delivery_status
       \<Rightarrow> (outbox_message \<Rightarrow> outbox_message) \<Rightarrow> bool \<Rightarrow> (outbox, outbox_message) op" where
  "transition p message_id claim_token expected target updates increment_attempts s =
     (case require_trusted_principal p of Inl e \<Rightarrow> (Inl e, s) | Inr _ \<Rightarrow>
      if claim_token = []
      then (Inl (tenant_error PERMISSION_DENIED ''invalid outbox claim token'' p), s)
      else case find (is_message p message_id) (messages_by_key s) of
        None \<Rightarrow> (Inl (tenant_error NOT_FOUND ''outbox message not found'' p), s)
      | Some (key, message) \<Rightarrow>
          if ob_claim_token message \<noteq> Some claim_token
          then (Inl (tenant_error PERMISSION_DENIED ''invalid outbox claim token'' p), s)
          else if ob_dispatch_status message \<noteq> expected
          then (Inl (tenant_error CONFLICT ''illegal outbox delivery transition'' p), s)
          else
           (let m1 = updates (message\<lparr>ob_dispatch_status := target\<rparr>);
                m2 = (if increment_attempts then m1\<lparr>ob_attempts := ob_attempts message + 1\<rparr> else m1)
            in case OutboxMessage_validate m2 of
                 Inl e \<Rightarrow> (Inl e, s)
               | Inr updated \<Rightarrow> (Inr updated, set_message key updated s)))"

definition clear_claim :: "outbox_message \<Rightarrow> outbox_message" where
  "clear_claim m = m\<lparr>ob_claim_token := None, ob_claim_owner := None, ob_claimed_until := None\<rparr>"

definition mark_sending :: "principal \<Rightarrow> string \<Rightarrow> string \<Rightarrow> py_datetime \<Rightarrow> (outbox, outbox_message) op" where
  "mark_sending p message_id claim_token started_at =
     bindS (lift (canonical_utc started_at ''started_at'')) (\<lambda>t.
       transition p message_id claim_token claimed sending
         (\<lambda>m. m\<lparr>ob_sending_at := Some t\<rparr>) True)"

definition mark_claim_failed ::
    "principal \<Rightarrow> string \<Rightarrow> string \<Rightarrow> delivery_error \<Rightarrow> (outbox, outbox_message) op" where
  "mark_claim_failed p message_id claim_token error =
     transition p message_id claim_token claimed failed
       (\<lambda>m. (clear_claim m)\<lparr>ob_last_error := Some error\<rparr>) False"

definition mark_published ::
    "instant \<Rightarrow> principal \<Rightarrow> string \<Rightarrow> string \<Rightarrow> py_datetime option \<Rightarrow> (outbox, outbox_message) op" where
  "mark_published clock p message_id claim_token published_at =
     bindS (lift (canonical_utc (case published_at of Some d \<Rightarrow> d | None \<Rightarrow> Aware clock)
                    ''published_at'')) (\<lambda>t.
       transition p message_id claim_token sending published
         (\<lambda>m. (clear_claim m)\<lparr>ob_published_at := Some t, ob_last_error := None\<rparr>) False)"

definition terminal_error ::
    "principal \<Rightarrow> string \<Rightarrow> string \<Rightarrow> delivery_status \<Rightarrow> delivery_error \<Rightarrow> (outbox, outbox_message) op" where
  "terminal_error p message_id claim_token target error =
     transition p message_id claim_token sending target
       (\<lambda>m. (clear_claim m)\<lparr>ob_last_error := Some error\<rparr>) False"

definition mark_failed ::
    "principal \<Rightarrow> string \<Rightarrow> string \<Rightarrow> delivery_error \<Rightarrow> (outbox, outbox_message) op" where
  "mark_failed p message_id claim_token error = terminal_error p message_id claim_token failed error"

definition mark_uncertain ::
    "principal \<Rightarrow> string \<Rightarrow> string \<Rightarrow> delivery_error \<Rightarrow> (outbox, outbox_message) op" where
  "mark_uncertain p message_id claim_token error =
     terminal_error p message_id claim_token uncertain error"

definition release ::
    "principal \<Rightarrow> string \<Rightarrow> string \<Rightarrow> py_datetime option \<Rightarrow> (outbox, outbox_message) op" where
  "release p message_id claim_token next_attempt_at =
     bindS (lift (opt_canonical_utc next_attempt_at ''next_attempt_at'')) (\<lambda>next.
       transition p message_id claim_token claimed pending
         (\<lambda>m. (clear_claim m)\<lparr>ob_next_attempt_at := next\<rparr>) False)"

definition reschedule ::
    "principal \<Rightarrow> string \<Rightarrow> string \<Rightarrow> py_datetime \<Rightarrow> delivery_error \<Rightarrow> (outbox, outbox_message) op" where
  "reschedule p message_id claim_token next_attempt_at error =
     bindS (lift (canonical_utc next_attempt_at ''next_attempt_at'')) (\<lambda>t.
       transition p message_id claim_token sending pending
         (\<lambda>m. (clear_claim m)\<lparr>ob_next_attempt_at := Some t, ob_sending_at := None,
                               ob_last_error := Some error\<rparr>) False)"

section \<open>Sweeping and operator resolution\<close>

definition sweep_eligible ::
    "principal \<Rightarrow> instant \<Rightarrow> string option \<Rightarrow> tkey \<times> outbox_message \<Rightarrow> bool" where
  "sweep_eligible p now event_type e =
     (case e of (key, m) \<Rightarrow>
        \<not> (fst key \<noteq> pr_tenant_id p
           \<or> (case event_type of None \<Rightarrow> False | Some ty \<Rightarrow> ev_type (ob_event m) \<noteq> ty)
           \<or> ob_dispatch_status m \<noteq> sending
           \<or> (case ob_claimed_until m of None \<Rightarrow> True | Some u \<Rightarrow> u > now)))"

definition sweep_update :: "delivery_error \<Rightarrow> outbox_message \<Rightarrow> outbox_message" where
  "sweep_update error m =
     (clear_claim m)\<lparr>ob_dispatch_status := uncertain, ob_last_error := Some error\<rparr>"

fun sweep_loop ::
    "principal \<Rightarrow> instant \<Rightarrow> delivery_error \<Rightarrow> int \<Rightarrow> string option
       \<Rightarrow> (tkey, outbox_message) dict \<Rightarrow> outbox_message list \<Rightarrow> (outbox, outbox_message list) op" where
  "sweep_loop p now error limit event_type [] acc s = (Inr acc, s)"
| "sweep_loop p now error limit event_type ((key, m) # rest) acc s =
     (if \<not> sweep_eligible p now event_type (key, m)
      then sweep_loop p now error limit event_type rest acc s
      else case OutboxMessage_validate (sweep_update error m) of
        Inl e \<Rightarrow> (Inl e, s)
      | Inr updated \<Rightarrow>
         (let s' = set_message key updated s; acc' = acc @ [updated]
          in if int (length acc') \<ge> limit then (Inr acc', s')
             else sweep_loop p now error limit event_type rest acc' s'))"

definition sweep_expired_sending ::
    "principal \<Rightarrow> py_datetime \<Rightarrow> delivery_error \<Rightarrow> int \<Rightarrow> string option
       \<Rightarrow> (outbox, outbox_message list) op" where
  "sweep_expired_sending p now error limit event_type s =
     (case bindR (require_trusted_principal p) (\<lambda>_.
           bindR (canonical_utc now ''now'') (\<lambda>t.
           bindR (check_limit limit) (\<lambda>_. Inr t))) of
        Inl e \<Rightarrow> (Inl e, s)
      | Inr t \<Rightarrow> sweep_loop p t error limit event_type (by_creation (messages_by_key s)) [] s)"

definition operator_transition ::
    "principal \<Rightarrow> string \<Rightarrow> delivery_status \<Rightarrow> (outbox_message \<Rightarrow> outbox_message)
       \<Rightarrow> (outbox, outbox_message) op" where
  "operator_transition p message_id target updates s =
     (case require_trusted_principal p of Inl e \<Rightarrow> (Inl e, s) | Inr _ \<Rightarrow>
      case find (is_message p message_id) (messages_by_key s) of
        None \<Rightarrow> (Inl (tenant_error NOT_FOUND ''outbox message not found'' p), s)
      | Some (key, message) \<Rightarrow>
          if ob_dispatch_status message \<noteq> uncertain
          then (Inl (tenant_error CONFLICT ''outbox message is not uncertain'' p), s)
          else case OutboxMessage_validate (updates (message\<lparr>ob_dispatch_status := target\<rparr>)) of
                 Inl e \<Rightarrow> (Inl e, s)
               | Inr updated \<Rightarrow> (Inr updated, set_message key updated s))"

definition resolve_uncertain_delivered ::
    "principal \<Rightarrow> string \<Rightarrow> py_datetime \<Rightarrow> (outbox, outbox_message) op" where
  "resolve_uncertain_delivered p message_id published_at =
     bindS (lift (canonical_utc published_at ''published_at'')) (\<lambda>t.
       operator_transition p message_id published
         (\<lambda>m. m\<lparr>ob_published_at := Some t, ob_last_error := None\<rparr>))"

definition resolve_uncertain_retry ::
    "principal \<Rightarrow> string \<Rightarrow> py_datetime \<Rightarrow> (outbox, outbox_message) op" where
  "resolve_uncertain_retry p message_id next_attempt_at =
     bindS (lift (canonical_utc next_attempt_at ''next_attempt_at'')) (\<lambda>t.
       operator_transition p message_id pending
         (\<lambda>m. m\<lparr>ob_next_attempt_at := Some t, ob_sending_at := None, ob_published_at := None\<rparr>))"

definition outbox_list_for_tenant :: "principal \<Rightarrow> (outbox, outbox_message list) op" where
  "outbox_list_for_tenant p s =
     (case require_trusted_principal p of Inl e \<Rightarrow> (Inl e, s)
      | Inr _ \<Rightarrow> (Inr (map snd (filter (\<lambda>(k, _). fst k = pr_tenant_id p) (messages_by_key s))), s))"

end
