(* ===== verification/Outbox_Invariants.thy ===== *)
theory Outbox_Invariants
  imports Outbox
begin

text \<open>
  Invariants of the outbox: the class invariant and index consistency kept by every
  call, the delivery life cycle, fencing by claim tokens, and the exact meaning of
  \<open>claim_due\<close>.
\<close>

section \<open>What a call may do to a message\<close>

definition same_identity :: "outbox_message \<Rightarrow> outbox_message \<Rightarrow> bool" where
  "same_identity m m' \<longleftrightarrow> ob_id m' = ob_id m \<and> ob_tenant_id m' = ob_tenant_id m
     \<and> ob_event m' = ob_event m \<and> ob_idempotency_key m' = ob_idempotency_key m
     \<and> ob_created_at m' = ob_created_at m"

text \<open>The legal edges of the delivery state machine; \<open>published\<close> and \<open>failed\<close> have none.\<close>

fun edge :: "delivery_status \<Rightarrow> delivery_status \<Rightarrow> bool" where
  "edge pending s = (s = claimed)"
| "edge claimed s = (s = claimed \<or> s = sending \<or> s = failed \<or> s = pending)"
| "edge sending s = (s = published \<or> s = failed \<or> s = uncertain \<or> s = pending)"
| "edge uncertain s = (s = published \<or> s = pending)"
| "edge published s = False"
| "edge failed s = False"

definition evolves :: "outbox_message \<Rightarrow> outbox_message \<Rightarrow> bool" where
  "evolves m m' \<longleftrightarrow> m' = m \<or>
     (edge (ob_dispatch_status m) (ob_dispatch_status m') \<and> same_identity m m'
      \<and> ob_attempts m' = ob_attempts m + (if ob_dispatch_status m' = sending then 1 else 0))"

definition outbox_inv :: "outbox \<Rightarrow> bool" where
  "outbox_inv s \<longleftrightarrow> distinct (map fst (messages_by_key s))
     \<and> (\<forall>t k m. map_of (messages_by_key s) (t, k) = Some m \<longrightarrow>
          wf_message m \<and> ob_tenant_id m = t \<and> ob_idempotency_key m = py_strip k
          \<and> ev_tenant_id (ob_event m) = t
          \<and> map_of (key_by_message_id s) (t, ob_id m) = Some k
          \<and> map_of (key_by_event_id s) (t, ev_id (ob_event m)) = Some k
          \<and> map_of (ob_fingerprints s) (t, k) \<noteq> None)
     \<and> (\<forall>t i k. map_of (key_by_message_id s) (t, i) = Some k \<longrightarrow>
          (\<exists>m. map_of (messages_by_key s) (t, k) = Some m \<and> ob_id m = i))
     \<and> (\<forall>t i k. map_of (key_by_event_id s) (t, i) = Some k \<longrightarrow>
          (\<exists>m. map_of (messages_by_key s) (t, k) = Some m \<and> ev_id (ob_event m) = i))"

text \<open>
  \<open>progress p s s'\<close>: the call of \<open>p\<close> that led from \<open>s\<close> to \<open>s'\<close> added and removed
  nothing, moved messages along legal edges only, kept them well-formed and left the
  entries of the other tenants alone.
\<close>

definition progress :: "principal \<Rightarrow> outbox \<Rightarrow> outbox \<Rightarrow> bool" where
  "progress p s s' \<longleftrightarrow>
     key_by_message_id s' = key_by_message_id s \<and> key_by_event_id s' = key_by_event_id s
     \<and> ob_fingerprints s' = ob_fingerprints s
     \<and> map fst (messages_by_key s') = map fst (messages_by_key s)
     \<and> (\<forall>k m. map_of (messages_by_key s) k = Some m \<longrightarrow>
          (\<exists>m'. map_of (messages_by_key s') k = Some m' \<and> evolves m m'
                 \<and> (wf_message m \<longrightarrow> wf_message m')
                 \<and> (fst k \<noteq> pr_tenant_id p \<longrightarrow> m' = m)))
     \<and> (\<forall>t. t \<noteq> pr_tenant_id p \<longrightarrow>
          tenant_part t (messages_by_key s') = tenant_part t (messages_by_key s))"

lemma same_identity_refl [simp]: "same_identity m m"
  by (simp add: same_identity_def)

lemma evolves_refl [simp]: "evolves m m"
  by (simp add: evolves_def)

lemma evolves_identity: "evolves m m' \<Longrightarrow> same_identity m m'"
  by (auto simp: evolves_def)

lemma evolves_terminal:
  "evolves m m' \<Longrightarrow> ob_dispatch_status m \<in> {published, failed} \<Longrightarrow> m' = m"
  by (auto simp: evolves_def)

lemma evolves_attempts_mono: "evolves m m' \<Longrightarrow> ob_attempts m \<le> ob_attempts m'"
  by (auto simp: evolves_def split: if_splits)

lemma progress_refl [simp]: "progress p s s"
  by (simp add: progress_def)

lemma set_message_sel [simp]:
  "messages_by_key (set_message k m s) = AList.update k m (messages_by_key s)"
  "key_by_message_id (set_message k m s) = key_by_message_id s"
  "key_by_event_id (set_message k m s) = key_by_event_id s"
  "ob_fingerprints (set_message k m s) = ob_fingerprints s"
  by (simp_all add: set_message_def)

lemma progress_keys: "progress p s s' \<Longrightarrow> map fst (messages_by_key s') = map fst (messages_by_key s)"
  by (simp add: progress_def)

lemma progress_forward:
  "progress p s s' \<Longrightarrow> map_of (messages_by_key s) k = Some m \<Longrightarrow>
     \<exists>m'. map_of (messages_by_key s') k = Some m' \<and> evolves m m'
           \<and> (wf_message m \<longrightarrow> wf_message m') \<and> (fst k \<noteq> pr_tenant_id p \<longrightarrow> m' = m)"
  unfolding progress_def by blast

lemma progress_set_message:
  assumes pr: "progress p s st" and k: "map_of (messages_by_key s) k = Some m"
    and ev: "evolves m m'" and wf: "wf_message m \<longrightarrow> wf_message m'"
    and own: "fst k = pr_tenant_id p"
  shows "progress p s (set_message k m' st)"
proof -
  obtain v where "map_of (messages_by_key st) k = Some v"
    using progress_forward [OF pr k] by blast
  then have keys: "map fst (AList.update k m' (messages_by_key st)) = map fst (messages_by_key s)"
    using progress_keys [OF pr] by (simp add: update_keys_same)
  have parts: "tenant_part t (AList.update k m' (messages_by_key st)) = tenant_part t (messages_by_key s)"
    if "t \<noteq> pr_tenant_id p" for t
    using that own pr by (cases k) (simp add: progress_def)
  have fwd: "\<exists>x'. map_of (AList.update k m' (messages_by_key st)) j = Some x' \<and> evolves x x'
      \<and> (wf_message x \<longrightarrow> wf_message x') \<and> (fst j \<noteq> pr_tenant_id p \<longrightarrow> x' = x)"
    if j: "map_of (messages_by_key s) j = Some x" for j x
  proof (cases "j = k")
    case True
    with j k ev wf own show ?thesis by (simp add: map_of_update)
  next
    case False
    with progress_forward [OF pr j] show ?thesis by (simp add: map_of_update)
  qed
  from pr have "key_by_message_id st = key_by_message_id s" "key_by_event_id st = key_by_event_id s"
    "ob_fingerprints st = ob_fingerprints s" by (simp_all add: progress_def)
  with keys parts fwd show ?thesis unfolding progress_def set_message_sel by blast
qed

lemma outbox_inv_message:
  "outbox_inv s \<Longrightarrow> map_of (messages_by_key s) (t, k) = Some m \<Longrightarrow>
     wf_message m \<and> ob_tenant_id m = t \<and> ob_idempotency_key m = py_strip k
     \<and> ev_tenant_id (ob_event m) = t
     \<and> map_of (key_by_message_id s) (t, ob_id m) = Some k
     \<and> map_of (key_by_event_id s) (t, ev_id (ob_event m)) = Some k
     \<and> map_of (ob_fingerprints s) (t, k) \<noteq> None"
  unfolding outbox_inv_def by blast

lemma outbox_inv_index:
  "outbox_inv s \<Longrightarrow> map_of (key_by_message_id s) (t, i) = Some k \<Longrightarrow>
     \<exists>m. map_of (messages_by_key s) (t, k) = Some m \<and> ob_id m = i"
  "outbox_inv s \<Longrightarrow> map_of (key_by_event_id s) (t, i) = Some k \<Longrightarrow>
     \<exists>m. map_of (messages_by_key s) (t, k) = Some m \<and> ev_id (ob_event m) = i"
  unfolding outbox_inv_def by blast+

lemma outbox_invI:
  assumes "distinct (map fst (messages_by_key s))"
    and "\<And>t k m. map_of (messages_by_key s) (t, k) = Some m \<Longrightarrow>
          wf_message m \<and> ob_tenant_id m = t \<and> ob_idempotency_key m = py_strip k
          \<and> ev_tenant_id (ob_event m) = t
          \<and> map_of (key_by_message_id s) (t, ob_id m) = Some k
          \<and> map_of (key_by_event_id s) (t, ev_id (ob_event m)) = Some k
          \<and> map_of (ob_fingerprints s) (t, k) \<noteq> None"
    and "\<And>t i k. map_of (key_by_message_id s) (t, i) = Some k \<Longrightarrow>
          \<exists>m. map_of (messages_by_key s) (t, k) = Some m \<and> ob_id m = i"
    and "\<And>t i k. map_of (key_by_event_id s) (t, i) = Some k \<Longrightarrow>
          \<exists>m. map_of (messages_by_key s) (t, k) = Some m \<and> ev_id (ob_event m) = i"
  shows "outbox_inv s"
  unfolding outbox_inv_def using assms by (intro conjI allI impI) simp_all

lemma outbox_inv_wf:
  "outbox_inv s \<Longrightarrow> map_of (messages_by_key s) k = Some m \<Longrightarrow> wf_message m"
  by (cases k) (auto dest: outbox_inv_message)

lemma progress_back:
  assumes "progress p s s'" and "map_of (messages_by_key s') k = Some m'"
  obtains m where "map_of (messages_by_key s) k = Some m" "evolves m m'"
    "wf_message m \<longrightarrow> wf_message m'"
proof -
  have "k \<in> set (map fst (messages_by_key s))"
    using map_of_dom [OF assms(2)] unfolding progress_keys [OF assms(1)] .
  then obtain m where m: "map_of (messages_by_key s) k = Some m"
    using dom_map_of by metis
  with progress_forward [OF assms(1) m] assms(2) that show ?thesis by auto
qed

lemma progress_inv:
  assumes inv: "outbox_inv s" and pr: "progress p s s'"
  shows "outbox_inv s'"
proof -
  have fwd: "\<exists>m'. map_of (messages_by_key s') k = Some m' \<and> evolves m m'"
    if "map_of (messages_by_key s) k = Some m" for k m
    using pr that unfolding progress_def by blast
  have eqs: "key_by_message_id s' = key_by_message_id s" "key_by_event_id s' = key_by_event_id s"
    "ob_fingerprints s' = ob_fingerprints s" "map fst (messages_by_key s') = map fst (messages_by_key s)"
    using pr by (simp_all add: progress_def)
  have entry: "wf_message m' \<and> ob_tenant_id m' = t \<and> ob_idempotency_key m' = py_strip k
      \<and> ev_tenant_id (ob_event m') = t
      \<and> map_of (key_by_message_id s') (t, ob_id m') = Some k
      \<and> map_of (key_by_event_id s') (t, ev_id (ob_event m')) = Some k
      \<and> map_of (ob_fingerprints s') (t, k) \<noteq> None"
    if "map_of (messages_by_key s') (t, k) = Some m'" for t k m'
  proof -
    from progress_back [OF pr that] obtain m where m: "map_of (messages_by_key s) (t, k) = Some m"
      and ev: "evolves m m'" and wf: "wf_message m \<longrightarrow> wf_message m'" by blast
    from outbox_inv_message [OF inv m] evolves_identity [OF ev] wf show ?thesis
      by (simp add: eqs same_identity_def)
  qed
  show ?thesis
  proof (rule outbox_invI)
    show "distinct (map fst (messages_by_key s'))"
      using inv by (simp add: outbox_inv_def eqs)
  next
    fix t i k assume "map_of (key_by_message_id s') (t, i) = Some k"
    then have "map_of (key_by_message_id s) (t, i) = Some k" by (simp add: eqs)
    from outbox_inv_index(1) [OF inv this] obtain m
      where "map_of (messages_by_key s) (t, k) = Some m" "ob_id m = i" by blast
    then show "\<exists>m. map_of (messages_by_key s') (t, k) = Some m \<and> ob_id m = i"
      using fwd evolves_identity by (fastforce simp: same_identity_def)
  next
    fix t i k assume "map_of (key_by_event_id s') (t, i) = Some k"
    then have "map_of (key_by_event_id s) (t, i) = Some k" by (simp add: eqs)
    from outbox_inv_index(2) [OF inv this] obtain m
      where "map_of (messages_by_key s) (t, k) = Some m" "ev_id (ob_event m) = i" by blast
    then show "\<exists>m. map_of (messages_by_key s') (t, k) = Some m \<and> ev_id (ob_event m) = i"
      using fwd evolves_identity by (fastforce simp: same_identity_def)
  qed (rule entry)
qed

section \<open>Token-guarded and operator transitions\<close>

text \<open>What the field updates of the transitions have in common.\<close>

definition upd_ok :: "(outbox_message \<Rightarrow> outbox_message) \<Rightarrow> bool" where
  "upd_ok u \<longleftrightarrow> (\<forall>m. same_identity m (u m) \<and> ob_dispatch_status (u m) = ob_dispatch_status m
     \<and> ob_attempts (u m) = ob_attempts m \<and> (strip_message m = m \<longrightarrow> strip_message (u m) = u m))"

lemma clear_claim_sel [simp]:
  "ob_id (clear_claim m) = ob_id m" "ob_tenant_id (clear_claim m) = ob_tenant_id m"
  "ob_event (clear_claim m) = ob_event m" "ob_idempotency_key (clear_claim m) = ob_idempotency_key m"
  "ob_dispatch_status (clear_claim m) = ob_dispatch_status m"
  "ob_claim_token (clear_claim m) = None" "ob_claim_owner (clear_claim m) = None"
  "ob_claimed_until (clear_claim m) = None" "ob_next_attempt_at (clear_claim m) = ob_next_attempt_at m"
  "ob_attempts (clear_claim m) = ob_attempts m" "ob_created_at (clear_claim m) = ob_created_at m"
  "ob_sending_at (clear_claim m) = ob_sending_at m" "ob_published_at (clear_claim m) = ob_published_at m"
  "ob_last_error (clear_claim m) = ob_last_error m"
  by (simp_all add: clear_claim_def)

lemma upd_ok_intros [intro, simp]:
  "upd_ok (\<lambda>m. m\<lparr>ob_sending_at := x\<rparr>)"
  "upd_ok (\<lambda>m. (clear_claim m)\<lparr>ob_last_error := e\<rparr>)"
  "upd_ok (\<lambda>m. (clear_claim m)\<lparr>ob_published_at := x, ob_last_error := e\<rparr>)"
  "upd_ok (\<lambda>m. (clear_claim m)\<lparr>ob_next_attempt_at := x\<rparr>)"
  "upd_ok (\<lambda>m. (clear_claim m)\<lparr>ob_next_attempt_at := x, ob_sending_at := y, ob_last_error := e\<rparr>)"
  "upd_ok (\<lambda>m. m\<lparr>ob_published_at := x, ob_last_error := e\<rparr>)"
  "upd_ok (\<lambda>m. m\<lparr>ob_next_attempt_at := x, ob_sending_at := y, ob_published_at := z\<rparr>)"
  by (simp_all add: upd_ok_def same_identity_def strip_message_eq)

lemma find_is_message:
  assumes "outbox_inv s" and "find (is_message p i) (messages_by_key s) = Some (key, m)"
  shows "map_of (messages_by_key s) key = Some m" "fst key = pr_tenant_id p" "ob_id m = i"
proof -
  from find_SomeD [OF assms(2)] have "(key, m) \<in> set (messages_by_key s)"
    and im: "is_message p i (key, m)" by simp_all
  with assms(1) show "map_of (messages_by_key s) key = Some m"
    by (simp add: outbox_inv_def)
  from im show "fst key = pr_tenant_id p" "ob_id m = i" by (simp_all add: is_message_def)
qed

text \<open>The message a transition writes, before validation.\<close>

definition transition_target ::
    "delivery_status \<Rightarrow> (outbox_message \<Rightarrow> outbox_message) \<Rightarrow> bool \<Rightarrow> outbox_message \<Rightarrow> outbox_message" where
  "transition_target target u inc m =
     (let m1 = u (m\<lparr>ob_dispatch_status := target\<rparr>)
      in if inc then m1\<lparr>ob_attempts := ob_attempts m + 1\<rparr> else m1)"

lemma transition_target_facts:
  assumes "upd_ok u" and "strip_message m = m"
  shows "strip_message (transition_target target u inc m) = transition_target target u inc m"
    "same_identity m (transition_target target u inc m)"
    "ob_dispatch_status (transition_target target u inc m) = target"
    "ob_attempts (transition_target target u inc m) = ob_attempts m + (if inc then 1 else 0)"
proof -
  let ?m = "m\<lparr>ob_dispatch_status := target\<rparr>"
  have "strip_message ?m = ?m" using assms(2) by (simp add: strip_message_eq)
  with assms(1) have u: "same_identity ?m (u ?m)" "ob_dispatch_status (u ?m) = target"
    "ob_attempts (u ?m) = ob_attempts m" "strip_message (u ?m) = u ?m"
    unfolding upd_ok_def by simp_all
  then show "strip_message (transition_target target u inc m) = transition_target target u inc m"
    "same_identity m (transition_target target u inc m)"
    "ob_dispatch_status (transition_target target u inc m) = target"
    "ob_attempts (transition_target target u inc m) = ob_attempts m + (if inc then 1 else 0)"
    by (simp_all add: transition_target_def Let_def same_identity_def strip_message_eq)
qed

lemma transition_Inr:
  assumes "outbox_inv s" and "upd_ok u"
    and "transition p i tok expected target u inc s = (Inr m', s')"
  obtains key m where "map_of (messages_by_key s) key = Some m" "fst key = pr_tenant_id p"
    "ob_id m = i" "tok \<noteq> []" "is_trusted p" "ob_claim_token m = Some tok" "ob_dispatch_status m = expected"
    "m' = transition_target target u inc m" "wf_message m'" "s' = set_message key m' s"
proof -
  from assms(3) obtain key m where f: "find (is_message p i) (messages_by_key s) = Some (key, m)"
    and g: "tok \<noteq> []" "is_trusted p" "ob_claim_token m = Some tok" "ob_dispatch_status m = expected"
    and v: "OutboxMessage_validate (transition_target target u inc m) = Inr m'"
    and s': "s' = set_message key m' s"
    by (auto simp: transition_def transition_target_def Let_def require_trusted_principal_cases
        split: if_splits option.splits sum.splits)
  note fm = find_is_message [OF assms(1) f]
  have "strip_message m = m" using outbox_inv_wf [OF assms(1) fm(1)] by (simp add: wf_message_iff)
  with v assms(2) have "m' = transition_target target u inc m" "wf_message m'"
    by (auto simp: OutboxMessage_validate_Inr wf_message_iff transition_target_facts)
  with that fm g s' show ?thesis by blast
qed

lemma transition_state:
  "snd (transition p i tok expected target u inc s) = s \<or>
     (\<exists>m'. transition p i tok expected target u inc s = (Inr m', snd (transition p i tok expected target u inc s)))"
  by (auto simp: transition_def Let_def require_trusted_principal_cases
      split: if_splits option.splits sum.splits)

lemma transition_progress:
  assumes "outbox_inv s" and "upd_ok u" and "edge expected target" and "inc \<longleftrightarrow> target = sending"
  shows "progress p s (snd (transition p i tok expected target u inc s))"
proof (cases "snd (transition p i tok expected target u inc s) = s")
  case False
  then obtain m' s' where t: "transition p i tok expected target u inc s = (Inr m', s')"
    using transition_state by metis
  from transition_Inr [OF assms(1,2) t] obtain key m where
    km: "map_of (messages_by_key s) key = Some m" "fst key = pr_tenant_id p"
      "ob_dispatch_status m = expected" "m' = transition_target target u inc m" "wf_message m'"
      "s' = set_message key m' s" by metis
  have "strip_message m = m" using outbox_inv_wf [OF assms(1) km(1)] by (simp add: wf_message_iff)
  from transition_target_facts [OF assms(2) this, of target inc] assms(3,4) km
  have "evolves m m'" by (simp add: evolves_def)
  with km progress_set_message [OF progress_refl km(1)] t show ?thesis by simp
qed simp

lemma operator_transition_Inr:
  assumes "outbox_inv s" and "upd_ok u"
    and "operator_transition p i target u s = (Inr m', s')"
  obtains key m where "map_of (messages_by_key s) key = Some m" "fst key = pr_tenant_id p"
    "ob_id m = i" "is_trusted p" "ob_dispatch_status m = uncertain"
    "m' = transition_target target u False m" "wf_message m'" "s' = set_message key m' s"
proof -
  from assms(3) obtain key m where f: "find (is_message p i) (messages_by_key s) = Some (key, m)"
    and g: "is_trusted p" "ob_dispatch_status m = uncertain"
    and v: "OutboxMessage_validate (transition_target target u False m) = Inr m'"
    and s': "s' = set_message key m' s"
    by (auto simp: operator_transition_def transition_target_def Let_def require_trusted_principal_cases
        split: if_splits option.splits sum.splits)
  note fm = find_is_message [OF assms(1) f]
  have "strip_message m = m" using outbox_inv_wf [OF assms(1) fm(1)] by (simp add: wf_message_iff)
  with v assms(2) have "m' = transition_target target u False m" "wf_message m'"
    by (auto simp: OutboxMessage_validate_Inr wf_message_iff transition_target_facts)
  with that fm g s' show ?thesis by blast
qed

lemma operator_transition_state:
  "snd (operator_transition p i target u s) = s \<or>
     (\<exists>m'. operator_transition p i target u s = (Inr m', snd (operator_transition p i target u s)))"
  by (auto simp: operator_transition_def Let_def require_trusted_principal_cases
      split: if_splits option.splits sum.splits)

lemma operator_transition_progress:
  assumes "outbox_inv s" and "upd_ok u" and "edge uncertain target"
  shows "progress p s (snd (operator_transition p i target u s))"
proof (cases "snd (operator_transition p i target u s) = s")
  case False
  then obtain m' s' where t: "operator_transition p i target u s = (Inr m', s')"
    using operator_transition_state by metis
  from operator_transition_Inr [OF assms(1,2) t] obtain key m where
    km: "map_of (messages_by_key s) key = Some m" "fst key = pr_tenant_id p"
      "ob_dispatch_status m = uncertain" "m' = transition_target target u False m" "wf_message m'"
      "s' = set_message key m' s" by metis
  have "strip_message m = m" using outbox_inv_wf [OF assms(1) km(1)] by (simp add: wf_message_iff)
  from transition_target_facts [OF assms(2) this, of target False] assms(3) km
  have "evolves m m'" by (auto simp: evolves_def)
  with km progress_set_message [OF progress_refl km(1)] t show ?thesis by simp
qed simp

section \<open>The claiming and sweeping loops\<close>

definition hex_string :: "string \<Rightarrow> bool" where
  "hex_string u \<longleftrightarrow> u \<noteq> [] \<and> list_all (\<lambda>c. c \<in> set ''0123456789abcdef'') u"

definition put_all :: "(tkey \<times> outbox_message) list \<Rightarrow> outbox \<Rightarrow> outbox" where
  "put_all es s = fold (\<lambda>(k, m). set_message k m) es s"

definition claimed_entries ::
    "(nat \<Rightarrow> string) \<Rightarrow> nat \<Rightarrow> string \<Rightarrow> instant \<Rightarrow> (tkey \<times> outbox_message) list
       \<Rightarrow> (tkey \<times> outbox_message) list" where
  "claimed_entries uuid n owner until es =
     map (\<lambda>(i, (k, m)). (k, claim_update (uuid i) owner until m)) (enumerate n es)"

lemma claimed_entries_simps [simp]:
  "claimed_entries uuid n owner until [] = []"
  "claimed_entries uuid n owner until ((k, m) # es) =
     (k, claim_update (uuid n) owner until m) # claimed_entries uuid (Suc n) owner until es"
  by (simp_all add: claimed_entries_def)

lemma put_all_simps [simp]: "put_all [] s = s" "put_all ((k, m) # es) s = put_all es (set_message k m s)"
  by (simp_all add: put_all_def)

lemma put_all_progress:
  assumes "progress p s st"
    and "\<And>k m'. (k, m') \<in> set es \<Longrightarrow> \<exists>m. map_of (messages_by_key s) k = Some m \<and> evolves m m'
           \<and> (wf_message m \<longrightarrow> wf_message m') \<and> fst k = pr_tenant_id p"
  shows "progress p s (put_all es st)"
  using assms
proof (induction es arbitrary: st)
  case (Cons e es)
  obtain k m' where e: "e = (k, m')" by (rule prod.exhaust)
  from Cons.prems(2) [of k m'] obtain m where "map_of (messages_by_key s) k = Some m" "evolves m m'"
    "wf_message m \<longrightarrow> wf_message m'" "fst k = pr_tenant_id p" by (auto simp: e)
  then have "progress p s (set_message k m' st)"
    using Cons.prems(1) by (blast intro: progress_set_message)
  then have "progress p s (put_all es (set_message k m' st))"
    by (rule Cons.IH) (auto intro: Cons.prems(2))
  then show ?case by (simp add: e)
qed simp

lemma claim_loop_exact:
  assumes "dt_add now (seconds lease) = Inr until" and "int (length acc) < limit"
  shows "claim_loop uuid p now limit owner lease ety cands acc s =
     (let es = claimed_entries uuid (length acc) owner until
                 (take (nat limit - length acc) (filter (claim_eligible p now ety) cands))
      in (Inr (acc @ map snd es), put_all es s))"
  using assms(2)
proof (induction cands arbitrary: acc s)
  case (Cons e cands)
  obtain k m where e: "e = (k, m)" by (rule prod.exhaust)
  show ?case
  proof (cases "claim_eligible p now ety e")
    case False
    with Cons.IH [OF Cons.prems] show ?thesis by (simp add: e)
  next
    case True
    let ?u = "claim_update (uuid (length acc)) owner until m"
    obtain n where n: "nat limit - length acc = Suc n"
      using Cons.prems by (metis Suc_diff_Suc nat_less_iff of_nat_0_le_iff zless_nat_eq_int_zless)
    show ?thesis
    proof (cases "int (length (acc @ [?u])) \<ge> limit")
      case full: True
      with n have "n = 0" by simp
      with full True n show ?thesis by (simp add: e assms(1) Let_def)
    next
      case False
      then have "int (length (acc @ [?u])) < limit" by simp
      note IH = Cons.IH [OF this, of "set_message k ?u s"]
      have "n = nat limit - length (acc @ [?u])" using n by simp
      with IH False True n show ?thesis by (simp add: e assms(1) Let_def)
    qed
  qed
qed simp

lemma claim_loop_overflow:
  assumes "dt_add now (seconds lease) = Inl err"
  shows "claim_loop uuid p now limit owner lease ety cands acc s =
     (if filter (claim_eligible p now ety) cands = [] then (Inr acc, s) else (Inl err, s))"
  by (induction cands) (auto simp: assms)

lemma hex_no_space: "c \<in> set ''0123456789abcdef'' \<Longrightarrow> \<not> py_isspace c"
  by (auto simp: py_isspace_def)

lemma claim_token_strip: "hex_string u \<Longrightarrow> py_strip (''claim_'' @ u) = ''claim_'' @ u"
  by (rule py_strip_no_space)
    (use hex_no_space [of "last u"] in \<open>auto simp: hex_string_def py_isspace_def list_all_iff\<close>)

lemma claim_update_wf:
  assumes "wf_message m" and "ob_dispatch_status m = pending \<or> ob_dispatch_status m = claimed"
    and "hex_string u" and "owner \<noteq> []" and "py_strip owner = owner"
  shows "wf_message (claim_update u owner until m)"
  using assms claim_token_strip [OF assms(3)]
  by (auto simp: wf_message_iff claim_update_def require_state_metadata_iff truthy_str_def
      strip_message_eq hex_string_def)

lemma claim_update_evolves:
  "ob_dispatch_status m = pending \<or> ob_dispatch_status m = claimed \<Longrightarrow>
     evolves m (claim_update u owner until m)"
  by (auto simp: evolves_def claim_update_def same_identity_def)

lemma claim_eligible_facts:
  "claim_eligible p now ety (k, m) \<Longrightarrow>
     fst k = pr_tenant_id p \<and> (ob_dispatch_status m = pending \<or> ob_dispatch_status m = claimed)"
  by (auto simp: claim_eligible_def)

lemma set_by_creation [simp]: "set (by_creation d) = set d"
  by (simp add: by_creation_def)

lemma by_creation_lookup:
  "outbox_inv s \<Longrightarrow> (k, m) \<in> set (by_creation (messages_by_key s)) \<Longrightarrow>
     map_of (messages_by_key s) k = Some m"
  by (simp add: outbox_inv_def)

lemma claimed_entries_set:
  "(k, m') \<in> set (claimed_entries uuid n owner until es) \<Longrightarrow>
     \<exists>i m. (k, m) \<in> set es \<and> m' = claim_update (uuid i) owner until m"
proof (induction es arbitrary: n)
  case (Cons e es)
  then show ?case by (cases e) fastforce
qed simp

lemma claim_loop_progress:
  assumes "outbox_inv s" and "\<And>i. hex_string (uuid i)" and "owner \<noteq> []" and "py_strip owner = owner"
    and "1 \<le> limit"
  shows "progress p s (snd (claim_loop uuid p now limit owner lease ety
                              (by_creation (messages_by_key s)) [] s))"
proof (cases "dt_add now (seconds lease)")
  case (Inl err)
  then show ?thesis by (simp add: claim_loop_overflow)
next
  case (Inr until)
  let ?es = "take (nat limit) (filter (claim_eligible p now ety) (by_creation (messages_by_key s)))"
  have "progress p s (put_all (claimed_entries uuid 0 owner until ?es) s)"
  proof (rule put_all_progress [OF progress_refl])
    fix k m' assume "(k, m') \<in> set (claimed_entries uuid 0 owner until ?es)"
    from claimed_entries_set [OF this] obtain i m where m: "(k, m) \<in> set ?es"
      and m': "m' = claim_update (uuid i) owner until m" by blast
    from in_set_takeD [OF m] have el: "claim_eligible p now ety (k, m)"
      and look: "map_of (messages_by_key s) k = Some m"
      by (auto intro: by_creation_lookup [OF assms(1)])
    from look m' claim_eligible_facts [OF el] assms(2-4)
    show "\<exists>m. map_of (messages_by_key s) k = Some m \<and> evolves m m'
            \<and> (wf_message m \<longrightarrow> wf_message m') \<and> fst k = pr_tenant_id p"
      by (auto intro: claim_update_evolves claim_update_wf)
  qed
  then show ?thesis using assms(5) by (simp add: claim_loop_exact [OF Inr] Let_def)
qed

lemma check_owner_Inr: "check_owner owner = Inr o' \<Longrightarrow> o' = py_strip owner \<and> o' \<noteq> [] \<and> py_strip o' = o'"
  by (auto simp: check_owner_def Let_def split: if_splits)

lemma claim_due_progress:
  assumes "outbox_inv s" and "\<And>i. hex_string (uuid i)"
  shows "progress p s (snd (claim_due uuid p now limit owner lease ety s))"
proof (cases "bindR (require_trusted_principal p) (\<lambda>_.
           bindR (canonical_utc now ''now'') (\<lambda>t.
           bindR (check_limit limit) (\<lambda>_.
           bindR (check_lease lease) (\<lambda>_.
           bindR (check_owner owner) (\<lambda>o'. Inr (t, o'))))))")
  case (Inl e)
  then show ?thesis by (simp add: claim_due_def)
next
  case (Inr to)
  obtain t o' where to: "to = (t, o')" by force
  from Inr have "check_owner owner = Inr o'" "check_limit limit = Inr ()"
    by (auto simp: bindR_eq_Inr to)
  then have "o' \<noteq> []" "py_strip o' = o'" "1 \<le> limit"
    using check_owner_Inr [of owner o'] by (auto simp: check_limit_def split: if_splits)
  then show ?thesis
    using Inr claim_loop_progress [OF assms] by (simp add: claim_due_def to)
qed

lemma sweep_update_wf:
  assumes "wf_message m" and "ob_dispatch_status m = sending"
  shows "wf_message (sweep_update error m)"
  using assms
  by (auto simp: wf_message_iff sweep_update_def require_state_metadata_iff strip_message_eq
      claim_metadata_def)

lemma sweep_update_evolves: "ob_dispatch_status m = sending \<Longrightarrow> evolves m (sweep_update error m)"
  by (simp add: evolves_def sweep_update_def same_identity_def)

lemma sweep_eligible_facts:
  "sweep_eligible p now ety (k, m) \<Longrightarrow> fst k = pr_tenant_id p \<and> ob_dispatch_status m = sending"
  by (auto simp: sweep_eligible_def)

lemma sweep_loop_exact:
  assumes "\<And>k m. (k, m) \<in> set cands \<Longrightarrow> wf_message m" and "int (length acc) < limit"
  shows "sweep_loop p now error limit ety cands acc s =
     (let es = map (\<lambda>(k, m). (k, sweep_update error m))
                 (take (nat limit - length acc) (filter (sweep_eligible p now ety) cands))
      in (Inr (acc @ map snd es), put_all es s))"
  using assms
proof (induction cands arbitrary: acc s)
  case (Cons e cands)
  obtain k m where e: "e = (k, m)" by (rule prod.exhaust)
  have wf: "\<And>k m. (k, m) \<in> set cands \<Longrightarrow> wf_message m" using Cons.prems(1) by auto
  show ?case
  proof (cases "sweep_eligible p now ety e")
    case False
    with Cons.IH [OF wf Cons.prems(2)] show ?thesis by (simp add: e)
  next
    case True
    let ?u = "sweep_update error m"
    have v: "OutboxMessage_validate ?u = Inr ?u"
      using sweep_update_wf Cons.prems(1) sweep_eligible_facts True
      by (metis e list.set_intros(1) wf_message_def)
    obtain n where n: "nat limit - length acc = Suc n"
      using Cons.prems(2) by (metis Suc_diff_Suc nat_less_iff of_nat_0_le_iff zless_nat_eq_int_zless)
    show ?thesis
    proof (cases "int (length (acc @ [?u])) \<ge> limit")
      case full: True
      with n have "n = 0" by simp
      with full True n v show ?thesis by (simp add: e Let_def)
    next
      case False
      then have "int (length (acc @ [?u])) < limit" by simp
      note IH = Cons.IH [OF wf this, where s = "set_message k ?u s"]
      have "n = nat limit - length (acc @ [?u])" using n by simp
      with IH False True n v show ?thesis by (simp add: e Let_def)
    qed
  qed
qed simp

lemma sweep_progress:
  assumes "outbox_inv s"
  shows "progress p s (snd (sweep_expired_sending p now error limit ety s))"
proof (cases "bindR (require_trusted_principal p) (\<lambda>_.
           bindR (canonical_utc now ''now'') (\<lambda>t. bindR (check_limit limit) (\<lambda>_. Inr t)))")
  case (Inl e)
  then show ?thesis by (simp add: sweep_expired_sending_def)
next
  case (Inr t)
  then have lim: "1 \<le> limit" by (auto simp: bindR_eq_Inr check_limit_def split: if_splits)
  let ?es = "take (nat limit) (filter (sweep_eligible p t ety) (by_creation (messages_by_key s)))"
  have wf: "\<And>k m. (k, m) \<in> set (by_creation (messages_by_key s)) \<Longrightarrow> wf_message m"
    using by_creation_lookup [OF assms] outbox_inv_wf [OF assms] by blast
  have "progress p s (put_all (map (\<lambda>(k, m). (k, sweep_update error m)) ?es) s)"
  proof (rule put_all_progress [OF progress_refl])
    fix k m' assume "(k, m') \<in> set (map (\<lambda>(k, m). (k, sweep_update error m)) ?es)"
    then obtain m where m: "(k, m) \<in> set ?es" and m': "m' = sweep_update error m" by auto
    from in_set_takeD [OF m] have el: "sweep_eligible p t ety (k, m)"
      and look: "map_of (messages_by_key s) k = Some m"
      by (auto intro: by_creation_lookup [OF assms])
    with m' sweep_eligible_facts [OF el]
    show "\<exists>m. map_of (messages_by_key s) k = Some m \<and> evolves m m'
            \<and> (wf_message m \<longrightarrow> wf_message m') \<and> fst k = pr_tenant_id p"
      by (auto intro: sweep_update_wf sweep_update_evolves)
  qed
  then show ?thesis
    using Inr lim sweep_loop_exact [of "by_creation (messages_by_key s)" "[]" limit, OF wf]
    by (simp add: sweep_expired_sending_def Let_def)
qed

end
