(* ===== verification/Outbox_Machine.thy ===== *)
theory Outbox_Machine
  imports Outbox_Invariants Contracts
begin

text \<open>
  The outbox as a state machine: one rule per public method, reachable states, and the
  properties that hold in every interleaving of callers.
\<close>

section \<open>Steps\<close>

inductive outbox_step :: "write_fp \<Rightarrow> principal \<Rightarrow> outbox \<Rightarrow> outbox \<Rightarrow> bool"
  for fp :: write_fp and p :: principal where
  add: "wf_principal p \<Longrightarrow> outbox_add fp uuid clock p ev key nxt mid s = (r, s') \<Longrightarrow> outbox_step fp p s s'"
| claim_due: "(\<And>i. hex_string (us i)) \<Longrightarrow> claim_due us p now limit owner lease ety s = (r, s')
     \<Longrightarrow> outbox_step fp p s s'"
| mark_sending: "mark_sending p i tok started s = (r, s') \<Longrightarrow> outbox_step fp p s s'"
| mark_claim_failed: "mark_claim_failed p i tok err s = (r, s') \<Longrightarrow> outbox_step fp p s s'"
| sweep: "sweep_expired_sending p now err limit ety s = (r, s') \<Longrightarrow> outbox_step fp p s s'"
| mark_published: "mark_published clock p i tok at s = (r, s') \<Longrightarrow> outbox_step fp p s s'"
| mark_failed: "mark_failed p i tok err s = (r, s') \<Longrightarrow> outbox_step fp p s s'"
| mark_uncertain: "mark_uncertain p i tok err s = (r, s') \<Longrightarrow> outbox_step fp p s s'"
| release: "release p i tok nxt s = (r, s') \<Longrightarrow> outbox_step fp p s s'"
| reschedule: "reschedule p i tok nxt_at err s = (r, s') \<Longrightarrow> outbox_step fp p s s'"
| resolve_delivered: "resolve_uncertain_delivered p i pub s = (r, s') \<Longrightarrow> outbox_step fp p s s'"
| resolve_retry: "resolve_uncertain_retry p i nxt_at s = (r, s') \<Longrightarrow> outbox_step fp p s s'"

text \<open>Any number of calls by the principals of \<open>P\<close>.\<close>

abbreviation outbox_run :: "write_fp \<Rightarrow> principal set \<Rightarrow> outbox \<Rightarrow> outbox \<Rightarrow> bool" where
  "outbox_run fp P \<equiv> (\<lambda>s s'. \<exists>p \<in> P. outbox_step fp p s s')\<^sup>*\<^sup>*"

section \<open>Adding a message\<close>

definition adds :: "principal \<Rightarrow> outbox \<Rightarrow> outbox \<Rightarrow> bool" where
  "adds p s s' \<longleftrightarrow> (\<exists>k m. fst k = pr_tenant_id p \<and> map_of (messages_by_key s) k = None
     \<and> messages_by_key s' = messages_by_key s @ [(k, m)]
     \<and> ob_dispatch_status m = pending \<and> ob_attempts m = 0 \<and> ob_claim_token m = None)"

lemma validate_new_message:
  assumes "OutboxMessage_validate (new_message uuid clock p ev key nxt mid) = Inr m"
    and "wf_principal p"
  shows "wf_message m" "ob_tenant_id m = pr_tenant_id p" "ob_idempotency_key m = py_strip key"
    "ob_event m = ev" "ob_dispatch_status m = pending" "ob_attempts m = 0"
    "ob_claim_token m = None"
  using assms validate_wf [OF assms(1)]
  by (auto simp: OutboxMessage_validate_Inr new_message_def wf_principal_def strip_message_def)

definition added :: "write_fp \<Rightarrow> principal \<Rightarrow> cloud_event \<Rightarrow> string \<Rightarrow> instant option \<Rightarrow> string option
    \<Rightarrow> outbox_message \<Rightarrow> outbox \<Rightarrow> outbox" where
  "added fp p ev key n mid m s =
     s\<lparr>messages_by_key := AList.update (pr_tenant_id p, key) m (messages_by_key s),
       key_by_message_id := AList.update (pr_tenant_id p, ob_id m) key (key_by_message_id s),
       key_by_event_id := AList.update (pr_tenant_id p, ev_id ev) key (key_by_event_id s),
       ob_fingerprints := AList.update (pr_tenant_id p, key) (fp ev n mid) (ob_fingerprints s)\<rparr>"

lemma outbox_add_effect:
  assumes "outbox_add fp uuid clock p ev key nxt mid s = (r, s')"
  shows "s' = s \<or> (\<exists>n m. ev_tenant_id ev = pr_tenant_id p
      \<and> map_of (messages_by_key s) (pr_tenant_id p, key) = None
      \<and> OutboxMessage_validate (new_message uuid clock p ev key n mid) = Inr m
      \<and> map_of (key_by_message_id s) (pr_tenant_id p, ob_id m) \<in> {None, Some key}
      \<and> map_of (key_by_event_id s) (pr_tenant_id p, ev_id ev) \<in> {None, Some key}
      \<and> r = Inr m \<and> opt_canonical_utc nxt ''next_attempt_at'' = Inr n
      \<and> s' = added fp p ev key n mid m s)"
  using assms
  by (auto simp: outbox_add_def added_def Let_def require_trusted_principal_cases
      split: if_splits option.splits sum.splits)

text \<open>A secondary index stays consistent when a new entry is put in both dictionaries.\<close>

lemma index_after_add:
  assumes idx: "\<And>t i k. map_of ix (t, i) = Some k \<Longrightarrow> \<exists>x. map_of d (t, k) = Some x \<and> f x = i"
    and new: "map_of d (T, key) = None"
    and look: "map_of (AList.update (T, f m) key ix) (t, i) = Some k"
  shows "\<exists>x. map_of (AList.update (T, key) m d) (t, k) = Some x \<and> f x = i"
proof (cases "(t, i) = (T, f m)")
  case True
  with look show ?thesis by (auto simp: map_of_update)
next
  case False
  with look have "map_of ix (t, i) = Some k" by (auto simp: map_of_update)
  with idx obtain x where x: "map_of d (t, k) = Some x" "f x = i" by blast
  with new have "(t, k) \<noteq> (T, key)" by force
  with x show ?thesis by (auto simp: map_of_update)
qed

lemma outbox_add_inv:
  assumes inv: "outbox_inv s" and p: "wf_principal p"
    and add: "outbox_add fp uuid clock p ev key nxt mid s = (r, s')"
  shows "outbox_inv s' \<and> (s' = s \<or> adds p s s')"
proof (cases "s' = s")
  case False
  let ?t = "pr_tenant_id p"
  obtain n m where new: "ev_tenant_id ev = ?t" "map_of (messages_by_key s) (?t, key) = None"
      "OutboxMessage_validate (new_message uuid clock p ev key n mid) = Inr m"
      "map_of (key_by_message_id s) (?t, ob_id m) \<in> {None, Some key}"
      "map_of (key_by_event_id s) (?t, ev_id ev) \<in> {None, Some key}"
      and s': "s' = added fp p ev key n mid m s"
    using outbox_add_effect [OF add] False by blast
  note m = validate_new_message [OF new(3) p]
  have fresh_id: "map_of (key_by_message_id s) (?t, ob_id m) = None"
    using outbox_inv_index(1) [OF inv] new(2,4) by fastforce
  have fresh_ev: "map_of (key_by_event_id s) (?t, ev_id ev) = None"
    using outbox_inv_index(2) [OF inv] new(2,5) by fastforce
  have inv': "outbox_inv s'"
  proof (rule outbox_invI)
    show "distinct (map fst (messages_by_key s'))"
      using inv by (auto simp: s' added_def outbox_inv_def)
  next
    fix t k x assume look: "map_of (messages_by_key s') (t, k) = Some x"
    show "wf_message x \<and> ob_tenant_id x = t \<and> ob_idempotency_key x = py_strip k
          \<and> ev_tenant_id (ob_event x) = t
          \<and> map_of (key_by_message_id s') (t, ob_id x) = Some k
          \<and> map_of (key_by_event_id s') (t, ev_id (ob_event x)) = Some k
          \<and> map_of (ob_fingerprints s') (t, k) \<noteq> None"
    proof (cases "(t, k) = (?t, key)")
      case True
      with look m new(1) show ?thesis by (simp add: s' added_def map_of_update)
    next
      case False
      with look have "map_of (messages_by_key s) (t, k) = Some x"
        by (auto simp: s' added_def map_of_update split: if_splits)
      from outbox_inv_message [OF inv this] fresh_id fresh_ev show ?thesis
        by (auto simp: s' added_def map_of_update)
    qed
  next
    fix t i k assume "map_of (key_by_message_id s') (t, i) = Some k"
    then show "\<exists>x. map_of (messages_by_key s') (t, k) = Some x \<and> ob_id x = i"
      using index_after_add [OF outbox_inv_index(1) [OF inv] new(2)] by (simp add: s' added_def)
  next
    fix t i k assume "map_of (key_by_event_id s') (t, i) = Some k"
    then show "\<exists>x. map_of (messages_by_key s') (t, k) = Some x \<and> ev_id (ob_event x) = i"
      using index_after_add [OF outbox_inv_index(2) [OF inv] new(2), where m = m] m(4)
      by (simp add: s' added_def)
  qed
  have "adds p s s'"
    unfolding adds_def using new(2) m(5-7) by (auto simp: s' added_def update_append_new)
  with inv' show ?thesis by simp
qed (use inv in simp)

section \<open>Every call keeps the invariant and moves along legal edges\<close>

lemma lift_bindS_snd:
  assumes "\<And>x. Q (snd (f x s))" and "Q s"
  shows "Q (snd (bindS (lift r) f s))"
  using assms by (cases r) (simp_all add: bindS_def lift_def)

lemmas guarded_ops = mark_sending_def mark_claim_failed_def mark_published_def mark_failed_def
  mark_uncertain_def terminal_error_def release_def reschedule_def

lemma guarded_progress:
  assumes "outbox_inv s"
  shows "progress p s (snd (mark_sending p i tok started s))"
    "progress p s (snd (mark_claim_failed p i tok err s))"
    "progress p s (snd (mark_published clock p i tok at s))"
    "progress p s (snd (mark_failed p i tok err s))"
    "progress p s (snd (mark_uncertain p i tok err s))"
    "progress p s (snd (release p i tok nxt s))"
    "progress p s (snd (reschedule p i tok nxt_at err s))"
    "progress p s (snd (resolve_uncertain_delivered p i pub s))"
    "progress p s (snd (resolve_uncertain_retry p i nxt_at s))"
  unfolding guarded_ops resolve_uncertain_delivered_def resolve_uncertain_retry_def
  using assms
  by (auto intro!: lift_bindS_snd [where Q = "progress p s"] transition_progress
      operator_transition_progress)

lemma outbox_step_effect:
  assumes "outbox_step fp p s s'" and "outbox_inv s"
  shows "progress p s s' \<or> (adds p s s' \<and> outbox_inv s')"
  using assms
proof cases
  case (add uuid clock ev key nxt mid r)
  then show ?thesis using outbox_add_inv [OF assms(2)] by (metis progress_refl)
next
  case (claim_due us now limit owner lease ety r)
  then show ?thesis using claim_due_progress [OF assms(2)] by (metis snd_conv)
next
  case (sweep now err limit ety r)
  then show ?thesis using sweep_progress [OF assms(2)] by (metis snd_conv)
qed (metis guarded_progress [OF assms(2)] snd_conv)+

lemma outbox_init_inv: "outbox_inv InMemoryOutbox_init"
  by (simp add: outbox_inv_def InMemoryOutbox_init_def)

lemma outbox_step_inv: "outbox_step fp p s s' \<Longrightarrow> outbox_inv s \<Longrightarrow> outbox_inv s'"
  using outbox_step_effect progress_inv by blast

lemma adds_lookup:
  "adds p s s' \<Longrightarrow> map_of (messages_by_key s) k = Some m \<Longrightarrow> map_of (messages_by_key s') k = Some m"
  by (auto simp: adds_def map_add_def)

lemma outbox_step_message:
  assumes "outbox_step fp p s s'" and "outbox_inv s" and "map_of (messages_by_key s) k = Some m"
  shows "\<exists>m'. map_of (messages_by_key s') k = Some m' \<and> evolves m m'
              \<and> (fst k \<noteq> pr_tenant_id p \<longrightarrow> m' = m)"
  using outbox_step_effect [OF assms(1,2)] progress_forward [OF _ assms(3)]
    adds_lookup [OF _ assms(3)] evolves_refl by blast

lemma outbox_step_tenants:
  assumes "outbox_step fp p s s'" and "outbox_inv s" and "t \<noteq> pr_tenant_id p"
  shows "tenant_part t (messages_by_key s') = tenant_part t (messages_by_key s)"
  using outbox_step_effect [OF assms(1,2)] assms(3)
  by (auto simp: progress_def adds_def tenant_part_def)

interpretation ob: tenant_machine "outbox_step fp" outbox_inv InMemoryOutbox_init pr_tenant_id
    "\<lambda>t s. tenant_part t (messages_by_key s)" for fp
  by unfold_locales (blast intro: outbox_init_inv outbox_step_inv outbox_step_tenants)+

interpretation ob_txn: participant snapshot_outbox restore_outbox
  by unfold_locales (simp add: snapshot_outbox_def restore_outbox_def)

text \<open>A message is found by its id: ids are unique within a tenant.\<close>

lemma find_message:
  assumes inv: "outbox_inv s" and look: "map_of (messages_by_key s) (pr_tenant_id p, k) = Some m"
  shows "find (is_message p (ob_id m)) (messages_by_key s) = Some ((pr_tenant_id p, k), m)"
proof (cases "find (is_message p (ob_id m)) (messages_by_key s)")
  case None
  from find_NoneD [OF None map_of_SomeD [OF look]] show ?thesis by (simp add: is_message_def)
next
  case (Some e)
  obtain t' k' m' where e: "e = ((t', k'), m')" by (metis surj_pair)
  note f = find_is_message [OF inv Some [unfolded e]]
  from f(1,2) have "map_of (messages_by_key s) (pr_tenant_id p, k') = Some m'" by simp
  from outbox_inv_message [OF inv this] outbox_inv_message [OF inv look] f(3)
  have "k' = k" by (metis option.inject)
  with f look e Some show ?thesis by simp
qed

end
