(* ===== verification/Idempotency.thy ===== *)
theory Idempotency
  imports Json
begin

text \<open>
  Canonical reminder identities, effect ids and payload fingerprints:
  \<^verbatim>\<open>domain/reminders/idempotency.py\<close>. \<open>sha\<close> is the hexadecimal SHA-256 digest of a
  byte string. On strings of code points below 256 Unicode NFC is the identity (all such
  strings are in NFC), and case folding is lower-casing except for the sharp s; folding
  also renames the micro sign to a Greek letter, for which the model keeps the code of the
  micro sign (the Greek letter is not otherwise in the range).
\<close>

section \<open>Definitions\<close>

definition REMINDER_IDEMPOTENCY_VERSION :: int where "REMINDER_IDEMPOTENCY_VERSION = 2"
definition REMINDER_IDEMPOTENCY_KEY_PREFIX :: string where
  "REMINDER_IDEMPOTENCY_KEY_PREFIX = ''reminder:v2:''"
definition IDENTITY_SCHEMA :: string where
  "IDENTITY_SCHEMA = ''personal-assistant.reminder-idempotency-identity''"
definition PAYLOAD_SCHEMA :: string where
  "PAYLOAD_SCHEMA = ''personal-assistant.reminder-idempotency-payload''"
definition EFFECT_ID_SCHEMA :: string where
  "EFFECT_ID_SCHEMA = ''personal-assistant.reminder-effect-id''"

definition sha256_text :: "(string \<Rightarrow> string) \<Rightarrow> string \<Rightarrow> string" where
  "sha256_text sha v = sha (utf8_encode v)"

definition nfc :: "string \<Rightarrow> string" where
  "nfc s = s"

definition fold_char :: "char \<Rightarrow> string" where
  "fold_char c = (if c = CHR 0xDF then ''ss'' else [py_lower_char c])"

definition py_casefold :: "string \<Rightarrow> string" where
  "py_casefold s = concat (map fold_char s)"

definition normalize_text :: "string \<Rightarrow> string result" where
  "normalize_text v =
     (let n = nfc (py_strip v) in
      if n = [] then Inl (ValueError ''idempotency value cannot be blank'') else Inr n)"

record reminder_identity =
  ri_tenant_id :: string
  ri_channel :: string
  ri_principal_id :: string
  ri_conversation_id :: string
  ri_source_event_id :: string

definition ReminderIdempotencyIdentity_make ::
    "string \<Rightarrow> string \<Rightarrow> string \<Rightarrow> string \<Rightarrow> string \<Rightarrow> reminder_identity result" where
  "ReminderIdempotencyIdentity_make tenant channel pid conversation source_event =
     bindR (normalize_text tenant) (\<lambda>t.
     bindR (normalize_text channel) (\<lambda>c.
     bindR (normalize_text pid) (\<lambda>p.
     bindR (normalize_text conversation) (\<lambda>v.
     bindR (normalize_text source_event) (\<lambda>e.
       Inr \<lparr>ri_tenant_id = t, ri_channel = py_casefold c, ri_principal_id = p,
             ri_conversation_id = v, ri_source_event_id = e\<rparr>)))))"

definition identity_document :: "reminder_identity \<Rightarrow> json" where
  "identity_document i = JDict
     [(''channel'', JStr (ri_channel i)),
      (''conversation_id'', JStr (ri_conversation_id i)),
      (''principal_id'', JStr (ri_principal_id i)),
      (''schema'', JStr IDENTITY_SCHEMA),
      (''source_event_id'', JStr (ri_source_event_id i)),
      (''tenant_id'', JStr (ri_tenant_id i)),
      (''version'', JInt REMINDER_IDEMPOTENCY_VERSION)]"

definition identity_key :: "(string \<Rightarrow> string) \<Rightarrow> reminder_identity \<Rightarrow> string" where
  "identity_key sha i =
     REMINDER_IDEMPOTENCY_KEY_PREFIX @ sha256_text sha (canonical_json (identity_document i))"

record reminder_effect_ids =
  fx_calendar_event_id :: string
  fx_reminder_id :: string
  fx_reminder_created_event_id :: string
  fx_notification_requested_event_id :: string
  fx_outbox_message_id :: string

definition effect_document :: "reminder_identity \<Rightarrow> string \<Rightarrow> json" where
  "effect_document i namespace = JDict
     [(''identity'', identity_document i), (''namespace'', JStr namespace),
      (''schema'', JStr EFFECT_ID_SCHEMA), (''version'', JInt REMINDER_IDEMPOTENCY_VERSION)]"

definition derive_id :: "(string \<Rightarrow> string) \<Rightarrow> reminder_identity \<Rightarrow> string \<Rightarrow> string \<Rightarrow> string" where
  "derive_id sha i namespace prefix =
     prefix @ sha256_text sha (canonical_json (effect_document i namespace))"

definition effect_ids :: "(string \<Rightarrow> string) \<Rightarrow> reminder_identity \<Rightarrow> reminder_effect_ids" where
  "effect_ids sha i =
     \<lparr>fx_calendar_event_id = derive_id sha i ''calendar.event'' ''cal_v2_'',
      fx_reminder_id = derive_id sha i ''scheduler.reminder'' ''rem_v2_'',
      fx_reminder_created_event_id =
        derive_id sha i ''event.reminder.created'' ''evt_reminder_created_v2_'',
      fx_notification_requested_event_id =
        derive_id sha i ''event.notification.requested'' ''evt_notification_requested_v2_'',
      fx_outbox_message_id = derive_id sha i ''outbox.message'' ''out_v2_''\<rparr>"

record reminder_payload =
  rp_text :: string
  rp_recipient :: string
  rp_timezone :: string

definition ReminderPayload_make :: "string \<Rightarrow> string \<Rightarrow> string \<Rightarrow> reminder_payload result" where
  "ReminderPayload_make text recipient timezone =
     bindR (normalize_text text) (\<lambda>t.
     bindR (normalize_text recipient) (\<lambda>r.
     bindR (normalize_text timezone) (\<lambda>z.
       Inr \<lparr>rp_text = t, rp_recipient = r, rp_timezone = z\<rparr>)))"

definition payload_document :: "reminder_payload \<Rightarrow> json" where
  "payload_document p = JDict
     [(''recipient'', JStr (rp_recipient p)), (''schema'', JStr PAYLOAD_SCHEMA),
      (''text'', JStr (rp_text p)), (''timezone'', JStr (rp_timezone p)),
      (''version'', JInt REMINDER_IDEMPOTENCY_VERSION)]"

definition reminder_payload_fingerprint :: "(string \<Rightarrow> string) \<Rightarrow> reminder_payload \<Rightarrow> string" where
  "reminder_payload_fingerprint sha p = sha256_text sha (canonical_json (payload_document p))"

record reminder_idempotency =
  idem_identity :: reminder_identity
  idem_payload :: reminder_payload

definition idem_key :: "(string \<Rightarrow> string) \<Rightarrow> reminder_idempotency \<Rightarrow> string" where
  "idem_key sha r = identity_key sha (idem_identity r)"

definition idem_payload_fingerprint :: "(string \<Rightarrow> string) \<Rightarrow> reminder_idempotency \<Rightarrow> string" where
  "idem_payload_fingerprint sha r = reminder_payload_fingerprint sha (idem_payload r)"

definition idem_effect_ids :: "(string \<Rightarrow> string) \<Rightarrow> reminder_idempotency \<Rightarrow> reminder_effect_ids" where
  "idem_effect_ids sha r = effect_ids sha (idem_identity r)"

definition ReminderIdempotencyConflict :: "string \<Rightarrow> string \<Rightarrow> py_error" where
  "ReminderIdempotencyConflict tenant key =
     AssistantError CONFLICT ''reminder replay payload conflicts with the registered event''
       (Some tenant) [(''idempotency_key'', CStr key), (''identity_version'', CInt REMINDER_IDEMPOTENCY_VERSION)]"

definition reminder_idempotency_key ::
    "(string \<Rightarrow> string) \<Rightarrow> string \<Rightarrow> string \<Rightarrow> string \<Rightarrow> string \<Rightarrow> string \<Rightarrow> string result" where
  "reminder_idempotency_key sha tenant channel pid conversation source_event =
     bindR (ReminderIdempotencyIdentity_make tenant channel pid conversation source_event)
       (\<lambda>i. Inr (identity_key sha i))"

section \<open>The documents determine their fields\<close>

definition sha_collision :: "(string \<Rightarrow> string) \<Rightarrow> json \<Rightarrow> json \<Rightarrow> bool" where
  "sha_collision sha v w \<longleftrightarrow> utf8_encode (canonical_json v) \<noteq> utf8_encode (canonical_json w)
     \<and> sha (utf8_encode (canonical_json v)) = sha (utf8_encode (canonical_json w))"

lemma sort_strings_id [simp]:
  "canon (identity_document i) = identity_document i"
  "canon (effect_document i n) = effect_document i n"
  "canon (payload_document p) = payload_document p"
  by (simp_all add: identity_document_def effect_document_def payload_document_def)

lemma document_digest:
  assumes "canon v = v" and "canon w = w"
  shows "sha256_text sha (canonical_json v) = sha256_text sha (canonical_json w) \<longleftrightarrow>
     v = w \<or> sha_collision sha v w"
  using assms
  by (auto simp: sha256_text_def sha_collision_def utf8_encode_inj canonical_json_def render_inj)

lemma identity_document_inj: "identity_document i = identity_document j \<longleftrightarrow> i = j"
  by (auto simp: identity_document_def)

lemma effect_document_inj: "effect_document i n = effect_document j m \<longleftrightarrow> i = j \<and> n = m"
  by (auto simp: effect_document_def identity_document_inj)

lemma payload_document_inj: "payload_document p = payload_document q \<longleftrightarrow> p = q"
  by (auto simp: payload_document_def)

section \<open>Properties\<close>

text \<open>C31: idempotency keys separate identities.
  Two identities have the same idempotency key exactly when they agree in tenant, channel,
  principal, conversation and source event, unless their canonical documents are a
  collision of SHA-256: no field content can imitate a delimiter of the document.\<close>

theorem identity_key_separates:
  "identity_key sha i = identity_key sha j \<longleftrightarrow>
     i = j \<or> sha_collision sha (identity_document i) (identity_document j)"
  by (simp add: identity_key_def document_digest identity_document_inj)

definition id_list :: "reminder_effect_ids \<Rightarrow> string list" where
  "id_list e = [fx_calendar_event_id e, fx_reminder_id e, fx_reminder_created_event_id e,
     fx_notification_requested_event_id e, fx_outbox_message_id e]"

text \<open>Effect ids separate effects and identities.
  The five ids derived from one identity are pairwise distinct, whatever the digest, and an
  id of one identity equals the id of another only for the same effect and then only when the
  identities are equal or their effect documents collide under SHA-256.\<close>

theorem effect_ids_separate:
  "distinct (id_list (effect_ids sha i))
   \<and> (\<forall>a < 5. \<forall>b < 5. id_list (effect_ids sha i) ! a = id_list (effect_ids sha j) ! b \<longrightarrow>
        a = b \<and> (i = j \<or> (\<exists>n. sha_collision sha (effect_document i n) (effect_document j n))))"
proof -
  have d: "derive_id sha i n q = derive_id sha j n q \<longleftrightarrow>
      i = j \<or> sha_collision sha (effect_document i n) (effect_document j n)" for n q
    by (simp add: derive_id_def document_digest effect_document_inj)
  have "distinct (id_list (effect_ids sha i))"
    by (simp add: id_list_def effect_ids_def derive_id_def)
  moreover have "a = b \<and> (i = j \<or> (\<exists>n. sha_collision sha (effect_document i n) (effect_document j n)))"
    if "a < 5" "b < 5" "id_list (effect_ids sha i) ! a = id_list (effect_ids sha j) ! b" for a b
  proof -
    have "a = 0 \<or> a = 1 \<or> a = 2 \<or> a = 3 \<or> a = 4" "b = 0 \<or> b = 1 \<or> b = 2 \<or> b = 3 \<or> b = 4"
      using that(1,2) by linarith+
    then have ab: "a = b"
      using that(3) by (elim disjE) (simp_all add: id_list_def effect_ids_def derive_id_def)
    with \<open>a = 0 \<or> a = 1 \<or> a = 2 \<or> a = 3 \<or> a = 4\<close> that(3) show ?thesis
      by (elim disjE) (auto simp: id_list_def effect_ids_def d)
  qed
  ultimately show ?thesis by blast
qed


lemma effect_ids_separate_witness:
  "id_list (effect_ids (\<lambda>b. b) (\<lparr>ri_tenant_id = ''t1'', ri_channel = ''telegram'', ri_principal_id = ''u1'',
        ri_conversation_id = ''c1'', ri_source_event_id = ''e1''\<rparr>)) ! 0
   \<noteq> id_list (effect_ids (\<lambda>b. b) (\<lparr>ri_tenant_id = ''t2'', ri_channel = ''telegram'', ri_principal_id = ''u1'',
        ri_conversation_id = ''c1'', ri_source_event_id = ''e1''\<rparr>)) ! 0"
  (is "id_list (effect_ids ?h ?i) ! 0 \<noteq> id_list (effect_ids ?h ?j) ! 0")
proof
  assume "id_list (effect_ids ?h ?i) ! 0 = id_list (effect_ids ?h ?j) ! 0"
  with effect_ids_separate [of ?h ?i ?j] have
    "?i = ?j \<or> (\<exists>n. sha_collision ?h (effect_document ?i n) (effect_document ?j n))" by fastforce
  then show False by (simp add: sha_collision_def)
qed

lemma py_strip_ends:
  assumes "py_strip s = s" and "s \<noteq> []"
  shows "\<not> py_isspace (hd s) \<and> \<not> py_isspace (last s)"
proof -
  let ?u = "dropWhile py_isspace (rev (dropWhile py_isspace s))"
  have s: "s = rev ?u" using assms(1) by (simp add: py_strip_def)
  have "?u \<noteq> []" using s assms(2) by (metis rev.simps(1))
  then have "\<not> py_isspace (hd ?u)" by (rule hd_dropWhile)
  then have l: "\<not> py_isspace (last s)" using s assms(2) by (metis hd_rev rev_rev_ident)
  have "dropWhile py_isspace s = s"
    using s by (metis append_self_conv2 length_append length_rev dropWhile_eq_self_iff dropWhile_rev_dropWhile)
  then show ?thesis using l assms(2) by (metis hd_dropWhile)
qed

lemma py_isspace_char_of:
  "n < 256 \<Longrightarrow> py_isspace (char_of (n :: nat)) \<longleftrightarrow> n \<in> {9, 10, 11, 12, 13, 28, 29, 30, 31, 32, 133, 160}"
  by (simp add: py_isspace_def char_of_eq_iff take_bit_eq_mod)

lemma py_lower_char_of:
  "n < 256 \<Longrightarrow> py_lower_char (char_of (n :: nat)) =
     char_of (if 65 \<le> n \<and> n \<le> 90 \<or> 192 \<le> n \<and> n \<le> 222 \<and> n \<noteq> 215 then n + 32 else n)"
  by (simp add: py_lower_char_def Let_def of_char_of)

lemma lower_char_facts:
  "py_isspace (py_lower_char c) = py_isspace c" "py_lower_char (py_lower_char c) = py_lower_char c"
  "c \<noteq> CHR 0xDF \<Longrightarrow> py_lower_char c \<noteq> CHR 0xDF"
proof -
  define n :: nat where "n = of_char c"
  then have c: "c = char_of n" "n < 256" by (simp_all add: char_of_char)
  show "py_isspace (py_lower_char c) = py_isspace c"
    using c by (auto simp: py_lower_char_of py_isspace_char_of)
  show "py_lower_char (py_lower_char c) = py_lower_char c"
    using c by (auto simp: py_lower_char_of)
  show "c \<noteq> CHR 0xDF \<Longrightarrow> py_lower_char c \<noteq> CHR 0xDF"
    using c by (auto simp: py_lower_char_of char_of_eq_iff take_bit_eq_mod)
qed

lemma py_casefold_fold_char: "py_casefold (fold_char c) = fold_char c"
  using lower_char_facts(2,3) [of c] by (auto simp: py_casefold_def fold_char_def py_lower_char_def)

lemma py_casefold_idem: "py_casefold (py_casefold s) = py_casefold s"
  by (induction s) (simp_all add: py_casefold_def py_casefold_fold_char [unfolded py_casefold_def])

lemma fold_char_ends:
  "fold_char c \<noteq> []" "py_isspace (hd (fold_char c)) = py_isspace c" "py_isspace (last (fold_char c)) = py_isspace c"
  by (cases "c = CHR 0xDF"; simp add: fold_char_def lower_char_facts(1); simp add: py_isspace_def)+

lemma py_strip_casefold:
  assumes "py_strip s = s"
  shows "py_strip (py_casefold s) = py_casefold s" and "py_casefold s = [] \<longleftrightarrow> s = []"
proof -
  show e: "py_casefold s = [] \<longleftrightarrow> s = []" using fold_char_ends(1) by (cases s) (auto simp: py_casefold_def)
  show "py_strip (py_casefold s) = py_casefold s"
  proof (rule py_strip_no_space, cases "s = []")
    case False
    then obtain c cs b d where s: "s = c # cs" "s = b @ [d]" by (metis neq_Nil_conv rev_exhaust)
    have "hd (py_casefold s) = hd (fold_char c)" "last (py_casefold s) = last (fold_char d)"
      using fold_char_ends(1) by (simp add: py_casefold_def s(1)) (simp add: py_casefold_def s(2) fold_char_ends(1))
    with py_strip_ends [OF assms False] s fold_char_ends(2,3)
    show "py_casefold s = [] \<or> \<not> py_isspace (hd (py_casefold s)) \<and> \<not> py_isspace (last (py_casefold s))"
      by (metis last_snoc list.sel(1))
  qed (simp add: py_casefold_def)
qed

lemma normalize_text_Inr:
  "normalize_text v = Inr n \<longleftrightarrow> n = py_strip v \<and> n \<noteq> []"
  by (auto simp: normalize_text_def nfc_def Let_def)

text \<open>normalisation is idempotent.
  Building an identity from the fields of a built identity returns it unchanged, so a key
  recomputed from stored fields is the stored key.\<close>

theorem identity_normalisation_idem:
  assumes "ReminderIdempotencyIdentity_make t c p v e = Inr i"
  shows "reminder_idempotency_key sha (ri_tenant_id i) (ri_channel i) (ri_principal_id i)
           (ri_conversation_id i) (ri_source_event_id i) = Inr (identity_key sha i)"
proof -
  from assms have i: "i = \<lparr>ri_tenant_id = py_strip t, ri_channel = py_casefold (py_strip c),
      ri_principal_id = py_strip p, ri_conversation_id = py_strip v, ri_source_event_id = py_strip e\<rparr>"
    and ne: "py_strip t \<noteq> []" "py_strip c \<noteq> []" "py_strip p \<noteq> []" "py_strip v \<noteq> []" "py_strip e \<noteq> []"
    by (auto simp: ReminderIdempotencyIdentity_make_def bindR_eq_Inr normalize_text_Inr)
  have n: "normalize_text (py_strip x) = Inr (py_strip x)" if "py_strip x \<noteq> []" for x
    using that by (simp add: normalize_text_Inr)
  have "normalize_text (py_casefold (py_strip c)) = Inr (py_casefold (py_strip c))"
    using ne(2) py_strip_casefold [of "py_strip c"] by (simp add: normalize_text_Inr)
  then show ?thesis
    using ne by (simp add: reminder_idempotency_key_def ReminderIdempotencyIdentity_make_def i n py_casefold_idem)
qed

theorem identity_normalisation_idem_witness:
  "\<exists>i. ReminderIdempotencyIdentity_make '' t1'' ''Telegram'' ''u1'' ''c1 '' ''e1'' = Inr i
     \<and> ri_channel i = ''telegram''
     \<and> reminder_idempotency_key (\<lambda>b. b) (ri_tenant_id i) (ri_channel i) (ri_principal_id i)
         (ri_conversation_id i) (ri_source_event_id i) = Inr (identity_key (\<lambda>b. b) i)"
proof -
  obtain i where i: "ReminderIdempotencyIdentity_make '' t1'' ''Telegram'' ''u1'' ''c1 '' ''e1'' = Inr i"
    "ri_channel i = ''telegram''"
    by (simp add: ReminderIdempotencyIdentity_make_def normalize_text_def nfc_def py_strip_def
        py_isspace_def Let_def py_casefold_def fold_char_def py_lower_char_def
        char_of_eq_iff take_bit_eq_mod)
  with identity_normalisation_idem [OF i(1)] show ?thesis by blast
qed

end
