(* ===== verification/Py_Value.thy ===== *)
theory Py_Value
  imports Prelude Complex_Main
begin

text \<open>
  Python values that reach dynamically typed code: metadata of traces and errors, data of
  workflow states. A finite float is the rational number it denotes; \<open>PNonFinite\<close> holds
  the infinities and NaN; \<open>PObj\<close> for any other object. A value is a finite tree: a
  container never contains itself. An enum member that is also a string is its string
  value. \<open>py_str\<close> is \<^verbatim>\<open>str(value)\<close>, whose text for floats, bytes, containers and other
  objects is the parameter \<open>rp\<close>.
\<close>

datatype nonfinite = NaN | PosInf | NegInf

datatype pyval =
    PNone
  | PBool bool
  | PInt int
  | PFloat rat
  | PNonFinite nonfinite
  | PStr string
  | PBytes string
  | PList "pyval list"
  | PDict "(pyval \<times> pyval) list"
  | PObj nat

definition py_str :: "(pyval \<Rightarrow> string) \<Rightarrow> pyval \<Rightarrow> string" where
  "py_str rp v =
     (case v of
        PNone \<Rightarrow> ''None''
      | PBool b \<Rightarrow> (if b then ''True'' else ''False'')
      | PInt i \<Rightarrow> str_of_int i
      | PStr s \<Rightarrow> s
      | _ \<Rightarrow> rp v)"

text \<open>\<^verbatim>\<open>bool(value)\<close>.\<close>

definition truthy :: "pyval \<Rightarrow> bool" where
  "truthy v =
     (case v of
        PNone \<Rightarrow> False
      | PBool b \<Rightarrow> b
      | PInt i \<Rightarrow> i \<noteq> 0
      | PFloat q \<Rightarrow> q \<noteq> 0
      | PNonFinite _ \<Rightarrow> True
      | PStr s \<Rightarrow> s \<noteq> []
      | PBytes b \<Rightarrow> b \<noteq> []
      | PList xs \<Rightarrow> xs \<noteq> []
      | PDict d \<Rightarrow> d \<noteq> []
      | PObj _ \<Rightarrow> True)"

text \<open>A dict with string keys as a value.\<close>

definition PMap :: "(string \<times> pyval) list \<Rightarrow> pyval" where
  "PMap d = PDict (map (\<lambda>(k, v). (PStr k, v)) d)"

text \<open>\<^verbatim>\<open>part in text\<close> on strings, \<^verbatim>\<open>str.startswith\<close> and \<^verbatim>\<open>str.endswith\<close>.\<close>

definition starts_with :: "string \<Rightarrow> string \<Rightarrow> bool" where
  "starts_with p s \<longleftrightarrow> take (length p) s = p"

definition ends_with :: "string \<Rightarrow> string \<Rightarrow> bool" where
  "ends_with p s \<longleftrightarrow> starts_with (rev p) (rev s)"

fun contains :: "string \<Rightarrow> string \<Rightarrow> bool" where
  "contains p [] = (p = [])"
| "contains p (c # cs) = (starts_with p (c # cs) \<or> contains p cs)"

definition starts_with_any :: "string list \<Rightarrow> string \<Rightarrow> bool" where
  "starts_with_any ps s = list_ex (\<lambda>p. starts_with p s) ps"

definition ends_with_any :: "string list \<Rightarrow> string \<Rightarrow> bool" where
  "ends_with_any ps s = list_ex (\<lambda>p. ends_with p s) ps"

definition contains_any :: "string list \<Rightarrow> string \<Rightarrow> bool" where
  "contains_any ps s = list_ex (\<lambda>p. contains p s) ps"

lemma starts_with_iff: "starts_with p s \<longleftrightarrow> (\<exists>r. s = p @ r)"
  unfolding starts_with_def by (metis append_eq_conv_conj append_take_drop_id)

lemma contains_iff: "contains p s \<longleftrightarrow> (\<exists>a b. s = a @ p @ b)"
proof (induction s)
  case (Cons c cs)
  have "(\<exists>a b. c # cs = a @ p @ b) \<longleftrightarrow> (\<exists>b. c # cs = p @ b) \<or> (\<exists>a b. cs = a @ p @ b)"
    by (metis append_Cons append_Nil list.exhaust list.inject)
  with Cons show ?case by (simp add: starts_with_iff)
qed auto

end
