(* ===== verification/Workflow_Store.thy ===== *)
theory Workflow_Store
  imports Access_Control Json Idempotency Contracts Py_Value
begin

text \<open>
  Workflow states and their store: \<^verbatim>\<open>application/dto/workflows.py\<close> and the class
  \<open>InMemoryWorkflowStateStore\<close> of \<^verbatim>\<open>adapters/persistence/in_memory.py\<close>.
  \<open>fp\<close> is the fingerprint of a state (JSON dump and SHA-256), \<open>clock\<close> the time read by
  \<open>transition\<close>. A value of \<open>workflow_state\<close> is a constructed object: its strings are
  stripped and non-empty where the class demands it.
\<close>

section \<open>States\<close>

datatype workflow_status = wf_pending | wf_running | wf_waiting_approval | wf_completed | wf_failed

record workflow_state =
  ws_workflow_id :: string
  ws_tenant_id :: string
  ws_workflow_type :: string
  ws_status :: workflow_status
  ws_step :: string
  ws_idempotency_key :: string
  ws_payload_fingerprint :: "string option"
  ws_data :: "(string, pyval) dict"
  ws_created_at :: instant
  ws_updated_at :: instant

definition dict_update :: "('k, 'v) dict \<Rightarrow> ('k, 'v) dict \<Rightarrow> ('k, 'v) dict" where
  "dict_update d e = fold (\<lambda>(k, v). AList.update k v) e d"

definition workflow_transition ::
    "instant \<Rightarrow> workflow_state \<Rightarrow> workflow_status option \<Rightarrow> string option \<Rightarrow> (string, pyval) dict option
       \<Rightarrow> workflow_state" where
  "workflow_transition clock s status step data =
     s\<lparr>ws_status := (case status of None \<Rightarrow> ws_status s | Some x \<Rightarrow> x),
       ws_step := (if truthy_str step then the step else ws_step s),
       ws_data := (case data of None \<Rightarrow> ws_data s | Some d \<Rightarrow> dict_update (ws_data s) d),
       ws_updated_at := clock\<rparr>"

record workflow_registration =
  reg_state :: workflow_state
  reg_replayed :: bool
  reg_resumed :: bool

section \<open>The store\<close>

record workflow_store =
  wk_states_by_key :: "(string \<times> string, workflow_state) dict"
  wk_key_by_workflow_id :: "(string \<times> string, string) dict"

record workflow_store_snapshot =
  wks_states_by_key :: "(string \<times> string, workflow_state) dict"
  wks_key_by_workflow_id :: "(string \<times> string, string) dict"

definition InMemoryWorkflowStateStore_init :: workflow_store where
  "InMemoryWorkflowStateStore_init = \<lparr>wk_states_by_key = [], wk_key_by_workflow_id = []\<rparr>"

definition snapshot_workflows :: "workflow_store \<Rightarrow> workflow_store_snapshot" where
  "snapshot_workflows s =
     \<lparr>wks_states_by_key = wk_states_by_key s, wks_key_by_workflow_id = wk_key_by_workflow_id s\<rparr>"

definition restore_workflows :: "workflow_store_snapshot \<Rightarrow> workflow_store \<Rightarrow> workflow_store" where
  "restore_workflows n s =
     s\<lparr>wk_states_by_key := wks_states_by_key n, wk_key_by_workflow_id := wks_key_by_workflow_id n\<rparr>"

definition require_matching_tenant :: "principal \<Rightarrow> workflow_state \<Rightarrow> unit result" where
  "require_matching_tenant p state =
     (if ws_tenant_id state \<noteq> pr_tenant_id p
      then Inl (AssistantError PERMISSION_DENIED ''workflow tenant mismatch'' (Some (pr_tenant_id p)) [])
      else Inr ())"

definition raise_if_payload_conflicts :: "principal \<Rightarrow> workflow_state \<Rightarrow> workflow_state \<Rightarrow> unit result" where
  "raise_if_payload_conflicts p existing candidate =
     (if ws_payload_fingerprint existing \<noteq> ws_payload_fingerprint candidate
      then Inl (ReminderIdempotencyConflict (pr_tenant_id p) (ws_idempotency_key existing))
      else Inr ())"

definition workflow_immutable :: "principal \<Rightarrow> py_error" where
  "workflow_immutable p =
     AssistantError CONFLICT ''workflow identity is immutable'' (Some (pr_tenant_id p)) []"

definition put_state :: "principal \<Rightarrow> workflow_state \<Rightarrow> workflow_store \<Rightarrow> workflow_store" where
  "put_state p state s =
     s\<lparr>wk_states_by_key := AList.update (pr_tenant_id p, ws_idempotency_key state) state (wk_states_by_key s),
       wk_key_by_workflow_id :=
         AList.update (pr_tenant_id p, ws_workflow_id state) (ws_idempotency_key state) (wk_key_by_workflow_id s)\<rparr>"

definition register_or_replay ::
    "instant \<Rightarrow> principal \<Rightarrow> workflow_state \<Rightarrow> string option \<Rightarrow> (workflow_store, workflow_registration) op" where
  "register_or_replay clock p state resume_from_step s =
     (case bindR (require_trusted_principal p) (\<lambda>_. require_matching_tenant p state) of
        Inl e \<Rightarrow> (Inl e, s)
      | Inr _ \<Rightarrow>
      if ws_payload_fingerprint state = None
      then (Inl (ValueError ''payload_fingerprint is required for workflow registration''), s)
      else
       (let key = (pr_tenant_id p, ws_idempotency_key state) in
        case map_of (wk_states_by_key s) key of
          Some existing \<Rightarrow>
            (case raise_if_payload_conflicts p existing state of Inl e \<Rightarrow> (Inl e, s) | Inr _ \<Rightarrow>
             if ws_workflow_type existing \<noteq> ws_workflow_type state
             then (Inl (workflow_immutable p), s)
             else if resume_from_step \<noteq> None \<and> ws_status existing = wf_waiting_approval
                     \<and> Some (ws_step existing) = resume_from_step
             then (let resumed = workflow_transition clock existing (Some wf_running) None None in
                   (Inr \<lparr>reg_state = resumed, reg_replayed = False, reg_resumed = True\<rparr>,
                    s\<lparr>wk_states_by_key := AList.update key resumed (wk_states_by_key s)\<rparr>))
             else (Inr \<lparr>reg_state = existing, reg_replayed = True, reg_resumed = False\<rparr>, s))
        | None \<Rightarrow>
            (let existing_key = map_of (wk_key_by_workflow_id s) (pr_tenant_id p, ws_workflow_id state) in
             if existing_key \<noteq> None \<and> existing_key \<noteq> Some (ws_idempotency_key state)
             then (Inl (workflow_immutable p), s)
             else (Inr \<lparr>reg_state = state, reg_replayed = False, reg_resumed = False\<rparr>,
                   put_state p state s))))"

definition workflow_upsert ::
    "(workflow_state \<Rightarrow> string) \<Rightarrow> principal \<Rightarrow> workflow_state \<Rightarrow> (workflow_store, workflow_state) op" where
  "workflow_upsert fp p state s =
     (case bindR (require_trusted_principal p) (\<lambda>_. require_matching_tenant p state) of
        Inl e \<Rightarrow> (Inl e, s)
      | Inr _ \<Rightarrow>
       (let key = (pr_tenant_id p, ws_idempotency_key state);
            existing_key = map_of (wk_key_by_workflow_id s) (pr_tenant_id p, ws_workflow_id state) in
        if existing_key \<noteq> None \<and> existing_key \<noteq> Some (ws_idempotency_key state)
        then (Inl (workflow_immutable p), s)
        else case map_of (wk_states_by_key s) key of
          Some existing \<Rightarrow>
            if ws_workflow_id existing \<noteq> ws_workflow_id state \<or> ws_workflow_type existing \<noteq> ws_workflow_type state
            then (Inl (workflow_immutable p), s)
            else (case raise_if_payload_conflicts p existing state of Inl e \<Rightarrow> (Inl e, s) | Inr _ \<Rightarrow>
              if (ws_status existing = wf_completed \<or> ws_status existing = wf_failed)
                 \<and> (ws_status state \<noteq> ws_status existing \<or> fp state \<noteq> fp existing)
              then (Inl (AssistantError CONFLICT ''terminal workflow state is immutable''
                           (Some (pr_tenant_id p)) []), s)
              else (Inr state, put_state p state s))
        | None \<Rightarrow> (Inr state, put_state p state s)))"

definition get_by_idempotency_key :: "principal \<Rightarrow> string \<Rightarrow> (workflow_store, workflow_state option) op" where
  "get_by_idempotency_key p key s =
     (case require_trusted_principal p of Inl e \<Rightarrow> (Inl e, s)
      | Inr _ \<Rightarrow> (Inr (map_of (wk_states_by_key s) (pr_tenant_id p, key)), s))"

definition workflows_list_for_tenant :: "principal \<Rightarrow> (workflow_store, workflow_state list) op" where
  "workflows_list_for_tenant p s =
     (case require_trusted_principal p of Inl e \<Rightarrow> (Inl e, s)
      | Inr _ \<Rightarrow> (Inr (map snd (filter (\<lambda>(k, _). fst k = pr_tenant_id p) (wk_states_by_key s))), s))"

inductive workflow_step :: "(workflow_state \<Rightarrow> string) \<Rightarrow> principal \<Rightarrow> workflow_store \<Rightarrow> workflow_store \<Rightarrow> bool"
  for fp p where
  register: "register_or_replay clock p state resume s = (r, s') \<Longrightarrow> workflow_step fp p s s'"
| upsert: "workflow_upsert fp p state s = (r', s') \<Longrightarrow> workflow_step fp p s s'"

inductive_cases workflow_stepE: "workflow_step fp p s s'"

section \<open>Invariant\<close>

definition workflow_inv :: "workflow_store \<Rightarrow> bool" where
  "workflow_inv s \<longleftrightarrow> distinct (map fst (wk_states_by_key s))
     \<and> (\<forall>t k x. map_of (wk_states_by_key s) (t, k) = Some x \<longrightarrow>
          ws_tenant_id x = t \<and> ws_idempotency_key x = k
          \<and> map_of (wk_key_by_workflow_id s) (t, ws_workflow_id x) = Some k)
     \<and> (\<forall>t i k. map_of (wk_key_by_workflow_id s) (t, i) = Some k \<longrightarrow>
          (\<exists>x. map_of (wk_states_by_key s) (t, k) = Some x \<and> ws_workflow_id x = i))"

text \<open>What a call may do to a stored state: its identity and payload fingerprint never change, and
  a terminal state keeps its status and fingerprint.\<close>

definition workflow_evolves :: "(workflow_state \<Rightarrow> string) \<Rightarrow> workflow_state \<Rightarrow> workflow_state \<Rightarrow> bool" where
  "workflow_evolves fp x y \<longleftrightarrow> ws_workflow_id y = ws_workflow_id x \<and> ws_tenant_id y = ws_tenant_id x
     \<and> ws_workflow_type y = ws_workflow_type x \<and> ws_idempotency_key y = ws_idempotency_key x
     \<and> ws_payload_fingerprint y = ws_payload_fingerprint x
     \<and> (ws_status x \<in> {wf_completed, wf_failed} \<longrightarrow> ws_status y = ws_status x \<and> fp y = fp x)"

text \<open>Every effect of a call: nothing, or one entry of the caller's tenant written.\<close>

definition workflow_written :: "(workflow_state \<Rightarrow> string) \<Rightarrow> principal \<Rightarrow> workflow_state \<Rightarrow> workflow_store \<Rightarrow> workflow_store \<Rightarrow> bool" where
  "workflow_written fp p x s s' \<longleftrightarrow> s' = put_state p x s \<and> ws_tenant_id x = pr_tenant_id p
     \<and> map_of (wk_key_by_workflow_id s) (pr_tenant_id p, ws_workflow_id x) \<in> {None, Some (ws_idempotency_key x)}
     \<and> (\<forall>y. map_of (wk_states_by_key s) (pr_tenant_id p, ws_idempotency_key x) = Some y \<longrightarrow> workflow_evolves fp y x)"

lemma update_same: "map_of d k = Some v \<Longrightarrow> AList.update k v d = d"
  by (induction d) (auto split: if_splits)

lemma workflow_inv_state:
  "workflow_inv s \<Longrightarrow> map_of (wk_states_by_key s) (t, k) = Some x \<Longrightarrow>
     ws_tenant_id x = t \<and> ws_idempotency_key x = k
     \<and> map_of (wk_key_by_workflow_id s) (t, ws_workflow_id x) = Some k"
  unfolding workflow_inv_def by blast

lemma register_effect:
  assumes inv: "workflow_inv s" and r: "register_or_replay clock p state resume s = (r, s')"
  shows "s' = s \<or> (\<exists>x. workflow_written fp p x s s')"
proof (cases "map_of (wk_states_by_key s) (pr_tenant_id p, ws_idempotency_key state)")
  case None
  with r show ?thesis
    by (auto simp: register_or_replay_def require_matching_tenant_def workflow_written_def Let_def
        require_trusted_principal_cases bindR_def split: if_splits)
next
  case (Some e)
  note e = workflow_inv_state [OF inv Some]
  let ?x = "workflow_transition clock e (Some wf_running) None None"
  have x: "ws_workflow_id ?x = ws_workflow_id e" "ws_tenant_id ?x = pr_tenant_id p"
    "ws_idempotency_key ?x = ws_idempotency_key state" "workflow_evolves fp e ?x \<or> ws_status e \<noteq> wf_waiting_approval"
    using e by (auto simp: workflow_transition_def workflow_evolves_def)
  let ?s = "s\<lparr>wk_states_by_key := AList.update (pr_tenant_id p, ws_idempotency_key state) ?x (wk_states_by_key s)\<rparr>"
  have "?s = put_state p ?x s"
    using e x by (simp add: put_state_def update_same)
  then have "ws_status e = wf_waiting_approval \<Longrightarrow> workflow_written fp p ?x s ?s"
    using Some e x unfolding workflow_written_def by auto
  moreover have "s' = s \<or> s' = ?s \<and> ws_status e = wf_waiting_approval"
    using r Some by (auto simp: register_or_replay_def Let_def split: if_splits sum.splits)
  ultimately show ?thesis by blast
qed

lemma upsert_effect:
  assumes inv: "workflow_inv s" and r: "workflow_upsert fp p state s = (r, s')"
  shows "s' = s \<or> (\<exists>x. workflow_written fp p x s s')"
proof (cases "map_of (wk_states_by_key s) (pr_tenant_id p, ws_idempotency_key state)")
  case None
  with r show ?thesis
    by (auto simp: workflow_upsert_def require_matching_tenant_def workflow_written_def Let_def
        require_trusted_principal_cases bindR_def split: if_splits)
next
  case (Some e)
  note e = workflow_inv_state [OF inv Some]
  from r Some e show ?thesis
    by (auto simp: workflow_upsert_def require_matching_tenant_def workflow_written_def workflow_evolves_def
        raise_if_payload_conflicts_def Let_def require_trusted_principal_cases bindR_def split: if_splits)
qed

lemma workflow_step_effect:
  "workflow_step fp p s s' \<Longrightarrow> workflow_inv s \<Longrightarrow> s' = s \<or> (\<exists>x. workflow_written fp p x s s')"
  by (elim workflow_stepE) (blast dest: register_effect upsert_effect)+

lemma written_inv:
  assumes inv: "workflow_inv s" and w: "workflow_written fp p x s s'"
  shows "workflow_inv s'"
proof -
  let ?t = "pr_tenant_id p" and ?k = "ws_idempotency_key x"
  have s': "s' = put_state p x s" and x: "ws_tenant_id x = ?t"
    and idx: "map_of (wk_key_by_workflow_id s) (?t, ws_workflow_id x) \<in> {None, Some ?k}"
    and ev: "\<And>y. map_of (wk_states_by_key s) (?t, ?k) = Some y \<Longrightarrow> workflow_evolves fp y x"
    using w by (auto simp: workflow_written_def)
  have "ws_tenant_id y = t \<and> ws_idempotency_key y = k
      \<and> map_of (wk_key_by_workflow_id s') (t, ws_workflow_id y) = Some k"
    if "map_of (wk_states_by_key s') (t, k) = Some y" for t k y
  proof (cases "(t, k) = (?t, ?k)")
    case True
    with that x show ?thesis by (simp add: s' put_state_def map_of_update)
  next
    case False
    with that have "map_of (wk_states_by_key s) (t, k) = Some y"
      by (auto simp: s' put_state_def map_of_update)
    from workflow_inv_state [OF inv this] False idx show ?thesis
      by (auto simp: s' put_state_def map_of_update)
  qed
  moreover have "\<exists>y. map_of (wk_states_by_key s') (t, k) = Some y \<and> ws_workflow_id y = i"
    if look: "map_of (wk_key_by_workflow_id s') (t, i) = Some k" for t i k
  proof (cases "(t, i) = (?t, ws_workflow_id x)")
    case True
    with look show ?thesis by (auto simp: s' put_state_def map_of_update)
  next
    case False
    with look have "map_of (wk_key_by_workflow_id s) (t, i) = Some k"
      by (auto simp: s' put_state_def map_of_update)
    then obtain y where y: "map_of (wk_states_by_key s) (t, k) = Some y" "ws_workflow_id y = i"
      using inv unfolding workflow_inv_def by blast
    with ev False have "(t, k) \<noteq> (?t, ?k)" by (auto simp: workflow_evolves_def)
    with y show ?thesis by (auto simp: s' put_state_def map_of_update)
  qed
  moreover have "distinct (map fst (wk_states_by_key s'))"
    using inv by (simp add: s' put_state_def workflow_inv_def)
  ultimately show ?thesis unfolding workflow_inv_def by blast
qed

interpretation wk: tenant_machine "workflow_step fp" workflow_inv InMemoryWorkflowStateStore_init
    pr_tenant_id "\<lambda>t s. tenant_part t (wk_states_by_key s)" for fp
proof unfold_locales
  show "workflow_inv InMemoryWorkflowStateStore_init"
    by (simp add: workflow_inv_def InMemoryWorkflowStateStore_init_def)
  show "workflow_inv s'" if "workflow_step fp p s s'" "workflow_inv s" for p s s'
    using workflow_step_effect [OF that] that(2) written_inv by blast
  show "tenant_part t (wk_states_by_key s') = tenant_part t (wk_states_by_key s)"
    if "workflow_step fp p s s'" "workflow_inv s" "t \<noteq> pr_tenant_id p" for p s s' t
    using workflow_step_effect [OF that(1,2)] that(3) by (auto simp: workflow_written_def put_state_def)
qed

interpretation wk_txn: participant snapshot_workflows restore_workflows
  by unfold_locales (simp add: snapshot_workflows_def restore_workflows_def)

lemma workflow_step_state:
  assumes "workflow_step fp p s s'" and "workflow_inv s" and "map_of (wk_states_by_key s) k = Some x"
  shows "\<exists>y. map_of (wk_states_by_key s') k = Some y \<and> workflow_evolves fp x y"
proof -
  have refl: "workflow_evolves fp x x" by (simp add: workflow_evolves_def)
  from workflow_step_effect [OF assms(1,2)] show ?thesis
    using assms(3) refl by (auto simp: workflow_written_def put_state_def map_of_update)
qed

lemma workflow_evolves_trans:
  "workflow_evolves fp x y \<Longrightarrow> workflow_evolves fp y z \<Longrightarrow> workflow_evolves fp x z"
  by (auto simp: workflow_evolves_def)

section \<open>Properties\<close>


lemma register_Inr:
  assumes "register_or_replay clock p state resume s = (Inr reg, s')"
  shows "is_trusted p \<and> ws_tenant_id state = pr_tenant_id p
     \<and> map_of (wk_states_by_key s') (pr_tenant_id p, ws_idempotency_key state) = Some (reg_state reg)
     \<and> ws_payload_fingerprint (reg_state reg) = ws_payload_fingerprint state
     \<and> ws_workflow_type (reg_state reg) = ws_workflow_type state
     \<and> ws_payload_fingerprint state \<noteq> None"
  using assms
  by (auto simp: register_or_replay_def require_matching_tenant_def raise_if_payload_conflicts_def Let_def
      require_trusted_principal_cases bindR_def put_state_def map_of_update workflow_transition_def
      split: if_splits option.splits)

text \<open>One executor is elected.
  After a successful registration, every further registration under the same tenant and
  key, by any principal of the tenant, is answered from the stored state: with another
  payload fingerprint it raises the replay conflict, with another workflow type CONFLICT;
  otherwise it is a replay that changes nothing, unless it resumes a workflow waiting
  for approval at exactly the step it names, which sets it running.\<close>

theorem register_elects_one:
  assumes "register_or_replay clock p state resume s = (Inr reg, s')"
    and "is_trusted q" and "pr_tenant_id q = pr_tenant_id p" and "ws_tenant_id st = pr_tenant_id p"
    and "ws_idempotency_key st = ws_idempotency_key state" and "ws_payload_fingerprint st \<noteq> None"
  shows "register_or_replay clock' q st resume' s' =
     (if ws_payload_fingerprint st \<noteq> ws_payload_fingerprint state
      then (Inl (ReminderIdempotencyConflict (pr_tenant_id p) (ws_idempotency_key (reg_state reg))), s')
      else if ws_workflow_type st \<noteq> ws_workflow_type state
      then (Inl (AssistantError CONFLICT ''workflow identity is immutable'' (Some (pr_tenant_id p)) []), s')
      else if ws_status (reg_state reg) = wf_waiting_approval \<and> resume' = Some (ws_step (reg_state reg))
      then (let resumed = (reg_state reg)\<lparr>ws_status := wf_running, ws_updated_at := clock'\<rparr>
            in (Inr \<lparr>reg_state = resumed, reg_replayed = False, reg_resumed = True\<rparr>,
                s'\<lparr>wk_states_by_key :=
                     AList.update (pr_tenant_id p, ws_idempotency_key state) resumed (wk_states_by_key s')\<rparr>))
      else (Inr \<lparr>reg_state = reg_state reg, reg_replayed = True, reg_resumed = False\<rparr>, s'))"
  using register_Inr [OF assms(1)] assms(2-)
  by (auto simp: register_or_replay_def require_matching_tenant_def raise_if_payload_conflicts_def
      require_trusted_principal_cases workflow_immutable_def workflow_transition_def truthy_str_def Let_def)

definition demo_workflow :: workflow_state where
  "demo_workflow = \<lparr>ws_workflow_id = ''wf_1'', ws_tenant_id = ''t1'', ws_workflow_type = ''reminder'',
     ws_status = wf_running, ws_step = ''classify'', ws_idempotency_key = ''k1'',
     ws_payload_fingerprint = Some ''f1'', ws_data = [], ws_created_at = 0, ws_updated_at = 0\<rparr>"

definition demo_workflows :: workflow_store where
  "demo_workflows = put_state demo_principal demo_workflow InMemoryWorkflowStateStore_init"

lemma demo_register:
  "register_or_replay 0 demo_principal demo_workflow None InMemoryWorkflowStateStore_init =
     (Inr \<lparr>reg_state = demo_workflow, reg_replayed = False, reg_resumed = False\<rparr>, demo_workflows)"
  by (simp add: register_or_replay_def require_trusted_principal_cases require_matching_tenant_def
      demo_workflow_def InMemoryWorkflowStateStore_init_def demo_workflows_def Let_def)

theorem register_elects_one_witness:
  "register_or_replay 9 demo_principal (demo_workflow\<lparr>ws_workflow_id := ''wf_2''\<rparr>) None demo_workflows =
     (Inr \<lparr>reg_state = demo_workflow, reg_replayed = True, reg_resumed = False\<rparr>, demo_workflows)"
  using register_elects_one [OF demo_register, of demo_principal "demo_workflow\<lparr>ws_workflow_id := ''wf_2''\<rparr>" 9 None]
  by (simp add: demo_workflow_def)


end
