(* ===== verification/Unit_Of_Work.thy ===== *)
theory Unit_Of_Work
  imports Calendar Scheduler Event_Store Outbox_Machine Workflow_Store
begin

text \<open>
  The unit of work of \<^verbatim>\<open>adapters/persistence/in_memory_uow.py\<close>: one transaction over the
  five reminder stores. A transaction object is the record \<open>txn\<close>; \<open>with_transaction\<close> is
  Python's \<open>with\<close> statement over \<open>begin\<close>, \<open>__enter__\<close> and \<open>__exit__\<close>. A participant's
  lock is held or not; while the transaction holds the five locks no other caller runs
  inside the stores, so the body is one sequence of operations.
\<close>

section \<open>The stores and the transaction\<close>

record stores =
  st_calendar :: calendar
  st_scheduler :: scheduler
  st_events :: event_store
  st_outbox :: outbox
  st_states :: workflow_store

datatype participant_name = the_calendar | the_scheduler | the_event_store | the_outbox | the_states

record snapshots =
  sn_calendar :: calendar_snapshot
  sn_scheduler :: scheduler_snapshot
  sn_events :: event_store_snapshot
  sn_outbox :: outbox_snapshot
  sn_states :: workflow_store_snapshot

record txn =
  tx_locks :: "participant_name list"
  tx_snapshots :: "snapshots option"
  tx_entered :: bool
  tx_committed :: bool
  tx_rolled_back :: bool

record uow_state =
  us_txn :: txn
  us_stores :: stores

definition participants :: "participant_name list" where
  "participants = [the_calendar, the_scheduler, the_event_store, the_outbox, the_states]"

definition snapshot_all :: "stores \<Rightarrow> snapshots" where
  "snapshot_all s = \<lparr>sn_calendar = snapshot_calendar (st_calendar s),
     sn_scheduler = snapshot_scheduler (st_scheduler s), sn_events = snapshot_events (st_events s),
     sn_outbox = snapshot_outbox (st_outbox s), sn_states = snapshot_workflows (st_states s)\<rparr>"

fun restore_one :: "snapshots \<Rightarrow> participant_name \<Rightarrow> stores \<Rightarrow> stores" where
  "restore_one n the_calendar s = s\<lparr>st_calendar := restore_calendar (sn_calendar n) (st_calendar s)\<rparr>"
| "restore_one n the_scheduler s = s\<lparr>st_scheduler := restore_scheduler (sn_scheduler n) (st_scheduler s)\<rparr>"
| "restore_one n the_event_store s = s\<lparr>st_events := restore_events (sn_events n) (st_events s)\<rparr>"
| "restore_one n the_outbox s = s\<lparr>st_outbox := restore_outbox (sn_outbox n) (st_outbox s)\<rparr>"
| "restore_one n the_states s = s\<lparr>st_states := restore_workflows (sn_states n) (st_states s)\<rparr>"

definition restore_all :: "snapshots \<Rightarrow> stores \<Rightarrow> stores" where
  "restore_all n s = fold (restore_one n) (rev participants) s"

section \<open>Operations of the transaction\<close>

definition new_transaction :: txn where
  "new_transaction = \<lparr>tx_locks = [], tx_snapshots = None, tx_entered = False, tx_committed = False,
                      tx_rolled_back = False\<rparr>"

definition begin_transaction :: "principal \<Rightarrow> txn result" where
  "begin_transaction p = bindR (require_trusted_principal p) (\<lambda>_. Inr new_transaction)"

definition tx_enter :: "(uow_state, unit) op" where
  "tx_enter x =
     (if tx_entered (us_txn x)
      then (Inl (RuntimeError ''reminder transaction cannot be entered twice''), x)
      else (Inr (), x\<lparr>us_txn := (us_txn x)\<lparr>tx_entered := True, tx_locks := participants,
                                             tx_snapshots := Some (snapshot_all (us_stores x))\<rparr>\<rparr>))"

definition require_active :: "uow_state \<Rightarrow> unit result" where
  "require_active x =
     (if \<not> tx_entered (us_txn x) \<or> tx_locks (us_txn x) = []
      then Inl (RuntimeError ''reminder transaction is not active'') else Inr ())"

definition tx_commit :: "(uow_state, unit) op" where
  "tx_commit x =
     (case require_active x of Inl e \<Rightarrow> (Inl e, x) | Inr _ \<Rightarrow>
      if tx_rolled_back (us_txn x)
      then (Inl (RuntimeError ''cannot commit a rolled-back reminder transaction''), x)
      else (Inr (), x\<lparr>us_txn := (us_txn x)\<lparr>tx_committed := True\<rparr>\<rparr>))"

definition tx_rollback :: "(uow_state, unit) op" where
  "tx_rollback x =
     (case require_active x of Inl e \<Rightarrow> (Inl e, x) | Inr _ \<Rightarrow>
      if tx_rolled_back (us_txn x) then (Inr (), x)
      else case tx_snapshots (us_txn x) of
             None \<Rightarrow> (Inl (ValueError ''zip() argument 2 is shorter than argument 1''), x)
           | Some n \<Rightarrow> (Inr (), x\<lparr>us_stores := restore_all n (us_stores x),
                                us_txn := (us_txn x)\<lparr>tx_rolled_back := True, tx_committed := False\<rparr>\<rparr>))"

definition release_locks :: "uow_state \<Rightarrow> uow_state" where
  "release_locks x = x\<lparr>us_txn := (us_txn x)\<lparr>tx_locks := []\<rparr>\<rparr>"

definition tx_exit :: "bool \<Rightarrow> (uow_state, bool) op" where
  "tx_exit exc x =
     (if exc \<or> \<not> tx_committed (us_txn x)
      then case tx_rollback x of (Inl e, y) \<Rightarrow> (Inl e, release_locks y)
                               | (Inr _, y) \<Rightarrow> (Inr False, release_locks y)
      else (Inr False, release_locks x))"

text \<open>\<^verbatim>\<open>with unit_of_work.begin(principal) as transaction: body\<close>.\<close>

definition with_transaction :: "principal \<Rightarrow> (uow_state, 'a) op \<Rightarrow> (stores, 'a) op" where
  "with_transaction p body s =
     (case begin_transaction p of Inl e \<Rightarrow> (Inl e, s) | Inr tx \<Rightarrow>
      case tx_enter \<lparr>us_txn = tx, us_stores = s\<rparr> of
        (Inl e, x) \<Rightarrow> (Inl e, us_stores x)
      | (Inr _, x) \<Rightarrow>
          (case body x of
             (Inl e, y) \<Rightarrow> (case tx_exit True y of (Inl e', z) \<Rightarrow> (Inl e', us_stores z)
                                                | (Inr _, z) \<Rightarrow> (Inl e, us_stores z))
           | (Inr v, y) \<Rightarrow> (case tx_exit False y of (Inl e', z) \<Rightarrow> (Inl e', us_stores z)
                                                | (Inr _, z) \<Rightarrow> (Inr v, us_stores z))))"

text \<open>The tenant-bound stores as seen by the body of the transaction.\<close>

definition on_calendar :: "(calendar, 'a) op \<Rightarrow> (uow_state, 'a) op" where
  "on_calendar = on_field (\<lambda>x. st_calendar (us_stores x)) (\<lambda>c x. x\<lparr>us_stores := (us_stores x)\<lparr>st_calendar := c\<rparr>\<rparr>)"
definition on_scheduler :: "(scheduler, 'a) op \<Rightarrow> (uow_state, 'a) op" where
  "on_scheduler = on_field (\<lambda>x. st_scheduler (us_stores x)) (\<lambda>c x. x\<lparr>us_stores := (us_stores x)\<lparr>st_scheduler := c\<rparr>\<rparr>)"
definition on_events :: "(event_store, 'a) op \<Rightarrow> (uow_state, 'a) op" where
  "on_events = on_field (\<lambda>x. st_events (us_stores x)) (\<lambda>c x. x\<lparr>us_stores := (us_stores x)\<lparr>st_events := c\<rparr>\<rparr>)"
definition on_outbox :: "(outbox, 'a) op \<Rightarrow> (uow_state, 'a) op" where
  "on_outbox = on_field (\<lambda>x. st_outbox (us_stores x)) (\<lambda>c x. x\<lparr>us_stores := (us_stores x)\<lparr>st_outbox := c\<rparr>\<rparr>)"
definition on_states :: "(workflow_store, 'a) op \<Rightarrow> (uow_state, 'a) op" where
  "on_states = on_field (\<lambda>x. st_states (us_stores x)) (\<lambda>c x. x\<lparr>us_stores := (us_stores x)\<lparr>st_states := c\<rparr>\<rparr>)"

section \<open>Atomicity\<close>

interpretation uow: participant snapshot_all restore_all
  by unfold_locales
    (simp add: snapshot_all_def restore_all_def participants_def cal_txn.restore_snapshot
      sch_txn.restore_snapshot es_txn.restore_snapshot ob_txn.restore_snapshot wk_txn.restore_snapshot)

text \<open>Inside a transaction opened on \<open>s\<close> that was not rolled back.\<close>

definition in_transaction :: "stores \<Rightarrow> uow_state \<Rightarrow> bool" where
  "in_transaction s x \<longleftrightarrow> tx_entered (us_txn x) \<and> tx_locks (us_txn x) = participants
     \<and> tx_snapshots (us_txn x) = Some (snapshot_all s) \<and> \<not> tx_rolled_back (us_txn x)"

lemma participants_nonempty [simp]: "participants \<noteq> []"
  by (simp add: participants_def)

lemma in_transaction_stores [simp]: "in_transaction s (x\<lparr>us_stores := y\<rparr>) = in_transaction s x"
  by (simp add: in_transaction_def)

lemma keeps_commit [step_intros]: "keeps (in_transaction s) tx_commit"
  by (auto simp: keeps_def tx_commit_def in_transaction_def require_active_def)

lemma keeps_stores [step_intros]:
  "keeps (in_transaction s) (on_calendar c)" "keeps (in_transaction s) (on_scheduler h)"
  "keeps (in_transaction s) (on_events e)" "keeps (in_transaction s) (on_outbox b)"
  "keeps (in_transaction s) (on_states w)"
  by (auto simp: keeps_def on_calendar_def on_scheduler_def on_events_def on_outbox_def on_states_def
      on_field_def split: prod.splits)

lemma exit_in_transaction:
  assumes "in_transaction s x"
  shows "tx_exit exc x = (Inr False, snd (tx_exit exc x))"
    "us_stores (snd (tx_exit exc x)) = (if exc \<or> \<not> tx_committed (us_txn x) then s else us_stores x)"
    "tx_locks (us_txn (snd (tx_exit exc x))) = []"
  using assms
  by (auto simp: tx_exit_def tx_rollback_def require_active_def in_transaction_def release_locks_def
      uow.restore_snapshot)

lemma entered:
  "tx_enter \<lparr>us_txn = new_transaction, us_stores = s\<rparr> =
     (Inr (), \<lparr>us_txn = new_transaction\<lparr>tx_entered := True, tx_locks := participants,
                 tx_snapshots := Some (snapshot_all s)\<rparr>, us_stores = s\<rparr>)"
  by (simp add: tx_enter_def new_transaction_def)

definition opened :: "stores \<Rightarrow> uow_state" where
  "opened s = \<lparr>us_txn = new_transaction\<lparr>tx_entered := True, tx_locks := participants,
                 tx_snapshots := Some (snapshot_all s)\<rparr>, us_stores = s\<rparr>"

lemma opened_in_transaction [simp]: "in_transaction s (opened s)" "us_stores (opened s) = s"
  "tx_committed (us_txn (opened s)) = False"
  by (simp_all add: opened_def in_transaction_def new_transaction_def)

lemma with_transaction_eq:
  assumes "is_trusted p" and "keeps (in_transaction s) body"
  shows "with_transaction p body s =
     (case body (opened s) of
        (Inl e, y) \<Rightarrow> (Inl e, s)
      | (Inr v, y) \<Rightarrow> (Inr v, if tx_committed (us_txn y) then us_stores y else s))"
proof -
  obtain r y where b: "body (opened s) = (r, y)" by force
  have y: "in_transaction s y" using keepsD [OF assms(2) opened_in_transaction(1)] by (simp add: b)
  have bt: "begin_transaction p = Inr new_transaction"
    using assms(1) by (simp add: begin_transaction_def require_trusted_principal_cases)
  note ex = exit_in_transaction [OF y]
  show ?thesis
    using ex(1) [of True] ex(2) [of True] ex(1) [of False] ex(2) [of False]
    by (auto simp: with_transaction_def bt entered b opened_def [symmetric] split: sum.splits prod.splits)
qed

section \<open>Properties\<close>


text \<open>Writes after a rollback survive.
  When the body rolls back and goes on writing, leaving the block does not restore the
  stores again, since a rolled-back transaction ignores further rollbacks: a later write
  stays although the block ends without a commit, here even with an exception.\<close>

theorem writes_after_rollback_survive:
  assumes "is_trusted p" and "op (st_events s) = (Inr v, es)"
  shows "with_transaction p (bindS tx_rollback (\<lambda>_. bindS (on_events op) (\<lambda>_. raise e))) s
     = (Inl e, s\<lparr>st_events := es\<rparr>)"
proof -
  have bt: "begin_transaction p = Inr new_transaction"
    using assms(1) by (simp add: begin_transaction_def require_trusted_principal_cases)
  have rb: "tx_rollback (opened s) = (Inr (), (opened s)\<lparr>us_txn := (us_txn (opened s))\<lparr>tx_rolled_back := True\<rparr>\<rparr>)"
    by (simp add: tx_rollback_def require_active_def opened_def new_transaction_def uow.restore_snapshot)
  let ?y = "\<lparr>us_txn = (us_txn (opened s))\<lparr>tx_rolled_back := True\<rparr>, us_stores = s\<lparr>st_events := es\<rparr>\<rparr>"
  have body: "bindS tx_rollback (\<lambda>_. bindS (on_events op) (\<lambda>_. raise e)) (opened s) = (Inl e, ?y)"
    unfolding bindS_cases rb using assms(2) by (simp add: on_events_def on_field_def)
  have ex: "tx_exit True ?y = (Inr False, release_locks ?y)"
    by (simp add: tx_exit_def tx_rollback_def require_active_def opened_def)
  show ?thesis
    by (simp add: with_transaction_def bt entered body ex release_locks_def flip: opened_def)
qed

text \<open>the locks are always released and a transaction is used once.
  Leaving the block releases every lock, whether or not the rollback inside raises; an
  entered transaction cannot be entered again, and after a rollback it cannot be committed.\<close>

theorem transaction_releases_locks:
  "tx_locks (us_txn (snd (tx_exit exc x))) = []
   \<and> (tx_entered (us_txn x) = (fst (tx_enter x) = Inl (RuntimeError ''reminder transaction cannot be entered twice'')))
   \<and> fst (bindS tx_enter (\<lambda>_. bindS tx_rollback (\<lambda>_. tx_commit)) \<lparr>us_txn = new_transaction, us_stores = s\<rparr>)
       = Inl (RuntimeError ''cannot commit a rolled-back reminder transaction'')"
proof -
  have "tx_locks (us_txn (snd (tx_exit exc x))) = []"
    by (simp add: tx_exit_def release_locks_def split: prod.splits sum.splits)
  moreover have "tx_entered (us_txn x) = (fst (tx_enter x) = Inl (RuntimeError ''reminder transaction cannot be entered twice''))"
    by (simp add: tx_enter_def)
  moreover have "fst (bindS tx_enter (\<lambda>_. bindS tx_rollback (\<lambda>_. tx_commit)) \<lparr>us_txn = new_transaction, us_stores = s\<rparr>)
       = Inl (RuntimeError ''cannot commit a rolled-back reminder transaction'')"
    unfolding bindS_cases entered
    by (simp add: tx_rollback_def tx_commit_def require_active_def new_transaction_def)
  ultimately show ?thesis by blast
qed

section \<open>Concrete instances\<close>

definition empty_stores :: stores where
  "empty_stores = \<lparr>st_calendar = LocalCalendarTool_init, st_scheduler = ReminderScheduler_init,
     st_events = InMemoryEventStore_init, st_outbox = InMemoryOutbox_init, st_states = InMemoryWorkflowStateStore_init\<rparr>"


theorem writes_after_rollback_survive_witness:
  "with_transaction demo_principal
     (bindS tx_rollback (\<lambda>_. bindS (on_events (event_append ev_source demo_principal (sample_event ''e1'' ''a'')))
        (\<lambda>_. raise (ValueError ''x'')))) empty_stores
   = (Inl (ValueError ''x'') :: unit result, empty_stores\<lparr>st_events := sample_events\<rparr>)"
proof (rule writes_after_rollback_survive)
  show "event_append ev_source demo_principal (sample_event ''e1'' ''a'') (st_events empty_stores)
      = (Inr (sample_event ''e1'' ''a''), sample_events)"
    using sample_append by (simp add: empty_stores_def)
qed simp

end
