(* ===== verification/Dispatch.thy ===== *)
theory Dispatch
  imports Unit_Of_Work
begin

text \<open>
  Dispatching due reminder notifications:
  \<^verbatim>\<open>application/use_cases/reminder_notifications_dispatch.py\<close> and
  \<^verbatim>\<open>reminder_notifications_helpers.py\<close>, with the request and result types of
  \<^verbatim>\<open>application/ports/notifications.py\<close>.

  Every private method of \<open>DispatchDueReminders\<close> is one transaction over the stores.
  \<open>dispatch\<close> runs on the record \<open>world\<close>: the stores, the number of clock readings so far
  and the log of provider calls. Arguments stand for what is not in the repository or is
  supplied by the caller: \<open>zi\<close> the zone database, \<open>clock n\<close> the \<open>n\<close>-th reading of the
  injected clock, \<open>uuid\<close> the digits drawn by a claim, \<open>grants\<close> the approval provider and
  \<open>send\<close> the notification port, which returns a result or raises (\<open>None\<close>); other
  workers may change the stores while the provider is called, so \<open>send\<close> also returns the
  stores as it leaves them.
\<close>

section \<open>Constants, requests and results\<close>

definition MAX_DELIVERY_ATTEMPTS :: int where "MAX_DELIVERY_ATTEMPTS = 4"
definition REMINDER_NOTIFICATION_EVENT_TYPE :: string where
  "REMINDER_NOTIFICATION_EVENT_TYPE = ''notification.requested''"
definition RETRY_DELAYS :: "int list" where
  "RETRY_DELAYS = [seconds 30, minutes 2, minutes 5]"

record notification_request =
  nr_channel :: string
  nr_recipient :: string
  nr_body :: string
  nr_idempotency_key :: string

datatype notification_outcome = success | known_transient | permanent | unknown_outcome

record notification_result =
  nt_notification_id :: "string option"
  nt_channel :: string
  nt_idempotency_key :: string
  nt_outcome :: notification_outcome
  nt_provider_code :: "int option"
  nt_retry_after :: "int option"
  nt_provider_message_id :: "int option"
  nt_reused :: bool

definition NotificationResult_validate :: "notification_result \<Rightarrow> notification_result result" where
  "NotificationResult_validate r =
     (if (case nt_provider_code r of None \<Rightarrow> False | Some c \<Rightarrow> c < 100 \<or> c > 599)
         \<or> (case nt_retry_after r of None \<Rightarrow> False | Some n \<Rightarrow> n \<le> 0)
         \<or> (case nt_provider_message_id r of None \<Rightarrow> False | Some n \<Rightarrow> n \<le> 0)
      then Inl (ValueError ''NotificationResult'')
      else if nt_outcome r = success
      then if nt_notification_id r = None
           then Inl (ValueError ''successful notification requires notification_id'')
           else if nt_provider_code r \<noteq> None \<or> nt_retry_after r \<noteq> None
           then Inl (ValueError ''successful notification cannot carry failure metadata'')
           else Inr r
      else if nt_notification_id r \<noteq> None \<or> nt_provider_message_id r \<noteq> None
      then Inl (ValueError ''failed notification cannot carry confirmed delivery metadata'')
      else if nt_retry_after r \<noteq> None \<and> nt_outcome r \<noteq> known_transient
      then Inl (ValueError ''retry_after is only valid for known-transient outcomes'')
      else Inr r)"

record reminder_dispatch_outcome =
  do_claimed_message_ids :: "string list"
  do_published_notification_ids :: "string list"
  do_skipped_message_ids :: "string list"
  do_uncertain_message_ids :: "string list"
  do_swept_message_ids :: "string list"

definition due_count :: "reminder_dispatch_outcome \<Rightarrow> nat" where
  "due_count o' = length (do_claimed_message_ids o')"
definition sent_count :: "reminder_dispatch_outcome \<Rightarrow> nat" where
  "sent_count o' = length (do_published_notification_ids o')"
definition skipped_count :: "reminder_dispatch_outcome \<Rightarrow> nat" where
  "skipped_count o' = length (do_skipped_message_ids o')"

section \<open>Helpers\<close>

definition claim_token :: "outbox_message \<Rightarrow> string result" where
  "claim_token m = (if truthy_str (ob_claim_token m) then Inr (the (ob_claim_token m))
                    else Inl (RuntimeError ''outbox message has no active claim''))"

definition attempt_idempotency_key :: "outbox_message \<Rightarrow> string" where
  "attempt_idempotency_key m = ob_id m @ '':attempt:'' @ str_of_int (ob_attempts m + 1)"

definition text_field :: "json option \<Rightarrow> string option" where
  "text_field v = (case v of Some (JStr s) \<Rightarrow> if py_strip s = [] then None else Some s | _ \<Rightarrow> None)"

definition notification_request_of :: "outbox_message \<Rightarrow> string \<Rightarrow> notification_request result" where
  "notification_request_of m key =
     (let data = ev_data (ob_event m) in
      if ev_type (ob_event m) \<noteq> REMINDER_NOTIFICATION_EVENT_TYPE
      then Inl (ValueError ''outbox event is not a reminder notification'')
      else if \<not> truthy_str (ev_subject (ob_event m))
      then Inl (ValueError ''reminder notification requires a scheduler subject'')
      else case map_of data ''channel'' of
        Some (JList _) \<Rightarrow> Inl (TypeError ''unhashable type'')
      | Some (JDict _) \<Rightarrow> Inl (TypeError ''unhashable type'')
      | Some (JStr c) \<Rightarrow>
          if c \<noteq> ''telegram'' \<and> c \<noteq> ''whatsapp''
          then Inl (ValueError ''unsupported notification channel'')
          else (case text_field (map_of data ''recipient'') of
                  None \<Rightarrow> Inl (ValueError ''notification recipient must be non-empty text'')
                | Some r \<Rightarrow>
                   (case text_field (map_of data ''body'') of
                      None \<Rightarrow> Inl (ValueError ''notification body must be non-empty text'')
                    | Some b \<Rightarrow> Inr \<lparr>nr_channel = c, nr_recipient = r, nr_body = b, nr_idempotency_key = key\<rparr>))
      | _ \<Rightarrow> Inl (ValueError ''unsupported notification channel''))"

definition known_error :: "notification_result \<Rightarrow> instant \<Rightarrow> delivery_error result" where
  "known_error r now =
     (let code = nt_provider_code r;
          (category, error_code) =
            (if code = Some 429 then (cat_rate_limited, code_rate_limited)
             else if nt_outcome r = known_transient \<and> (case code of None \<Rightarrow> True | Some c \<Rightarrow> c \<ge> 500)
             then (cat_network, code_provider_unavailable)
             else if code = Some 401 \<or> code = Some 403 then (cat_rejected, code_authentication_failed)
             else (cat_rejected, code_request_rejected))
      in DeliveryError_make category error_code code (Aware now))"

definition unknown_error :: "instant \<Rightarrow> int option \<Rightarrow> delivery_error result" where
  "unknown_error now code = DeliveryError_make cat_unknown code_unknown code (Aware now)"

definition invalid_payload_error :: "instant \<Rightarrow> delivery_error result" where
  "invalid_payload_error now = DeliveryError_make cat_internal code_internal_error None (Aware now)"

text \<open>Delays are whole seconds, so \<open>total_seconds\<close> is exact.\<close>

definition retry_at :: "instant \<Rightarrow> int \<Rightarrow> int option \<Rightarrow> instant" where
  "retry_at now default_delay retry_after =
     (let secs = default_delay div 1000000;
          secs' = (case retry_after of None \<Rightarrow> secs | Some n \<Rightarrow> max secs n)
      in case dt_add now (seconds secs') of Inr t \<Rightarrow> t | Inl _ \<Rightarrow> datetime_max)"

text \<open>Python indexing of a tuple: negative indices count from the end.\<close>

definition py_index :: "'a list \<Rightarrow> int \<Rightarrow> 'a result" where
  "py_index xs i =
     (if 0 \<le> i \<and> i < int (length xs) then Inr (xs ! nat i)
      else if i < 0 \<and> - i \<le> int (length xs) then Inr (xs ! nat (int (length xs) + i))
      else Inl IndexError)"

section \<open>Mirroring into the scheduler\<close>

definition mirror :: "(string \<Rightarrow> string option) \<Rightarrow> principal \<Rightarrow> outbox_message \<Rightarrow> (uow_state, unit) op" where
  "mirror zi p m =
     (if \<not> truthy_str (ev_subject (ob_event m))
      then raise (ValueError ''notification outbox message requires reminder subject'')
      else bindS (on_scheduler (mirror_delivery zi p (the (ev_subject (ob_event m))) m)) (\<lambda>_. ret ()))"

definition is_code :: "error_code \<Rightarrow> py_error \<Rightarrow> bool" where
  "is_code c e = (case e of AssistantError d _ _ _ \<Rightarrow> d = c | _ \<Rightarrow> False)"

definition mirror_terminal :: "(string \<Rightarrow> string option) \<Rightarrow> principal \<Rightarrow> outbox_message \<Rightarrow> (uow_state, unit) op" where
  "mirror_terminal zi p m =
     (if \<not> truthy_str (ev_subject (ob_event m)) then ret ()
      else catchS (bindS (on_scheduler (mirror_delivery zi p (the (ev_subject (ob_event m))) m)) (\<lambda>_. ret ()))
             (\<lambda>e. if is_code NOT_FOUND e then ret () else raise e))"

definition mirror_pre_io_failed ::
    "(string \<Rightarrow> string option) \<Rightarrow> principal \<Rightarrow> outbox_message \<Rightarrow> (uow_state, unit) op" where
  "mirror_pre_io_failed zi p m =
     (if \<not> truthy_str (ev_subject (ob_event m)) then ret ()
      else catchS (bindS (on_scheduler (mirror_delivery zi p (the (ev_subject (ob_event m))) m)) (\<lambda>_. ret ()))
             (\<lambda>e. if is_code NOT_FOUND e then ret () else raise e))"

section \<open>The transactions of the dispatcher\<close>

record dispatcher =
  dp_owner :: string
  dp_claim_limit :: int
  dp_lease_seconds :: int

definition fail_claimed ::
    "(string \<Rightarrow> string option) \<Rightarrow> principal \<Rightarrow> instant \<Rightarrow> outbox_message \<Rightarrow> (uow_state, outbox_message) op" where
  "fail_claimed zi p now m =
     bindS (lift (claim_token m)) (\<lambda>tok.
     bindS (lift (invalid_payload_error now)) (\<lambda>err.
     bindS (on_outbox (mark_claim_failed p (ob_id m) tok err)) (\<lambda>failed_m.
     bindS (mirror_pre_io_failed zi p failed_m) (\<lambda>_. ret failed_m))))"

text \<open>The loop over the claimed messages: which can be dispatched, which were failed at once.\<close>

fun claim_each ::
    "(string \<Rightarrow> string option) \<Rightarrow> principal \<Rightarrow> instant \<Rightarrow> outbox_message list
       \<Rightarrow> (uow_state, outbox_message list \<times> outbox_message list) op" where
  "claim_each zi p now [] = ret ([], [])"
| "claim_each zi p now (m # ms) =
     bindS (catchS (bindS (mirror zi p m) (\<lambda>_. ret (Inl m)))
              (\<lambda>e. case e of
                 ValueError _ \<Rightarrow> bindS (fail_claimed zi p now m) (\<lambda>f. ret (Inr f))
               | AssistantError code _ _ _ \<Rightarrow>
                   if code \<noteq> NOT_FOUND then raise e
                   else bindS (fail_claimed zi p now m) (\<lambda>f. ret (Inr f))
               | _ \<Rightarrow> raise e)) (\<lambda>r.
     bindS (claim_each zi p now ms) (\<lambda>(ds, fs).
       case r of Inl d \<Rightarrow> ret (d # ds, fs) | Inr f \<Rightarrow> ret (ds, f # fs)))"

definition do_claim ::
    "(string \<Rightarrow> string option) \<Rightarrow> (nat \<Rightarrow> string) \<Rightarrow> dispatcher \<Rightarrow> principal \<Rightarrow> instant
       \<Rightarrow> (stores, outbox_message list \<times> outbox_message list) op" where
  "do_claim zi uuid dp p now =
     with_transaction p
       (bindS (on_outbox (claim_due uuid p (Aware now) (dp_claim_limit dp) (dp_owner dp) (dp_lease_seconds dp)
                 (Some REMINDER_NOTIFICATION_EVENT_TYPE))) (\<lambda>ms.
        bindS (claim_each zi p now ms) (\<lambda>r.
        bindS tx_commit (\<lambda>_. ret r))))"

fun mirror_each :: "(string \<Rightarrow> string option) \<Rightarrow> principal \<Rightarrow> outbox_message list \<Rightarrow> (uow_state, string list) op" where
  "mirror_each zi p [] = ret []"
| "mirror_each zi p (m # ms) =
     bindS (mirror_terminal zi p m) (\<lambda>_. bindS (mirror_each zi p ms) (\<lambda>is. ret (ob_id m # is)))"

definition do_sweep :: "(string \<Rightarrow> string option) \<Rightarrow> dispatcher \<Rightarrow> principal \<Rightarrow> instant \<Rightarrow> (stores, string list) op" where
  "do_sweep zi dp p now =
     with_transaction p
       (bindS (lift (unknown_error now None)) (\<lambda>err.
        bindS (on_outbox (sweep_expired_sending p (Aware now) err (dp_claim_limit dp)
                 (Some REMINDER_NOTIFICATION_EVENT_TYPE))) (\<lambda>ms.
        bindS (mirror_each zi p ms) (\<lambda>swept.
        bindS (if swept \<noteq> [] then tx_commit else ret ()) (\<lambda>_. ret swept)))))"

definition confirm_sending ::
    "(string \<Rightarrow> string option) \<Rightarrow> principal \<Rightarrow> outbox_message \<Rightarrow> instant \<Rightarrow> (stores, outbox_message) op" where
  "confirm_sending zi p m now =
     bindS (lift (claim_token m)) (\<lambda>tok.
       with_transaction p
         (bindS (on_outbox (mark_sending p (ob_id m) tok (Aware now))) (\<lambda>sending_m.
          bindS (mirror zi p sending_m) (\<lambda>_.
          bindS tx_commit (\<lambda>_. ret sending_m)))))"

definition release_before_io ::
    "(string \<Rightarrow> string option) \<Rightarrow> principal \<Rightarrow> outbox_message \<Rightarrow> instant \<Rightarrow> (stores, unit) op" where
  "release_before_io zi p m now =
     bindS (lift (claim_token m)) (\<lambda>tok.
       with_transaction p
         (bindS (lift (dt_add now (seconds 30))) (\<lambda>next.
          bindS (on_outbox (release p (ob_id m) tok (Some (Aware next)))) (\<lambda>pending_m.
          bindS (mirror zi p pending_m) (\<lambda>_.
          bindS tx_commit (\<lambda>_. ret ()))))))"

definition record_unknown ::
    "(string \<Rightarrow> string option) \<Rightarrow> principal \<Rightarrow> outbox_message \<Rightarrow> instant \<Rightarrow> (stores, outbox_message) op" where
  "record_unknown zi p m now =
     bindS (lift (claim_token m)) (\<lambda>tok.
       with_transaction p
         (bindS (lift (unknown_error now None)) (\<lambda>err.
          bindS (on_outbox (mark_uncertain p (ob_id m) tok err)) (\<lambda>u.
          bindS (mirror_terminal zi p u) (\<lambda>_.
          bindS tx_commit (\<lambda>_. ret u))))))"

definition record_malformed ::
    "(string \<Rightarrow> string option) \<Rightarrow> principal \<Rightarrow> outbox_message \<Rightarrow> instant \<Rightarrow> (stores, outbox_message) op" where
  "record_malformed zi p m now =
     bindS (lift (claim_token m)) (\<lambda>tok.
     bindS (lift (invalid_payload_error now)) (\<lambda>err.
       with_transaction p
         (bindS (on_outbox (mark_claim_failed p (ob_id m) tok err)) (\<lambda>f.
          bindS (mirror_pre_io_failed zi p f) (\<lambda>_.
          bindS tx_commit (\<lambda>_. ret f))))))"

text \<open>The outbox transition chosen by the provider's result.\<close>

definition result_transition ::
    "principal \<Rightarrow> outbox_message \<Rightarrow> string \<Rightarrow> notification_result \<Rightarrow> instant \<Rightarrow> (uow_state, outbox_message) op" where
  "result_transition p m tok r now =
     (if nt_outcome r = success
      then on_outbox (mark_published now p (ob_id m) tok (Some (Aware now)))
      else if nt_outcome r = known_transient
      then bindS (lift (known_error r now)) (\<lambda>err.
             if ob_attempts m \<ge> MAX_DELIVERY_ATTEMPTS
             then on_outbox (mark_failed p (ob_id m) tok err)
             else bindS (lift (py_index RETRY_DELAYS (ob_attempts m - 1))) (\<lambda>d.
                    on_outbox (reschedule p (ob_id m) tok (Aware (retry_at now d (nt_retry_after r))) err)))
      else if nt_outcome r = permanent
      then bindS (lift (known_error r now)) (\<lambda>err. on_outbox (mark_failed p (ob_id m) tok err))
      else bindS (lift (unknown_error now (nt_provider_code r))) (\<lambda>err.
             on_outbox (mark_uncertain p (ob_id m) tok err)))"

definition record_result ::
    "(string \<Rightarrow> string option) \<Rightarrow> principal \<Rightarrow> outbox_message \<Rightarrow> notification_result \<Rightarrow> instant
       \<Rightarrow> (stores, outbox_message) op" where
  "record_result zi p m r now =
     bindS (lift (claim_token m)) (\<lambda>tok.
       with_transaction p
         (bindS (result_transition p m tok r now) (\<lambda>final.
          bindS (mirror_terminal zi p final) (\<lambda>_.
          bindS tx_commit (\<lambda>_. ret final)))))"

section \<open>Dispatch\<close>

record send_entry =
  se_stores :: stores
  se_request :: notification_request
  se_approval :: "approval_grant option"

record world =
  wd_stores :: stores
  wd_ticks :: nat
  wd_sent :: "send_entry list"

type_synonym provider =
  "principal \<Rightarrow> notification_request \<Rightarrow> approval_grant option \<Rightarrow> stores \<Rightarrow> notification_result option \<times> stores"

type_synonym approval_provider = "principal \<Rightarrow> outbox_message \<Rightarrow> string \<Rightarrow> approval_grant option"

definition in_world :: "(stores, 'a) op \<Rightarrow> (world, 'a) op" where
  "in_world = on_field wd_stores (\<lambda>s w. w\<lparr>wd_stores := s\<rparr>)"

definition now_tick :: "(nat \<Rightarrow> py_datetime) \<Rightarrow> (world, instant) op" where
  "now_tick clock w = (canonical_utc (clock (wd_ticks w)) ''clock'', w\<lparr>wd_ticks := Suc (wd_ticks w)\<rparr>)"

definition call_send ::
    "provider \<Rightarrow> principal \<Rightarrow> notification_request \<Rightarrow> approval_grant option \<Rightarrow> (world, notification_result option) op" where
  "call_send send p rq ap w =
     (case send p rq ap (wd_stores w) of (r, s) \<Rightarrow>
        (Inr r, w\<lparr>wd_stores := s,
                  wd_sent := wd_sent w @ [\<lparr>se_stores = wd_stores w, se_request = rq, se_approval = ap\<rparr>]\<rparr>))"

datatype dispatch_effect = Published "string option" | Skipped string | Uncertain string

definition is_assistant_error :: "py_error \<Rightarrow> bool" where
  "is_assistant_error e = (case e of AssistantError _ _ _ _ \<Rightarrow> True | _ \<Rightarrow> False)"

text \<open>The time \<open>require_approval\<close> reads from the system clock.\<close>

definition wall_time :: "(nat \<Rightarrow> instant) \<Rightarrow> (world, instant) op" where
  "wall_time wall w = (Inr (wall (wd_ticks w)), w)"

text \<open>What is recorded once the provider returned or raised.\<close>

definition after_send ::
    "(string \<Rightarrow> string option) \<Rightarrow> (nat \<Rightarrow> py_datetime) \<Rightarrow> principal \<Rightarrow> outbox_message \<Rightarrow> outbox_message
       \<Rightarrow> notification_request \<Rightarrow> notification_result option \<Rightarrow> (world, dispatch_effect) op" where
  "after_send zi clock p m sending_m rq res =
     bindS (now_tick clock) (\<lambda>t.
     case res of
       None \<Rightarrow> bindS (in_world (record_unknown zi p sending_m t)) (\<lambda>_. ret (Uncertain (ob_id m)))
     | Some r \<Rightarrow>
         if nt_idempotency_key r \<noteq> nr_idempotency_key rq \<or> nt_channel r \<noteq> nr_channel rq
         then bindS (in_world (record_unknown zi p sending_m t)) (\<lambda>_. ret (Uncertain (ob_id m)))
         else bindS (in_world (record_result zi p sending_m r t)) (\<lambda>final.
                if ob_dispatch_status final = published then ret (Published (nt_notification_id r))
                else if ob_dispatch_status final = uncertain then ret (Uncertain (ob_id m))
                else ret (Skipped (ob_id m))))"

definition dispatch_one ::
    "(string \<Rightarrow> string option) \<Rightarrow> (nat \<Rightarrow> py_datetime) \<Rightarrow> (nat \<Rightarrow> instant) \<Rightarrow> approval_provider \<Rightarrow> provider
       \<Rightarrow> principal \<Rightarrow> instant \<Rightarrow> outbox_message \<Rightarrow> (world, dispatch_effect) op" where
  "dispatch_one zi clock wall grants send p now m =
     (let key = attempt_idempotency_key m; ap = grants p m key in
      bindS (wall_time wall) (\<lambda>wt.
      case require_approval wt p P5 ap ''notification.send'' key None of
        Inl e \<Rightarrow> if is_assistant_error e
                then bindS (in_world (release_before_io zi p m now)) (\<lambda>_. ret (Skipped (ob_id m)))
                else raise e
      | Inr _ \<Rightarrow>
        (case notification_request_of m key of
           Inl _ \<Rightarrow> bindS (now_tick clock) (\<lambda>t.
                    bindS (in_world (record_malformed zi p m t)) (\<lambda>_. ret (Skipped (ob_id m))))
         | Inr rq \<Rightarrow>
             bindS (now_tick clock) (\<lambda>t.
             bindS (in_world (confirm_sending zi p m t)) (\<lambda>sending_m.
             bindS (call_send send p rq ap) (\<lambda>res.
               after_send zi clock p m sending_m rq res))))))"

fun dispatch_each ::
    "(outbox_message \<Rightarrow> (world, dispatch_effect) op) \<Rightarrow> outbox_message list \<Rightarrow> (world, dispatch_effect list) op" where
  "dispatch_each one [] = ret []"
| "dispatch_each one (m # ms) = bindS (one m) (\<lambda>e. bindS (dispatch_each one ms) (\<lambda>es. ret (e # es)))"

definition dispatch ::
    "(string \<Rightarrow> string option) \<Rightarrow> (nat \<Rightarrow> string) \<Rightarrow> (nat \<Rightarrow> py_datetime) \<Rightarrow> (nat \<Rightarrow> instant) \<Rightarrow> approval_provider
       \<Rightarrow> provider \<Rightarrow> dispatcher \<Rightarrow> principal \<Rightarrow> py_datetime \<Rightarrow> (world, reminder_dispatch_outcome) op" where
  "dispatch zi uuid clock wall grants send dp p now0 =
     bindS (lift (canonical_utc now0 ''now'')) (\<lambda>now.
     bindS (in_world (do_sweep zi dp p now)) (\<lambda>swept.
     bindS (in_world (do_claim zi uuid dp p now)) (\<lambda>(claimed_ms, prefailed).
     bindS (dispatch_each (dispatch_one zi clock wall grants send p now) claimed_ms) (\<lambda>effects.
       ret \<lparr>do_claimed_message_ids = map ob_id (claimed_ms @ prefailed),
            do_published_notification_ids =
              concat (map (\<lambda>e. case e of Published (Some i) \<Rightarrow> [i] | _ \<Rightarrow> []) effects),
            do_skipped_message_ids =
              map ob_id prefailed @ concat (map (\<lambda>e. case e of Skipped i \<Rightarrow> [i] | _ \<Rightarrow> []) effects),
            do_uncertain_message_ids = concat (map (\<lambda>e. case e of Uncertain i \<Rightarrow> [i] | _ \<Rightarrow> []) effects),
            do_swept_message_ids = swept\<rparr>))))"

section \<open>Operator resolution\<close>

definition list_uncertain :: "principal \<Rightarrow> (stores, outbox_message list) op" where
  "list_uncertain p =
     bindS (lift (bindR (PermissionRequest_make ''notification.list_uncertain'' ''outbox:uncertain'' P5 None)
                    (require_permission p))) (\<lambda>_.
       with_transaction p
         (bindS (on_outbox (outbox_list_for_tenant p)) (\<lambda>ms.
            ret (filter (\<lambda>m. ob_dispatch_status m = uncertain
                           \<and> ev_type (ob_event m) = REMINDER_NOTIFICATION_EVENT_TYPE) ms))))"

definition resolve_uncertain ::
    "(string \<Rightarrow> string option) \<Rightarrow> instant \<Rightarrow> principal \<Rightarrow> string \<Rightarrow> string \<Rightarrow> py_datetime \<Rightarrow> approval_grant option
       \<Rightarrow> (stores, outbox_message) op" where
  "resolve_uncertain zi wall p message_id resolution now0 approval =
     bindS (lift (canonical_utc now0 ''now'')) (\<lambda>now.
     bindS (lift (require_approval wall p P5 approval ''notification.resolve_uncertain''
              (message_id @ '':'' @ resolution) None)) (\<lambda>_.
       with_transaction p
         (bindS (on_outbox (outbox_list_for_tenant p)) (\<lambda>items.
          let current = find (\<lambda>i. ob_id i = message_id) items in
          bindS (case current of
                   Some c \<Rightarrow> if ev_type (ob_event c) \<noteq> REMINDER_NOTIFICATION_EVENT_TYPE
                             then raise (ValueError ''message is not a reminder notification'')
                             else if resolution = ''retry'' \<and> ob_attempts c \<ge> MAX_DELIVERY_ATTEMPTS
                             then raise (ValueError ''maximum delivery attempts reached'')
                             else ret ()
                 | None \<Rightarrow> ret ()) (\<lambda>_.
          bindS (if resolution = ''delivered''
                 then on_outbox (resolve_uncertain_delivered p message_id (Aware now))
                 else if resolution = ''retry''
                 then on_outbox (resolve_uncertain_retry p message_id (Aware now))
                 else raise (ValueError ''resolution must be delivered or retry'')) (\<lambda>m.
          bindS (mirror_terminal zi p m) (\<lambda>_.
          bindS tx_commit (\<lambda>_. ret m))))))))"

end
