(* ===== verification/Outbox_Properties.thy ===== *)
theory Outbox_Properties
  imports Outbox_Machine
begin

text \<open>
  The properties of the outbox: invariant and life cycle over every run, fencing by
  claim tokens, the exact meaning and the exclusivity of claims, idempotent writes, and
  the reachable case in which \<open>mark_claim_failed\<close> cannot succeed. The definitions
  below are concrete values on which the hypotheses hold.
\<close>

definition demo_event :: cloud_event where
  "demo_event = \<lparr>ev_id = ''e1'', ev_specversion = ''1.0'', ev_type = ''x'', ev_source = ''app'',
     ev_subject = None, ev_tenant_id = ''t1'', ev_correlation_id = ''c'', ev_causation_id = None,
     ev_source_event_id = None, ev_payload_fingerprint = None, ev_timezone = None, ev_data = [],
     ev_time = 0\<rparr>"

definition demo_fp :: write_fp where
  "demo_fp ev n i = ev_id ev"

definition demo_message :: outbox_message where
  "demo_message = new_message ''0a'' 0 demo_principal demo_event ''k1'' None (Some ''m1'')"

definition demo_outbox :: "outbox_message \<Rightarrow> outbox" where
  "demo_outbox m = \<lparr>messages_by_key = [((''t1'', ''k1''), m)], key_by_message_id = [((''t1'', ''m1''), ''k1'')],
     key_by_event_id = [((''t1'', ''e1''), ''k1'')], ob_fingerprints = [((''t1'', ''k1''), ''e1'')]\<rparr>"

definition demo_error :: delivery_error where
  "demo_error = \<lparr>de_category = cat_network, de_code = code_timeout, de_provider_code = None,
     de_occurred_at = 0\<rparr>"

definition demo_claimed :: outbox_message where
  "demo_claimed = claim_update ''0b'' ''w1'' (seconds 60) demo_message"

lemmas demo_defs = demo_principal_def demo_event_def demo_fp_def demo_message_def demo_outbox_def
  demo_error_def demo_claimed_def new_message_def

lemma demo_add:
  "outbox_add demo_fp ''0a'' 0 demo_principal demo_event ''k1'' None (Some ''m1'') InMemoryOutbox_init
     = (Inr demo_message, demo_outbox demo_message)"
  by (simp add: outbox_add_def require_trusted_principal_cases opt_canonical_utc_def Let_def
      InMemoryOutbox_init_def OutboxMessage_validate_def strip_message_def require_state_metadata_def
      claim_metadata_def demo_defs is_trusted_def py_strip_def py_isspace_def)

lemma demo_claim:
  "claim_due (\<lambda>_. ''0b'') demo_principal (Aware 0) 1 ''w1'' 60 None (demo_outbox demo_message)
     = (Inr [demo_claimed], demo_outbox demo_claimed)"
  by (simp add: claim_due_def require_trusted_principal_cases demo_defs is_trusted_def
      canonical_utc_def in_datetime_range_def datetime_min_def datetime_max_def check_limit_def
      MAX_CLAIM_LIMIT_def check_lease_def MAX_CLAIM_LEASE_SECONDS_def check_owner_def Let_def
      py_strip_def py_isspace_def MAX_CLAIM_OWNER_LENGTH_def is_valid_claim_owner_def ascii_alnum_def
      by_creation_def claim_eligible_def dt_add_def seconds_def claim_update_def set_message_def)

lemma run_snoc:
  "outbox_run fp UNIV s s' \<Longrightarrow> outbox_step fp p s' s'' \<Longrightarrow> outbox_run fp UNIV s s''"
  by (rule rtranclp.rtrancl_into_rtrancl) auto

lemma demo_run: "outbox_run demo_fp UNIV InMemoryOutbox_init (demo_outbox demo_claimed)"
proof -
  have "outbox_step demo_fp demo_principal InMemoryOutbox_init (demo_outbox demo_message)"
    by (rule outbox_step.add [OF _ demo_add]) simp
  moreover have "outbox_step demo_fp demo_principal (demo_outbox demo_message) (demo_outbox demo_claimed)"
    by (rule outbox_step.claim_due [OF _ demo_claim]) (simp add: hex_string_def)
  ultimately show ?thesis
    by (blast intro: converse_rtranclp_into_rtranclp)
qed

section \<open>Invariant, life cycle, isolation\<close>

text \<open>C26: the outbox invariant.
  In every state reachable by any sequence of calls of any principals, every stored
  message passes its class validator and carries the tenant and key it is filed under,
  the indexes by message id and by event id agree with the messages in both directions,
  and every message has its write fingerprint.\<close>

theorem outbox_reachable_inv:
  assumes "outbox_run fp P InMemoryOutbox_init s"
  shows "outbox_inv s"
  by (rule ob.reachable_inv [OF assms])

theorem outbox_reachable_inv_witness: "outbox_inv (demo_outbox demo_claimed)"
  by (rule outbox_reachable_inv [OF demo_run])

lemma demo_inv: "outbox_inv (demo_outbox demo_claimed)"
  by (rule ob.reachable_inv [OF demo_run])

text \<open>C4: the delivery life cycle.
  In a reachable state, a call leaves every message in place; it changes a message only
  when it belongs to the caller's tenant, along a legal edge of the delivery state
  machine (none leaves \<open>published\<close> or \<open>failed\<close>), keeping id, tenant, event, key and
  creation time, and it counts an attempt exactly when it enters \<open>sending\<close>.\<close>

theorem outbox_lifecycle:
  assumes "outbox_run fp P InMemoryOutbox_init s" and "outbox_step fp p s s'"
    and "map_of (messages_by_key s) k = Some m"
  shows "\<exists>m'. map_of (messages_by_key s') k = Some m' \<and>
     (m' = m \<or>
      fst k = pr_tenant_id p \<and> edge (ob_dispatch_status m) (ob_dispatch_status m')
      \<and> ob_id m' = ob_id m \<and> ob_tenant_id m' = ob_tenant_id m \<and> ob_event m' = ob_event m
      \<and> ob_idempotency_key m' = ob_idempotency_key m \<and> ob_created_at m' = ob_created_at m
      \<and> ob_attempts m' = ob_attempts m + (if ob_dispatch_status m' = sending then 1 else 0))"
proof -
  from outbox_step_message [OF assms(2) ob.reachable_inv [OF assms(1)] assms(3)] obtain m' where
    "map_of (messages_by_key s') k = Some m'" "evolves m m'" "fst k \<noteq> pr_tenant_id p \<longrightarrow> m' = m"
    by blast
  then show ?thesis by (auto simp: evolves_def same_identity_def)
qed

theorem outbox_lifecycle_witness:
  "\<exists>m'. map_of (messages_by_key (snd (mark_sending demo_principal ''m1'' ''claim_0b'' (Aware 5)
            (demo_outbox demo_claimed)))) (''t1'', ''k1'') = Some m'
      \<and> (m' = demo_claimed \<or> edge claimed (ob_dispatch_status m'))"
proof -
  let ?r = "mark_sending demo_principal ''m1'' ''claim_0b'' (Aware 5) (demo_outbox demo_claimed)"
  have step: "outbox_step demo_fp demo_principal (demo_outbox demo_claimed) (snd ?r)"
    by (rule outbox_step.mark_sending [of _ _ _ _ _ "fst ?r"]) simp
  have look: "map_of (messages_by_key (demo_outbox demo_claimed)) (''t1'', ''k1'') = Some demo_claimed"
    by (simp add: demo_outbox_def)
  have st: "ob_dispatch_status demo_claimed = claimed" by (simp add: demo_claimed_def claim_update_def)
  from outbox_lifecycle [OF demo_run step look] st show ?thesis by auto
qed

text \<open>final states are final.
  Once a message is \<open>published\<close> or \<open>failed\<close>, no sequence of calls of any principals
  alters any of its fields.\<close>

theorem outbox_terminal_frozen:
  assumes "outbox_run fp P InMemoryOutbox_init s" and "outbox_run fp Q s s'"
    and "map_of (messages_by_key s) k = Some m" and "ob_dispatch_status m \<in> {published, failed}"
  shows "map_of (messages_by_key s') k = Some m"
  using assms(2)
proof (induction rule: rtranclp_induct)
  case base
  show ?case by (rule assms(3))
next
  case (step x y)
  then obtain p where p: "outbox_step fp p x y" by blast
  have inv: "outbox_inv x"
    using ob.run_inv [OF step.hyps(1)] ob.reachable_inv [OF assms(1)] by blast
  from outbox_step_message [OF p inv step.IH] evolves_terminal assms(4) show ?case by blast
qed

theorem outbox_terminal_frozen_witness:
  "map_of (messages_by_key (snd (mark_failed demo_principal ''m1'' ''claim_0b'' demo_error
       (snd (mark_claim_failed demo_principal ''m1'' ''claim_0b'' demo_error (demo_outbox demo_claimed))))))
     (''t1'', ''k1'') = Some (demo_claimed\<lparr>ob_dispatch_status := failed, ob_claim_token := None,
        ob_claim_owner := None, ob_claimed_until := None, ob_last_error := Some demo_error\<rparr>)"
proof -
  let ?m = "demo_claimed\<lparr>ob_dispatch_status := failed, ob_claim_token := None,
        ob_claim_owner := None, ob_claimed_until := None, ob_last_error := Some demo_error\<rparr>"
  have r: "mark_claim_failed demo_principal ''m1'' ''claim_0b'' demo_error (demo_outbox demo_claimed)
      = (Inr ?m, demo_outbox ?m)"
    by (simp add: mark_claim_failed_def transition_def require_trusted_principal_cases is_message_def
        demo_defs is_trusted_def claim_update_def clear_claim_def Let_def OutboxMessage_validate_def
        strip_message_def py_strip_def py_isspace_def require_state_metadata_def claim_metadata_def
        set_message_def)
  have "outbox_step demo_fp demo_principal (demo_outbox demo_claimed) (demo_outbox ?m)"
    by (rule outbox_step.mark_claim_failed [OF r])
  then have run: "outbox_run demo_fp UNIV InMemoryOutbox_init (demo_outbox ?m)"
    by (rule run_snoc [OF demo_run])
  let ?r = "mark_failed demo_principal ''m1'' ''claim_0b'' demo_error (demo_outbox ?m)"
  have "outbox_step demo_fp demo_principal (demo_outbox ?m) (snd ?r)"
    by (rule outbox_step.mark_failed [of _ _ _ _ _ "fst ?r"]) simp
  then have run': "outbox_run demo_fp UNIV (demo_outbox ?m) (snd ?r)" by blast
  have "map_of (messages_by_key (snd ?r)) (''t1'', ''k1'') = Some ?m"
    by (rule outbox_terminal_frozen [OF run run']) (simp_all add: demo_outbox_def)
  then show ?thesis by (simp add: r)
qed

text \<open>tenant isolation of the outbox.
  Whatever the principals of other tenants call, in any order, the messages of a tenant
  and their order stay exactly as they were.\<close>

theorem outbox_tenant_isolation:
  assumes "outbox_run fp P InMemoryOutbox_init s" and "outbox_run fp Q s s'"
    and "t \<notin> pr_tenant_id ` Q"
  shows "tenant_part t (messages_by_key s') = tenant_part t (messages_by_key s)"
  by (rule ob.run_isolation [OF assms(2) ob.reachable_inv [OF assms(1)] assms(3)])

theorem outbox_tenant_isolation_witness:
  "tenant_part ''t2'' (messages_by_key (demo_outbox demo_claimed)) = tenant_part ''t2'' []"
proof -
  have "outbox_step demo_fp demo_principal InMemoryOutbox_init (demo_outbox demo_message)"
    by (rule outbox_step.add [OF _ demo_add]) simp
  moreover have "outbox_step demo_fp demo_principal (demo_outbox demo_message) (demo_outbox demo_claimed)"
    by (rule outbox_step.claim_due [OF _ demo_claim]) (simp add: hex_string_def)
  ultimately have "outbox_run demo_fp {demo_principal} InMemoryOutbox_init (demo_outbox demo_claimed)"
    by (blast intro: converse_rtranclp_into_rtranclp)
  from outbox_tenant_isolation [OF rtranclp.rtrancl_refl this, of "''t2''"] show ?thesis
    by (simp add: InMemoryOutbox_init_def)
qed

section \<open>Fencing\<close>

lemma transition_stale:
  assumes "outbox_inv s" and "is_trusted p"
    and "map_of (messages_by_key s) (pr_tenant_id p, k) = Some m" and "ob_claim_token m \<noteq> Some tok"
  shows "transition p (ob_id m) tok expected target u inc s =
     (Inl (tenant_error PERMISSION_DENIED ''invalid outbox claim token'' p), s)"
  using assms find_message [OF assms(1,3)]
  by (simp add: transition_def require_trusted_principal_cases)

lemma lift_canonical [simp]:
  "in_datetime_range t \<Longrightarrow> canonical_utc (Aware t) field = Inr t"
  by (simp add: canonical_utc_def)

text \<open>C24: a stale claim token has no effect.
  If a message is not held under the presented token (the lease expired and another
  worker claimed it, or it was released or finished), each of the seven worker
  operations raises PERMISSION_DENIED and leaves the store as it was.\<close>

theorem outbox_stale_token_fenced:
  assumes "outbox_inv s" and "is_trusted p"
    and "map_of (messages_by_key s) (pr_tenant_id p, k) = Some m" and "ob_claim_token m \<noteq> Some tok"
    and "in_datetime_range t"
  shows "list_all (\<lambda>op. op s =
       (Inl (tenant_error PERMISSION_DENIED ''invalid outbox claim token'' p), s))
     [mark_sending p (ob_id m) tok (Aware t), mark_claim_failed p (ob_id m) tok err,
      mark_published clock p (ob_id m) tok (Some (Aware t)), mark_failed p (ob_id m) tok err,
      mark_uncertain p (ob_id m) tok err, release p (ob_id m) tok (Some (Aware t)),
      reschedule p (ob_id m) tok (Aware t) err]"
  using assms(5)
  by (auto simp: guarded_ops bindS_def opt_canonical_utc_def transition_stale [OF assms(1-4)])

theorem outbox_stale_token_fenced_witness:
  "mark_published 0 demo_principal ''m1'' ''claim_99'' (Some (Aware 5)) (demo_outbox demo_claimed)
     = (Inl (tenant_error PERMISSION_DENIED ''invalid outbox claim token'' demo_principal),
        demo_outbox demo_claimed)"
proof -
  have look: "map_of (messages_by_key (demo_outbox demo_claimed)) (pr_tenant_id demo_principal, ''k1'')
      = Some demo_claimed" by (simp add: demo_outbox_def)
  have tok: "ob_claim_token demo_claimed \<noteq> Some ''claim_99''" and i: "ob_id demo_claimed = ''m1''"
    by (simp_all add: demo_defs claim_update_def)
  have r: "in_datetime_range 5" by (simp add: in_datetime_range_def datetime_min_def datetime_max_def)
  from outbox_stale_token_fenced [OF demo_inv _ look tok r, of demo_error 0]
  show ?thesis by (simp add: i)
qed

section \<open>Claims\<close>

lemma put_all_notin: "k \<notin> fst ` set es \<Longrightarrow> map_of (messages_by_key (put_all es s)) k = map_of (messages_by_key s) k"
  by (induction es arbitrary: s) (auto simp: map_of_update)

lemma put_all_lookup:
  "distinct (map fst es) \<Longrightarrow> (k, m) \<in> set es \<Longrightarrow> map_of (messages_by_key (put_all es s)) k = Some m"
proof (induction es arbitrary: s)
  case (Cons e es)
  then show ?case by (cases e) (force simp: put_all_notin map_of_update)
qed simp

lemma claimed_entries_keys: "map fst (claimed_entries uuid n owner until es) = map fst es"
  by (induction es arbitrary: n) (auto simp: claimed_entries_def)

lemma claim_due_loop:
  assumes "is_trusted p" and "in_datetime_range t" and "1 \<le> limit" and "limit \<le> 1000"
    and "1 \<le> lease" and "lease \<le> 86400" and "check_owner owner = Inr o'"
  shows "claim_due uuid p (Aware t) limit owner lease ety s =
     claim_loop uuid p t limit o' lease ety (by_creation (messages_by_key s)) [] s"
  using assms
  by (simp add: claim_due_def require_trusted_principal_cases check_limit_def check_lease_def
      MAX_CLAIM_LIMIT_def MAX_CLAIM_LEASE_SECONDS_def)

lemma claim_due_Inr:
  assumes "claim_due uuid p (Aware t) limit owner lease ety s = (Inr ms, s')"
  obtains o' where "ms = map snd (claimed_entries uuid 0 o' (t + seconds lease)
      (take (nat limit) (filter (claim_eligible p t ety) (by_creation (messages_by_key s)))))"
    "s' = put_all (claimed_entries uuid 0 o' (t + seconds lease)
      (take (nat limit) (filter (claim_eligible p t ety) (by_creation (messages_by_key s))))) s"
proof -
  from assms obtain o' where lim: "1 \<le> limit"
    and l: "claim_loop uuid p t limit o' lease ety (by_creation (messages_by_key s)) [] s = (Inr ms, s')"
    by (auto simp: claim_due_def bindR_def require_trusted_principal_cases canonical_utc_def
        check_limit_def split: if_splits sum.splits)
  show ?thesis
  proof (cases "dt_add t (seconds lease)")
    case (Inl e)
    with l show ?thesis by (intro that [of o']) (auto simp: claim_loop_overflow split: if_splits)
  next
    case (Inr u)
    then have "u = t + seconds lease" by (simp add: dt_add_Inr)
    with l claim_loop_exact [OF Inr, of "[]" limit] lim show ?thesis
      by (intro that [of o']) (auto simp: Let_def)
  qed
qed

text \<open>A claimed message is an eligible one of the store, rewritten there with a fresh token and lease.\<close>

lemma claim_due_member:
  assumes inv: "outbox_inv s" and c: "claim_due uuid p (Aware t) limit owner lease ety s = (Inr ms, s')"
    and m': "m' \<in> set ms"
  obtains k m i o' where "map_of (messages_by_key s) k = Some m" "claim_eligible p t ety (k, m)"
    "m' = claim_update (uuid i) o' (t + seconds lease) m" "map_of (messages_by_key s') k = Some m'"
proof -
  let ?c = "take (nat limit) (filter (claim_eligible p t ety) (by_creation (messages_by_key s)))"
  from claim_due_Inr [OF c] obtain o' where
    ms: "ms = map snd (claimed_entries uuid 0 o' (t + seconds lease) ?c)"
    and s': "s' = put_all (claimed_entries uuid 0 o' (t + seconds lease) ?c) s" by blast
  from m' ms obtain k where km: "(k, m') \<in> set (claimed_entries uuid 0 o' (t + seconds lease) ?c)"
    by force
  from claimed_entries_set [OF km] obtain i m where m: "(k, m) \<in> set ?c"
    "m' = claim_update (uuid i) o' (t + seconds lease) m" by blast
  from in_set_takeD [OF m(1)] have e: "claim_eligible p t ety (k, m)"
    and look: "map_of (messages_by_key s) k = Some m"
    by (auto intro: by_creation_lookup [OF inv])
  have "distinct (map fst (by_creation (messages_by_key s)))"
    using inv by (simp add: outbox_inv_def by_creation_def distinct_map)
  then have "distinct (map fst (claimed_entries uuid 0 o' (t + seconds lease) ?c))"
    by (simp add: claimed_entries_keys distinct_map_filter flip: take_map)
  from that [OF look e m(2)] put_all_lookup [OF this km] s' show ?thesis by simp
qed

text \<open>What a claim takes, exactly.
  For an admissible call, \<open>claim_due\<close> takes the first \<open>limit\<close> eligible messages of
  the tenant in order of creation time and id: those pending, or claimed with an expired
  lease, of the requested event type and not deferred beyond now. Each gets its own token,
  the owner and the lease; nothing else in the store changes.\<close>

theorem claim_due_exact:
  assumes "is_trusted p" and "in_datetime_range t" and "1 \<le> limit" and "limit \<le> 1000"
    and "1 \<le> lease" and "lease \<le> 86400" and "check_owner owner = Inr o'"
    and "in_datetime_range (t + seconds lease)"
  shows "claim_due uuid p (Aware t) limit owner lease ety s =
     (let chosen = take (nat limit) (filter (claim_eligible p t ety)
             (sort_key (\<lambda>(_, m). (ob_created_at m, ob_id m)) (messages_by_key s)));
          taken = map (\<lambda>(i, (k, m)). (k, claim_update (uuid i) o' (t + seconds lease) m))
                    (enumerate 0 chosen)
      in (Inr (map snd taken), fold (\<lambda>(k, m). set_message k m) taken s))"
proof -
  from assms(8) have d: "dt_add t (seconds lease) = Inr (t + seconds lease)" by (simp add: dt_add_def)
  show ?thesis
    using claim_loop_exact [OF d, of "[]" limit] assms(3)
    by (simp add: claim_due_loop [OF assms(1-7)] Let_def by_creation_def claimed_entries_def put_all_def)
qed

theorem claim_due_exact_witness:
  "claim_due (\<lambda>_. ''0b'') demo_principal (Aware 0) 1 ''w1'' 60 None (demo_outbox demo_message)
     = (Inr [demo_claimed], demo_outbox demo_claimed)"
proof -
  have o: "check_owner ''w1'' = Inr ''w1''"
    by (simp add: check_owner_def Let_def py_strip_def py_isspace_def MAX_CLAIM_OWNER_LENGTH_def
        is_valid_claim_owner_def ascii_alnum_def)
  have e: "claim_due (\<lambda>_. ''0b'') demo_principal (Aware 0) 1 ''w1'' 60 None (demo_outbox demo_message) =
     (let chosen = take (nat 1) (filter (claim_eligible demo_principal 0 None)
             (sort_key (\<lambda>(_, m). (ob_created_at m, ob_id m)) (messages_by_key (demo_outbox demo_message))));
          taken = map (\<lambda>(i, (k, m)). (k, claim_update ''0b'' ''w1'' (0 + seconds 60) m)) (enumerate 0 chosen)
      in (Inr (map snd taken), fold (\<lambda>(k, m). set_message k m) taken (demo_outbox demo_message)))"
    by (rule claim_due_exact [OF _ _ _ _ _ _ o])
      (simp_all add: in_datetime_range_def datetime_min_def datetime_max_def seconds_def)
  show ?thesis
    unfolding e by (simp add: demo_defs claim_eligible_def Let_def set_message_def)
qed

lemma message_ids_unique:
  assumes "outbox_inv s" and "map_of (messages_by_key s) k = Some m"
    and "map_of (messages_by_key s) k' = Some m'" and "fst k = fst k'" and "ob_id m = ob_id m'"
  shows "k = k'"
proof -
  obtain t a b where kk: "k = (t, a)" "k' = (t, b)" using assms(4) by (metis prod.collapse)
  from assms(2,3) have "map_of (key_by_message_id s) (t, ob_id m) = Some a"
    "map_of (key_by_message_id s) (t, ob_id m') = Some b"
    unfolding kk by (blast dest: outbox_inv_message [OF assms(1)])+
  then show ?thesis using assms(5) kk by simp
qed

text \<open>C21: a claim is exclusive until its lease ends.
  If a worker claims messages at time \<open>t\<close> with some lease, a later claim for the same
  tenant at a time before the lease ends returns none of them, whatever its owner, limit
  and event type.\<close>

theorem claim_due_exclusive:
  assumes inv: "outbox_inv s" and hex: "\<And>i. hex_string (uuid i)"
    and c1: "claim_due uuid p (Aware t) limit owner lease ety s = (Inr ms, s1)"
    and c2: "claim_due uuid' q (Aware t') limit' owner' lease' ety' s1 = (Inr ms', s2)"
    and "pr_tenant_id q = pr_tenant_id p" and early: "t' < t + seconds lease"
  shows "ob_id ` set ms \<inter> ob_id ` set ms' = {}"
proof (rule ccontr)
  assume "ob_id ` set ms \<inter> ob_id ` set ms' \<noteq> {}"
  then obtain m1 m2 where m1: "m1 \<in> set ms" and m2: "m2 \<in> set ms'" and id: "ob_id m1 = ob_id m2"
    by blast
  have "progress p s s1"
    using claim_due_progress [where uuid = uuid, OF inv hex, of p "Aware t" limit owner lease ety]
    by (simp add: c1)
  then have inv1: "outbox_inv s1" by (rule progress_inv [OF inv])
  obtain k m i o1 where k0: "map_of (messages_by_key s) k = Some m"
    and k: "claim_eligible p t ety (k, m)" "m1 = claim_update (uuid i) o1 (t + seconds lease) m"
      "map_of (messages_by_key s1) k = Some m1" by (rule claim_due_member [OF inv c1 m1])
  obtain k' m' i' o2 where k': "map_of (messages_by_key s1) k' = Some m'" "claim_eligible q t' ety' (k', m')"
      "m2 = claim_update (uuid' i') o2 (t' + seconds lease') m'" and "map_of (messages_by_key s2) k' = Some m2"
    by (rule claim_due_member [OF inv1 c2 m2])
  have "fst k = fst k'"
    using claim_eligible_facts [OF k(1)] claim_eligible_facts [OF k'(2)] assms(5) by simp
  moreover have "ob_id m1 = ob_id m'" using id k'(3) by (simp add: claim_update_def)
  ultimately have "k = k'" by (rule message_ids_unique [OF inv1 k(3) k'(1)])
  with k(3) k'(1) have "m' = m1" by simp
  with k'(2) have "claim_eligible q t' ety' (k', claim_update (uuid i) o1 (t + seconds lease) m)"
    by (simp add: k(2))
  with early show False by (simp add: claim_eligible_def claim_update_def)
qed

lemma demo_message_inv: "outbox_inv (demo_outbox demo_message)"
  using outbox_step_inv [OF outbox_step.add [OF _ demo_add] outbox_init_inv] by simp

theorem claim_due_exclusive_witness:
  "\<exists>ms' s2. claim_due (\<lambda>_. ''0c'') demo_principal (Aware 5) 10 ''w1'' 60 None (demo_outbox demo_claimed)
       = (Inr ms', s2) \<and> ob_id ` set [demo_claimed] \<inter> ob_id ` set ms' = {}"
proof -
  have hex: "hex_string ''0b''" by (simp add: hex_string_def)
  have c2: "claim_due (\<lambda>_. ''0c'') demo_principal (Aware 5) 10 ''w1'' 60 None (demo_outbox demo_claimed)
       = (Inr [], demo_outbox demo_claimed)"
    by (simp add: claim_due_def require_trusted_principal_cases demo_defs is_trusted_def
      canonical_utc_def in_datetime_range_def datetime_min_def datetime_max_def check_limit_def
      MAX_CLAIM_LIMIT_def check_lease_def MAX_CLAIM_LEASE_SECONDS_def check_owner_def Let_def
      py_strip_def py_isspace_def MAX_CLAIM_OWNER_LENGTH_def is_valid_claim_owner_def ascii_alnum_def
      by_creation_def claim_eligible_def seconds_def claim_update_def)
  have "ob_id ` set [demo_claimed] \<inter> ob_id ` set ([] :: outbox_message list) = {}"
    by (rule claim_due_exclusive [OF demo_message_inv _ demo_claim c2])
      (simp_all add: hex seconds_def)
  with c2 show ?thesis by blast
qed

section \<open>Idempotent writes\<close>

text \<open>A call of \<open>add\<close> with all its arguments; \<open>w_uuid\<close> and \<open>w_clock\<close> are what it draws.\<close>

record outbox_write =
  w_uuid :: string
  w_clock :: instant
  w_principal :: principal
  w_event :: cloud_event
  w_key :: string
  w_next :: "py_datetime option"
  w_id :: "string option"

definition put_write :: "write_fp \<Rightarrow> outbox_write \<Rightarrow> (outbox, outbox_message) op" where
  "put_write fp w = outbox_add fp (w_uuid w) (w_clock w) (w_principal w) (w_event w) (w_key w)
                      (w_next w) (w_id w)"

text \<open>An admissible retry under the same tenant and key.\<close>

definition write_retry :: "outbox_write \<Rightarrow> outbox_write \<Rightarrow> bool" where
  "write_retry w w' \<longleftrightarrow> is_trusted (w_principal w')
     \<and> pr_tenant_id (w_principal w') = pr_tenant_id (w_principal w) \<and> w_key w' = w_key w
     \<and> ev_tenant_id (w_event w') = pr_tenant_id (w_principal w')
     \<and> (\<exists>n. opt_canonical_utc (w_next w') ''next_attempt_at'' = Inr n)"

definition write_content :: "write_fp \<Rightarrow> outbox_write \<Rightarrow> string" where
  "write_content fp w =
     fp (w_event w) (case opt_canonical_utc (w_next w) ''next_attempt_at'' of Inr n \<Rightarrow> n | Inl _ \<Rightarrow> None) (w_id w)"

lemma put_write_Inr:
  assumes "put_write fp w s = (Inr m, s')"
  shows "map_of (messages_by_key s') (pr_tenant_id (w_principal w), w_key w) = Some m
     \<and> map_of (ob_fingerprints s') (pr_tenant_id (w_principal w), w_key w) = Some (write_content fp w)"
  using assms
  by (auto simp: put_write_def outbox_add_def write_content_def Let_def require_trusted_principal_cases
      map_of_update split: if_splits option.splits sum.splits)

lemma put_write_existing:
  assumes "write_retry w w'"
    and "map_of (messages_by_key s) (pr_tenant_id (w_principal w), w_key w) = Some m"
    and "map_of (ob_fingerprints s) (pr_tenant_id (w_principal w), w_key w) = Some f"
  shows "put_write fp w' s = (if f = write_content fp w' then (Inr m, s)
     else (Inl (tenant_error CONFLICT ''outbox idempotency conflict'' (w_principal w')), s))"
  using assms
  by (auto simp: put_write_def outbox_add_def write_retry_def write_content_def Let_def
      require_trusted_principal_cases)

interpretation ob_add: keyed_store "put_write fp"
    "\<lambda>w w'. write_retry w w' \<and> write_content fp w' = write_content fp w"
    "\<lambda>w w'. write_retry w w' \<and> write_content fp w' \<noteq> write_content fp w"
    "\<lambda>w. tenant_error CONFLICT ''outbox idempotency conflict'' (w_principal w)" id for fp
proof unfold_locales
  fix w w' :: outbox_write and s s' :: outbox and r
  assume r: "put_write fp w s = (Inr r, s')"
  note ex = put_write_existing [OF _ put_write_Inr [OF r, THEN conjunct1] put_write_Inr [OF r, THEN conjunct2]]
  show "\<exists>r'. put_write fp w' s' = (Inr r', s') \<and> id r' = id r"
    if "write_retry w w' \<and> write_content fp w' = write_content fp w"
    using ex [of w' fp] that by simp
  show "put_write fp w' s' = (Inl (tenant_error CONFLICT ''outbox idempotency conflict'' (w_principal w')), s')"
    if "write_retry w w' \<and> write_content fp w' \<noteq> write_content fp w"
    using ex [of w' fp] that by auto
qed

text \<open>Adding to the outbox is idempotent.
  After a successful \<open>add\<close>, a retry under the same tenant and key (whatever ids and
  times it draws) returns the message first stored when its content fingerprint is the
  same and raises CONFLICT when it differs; in both cases the store is unchanged.\<close>

theorem outbox_add_idempotent:
  assumes "put_write fp w s = (Inr m, s')" and "write_retry w w'"
  shows "put_write fp w' s' =
     (if write_content fp w' = write_content fp w then Inr m
      else Inl (AssistantError CONFLICT ''outbox idempotency conflict''
             (Some (pr_tenant_id (w_principal w'))) []), s')"
  using ob_add.put_same [OF assms(1), of w'] ob_add.put_clash [OF assms(1), of w'] assms(2)
  by simp

definition demo_write :: "string \<Rightarrow> outbox_write" where
  "demo_write u = \<lparr>w_uuid = u, w_clock = 0, w_principal = demo_principal, w_event = demo_event,
     w_key = ''k1'', w_next = None, w_id = Some ''m1''\<rparr>"

theorem outbox_add_idempotent_witness:
  "put_write demo_fp (demo_write ''ff'') (demo_outbox demo_message)
     = (Inr demo_message, demo_outbox demo_message)"
proof -
  have p: "put_write demo_fp (demo_write ''0a'') InMemoryOutbox_init
      = (Inr demo_message, demo_outbox demo_message)"
    using demo_add by (simp add: put_write_def demo_write_def)
  have r: "write_retry (demo_write ''0a'') (demo_write ''ff'')"
    by (simp add: write_retry_def demo_write_def demo_event_def opt_canonical_utc_def)
  from outbox_add_idempotent [OF p r] show ?thesis
    by (simp add: write_content_def demo_write_def)
qed

section \<open>A retried message cannot be failed before I/O\<close>

text \<open>C32: \<open>mark_claim_failed\<close> never succeeds on a message that was tried before.
  For a claimed message with at least one counted attempt (one that was rescheduled, or
  that an operator sent back for retry), the class validator rejects the failed state
  the method builds: it demands either no attempt or a sending time. The call raises
  \<open>ValueError\<close> and the message stays claimed.\<close>

theorem mark_claim_failed_blocked_after_retry:
  assumes "outbox_inv s" and "is_trusted p"
    and "map_of (messages_by_key s) (pr_tenant_id p, k) = Some m"
    and "ob_dispatch_status m = claimed" and "ob_claim_token m = Some tok" and "1 \<le> ob_attempts m"
  shows "mark_claim_failed p (ob_id m) tok err s =
     (Inl (ValueError ''failed outbox messages require pre-I/O or sending evidence''), s)"
proof -
  note wf = outbox_inv_wf [OF assms(1,3), unfolded wf_message_iff require_state_metadata_iff]
  have "tok \<noteq> []" and "ob_sending_at m = None" using wf assms(4,5) by (auto simp: truthy_str_def)
  moreover have "strip_message (clear_claim (m\<lparr>ob_dispatch_status := failed\<rparr>)\<lparr>ob_last_error := Some err\<rparr>)
      = clear_claim (m\<lparr>ob_dispatch_status := failed\<rparr>)\<lparr>ob_last_error := Some err\<rparr>"
    using wf by (simp add: strip_message_eq)
  ultimately show ?thesis
    using assms(2,4-6) find_message [OF assms(1,3)] wf
    by (simp add: mark_claim_failed_def transition_def require_trusted_principal_cases Let_def
        OutboxMessage_validate_def require_state_metadata_def)
qed

definition demo_retried :: outbox_message where
  "demo_retried = demo_claimed\<lparr>ob_attempts := 1, ob_next_attempt_at := Some 20,
     ob_last_error := Some demo_error, ob_claim_token := Some ''claim_0c'',
     ob_claimed_until := Some (30 + seconds 60)\<rparr>"

lemmas demo_eval = require_trusted_principal_cases demo_defs is_trusted_def
      canonical_utc_def in_datetime_range_def datetime_min_def datetime_max_def check_limit_def
      MAX_CLAIM_LIMIT_def check_lease_def MAX_CLAIM_LEASE_SECONDS_def check_owner_def Let_def
      py_strip_def py_isspace_def MAX_CLAIM_OWNER_LENGTH_def is_valid_claim_owner_def ascii_alnum_def
      by_creation_def claim_eligible_def dt_add_def seconds_def claim_update_def set_message_def
      bindS_def transition_def is_message_def OutboxMessage_validate_def strip_message_def
      require_state_metadata_def claim_metadata_def clear_claim_def truthy_str_def

lemma demo_retried_run: "outbox_run demo_fp UNIV InMemoryOutbox_init (demo_outbox demo_retried)"
proof -
  let ?s1 = "demo_claimed\<lparr>ob_dispatch_status := sending, ob_sending_at := Some 10, ob_attempts := 1\<rparr>"
  let ?s2 = "demo_message\<lparr>ob_attempts := 1, ob_next_attempt_at := Some 20, ob_last_error := Some demo_error\<rparr>"
  have "mark_sending demo_principal ''m1'' ''claim_0b'' (Aware 10) (demo_outbox demo_claimed)
      = (Inr ?s1, demo_outbox ?s1)"
    by (simp add: mark_sending_def demo_eval)
  note run1 = run_snoc [OF demo_run outbox_step.mark_sending [OF this]]
  have "reschedule demo_principal ''m1'' ''claim_0b'' (Aware 20) demo_error (demo_outbox ?s1)
      = (Inr ?s2, demo_outbox ?s2)"
    by (simp add: reschedule_def demo_eval)
  note run2 = run_snoc [OF run1 outbox_step.reschedule [OF this]]
  have "claim_due (\<lambda>_. ''0c'') demo_principal (Aware 30) 1 ''w1'' 60 None (demo_outbox ?s2)
      = (Inr [demo_retried], demo_outbox demo_retried)"
    by (simp add: claim_due_def demo_retried_def demo_eval)
  note step3 = outbox_step.claim_due [OF _ this]
  show ?thesis by (rule run_snoc [OF run2 step3]) (simp add: hex_string_def)
qed

theorem mark_claim_failed_blocked_after_retry_witness:
  "outbox_run demo_fp UNIV InMemoryOutbox_init (demo_outbox demo_retried)
   \<and> mark_claim_failed demo_principal ''m1'' ''claim_0c'' demo_error (demo_outbox demo_retried)
     = (Inl (ValueError ''failed outbox messages require pre-I/O or sending evidence''),
        demo_outbox demo_retried)"
proof -
  have look: "map_of (messages_by_key (demo_outbox demo_retried)) (pr_tenant_id demo_principal, ''k1'')
      = Some demo_retried" by (simp add: demo_outbox_def)
  have m: "ob_dispatch_status demo_retried = claimed" "ob_claim_token demo_retried = Some ''claim_0c''"
    "1 \<le> ob_attempts demo_retried" "ob_id demo_retried = ''m1''"
    by (simp_all add: demo_retried_def demo_defs claim_update_def)
  from mark_claim_failed_blocked_after_retry [OF ob.reachable_inv [OF demo_retried_run] _ look m(1-3)]
    demo_retried_run show ?thesis by (simp add: m(4))
qed

end
