(* ===== verification/Dispatch_Safety.thy ===== *)
theory Dispatch_Safety
  imports Dispatch Outbox_Properties
begin

text \<open>
  The dispatcher calls the provider only for a message it holds in the committed state
  \<open>sending\<close> and with a matching approval. The outbox invariant is kept by every
  transaction of the dispatcher; the rules collected in \<open>step_intros\<close> carry the proofs.
\<close>

section \<open>The outbox invariant through the layers\<close>

lemma keeps_progress: "(\<And>s. outbox_inv s \<Longrightarrow> progress p s (snd (m s))) \<Longrightarrow> keeps outbox_inv m"
  by (auto intro: keepsI progress_inv)

lemma keeps_guarded [step_intros]:
  "keeps outbox_inv (mark_sending p i tok started)"
  "keeps outbox_inv (mark_claim_failed p i tok err)"
  "keeps outbox_inv (mark_published clock p i tok t)"
  "keeps outbox_inv (mark_failed p i tok err)"
  "keeps outbox_inv (mark_uncertain p i tok err)"
  "keeps outbox_inv (release p i tok nxt)"
  "keeps outbox_inv (reschedule p i tok nxt_at err)"
  "keeps outbox_inv (resolve_uncertain_delivered p i pub)"
  "keeps outbox_inv (resolve_uncertain_retry p i nxt_at)"
  "keeps outbox_inv (sweep_expired_sending p now err limit ety)"
  by (auto intro!: keeps_progress guarded_progress sweep_progress)

lemma keeps_claim_due: "(\<And>i. hex_string (us i)) \<Longrightarrow> keeps outbox_inv (claim_due us p now limit owner lease ety)"
  by (rule keeps_progress [of p]) (rule claim_due_progress)

lemma keeps_list [step_intros]: "keeps outbox_inv (outbox_list_for_tenant p)"
  by (simp add: keeps_def outbox_list_for_tenant_def require_trusted_principal_cases)

definition outbox_ok :: "stores \<Rightarrow> bool" where
  "outbox_ok s \<longleftrightarrow> outbox_inv (st_outbox s)"

lemma keeps_on_outbox [step_intros]:
  "keeps outbox_inv m \<Longrightarrow> keeps (\<lambda>x. outbox_ok (us_stores x)) (on_outbox m)"
  by (auto simp: keeps_def on_outbox_def on_field_def outbox_ok_def split: prod.splits)

lemma keeps_on_other [step_intros]:
  "keeps (\<lambda>x. outbox_ok (us_stores x)) (on_scheduler h)" "keeps (\<lambda>x. outbox_ok (us_stores x)) (on_calendar c)"
  "keeps (\<lambda>x. outbox_ok (us_stores x)) (on_events e)" "keeps (\<lambda>x. outbox_ok (us_stores x)) (on_states w)"
  "keeps (\<lambda>x. outbox_ok (us_stores x)) tx_commit"
  by (auto simp: keeps_def on_scheduler_def on_calendar_def on_events_def on_states_def on_field_def
      outbox_ok_def tx_commit_def require_active_def split: prod.splits)

lemma keeps_if [step_intros]: "keeps P a \<Longrightarrow> keeps P b \<Longrightarrow> keeps P (if c then a else b)"
  by simp

lemma keeps_case_error [step_intros]:
  "(\<And>s. keeps P (a s)) \<Longrightarrow> (\<And>c x y z. keeps P (b c x y z)) \<Longrightarrow> keeps P d \<Longrightarrow>
     keeps P (case e of ValueError s \<Rightarrow> a s | AssistantError c x y z \<Rightarrow> b c x y z | _ \<Rightarrow> d)"
  by (cases e) simp_all

lemma keeps_case_sum [step_intros]:
  "(\<And>x. keeps P (a x)) \<Longrightarrow> (\<And>x. keeps P (b x)) \<Longrightarrow> keeps P (case r of Inl x \<Rightarrow> a x | Inr x \<Rightarrow> b x)"
  by (cases r) simp_all

lemma keeps_case_option [step_intros]:
  "keeps P a \<Longrightarrow> (\<And>x. keeps P (b x)) \<Longrightarrow> keeps P (case r of None \<Rightarrow> a | Some x \<Rightarrow> b x)"
  by (cases r) simp_all

lemma keeps_case_prod [step_intros]:
  "(\<And>x y. keeps P (f x y)) \<Longrightarrow> keeps P (case z of (x, y) \<Rightarrow> f x y)"
  by (cases z) simp

lemma keeps_with_transaction:
  assumes "\<And>s. keeps (in_transaction s) body" and "keeps (\<lambda>x. Q (us_stores x)) body"
  shows "keeps Q (with_transaction p body)"
proof (rule keepsI)
  fix s assume q: "Q s"
  show "Q (snd (with_transaction p body s))"
  proof (cases "is_trusted p")
    case True
    obtain r y where b: "body (opened s) = (r, y)" by force
    have "Q (us_stores y)" using keepsD [OF assms(2), of "opened s"] q b by simp
    then show ?thesis using with_transaction_eq [OF True assms(1)] q by (simp add: b split: sum.splits)
  next
    case False
    then show ?thesis using q
      by (simp add: with_transaction_def begin_transaction_def require_trusted_principal_cases)
  qed
qed

text \<open>The mirrors and the loops of the dispatcher keep any property of the transaction that the
  scheduler calls keep.\<close>

lemma keeps_mirrors [step_intros]:
  "(\<And>h. keeps P (on_scheduler (h :: (scheduler, scheduled_reminder) op))) \<Longrightarrow> keeps P (mirror zi p m)"
  "(\<And>h. keeps P (on_scheduler (h :: (scheduler, scheduled_reminder) op))) \<Longrightarrow> keeps P (mirror_terminal zi p m)"
  "(\<And>h. keeps P (on_scheduler (h :: (scheduler, scheduled_reminder) op))) \<Longrightarrow> keeps P (mirror_pre_io_failed zi p m)"
  unfolding mirror_def mirror_terminal_def mirror_pre_io_failed_def
  by (intro step_intros; assumption)+

lemma keeps_claim_each:
  assumes "\<And>h. keeps P (on_scheduler (h :: (scheduler, scheduled_reminder) op))"
    and "\<And>p i tok err. keeps P (on_outbox (mark_claim_failed p i tok err))"
  shows "keeps P (claim_each zi p now ms)"
proof (induction ms)
  case (Cons m ms)
  have "keeps P (fail_claimed zi p now m)"
    unfolding fail_claimed_def by (intro step_intros assms)
  then show ?case unfolding claim_each.simps by (intro step_intros assms Cons.IH)
qed (unfold claim_each.simps, rule keeps_ret)

lemma keeps_mirror_each:
  assumes "\<And>h. keeps P (on_scheduler (h :: (scheduler, scheduled_reminder) op))"
  shows "keeps P (mirror_each zi p ms)"
  by (induction ms; unfold mirror_each.simps; intro step_intros assms; assumption)

lemma keeps_dispatch_transactions:
  "keeps outbox_ok (confirm_sending zi p m now)"
  "keeps outbox_ok (release_before_io zi p m now)"
  "keeps outbox_ok (record_unknown zi p m now)"
  "keeps outbox_ok (record_malformed zi p m now)"
  "keeps outbox_ok (record_result zi p m r now)"
  "keeps outbox_ok (do_sweep zi dp p now)"
  unfolding confirm_sending_def release_before_io_def record_unknown_def record_malformed_def
    record_result_def result_transition_def do_sweep_def
  by (intro step_intros keeps_with_transaction keeps_mirror_each)+

lemma keeps_do_claim:
  assumes "\<And>i. hex_string (us i)"
  shows "keeps outbox_ok (do_claim zi us dp p now)"
  unfolding do_claim_def
  by (intro step_intros keeps_with_transaction keeps_claim_each keeps_claim_due assms)

section \<open>The outbox effect of a transaction\<close>

abbreviation outbox_is :: "outbox \<Rightarrow> uow_state \<Rightarrow> bool" where
  "outbox_is b \<equiv> (\<lambda>x. st_outbox (us_stores x) = b)"

lemma keeps_outbox_is [step_intros]:
  "keeps (outbox_is b) (on_scheduler h)" "keeps (outbox_is b) tx_commit"
  by (auto simp: keeps_def on_scheduler_def on_field_def tx_commit_def require_active_def split: prod.splits)

lemma with_transaction_Inr:
  assumes "with_transaction p body s = (Inr x, s')" and "keeps (in_transaction s) body"
  obtains y where "is_trusted p" "body (opened s) = (Inr x, y)"
    "s' = (if tx_committed (us_txn y) then us_stores y else s)"
proof -
  have t: "is_trusted p"
    using assms(1) by (auto simp: with_transaction_def begin_transaction_def require_trusted_principal_cases
        split: if_splits)
  from assms(1) with_transaction_eq [OF t assms(2)] that t show ?thesis
    by (auto split: prod.splits sum.splits)
qed

lemma commit_committed: "tx_commit x = (Inr u, y) \<Longrightarrow> tx_committed (us_txn y) \<and> us_stores y = us_stores x"
  by (auto simp: tx_commit_def split: sum.splits if_splits)

lemma transaction_outbox:
  assumes "with_transaction p (bindS (on_outbox m) (\<lambda>r. bindS (f r) (\<lambda>_. bindS tx_commit (\<lambda>_. ret r)))) s
      = (Inr x, s')"
    and "\<And>r b. keeps (in_transaction b) (f r)" and "\<And>r b. keeps (outbox_is b) (f r)"
  shows "m (st_outbox s) = (Inr x, st_outbox s')"
proof -
  let ?body = "bindS (on_outbox m) (\<lambda>r. bindS (f r) (\<lambda>_. bindS tx_commit (\<lambda>_. ret r)))"
  have k: "keeps (in_transaction s) ?body" by (intro step_intros assms(2))
  obtain y where y: "?body (opened s) = (Inr x, y)" "s' = (if tx_committed (us_txn y) then us_stores y else s)"
    by (rule with_transaction_Inr [OF assms(1) k])
  from y(1) obtain x1 x2 u where x1: "on_outbox m (opened s) = (Inr x, x1)"
    and x2: "f x x1 = (Inr u, x2)" and c: "\<exists>v. tx_commit x2 = (Inr v, y)"
    by (auto simp: bindS_eq_Inr)
  have "m (st_outbox s) = (Inr x, st_outbox (us_stores x1))"
    using x1 by (auto simp: on_outbox_def on_field_def split: prod.splits)
  moreover have "st_outbox (us_stores x2) = st_outbox (us_stores x1)"
    using keepsD [OF assms(3), of x1 "st_outbox (us_stores x1)" x] x2 by simp
  moreover have "s' = us_stores y" "us_stores y = us_stores x2" using c commit_committed y(2) by auto
  ultimately show ?thesis by simp
qed

lemma confirm_sending_Inr:
  assumes "confirm_sending zi p m now s = (Inr x, s')"
  obtains tok where "ob_claim_token m = Some tok" "mark_sending p (ob_id m) tok (Aware now) (st_outbox s) = (Inr x, st_outbox s')"
proof -
  from assms obtain tok where tok: "claim_token m = Inr tok"
    and w: "with_transaction p (bindS (on_outbox (mark_sending p (ob_id m) tok (Aware now))) (\<lambda>sending_m.
          bindS (mirror zi p sending_m) (\<lambda>_. bindS tx_commit (\<lambda>_. ret sending_m)))) s = (Inr x, s')"
    by (auto simp: confirm_sending_def bindS_eq_Inr)
  have "mark_sending p (ob_id m) tok (Aware now) (st_outbox s) = (Inr x, st_outbox s')"
    by (rule transaction_outbox [OF w]) (intro step_intros)+
  moreover have "ob_claim_token m = Some tok" using tok by (auto simp: claim_token_def truthy_str_def split: if_splits)
  ultimately show ?thesis using that by blast
qed

lemma mark_sending_Inr:
  assumes "outbox_inv s" and "mark_sending p i tok (Aware t) s = (Inr x, s')"
  obtains k m where "map_of (messages_by_key s) (pr_tenant_id p, k) = Some m" "ob_id m = i"
    "ob_claim_token m = Some tok" "ob_dispatch_status m = claimed"
    "x = m\<lparr>ob_dispatch_status := sending, ob_sending_at := Some t, ob_attempts := ob_attempts m + 1\<rparr>"
    "s' = set_message (pr_tenant_id p, k) x s"
proof -
  from assms(2) have tr: "transition p i tok claimed sending (\<lambda>m. m\<lparr>ob_sending_at := Some t\<rparr>) True s = (Inr x, s')"
    by (auto simp: mark_sending_def bindS_eq_Inr canonical_utc_def split: if_splits)
  obtain key m where m: "map_of (messages_by_key s) key = Some m" "fst key = pr_tenant_id p" "ob_id m = i"
    "ob_claim_token m = Some tok" "ob_dispatch_status m = claimed"
    "x = transition_target sending (\<lambda>m. m\<lparr>ob_sending_at := Some t\<rparr>) True m" "s' = set_message key x s"
    using transition_Inr [OF assms(1) _ tr] by (metis upd_ok_intros(1))
  have "x = m\<lparr>ob_dispatch_status := sending, ob_sending_at := Some t, ob_attempts := ob_attempts m + 1\<rparr>"
    using m(6) by (simp add: transition_target_def)
  with that [of "snd key" m] m show ?thesis by (metis prod.collapse)
qed

section \<open>Every provider call is justified\<close>

definition send_justified :: "principal \<Rightarrow> send_entry \<Rightarrow> bool" where
  "send_justified p e \<longleftrightarrow>
     (\<exists>k c x. map_of (messages_by_key (st_outbox (se_stores e))) (pr_tenant_id p, k) = Some x
        \<and> ob_dispatch_status x = sending \<and> ob_id x = ob_id c \<and> ob_claim_token x = ob_claim_token c
        \<and> nr_idempotency_key (se_request e) = attempt_idempotency_key c
        \<and> notification_request_of c (attempt_idempotency_key c) = Inr (se_request e))
     \<and> (\<exists>wt d. require_approval wt p P5 (se_approval e) ''notification.send''
            (nr_idempotency_key (se_request e)) None = Inr d)"

definition good_world :: "principal \<Rightarrow> world \<Rightarrow> bool" where
  "good_world p w \<longleftrightarrow> outbox_ok (wd_stores w) \<and> (\<forall>e \<in> set (wd_sent w). send_justified p e)"

lemma keeps_in_world [step_intros]: "keeps outbox_ok m \<Longrightarrow> keeps (good_world p) (in_world m)"
  by (auto simp: keeps_def in_world_def on_field_def good_world_def split: prod.splits)

lemma keeps_reads [step_intros]:
  "keeps (good_world p) (now_tick clock)" "keeps (good_world p) (wall_time wall)"
  by (auto simp: keeps_def now_tick_def wall_time_def good_world_def)

lemma keeps_after_send: "keeps (good_world p) (after_send zi clock q m sm rq res)"
  unfolding after_send_def
  by (intro step_intros keeps_dispatch_transactions)

lemma notification_request_key: "notification_request_of m key = Inr rq \<Longrightarrow> nr_idempotency_key rq = key"
  by (auto simp: notification_request_of_def Let_def split: if_splits option.splits json.splits)

lemma confirmed_send_justified:
  assumes good: "good_world p w" and c: "in_world (confirm_sending zi p m t) w = (Inr sm, w1)"
    and rq: "notification_request_of m (attempt_idempotency_key m) = Inr rq"
    and gate: "\<exists>wt d. require_approval wt p P5 ap ''notification.send'' (attempt_idempotency_key m) None = Inr d"
    and send: "\<And>q r a s. outbox_ok s \<Longrightarrow> outbox_ok (snd (send q r a s))"
  shows "good_world p (snd (call_send send p rq ap w1))"
proof -
  have g1: "good_world p w1"
    using keepsD [OF keeps_in_world [OF keeps_dispatch_transactions(1)] good, of zi p m t] c by simp
  from c have cs: "confirm_sending zi p m t (wd_stores w) = (Inr sm, wd_stores w1)"
    by (auto simp: in_world_def on_field_def split: prod.splits)
  have inv: "outbox_inv (st_outbox (wd_stores w))" using good by (simp add: good_world_def outbox_ok_def)
  obtain tok where tok: "ob_claim_token m = Some tok"
    "mark_sending p (ob_id m) tok (Aware t) (st_outbox (wd_stores w)) = (Inr sm, st_outbox (wd_stores w1))"
    by (rule confirm_sending_Inr [OF cs])
  obtain k x where x: "ob_id x = ob_id m" "ob_claim_token x = Some tok"
    "sm = x\<lparr>ob_dispatch_status := sending, ob_sending_at := Some t, ob_attempts := ob_attempts x + 1\<rparr>"
    "st_outbox (wd_stores w1) = set_message (pr_tenant_id p, k) sm (st_outbox (wd_stores w))"
    by (rule mark_sending_Inr [OF inv tok(2)]) blast
  have "send_justified p \<lparr>se_stores = wd_stores w1, se_request = rq, se_approval = ap\<rparr>"
    unfolding send_justified_def using x tok(1) rq gate notification_request_key [OF rq]
    by (auto simp: map_of_update intro!: exI [of _ k] exI [of _ m])
  with g1 send [of "wd_stores w1" p rq ap] show ?thesis
    by (auto simp: call_send_def good_world_def split: prod.splits)
qed

lemma keeps_dispatch_one:
  assumes send: "\<And>q r a s. outbox_ok s \<Longrightarrow> outbox_ok (snd (send q r a s))"
  shows "keeps (good_world p) (dispatch_one zi clock wall grants send p now m)"
proof -
  let ?key = "attempt_idempotency_key m"
  have go: "keeps (good_world p) (bindS (in_world (confirm_sending zi p m t)) (\<lambda>sm.
      bindS (call_send send p rq ap) (\<lambda>res. after_send zi clock p m sm rq res)))"
    if rq: "notification_request_of m ?key = Inr rq"
      and gate: "\<exists>wt d. require_approval wt p P5 ap ''notification.send'' ?key None = Inr d" for t rq ap
  proof (rule keepsI)
    fix w assume g: "good_world p w"
    obtain r w1 where c: "in_world (confirm_sending zi p m t) w = (r, w1)" by force
    have g1: "good_world p w1"
      using keepsD [OF keeps_in_world [OF keeps_dispatch_transactions(1)] g, of zi p m t] c by simp
    show "good_world p (snd (bindS (in_world (confirm_sending zi p m t)) (\<lambda>sm.
      bindS (call_send send p rq ap) (\<lambda>res. after_send zi clock p m sm rq res)) w))"
    proof (cases r)
      case (Inl e)
      with c g1 show ?thesis by (simp add: bindS_cases)
    next
      case (Inr sm)
      obtain res w2 where cs: "call_send send p rq ap w1 = (Inr res, w2)"
        by (cases "send p rq ap (wd_stores w1)") (simp add: call_send_def)
      have "good_world p w2"
        using confirmed_send_justified [where send = send, OF g c [unfolded Inr] rq gate send] by (simp add: cs)
      with c Inr cs keepsD [OF keeps_after_send] show ?thesis by (simp add: bindS_cases)
    qed
  qed
  have "keeps (good_world p) (case require_approval wt p P5 (grants p m ?key) ''notification.send'' ?key None of
        Inl e \<Rightarrow> if is_assistant_error e
                then bindS (in_world (release_before_io zi p m now)) (\<lambda>_. ret (Skipped (ob_id m)))
                else raise e
      | Inr _ \<Rightarrow>
        (case notification_request_of m ?key of
           Inl _ \<Rightarrow> bindS (now_tick clock) (\<lambda>t.
                    bindS (in_world (record_malformed zi p m t)) (\<lambda>_. ret (Skipped (ob_id m))))
         | Inr rq \<Rightarrow>
             bindS (now_tick clock) (\<lambda>t.
             bindS (in_world (confirm_sending zi p m t)) (\<lambda>sending_m.
             bindS (call_send send p rq (grants p m ?key)) (\<lambda>res.
               after_send zi clock p m sending_m rq res)))))" for wt
  proof (cases "require_approval wt p P5 (grants p m ?key) ''notification.send'' ?key None")
    case (Inl e)
    show ?thesis unfolding Inl sum.case by (intro step_intros keeps_dispatch_transactions)
  next
    case gate: (Inr d)
    show ?thesis
    proof (cases "notification_request_of m ?key")
      case (Inl e)
      show ?thesis unfolding gate Inl sum.case by (intro step_intros keeps_dispatch_transactions)
    next
      case (Inr rq)
      show ?thesis unfolding gate Inr sum.case
        by (intro keeps_bindS keeps_reads(1) go [OF Inr]) (use gate in blast)
    qed
  qed
  then show ?thesis unfolding dispatch_one_def Let_def by (intro keeps_bindS keeps_reads(2))
qed

lemma keeps_dispatch:
  assumes "\<And>q r a s. outbox_ok s \<Longrightarrow> outbox_ok (snd (send q r a s))" and "\<And>i. hex_string (us i)"
  shows "keeps (good_world p) (dispatch zi us clock wall grants send dp p now)"
proof -
  have "keeps (good_world p) (dispatch_each (dispatch_one zi clock wall grants send p t) ms)" for t ms
    by (induction ms; unfold dispatch_each.simps; intro step_intros keeps_dispatch_one assms; assumption)
  then show ?thesis unfolding dispatch_def
    by (intro step_intros keeps_dispatch_transactions keeps_do_claim assms)
qed

section \<open>Properties\<close>


section \<open>A concrete dispatch\<close>

definition dw_event :: cloud_event where
  "dw_event = \<lparr>ev_id = ''e1'', ev_specversion = ''1.0'', ev_type = ''notification.requested'', ev_source = ''app'',
     ev_subject = Some ''rem_1'', ev_tenant_id = ''t1'', ev_correlation_id = ''c'', ev_causation_id = None,
     ev_source_event_id = None, ev_payload_fingerprint = None, ev_timezone = None,
     ev_data = [(''channel'', JStr ''telegram''), (''recipient'', JStr ''r''), (''body'', JStr ''hi'')],
     ev_time = 0\<rparr>"

definition dw_message :: outbox_message where
  "dw_message = new_message ''0a'' 0 demo_principal dw_event ''k1'' None (Some ''m1'')"

definition dw_stores :: stores where
  "dw_stores = \<lparr>st_calendar = LocalCalendarTool_init, st_scheduler = demo_scheduler, st_events = InMemoryEventStore_init,
     st_outbox = demo_outbox dw_message, st_states = InMemoryWorkflowStateStore_init\<rparr>"

definition dw_principal :: principal where "dw_principal = demo_principal\<lparr>pr_permission_tier := P5\<rparr>"

definition dw_grants :: approval_provider where
  "dw_grants p m key = Some \<lparr>ap_approval_id = ''ap_1'', ap_tenant_id = ''t1'', ap_principal_id = ''u1'',
     ap_action = ''notification.send'', ap_resource = key, ap_tier = P5, ap_approved = True,
     ap_expires_at = None, ap_request_hash = None, ap_trusted_source = Some ''trusted_runtime''\<rparr>"

definition dw_send :: provider where
  "dw_send p rq ap s = (Some \<lparr>nt_notification_id = Some ''n1'', nt_channel = nr_channel rq, nt_idempotency_key = nr_idempotency_key rq,
     nt_outcome = success, nt_provider_code = None, nt_retry_after = None, nt_provider_message_id = None, nt_reused = False\<rparr>, s)"

definition dw_dispatcher :: dispatcher where
  "dw_dispatcher = \<lparr>dp_owner = ''w1'', dp_claim_limit = 1, dp_lease_seconds = 60\<rparr>"

definition dw_world :: world where "dw_world = \<lparr>wd_stores = dw_stores, wd_ticks = 0, wd_sent = []\<rparr>"

lemma dw_outbox_inv: "outbox_inv (demo_outbox dw_message)"
proof -
  have "outbox_add (\<lambda>ev _ _. ev_id ev) ''0a'' 0 demo_principal dw_event ''k1'' None (Some ''m1'') InMemoryOutbox_init
     = (Inr dw_message, demo_outbox dw_message)"
    by (simp add: outbox_add_def require_trusted_principal_cases opt_canonical_utc_def Let_def dw_message_def
        InMemoryOutbox_init_def OutboxMessage_validate_def strip_message_def require_state_metadata_def
        claim_metadata_def new_message_def dw_event_def demo_outbox_def py_strip_def py_isspace_def)
  from outbox_step_inv [OF outbox_step.add [OF _ this] outbox_init_inv] show ?thesis by simp
qed


end
