(* ===== verification/Dispatch_Protocol.thy ===== *)
theory Dispatch_Protocol
  imports Dispatch_Safety
begin

text \<open>
  Many workers and operators on one outbox: the dispatcher's transactions interleave, each
  worker acting on the copy of a message it was given by \<open>claim_due\<close> or \<open>mark_sending\<close>.
  The state adds three ghost components to the outbox: the copies handed out so far,
  the claim tokens drawn so far, and the attempt keys for which a provider call was
  released. A claim draws tokens that were not drawn before (they are random UUIDs); all
  other calls are unconstrained. The theorems: no attempt key is released twice, and no
  message is tried more than \<open>MAX_DELIVERY_ATTEMPTS\<close> times.
\<close>

section \<open>Steps\<close>

record proto =
  pt_outbox :: outbox
  pt_held :: "(string \<times> outbox_message) set"
  pt_tokens :: "string set"
  pt_sent :: "(string \<times> string) list"

definition proto_init :: proto where
  "proto_init = \<lparr>pt_outbox = InMemoryOutbox_init, pt_held = {}, pt_tokens = {}, pt_sent = []\<rparr>"

text \<open>Calls that neither hand out a claim, nor start an attempt, nor return a message to the queue after one.\<close>

inductive quiet_step :: "write_fp \<Rightarrow> principal \<Rightarrow> outbox \<Rightarrow> outbox \<Rightarrow> bool" for fp p where
  add: "wf_principal p \<Longrightarrow> outbox_add fp uuid clock p ev key nxt mid s = (r, s') \<Longrightarrow> quiet_step fp p s s'"
| mark_claim_failed: "mark_claim_failed p i tok err s = (r, s') \<Longrightarrow> quiet_step fp p s s'"
| sweep: "sweep_expired_sending p now err limit ety s = (q, s') \<Longrightarrow> quiet_step fp p s s'"
| mark_published: "mark_published clock p i tok t s = (r, s') \<Longrightarrow> quiet_step fp p s s'"
| mark_failed: "mark_failed p i tok err s = (r, s') \<Longrightarrow> quiet_step fp p s s'"
| mark_uncertain: "mark_uncertain p i tok err s = (r, s') \<Longrightarrow> quiet_step fp p s s'"
| release: "release p i tok nxt s = (r, s') \<Longrightarrow> quiet_step fp p s s'"
| resolve_delivered: "resolve_uncertain_delivered p i pub s = (r, s') \<Longrightarrow> quiet_step fp p s s'"

inductive proto_step :: "write_fp \<Rightarrow> principal \<Rightarrow> proto \<Rightarrow> proto \<Rightarrow> bool" for fp p where
  claim: "(\<And>i. hex_string (us i)) \<Longrightarrow> claim_due us p (Aware now) limit owner lease ety (pt_outbox x) = (Inr ms, s') \<Longrightarrow>
     (\<forall>m \<in> set ms. the (ob_claim_token m) \<notin> pt_tokens x) \<Longrightarrow>
     proto_step fp p x (x\<lparr>pt_outbox := s', pt_held := pt_held x \<union> (\<lambda>m. (pr_tenant_id p, m)) ` set ms,
                          pt_tokens := pt_tokens x \<union> (\<lambda>m. the (ob_claim_token m)) ` set ms\<rparr>)"
| send: "(pr_tenant_id p, m) \<in> pt_held x \<Longrightarrow> ob_claim_token m = Some tok \<Longrightarrow>
     mark_sending p (ob_id m) tok (Aware now) (pt_outbox x) = (Inr m', s') \<Longrightarrow>
     proto_step fp p x (x\<lparr>pt_outbox := s', pt_held := insert (pr_tenant_id p, m') (pt_held x),
                          pt_sent := pt_sent x @ [(pr_tenant_id p, attempt_idempotency_key m)]\<rparr>)"
| reschedule: "(pr_tenant_id p, m) \<in> pt_held x \<Longrightarrow> ob_dispatch_status m = sending \<Longrightarrow> ob_claim_token m = Some tok \<Longrightarrow>
     ob_attempts m < MAX_DELIVERY_ATTEMPTS \<Longrightarrow>
     reschedule p (ob_id m) tok (Aware t) err (pt_outbox x) = (r, s') \<Longrightarrow>
     proto_step fp p x (x\<lparr>pt_outbox := s'\<rparr>)"
| retry: "(\<forall>k m. map_of (messages_by_key (pt_outbox x)) (pr_tenant_id p, k) = Some m \<longrightarrow> ob_id m = i \<longrightarrow>
       ob_attempts m < MAX_DELIVERY_ATTEMPTS) \<Longrightarrow>
     resolve_uncertain_retry p i (Aware t) (pt_outbox x) = (r, s') \<Longrightarrow>
     proto_step fp p x (x\<lparr>pt_outbox := s'\<rparr>)"
| quiet: "quiet_step fp p (pt_outbox x) s' \<Longrightarrow> proto_step fp p x (x\<lparr>pt_outbox := s'\<rparr>)"

section \<open>What a call does to claims and attempts\<close>

text \<open>
  \<open>calm b m m'\<close>: the message keeps its claim token and attempts or loses its token, and goes
  back to \<open>pending\<close> from a started attempt only when \<open>b\<close> allows it.
\<close>

definition calm :: "bool \<Rightarrow> outbox_message \<Rightarrow> outbox_message \<Rightarrow> bool" where
  "calm b m m' \<longleftrightarrow> m' = m \<or>
     (same_identity m m' \<and> ob_attempts m' = ob_attempts m \<and> ob_claim_token m' = None
      \<and> (ob_dispatch_status m' \<in> {pending, claimed} \<longrightarrow> ob_dispatch_status m \<in> {pending, claimed} \<or> b)
      \<and> ob_dispatch_status m' \<noteq> sending)"

definition calm_store :: "(tkey \<Rightarrow> outbox_message \<Rightarrow> bool) \<Rightarrow> outbox \<Rightarrow> outbox \<Rightarrow> bool" where
  "calm_store B s s' \<longleftrightarrow> (\<forall>k m'. map_of (messages_by_key s') k = Some m' \<longrightarrow>
     (case map_of (messages_by_key s) k of
        Some m \<Rightarrow> calm (B k m) m m'
      | None \<Rightarrow> ob_claim_token m' = None \<and> ob_attempts m' = 0 \<and> ob_dispatch_status m' = pending))"

lemma calm_refl [simp]: "calm b m m" by (simp add: calm_def)

lemma calm_store_refl [simp]: "calm_store B s s"
  by (auto simp: calm_store_def split: option.splits)

lemma calm_storeD:
  "calm_store B s s' \<Longrightarrow> map_of (messages_by_key s') k = Some m' \<Longrightarrow>
     (case map_of (messages_by_key s) k of
        Some m \<Rightarrow> calm (B k m) m m'
      | None \<Rightarrow> ob_claim_token m' = None \<and> ob_attempts m' = 0 \<and> ob_dispatch_status m' = pending)"
  unfolding calm_store_def by blast

lemma calm_set_message:
  "calm_store B s st \<Longrightarrow> map_of (messages_by_key s) k = Some m \<Longrightarrow> calm (B k m) m m' \<Longrightarrow>
     calm_store B s (set_message k m' st)"
  by (auto simp: calm_store_def map_of_update split: option.splits if_splits)

lemma calm_put_all:
  assumes "calm_store B s st"
    and "\<And>k m'. (k, m') \<in> set es \<Longrightarrow> \<exists>m. map_of (messages_by_key s) k = Some m \<and> calm (B k m) m m'"
  shows "calm_store B s (put_all es st)"
  using assms
proof (induction es arbitrary: st)
  case (Cons e es)
  obtain k m' where e: "e = (k, m')" by (rule prod.exhaust)
  from Cons.prems(2) [of k m'] obtain m where "map_of (messages_by_key s) k = Some m" "calm (B k m) m m'"
    by (auto simp: e)
  from calm_set_message [where B = B, OF Cons.prems(1) this] Cons.prems(2) show ?case
    unfolding e put_all_simps by (intro Cons.IH) auto
qed simp

lemma sweep_calm:
  assumes inv: "outbox_inv s"
  shows "calm_store B s (snd (sweep_expired_sending p now err limit ety s))"
proof (cases "bindR (require_trusted_principal p) (\<lambda>_.
           bindR (canonical_utc now ''now'') (\<lambda>t. bindR (check_limit limit) (\<lambda>_. Inr t)))")
  case (Inl e)
  then show ?thesis by (simp add: sweep_expired_sending_def)
next
  case (Inr t)
  then have lim: "1 \<le> limit" by (auto simp: bindR_eq_Inr check_limit_def split: if_splits)
  let ?es = "take (nat limit) (filter (sweep_eligible p t ety) (by_creation (messages_by_key s)))"
  have wf: "\<And>k m. (k, m) \<in> set (by_creation (messages_by_key s)) \<Longrightarrow> wf_message m"
    using by_creation_lookup [OF inv] outbox_inv_wf [OF inv] by blast
  have "calm_store B s (put_all (map (\<lambda>(k, m). (k, sweep_update err m)) ?es) s)"
  proof (rule calm_put_all [OF calm_store_refl])
    fix k m' assume "(k, m') \<in> set (map (\<lambda>(k, m). (k, sweep_update err m)) ?es)"
    then obtain m where m: "(k, m) \<in> set ?es" and m': "m' = sweep_update err m" by auto
    from in_set_takeD [OF m] have el: "sweep_eligible p t ety (k, m)"
      and look: "map_of (messages_by_key s) k = Some m" by (auto intro: by_creation_lookup [OF inv])
    from sweep_eligible_facts [OF el] m' have "calm (B k m) m m'"
      by (auto simp: calm_def sweep_update_def same_identity_def)
    with look show "\<exists>m. map_of (messages_by_key s) k = Some m \<and> calm (B k m) m m'" by blast
  qed
  then show ?thesis
    using Inr lim sweep_loop_exact [of "by_creation (messages_by_key s)" "[]" limit, OF wf]
    by (simp add: sweep_expired_sending_def Let_def)
qed

text \<open>A transition that clears the claim is calm.\<close>

lemma transition_calm:
  assumes inv: "outbox_inv s" and u: "upd_ok u" and clear: "\<And>m. ob_claim_token (u m) = None"
    and "target \<noteq> sending"
    and b: "\<And>k m. map_of (messages_by_key s) k = Some m \<Longrightarrow> fst k = pr_tenant_id p \<Longrightarrow> ob_id m = i \<Longrightarrow>
        ob_claim_token m = Some tok \<Longrightarrow> ob_dispatch_status m = expected \<Longrightarrow>
        target \<in> {pending, claimed} \<Longrightarrow> expected \<in> {pending, claimed} \<or> B k m"
  shows "calm_store B s (snd (transition p i tok expected target u False s))"
proof (cases "snd (transition p i tok expected target u False s) = s")
  case False
  then obtain m' s' where t: "transition p i tok expected target u False s = (Inr m', s')"
    using transition_state by metis
  from transition_Inr [OF inv u t] obtain k m where
    km: "map_of (messages_by_key s) k = Some m" "fst k = pr_tenant_id p" "ob_id m = i"
      "ob_claim_token m = Some tok" "ob_dispatch_status m = expected"
      "m' = transition_target target u False m" "s' = set_message k m' s" by metis
  have "strip_message m = m" using outbox_inv_wf [OF inv km(1)] by (simp add: wf_message_iff)
  note tt = transition_target_facts [OF u this, of target False]
  have "ob_claim_token m' = None" using clear km(6) by (simp add: transition_target_def)
  with tt km assms(4) b [OF km(1-5)] have "calm (B k m) m m'" by (auto simp: calm_def)
  from calm_set_message [where B = B, OF calm_store_refl km(1) this] t km(7) show ?thesis by simp
qed simp

lemma lift_bind_calm:
  "(\<And>x. calm_store B s (snd (f x s))) \<Longrightarrow> calm_store B s (snd (bindS (lift r) f s))"
  by (cases r) (simp_all add: bindS_def lift_def)

lemma operator_calm:
  assumes inv: "outbox_inv s" and u: "upd_ok u" and clear: "\<And>m. ob_claim_token (u m) = ob_claim_token m"
    and "target \<noteq> sending"
    and b: "\<And>k m. map_of (messages_by_key s) k = Some m \<Longrightarrow> fst k = pr_tenant_id p \<Longrightarrow> ob_id m = i \<Longrightarrow>
        target \<in> {pending, claimed} \<Longrightarrow> B k m"
  shows "calm_store B s (snd (operator_transition p i target u s))"
proof (cases "snd (operator_transition p i target u s) = s")
  case False
  then obtain m' s' where t: "operator_transition p i target u s = (Inr m', s')"
    using operator_transition_state by metis
  from operator_transition_Inr [OF inv u t] obtain k m where
    km: "map_of (messages_by_key s) k = Some m" "fst k = pr_tenant_id p" "ob_id m = i"
      "ob_dispatch_status m = uncertain" "m' = transition_target target u False m" "s' = set_message k m' s" by metis
  have wf: "wf_message m" using outbox_inv_wf [OF inv km(1)] .
  then have "strip_message m = m" "ob_claim_token m = None"
    using km(4) by (auto simp: wf_message_iff require_state_metadata_iff claim_metadata_def)
  note tt = transition_target_facts [OF u this(1), of target False]
  have "ob_claim_token m' = None"
    using clear km(5) \<open>ob_claim_token m = None\<close> by (simp add: transition_target_def)
  with tt km assms(4) b [OF km(1-3)] have "calm (B k m) m m'" by (auto simp: calm_def)
  from calm_set_message [where B = B, OF calm_store_refl km(1) this] t km(6) show ?thesis by simp
qed simp

lemma quiet_step_calm:
  assumes "quiet_step fp p s s'" and inv: "outbox_inv s"
  shows "calm_store (\<lambda>_ _. False) s s'"
  using assms(1)
proof cases
  case (add uuid clock ev key nxt mid r)
  from outbox_add_inv [OF inv add(1,2)] show ?thesis
  proof (elim conjE disjE)
    assume "s' = s" then show ?thesis by simp
  next
    assume "adds p s s'"
    then show ?thesis
      by (auto simp: adds_def calm_store_def map_add_def split: option.splits if_splits)
  qed
next
  case (sweep now err limit ety q)
  then have "s' = snd (sweep_expired_sending p now err limit ety s)" by simp
  then show ?thesis by (simp add: sweep_calm [OF inv])
next
  case (mark_claim_failed i tok err r)
  then have "s' = snd (mark_claim_failed p i tok err s)" by simp
  then show ?thesis unfolding mark_claim_failed_def by (auto intro!: transition_calm inv)
next
  case (mark_published clock i tok t r)
  then have "s' = snd (mark_published clock p i tok t s)" by simp
  then show ?thesis unfolding mark_published_def by (auto intro!: lift_bind_calm transition_calm inv)
next
  case (mark_failed i tok err r)
  then have "s' = snd (mark_failed p i tok err s)" by simp
  then show ?thesis unfolding mark_failed_def terminal_error_def by (auto intro!: transition_calm inv)
next
  case (mark_uncertain i tok err r)
  then have "s' = snd (mark_uncertain p i tok err s)" by simp
  then show ?thesis unfolding mark_uncertain_def terminal_error_def by (auto intro!: transition_calm inv)
next
  case (release i tok nxt r)
  then have "s' = snd (release p i tok nxt s)" by simp
  then show ?thesis unfolding release_def by (auto intro!: lift_bind_calm transition_calm inv)
next
  case (resolve_delivered i pub r)
  then have "s' = snd (resolve_uncertain_delivered p i pub s)" by simp
  then show ?thesis unfolding resolve_uncertain_delivered_def by (auto intro!: lift_bind_calm operator_calm inv)
qed

section \<open>The protocol invariant\<close>

definition agrees :: "outbox_message \<Rightarrow> outbox_message \<Rightarrow> bool" where
  "agrees h x \<longleftrightarrow>
     (ob_dispatch_status h = claimed \<and>
        (ob_dispatch_status x = claimed \<and> ob_attempts x = ob_attempts h
         \<or> ob_dispatch_status x = sending \<and> ob_attempts x = ob_attempts h + 1))
     \<or> (ob_dispatch_status h = sending \<and> ob_dispatch_status x = sending \<and> ob_attempts x = ob_attempts h)"

definition tokens_drawn :: "string set \<Rightarrow> outbox \<Rightarrow> bool" where
  "tokens_drawn T s \<longleftrightarrow> (\<forall>k m tok. map_of (messages_by_key s) k = Some m \<longrightarrow> ob_claim_token m = Some tok \<longrightarrow> tok \<in> T)"

definition held_ok :: "string set \<Rightarrow> outbox \<Rightarrow> string \<times> outbox_message \<Rightarrow> bool" where
  "held_ok T s h \<longleftrightarrow> (\<exists>tok. ob_claim_token (snd h) = Some tok \<and> tok \<in> T)
     \<and> (\<forall>k x. map_of (messages_by_key s) (fst h, k) = Some x \<longrightarrow> ob_id x = ob_id (snd h) \<longrightarrow>
          ob_claim_token x = ob_claim_token (snd h) \<longrightarrow> agrees (snd h) x)"

definition bounded :: "outbox \<Rightarrow> bool" where
  "bounded s \<longleftrightarrow> (\<forall>k m. map_of (messages_by_key s) k = Some m \<longrightarrow>
     ob_attempts m \<le> MAX_DELIVERY_ATTEMPTS
     \<and> (ob_dispatch_status m \<in> {pending, claimed} \<longrightarrow> ob_attempts m < MAX_DELIVERY_ATTEMPTS))"

definition attempt_key :: "string \<Rightarrow> int \<Rightarrow> string" where
  "attempt_key i n = i @ '':attempt:'' @ str_of_int n"

definition accounted :: "outbox \<Rightarrow> string \<times> string \<Rightarrow> bool" where
  "accounted s e \<longleftrightarrow> (\<exists>k m n. map_of (messages_by_key s) (fst e, k) = Some m
     \<and> snd e = attempt_key (ob_id m) n \<and> n \<le> ob_attempts m)"

definition proto_inv :: "proto \<Rightarrow> bool" where
  "proto_inv x \<longleftrightarrow> outbox_inv (pt_outbox x) \<and> tokens_drawn (pt_tokens x) (pt_outbox x)
     \<and> (\<forall>h \<in> pt_held x. held_ok (pt_tokens x) (pt_outbox x) h) \<and> bounded (pt_outbox x)
     \<and> distinct (pt_sent x) \<and> (\<forall>e \<in> set (pt_sent x). accounted (pt_outbox x) e)"

lemma attempt_key_inj: "attempt_key a i = attempt_key b j \<Longrightarrow> a = b \<and> i = j"
proof -
  assume eq: "attempt_key a i = attempt_key b j"
  have tw: "takeWhile (\<lambda>c. c \<noteq> CHR '':'') (rev (attempt_key c n)) = rev (str_of_int n)" for c n
  proof -
    have "\<forall>x \<in> set (rev (str_of_int n)). x \<noteq> CHR '':''"
      using str_of_int_chars [of "CHR '':''" n] by (auto simp: int_char_def is_digit_def)
    then have "takeWhile (\<lambda>c. c \<noteq> CHR '':'') (rev (str_of_int n) @ ys) = rev (str_of_int n) @ takeWhile (\<lambda>c. c \<noteq> CHR '':'') ys"
      for ys by (intro takeWhile_append2) blast
    then show ?thesis by (simp add: attempt_key_def)
  qed
  have "rev (str_of_int i) = rev (str_of_int j)" using tw [of a i] tw [of b j] eq by simp
  then have "i = j" using str_of_int_inj by simp
  with eq show "a = b \<and> i = j" by (simp add: attempt_key_def)
qed

lemma accounted_step:
  assumes "outbox_step fp p s s'" and "outbox_inv s" and "accounted s e"
  shows "accounted s' e"
proof -
  from assms(3) obtain k m n where m: "map_of (messages_by_key s) (fst e, k) = Some m"
    "snd e = attempt_key (ob_id m) n" "n \<le> ob_attempts m" unfolding accounted_def by blast
  from outbox_step_message [OF assms(1,2) m(1)] obtain m' where
    "map_of (messages_by_key s') (fst e, k) = Some m'" "evolves m m'" by blast
  with m evolves_identity [of m m'] evolves_attempts_mono [of m m'] show ?thesis
    unfolding accounted_def same_identity_def by force
qed

lemma calm_keeps:
  assumes inv: "proto_inv x" and st: "outbox_step fp p (pt_outbox x) s'" and c: "calm_store B (pt_outbox x) s'"
    and B: "\<And>k m. map_of (messages_by_key (pt_outbox x)) k = Some m \<Longrightarrow> B k m \<Longrightarrow> ob_attempts m < MAX_DELIVERY_ATTEMPTS"
  shows "proto_inv (x\<lparr>pt_outbox := s'\<rparr>)"
proof -
  let ?s = "pt_outbox x"
  have oi: "outbox_inv ?s" and td: "tokens_drawn (pt_tokens x) ?s" and bd: "bounded ?s"
    using inv by (simp_all add: proto_inv_def)
  have same: "map_of (messages_by_key ?s) k = Some m'"
    if "map_of (messages_by_key s') k = Some m'" "ob_claim_token m' = Some tok" for k m' tok
    using calm_storeD [OF c that(1)] that by (auto simp: calm_def split: option.splits)
  have "tokens_drawn (pt_tokens x) s'" using td same unfolding tokens_drawn_def by blast
  moreover have "held_ok (pt_tokens x) s' h" if "h \<in> pt_held x" for h
    using inv that same unfolding proto_inv_def held_ok_def by metis
  moreover have "bounded s'"
    unfolding bounded_def
  proof (intro allI impI)
    fix k m' assume m': "map_of (messages_by_key s') k = Some m'"
    show "ob_attempts m' \<le> MAX_DELIVERY_ATTEMPTS
        \<and> (ob_dispatch_status m' \<in> {pending, claimed} \<longrightarrow> ob_attempts m' < MAX_DELIVERY_ATTEMPTS)"
    proof (cases "map_of (messages_by_key ?s) k")
      case None
      from calm_storeD [OF c m'] None show ?thesis by (simp add: MAX_DELIVERY_ATTEMPTS_def)
    next
      case (Some m)
      from calm_storeD [OF c m'] Some have "calm (B k m) m m'" by simp
      moreover have "ob_attempts m \<le> MAX_DELIVERY_ATTEMPTS"
        "ob_dispatch_status m \<in> {pending, claimed} \<longrightarrow> ob_attempts m < MAX_DELIVERY_ATTEMPTS"
        using bd Some unfolding bounded_def by blast+
      ultimately show ?thesis using B [OF Some] unfolding calm_def by auto
    qed
  qed
  ultimately show ?thesis
    using inv outbox_step_inv [OF st oi] accounted_step [OF st oi] unfolding proto_inv_def by simp
qed

lemma quiet_outbox_step: "quiet_step fp p s s' \<Longrightarrow> outbox_step fp p s s'"
  by (induction rule: quiet_step.induct) (auto intro: outbox_step.intros)

text \<open>What a claim leaves in the store: the old message, or one of the claimed ones.\<close>

lemma claim_due_back:
  assumes inv: "outbox_inv s" and c: "claim_due us p (Aware t) limit owner lease ety s = (Inr ms, s')"
    and look: "map_of (messages_by_key s') k = Some m'"
  shows "map_of (messages_by_key s) k = Some m' \<or>
     (m' \<in> set ms \<and> (\<exists>m. map_of (messages_by_key s) k = Some m \<and> ob_attempts m' = ob_attempts m
        \<and> ob_dispatch_status m \<in> {pending, claimed} \<and> ob_dispatch_status m' = claimed))"
proof -
  let ?c = "take (nat limit) (filter (claim_eligible p t ety) (by_creation (messages_by_key s)))"
  obtain o' where ms: "ms = map snd (claimed_entries us 0 o' (t + seconds lease) ?c)"
    and s': "s' = put_all (claimed_entries us 0 o' (t + seconds lease) ?c) s"
    by (rule claim_due_Inr [OF c])
  show ?thesis
  proof (cases "k \<in> fst ` set (claimed_entries us 0 o' (t + seconds lease) ?c)")
    case False
    with look s' show ?thesis by (simp add: put_all_notin)
  next
    case True
    then obtain m'' where e: "(k, m'') \<in> set (claimed_entries us 0 o' (t + seconds lease) ?c)" by force
    have "distinct (map fst (by_creation (messages_by_key s)))"
      using inv by (simp add: outbox_inv_def by_creation_def distinct_map)
    then have "distinct (map fst (claimed_entries us 0 o' (t + seconds lease) ?c))"
      by (simp add: claimed_entries_keys distinct_map_filter flip: take_map)
    from put_all_lookup [OF this e] look s' have m: "m'' = m'" by simp
    from claimed_entries_set [OF e] obtain i m where mm: "(k, m) \<in> set ?c"
      "m'' = claim_update (us i) o' (t + seconds lease) m" by blast
    from in_set_takeD [OF mm(1)] have "claim_eligible p t ety (k, m)" "map_of (messages_by_key s) k = Some m"
      by (auto intro: by_creation_lookup [OF inv])
    moreover have "m' \<in> set ms" using e m ms by force
    ultimately show ?thesis using mm(2) m claim_eligible_facts [of p t ety k m]
      by (auto simp: claim_update_def)
  qed
qed

section \<open>Every step keeps the invariant\<close>

lemma proto_invD:
  assumes "proto_inv x"
  shows "outbox_inv (pt_outbox x)" "tokens_drawn (pt_tokens x) (pt_outbox x)" "bounded (pt_outbox x)"
    "distinct (pt_sent x)" "h \<in> pt_held x \<Longrightarrow> held_ok (pt_tokens x) (pt_outbox x) h"
    "e \<in> set (pt_sent x) \<Longrightarrow> accounted (pt_outbox x) e"
  using assms by (auto simp: proto_inv_def)

lemma boundedD:
  assumes "bounded s" and "map_of (messages_by_key s) k = Some m"
  shows "ob_attempts m \<le> MAX_DELIVERY_ATTEMPTS"
    "ob_dispatch_status m \<in> {pending, claimed} \<Longrightarrow> ob_attempts m < MAX_DELIVERY_ATTEMPTS"
  using assms unfolding bounded_def by blast+

lemma held_okD:
  assumes "held_ok T s h"
  shows "\<exists>tok. ob_claim_token (snd h) = Some tok \<and> tok \<in> T"
    "map_of (messages_by_key s) (fst h, k) = Some x \<Longrightarrow> ob_id x = ob_id (snd h) \<Longrightarrow>
       ob_claim_token x = ob_claim_token (snd h) \<Longrightarrow> agrees (snd h) x"
  using assms unfolding held_ok_def by blast+

lemma claim_keeps:
  assumes inv: "proto_inv x" and us: "\<And>i. hex_string (us i)"
    and c: "claim_due us p (Aware now) limit owner lease ety (pt_outbox x) = (Inr ms, s')"
    and fresh: "\<forall>m \<in> set ms. the (ob_claim_token m) \<notin> pt_tokens x"
  shows "proto_inv (x\<lparr>pt_outbox := s', pt_held := pt_held x \<union> (\<lambda>m. (pr_tenant_id p, m)) ` set ms,
                      pt_tokens := pt_tokens x \<union> (\<lambda>m. the (ob_claim_token m)) ` set ms\<rparr>)"
proof -
  let ?T = "pt_tokens x \<union> (\<lambda>m. the (ob_claim_token m)) ` set ms"
  have st: "outbox_step fp p (pt_outbox x) s'" for fp by (rule outbox_step.claim_due [OF us c])
  note I = proto_invD [OF inv]
  note prev = claim_due_back [OF I(1) c]
  have oi: "outbox_inv s'" by (rule outbox_step_inv [OF st I(1)])
  have "tokens_drawn ?T s'"
    unfolding tokens_drawn_def
  proof (intro allI impI)
    fix k m' tok assume m': "map_of (messages_by_key s') k = Some m'" "ob_claim_token m' = Some tok"
    from prev [OF m'(1)] show "tok \<in> ?T"
    proof (elim disjE conjE)
      assume "map_of (messages_by_key (pt_outbox x)) k = Some m'"
      then show ?thesis using I(2) m'(2) unfolding tokens_drawn_def by blast
    next
      assume "m' \<in> set ms"
      then have "the (ob_claim_token m') \<in> ?T" by blast
      then show ?thesis using m'(2) by simp
    qed
  qed
  moreover have "held_ok ?T s' h" if h: "h \<in> pt_held x" for h
  proof -
    note ho = held_okD [OF I(5) [OF h]]
    then obtain tok where tok: "ob_claim_token (snd h) = Some tok" "tok \<in> pt_tokens x" by blast
    have "agrees (snd h) y" if y: "map_of (messages_by_key s') (fst h, k) = Some y" "ob_id y = ob_id (snd h)"
      "ob_claim_token y = ob_claim_token (snd h)" for k y
    proof -
      from fresh tok y(3) have "y \<notin> set ms" by force
      with prev [OF y(1)] ho(2) [OF _ y(2,3)] show ?thesis by blast
    qed
    with tok show ?thesis unfolding held_ok_def by blast
  qed
  moreover have "held_ok ?T s' (pr_tenant_id p, m)" if m: "m \<in> set ms" for m
  proof -
    from claim_due_member [OF I(1) c m] obtain k m0 i o' where
      k: "claim_eligible p now ety (k, m0)" "m = claim_update (us i) o' (now + seconds lease) m0"
        "map_of (messages_by_key s') k = Some m" by metis
    have "fst k = pr_tenant_id p" using k(1) by (simp add: claim_eligible_def)
    then have "y = m" if "map_of (messages_by_key s') (pr_tenant_id p, k') = Some y" "ob_id y = ob_id m" for k' y
      using message_ids_unique [OF oi k(3) that(1)] that k(3) by simp
    moreover have "agrees m m" using k(2) by (simp add: agrees_def claim_update_def)
    moreover have "the (ob_claim_token m) \<in> ?T" using m by blast
    moreover have "\<exists>tok. ob_claim_token m = Some tok" using k(2) by (simp add: claim_update_def)
    ultimately show ?thesis unfolding held_ok_def by (metis fst_conv option.sel snd_conv)
  qed
  moreover have "bounded s'"
    unfolding bounded_def
  proof (intro allI impI)
    fix k m' assume m': "map_of (messages_by_key s') k = Some m'"
    from prev [OF m'] show "ob_attempts m' \<le> MAX_DELIVERY_ATTEMPTS
        \<and> (ob_dispatch_status m' \<in> {pending, claimed} \<longrightarrow> ob_attempts m' < MAX_DELIVERY_ATTEMPTS)"
    proof (elim disjE conjE exE)
      assume "map_of (messages_by_key (pt_outbox x)) k = Some m'"
      from boundedD [OF I(3) this] show ?thesis by blast
    next
      fix m assume "map_of (messages_by_key (pt_outbox x)) k = Some m" "ob_attempts m' = ob_attempts m"
        "ob_dispatch_status m \<in> {pending, claimed}"
      with boundedD(2) [OF I(3) this(1)] show ?thesis by simp
    qed
  qed
  moreover have "accounted s' e" if "e \<in> set (pt_sent x)" for e by (rule accounted_step [OF st I(1) I(6) [OF that]])
  ultimately show ?thesis using oi I(4) by (simp add: proto_inv_def ball_Un)
qed

lemma attempt_idempotency_key_eq:
  "attempt_idempotency_key m = attempt_key (ob_id m) (ob_attempts m + 1)"
  by (simp add: attempt_idempotency_key_def attempt_key_def)

lemma send_keeps:
  assumes inv: "proto_inv x" and held: "(pr_tenant_id p, m) \<in> pt_held x" and tok: "ob_claim_token m = Some tok"
    and c: "mark_sending p (ob_id m) tok (Aware now) (pt_outbox x) = (Inr m', s')"
  shows "proto_inv (x\<lparr>pt_outbox := s', pt_held := insert (pr_tenant_id p, m') (pt_held x),
                      pt_sent := pt_sent x @ [(pr_tenant_id p, attempt_idempotency_key m)]\<rparr>)"
proof -
  let ?s = "pt_outbox x" and ?t = "pr_tenant_id p"
  have st: "outbox_step fp p ?s s'" for fp by (rule outbox_step.mark_sending [OF c])
  note I = proto_invD [OF inv]
  have oi: "outbox_inv s'" by (rule outbox_step_inv [OF st I(1)])
  obtain k m0 where m0: "map_of (messages_by_key ?s) (?t, k) = Some m0" "ob_id m0 = ob_id m"
      "ob_claim_token m0 = Some tok" "ob_dispatch_status m0 = claimed"
    and m': "m' = m0\<lparr>ob_dispatch_status := sending, ob_sending_at := Some now, ob_attempts := ob_attempts m0 + 1\<rparr>"
    and s': "s' = set_message (?t, k) m' ?s"
    by (rule mark_sending_Inr [OF I(1) c])
  have look: "map_of (messages_by_key s') k' = (if k' = (?t, k) then Some m' else map_of (messages_by_key ?s) k')" for k'
    using s' m0(1) by (simp add: map_of_update)
  have m: "ob_attempts m0 = ob_attempts m"
    using held_okD(2) [OF I(5) [OF held], of k m0] m0 tok by (auto simp: agrees_def)
  have "tokens_drawn (pt_tokens x) s'"
    using I(2) m0(1,3) m' unfolding tokens_drawn_def look by auto
  moreover have "held_ok (pt_tokens x) s' h" if h: "h \<in> pt_held x" for h
  proof -
    note ho = held_okD [OF I(5) [OF h]]
    have "agrees (snd h) y" if y: "map_of (messages_by_key s') (fst h, k') = Some y" "ob_id y = ob_id (snd h)"
      "ob_claim_token y = ob_claim_token (snd h)" for k' y
    proof (cases "(fst h, k') = (?t, k)")
      case True
      with y look have "y = m'" by simp
      moreover have "agrees (snd h) m0" using ho(2) [of k m0] m0 m' y True \<open>y = m'\<close> by simp
      ultimately show ?thesis using m0(4) m' by (auto simp: agrees_def)
    next
      case False
      then have "map_of (messages_by_key ?s) (fst h, k') = Some y" using y(1) unfolding look by (auto split: if_splits)
      from ho(2) [OF this y(2,3)] show ?thesis .
    qed
    with ho(1) show ?thesis unfolding held_ok_def by blast
  qed
  moreover have "held_ok (pt_tokens x) s' (?t, m')"
  proof -
    have "y = m'" if "map_of (messages_by_key s') (?t, k') = Some y" "ob_id y = ob_id m'" for k' y
      using message_ids_unique [OF oi, of "(?t, k)" m' "(?t, k')" y] look that by simp
    moreover have "agrees m' m'" using m' by (simp add: agrees_def)
    moreover have "tok \<in> pt_tokens x" using I(2) m0 unfolding tokens_drawn_def by blast
    ultimately show ?thesis using m0(3) m' unfolding held_ok_def by auto
  qed
  moreover have "bounded s'"
    using I(3) boundedD(2) [OF I(3) m0(1)] m0(4) m' unfolding bounded_def look by auto
  moreover have "(?t, attempt_idempotency_key m) \<notin> set (pt_sent x)"
  proof
    assume "(?t, attempt_idempotency_key m) \<in> set (pt_sent x)"
    from I(6) [OF this] obtain k2 m2 n where m2: "map_of (messages_by_key ?s) (?t, k2) = Some m2"
      "attempt_key (ob_id m) (ob_attempts m + 1) = attempt_key (ob_id m2) n" "n \<le> ob_attempts m2"
      unfolding accounted_def attempt_idempotency_key_eq by auto
    from attempt_key_inj [OF m2(2)] have "ob_id m2 = ob_id m0" "n = ob_attempts m + 1" using m0 by auto
    moreover from this(1) message_ids_unique [OF I(1) m2(1) m0(1)] m2(1) m0(1) have "m2 = m0" by simp
    ultimately show False using m2(3) m by simp
  qed
  moreover have "accounted s' (?t, attempt_idempotency_key m)"
    unfolding accounted_def attempt_idempotency_key_eq
    by (rule exI [of _ k], rule exI [of _ m'], rule exI [of _ "ob_attempts m + 1"]) (simp add: look m' m m0(2))
  moreover have "accounted s' e" if "e \<in> set (pt_sent x)" for e by (rule accounted_step [OF st I(1) I(6) [OF that]])
  ultimately show ?thesis using oi I(4) by (simp add: proto_inv_def ball_Un)
qed

lemma reschedule_keeps:
  assumes inv: "proto_inv x" and held: "(pr_tenant_id p, m) \<in> pt_held x" and m: "ob_dispatch_status m = sending"
    and tok: "ob_claim_token m = Some tok" and lt: "ob_attempts m < MAX_DELIVERY_ATTEMPTS"
    and c: "reschedule p (ob_id m) tok (Aware t) err (pt_outbox x) = (r, s')"
  shows "proto_inv (x\<lparr>pt_outbox := s'\<rparr>)"
proof -
  note I = proto_invD [OF inv]
  let ?B = "\<lambda>k m. ob_attempts m < MAX_DELIVERY_ATTEMPTS"
  have "calm_store ?B (pt_outbox x) (snd (reschedule p (ob_id m) tok (Aware t) err (pt_outbox x)))"
    unfolding reschedule_def
  proof (intro lift_bind_calm transition_calm)
    fix k m0 assume a: "map_of (messages_by_key (pt_outbox x)) k = Some m0" "fst k = pr_tenant_id p"
      "ob_id m0 = ob_id m" "ob_claim_token m0 = Some tok"
    from a held_okD(2) [OF I(5) [OF held], of "snd k" m0] m lt tok
    have "ob_attempts m0 < MAX_DELIVERY_ATTEMPTS" by (auto simp: agrees_def simp flip: a(2))
    then show "sending \<in> {pending, claimed} \<or> ?B k m0" by simp
  qed (auto intro: I(1))
  with c show ?thesis
    by (intro calm_keeps [where B = ?B, OF inv outbox_step.reschedule [OF c]]) auto
qed

lemma retry_keeps:
  assumes inv: "proto_inv x"
    and lt: "\<forall>k m. map_of (messages_by_key (pt_outbox x)) (pr_tenant_id p, k) = Some m \<longrightarrow> ob_id m = i \<longrightarrow>
       ob_attempts m < MAX_DELIVERY_ATTEMPTS"
    and c: "resolve_uncertain_retry p i (Aware t) (pt_outbox x) = (r, s')"
  shows "proto_inv (x\<lparr>pt_outbox := s'\<rparr>)"
proof -
  let ?B = "\<lambda>k m. ob_attempts m < MAX_DELIVERY_ATTEMPTS"
  have "calm_store ?B (pt_outbox x) (snd (resolve_uncertain_retry p i (Aware t) (pt_outbox x)))"
    unfolding resolve_uncertain_retry_def
    by (intro lift_bind_calm operator_calm) (use lt in \<open>auto intro: proto_invD(1) [OF inv]\<close>)
  with c show ?thesis
    by (intro calm_keeps [where B = ?B, OF inv outbox_step.resolve_retry [OF c]]) auto
qed

lemma proto_init_inv: "proto_inv proto_init"
  by (simp add: proto_inv_def proto_init_def tokens_drawn_def bounded_def outbox_init_inv)
    (simp_all add: InMemoryOutbox_init_def)

lemma proto_step_inv:
  assumes "proto_step fp p x x'" and inv: "proto_inv x"
  shows "proto_inv x'"
  using assms(1)
proof cases
  case (claim us now limit owner lease ety ms s')
  show ?thesis unfolding claim(1) by (rule claim_keeps [OF inv claim(2-4)])
next
  case (send m tok now m' s')
  show ?thesis unfolding send(1) by (rule send_keeps [OF inv send(2-4)])
next
  case (reschedule m tok t err r s')
  show ?thesis unfolding reschedule(1) by (rule reschedule_keeps [OF inv reschedule(2-6)])
next
  case (retry i t r s')
  show ?thesis unfolding retry(1) by (rule retry_keeps [OF inv retry(2,3)])
next
  case (quiet s')
  show ?thesis unfolding quiet(1)
    by (rule calm_keeps [OF inv quiet_outbox_step [OF quiet(2)] quiet_step_calm [OF quiet(2) proto_invD(1) [OF inv]]]) simp
qed

interpretation pt: machine "proto_step fp" proto_inv proto_init
  by unfold_locales (auto intro: proto_init_inv proto_step_inv)

abbreviation proto_run :: "write_fp \<Rightarrow> principal set \<Rightarrow> proto \<Rightarrow> proto \<Rightarrow> bool" where
  "proto_run fp P \<equiv> (\<lambda>x x'. \<exists>p \<in> P. proto_step fp p x x')\<^sup>*\<^sup>*"

section \<open>Properties\<close>

text \<open>A run in which a worker claims the only message and releases one provider call for it.\<close>

definition pw_queued :: proto where
  "pw_queued = \<lparr>pt_outbox = demo_outbox demo_message, pt_held = {}, pt_tokens = {}, pt_sent = []\<rparr>"

definition pw_claimed :: proto where
  "pw_claimed = \<lparr>pt_outbox = demo_outbox demo_claimed, pt_held = {(''t1'', demo_claimed)},
     pt_tokens = {''claim_0b''}, pt_sent = []\<rparr>"

definition pw_sending :: outbox_message where
  "pw_sending = demo_claimed\<lparr>ob_dispatch_status := sending, ob_sending_at := Some 5, ob_attempts := 1\<rparr>"

definition pw_sent :: proto where
  "pw_sent = \<lparr>pt_outbox = demo_outbox pw_sending, pt_held = {(''t1'', pw_sending), (''t1'', demo_claimed)},
     pt_tokens = {''claim_0b''}, pt_sent = [(''t1'', ''m1:attempt:1'')]\<rparr>"

lemma pw_mark_sending:
  "mark_sending demo_principal ''m1'' ''claim_0b'' (Aware 5) (demo_outbox demo_claimed)
     = (Inr pw_sending, demo_outbox pw_sending)"
  by (simp add: mark_sending_def bindS_def lift_def canonical_utc_def transition_def require_trusted_principal_cases
      demo_defs is_trusted_def is_message_def claim_update_def OutboxMessage_validate_def strip_message_def
      require_state_metadata_def claim_metadata_def py_strip_def py_isspace_def set_message_def pw_sending_def
      in_datetime_range_def datetime_min_def datetime_max_def Let_def seconds_def truthy_str_def)

lemma pw_run: "proto_run demo_fp UNIV proto_init pw_sent"
proof -
  have "quiet_step demo_fp demo_principal (pt_outbox proto_init) (demo_outbox demo_message)"
    unfolding proto_init_def proto.simps by (rule quiet_step.add [OF _ demo_add]) simp
  from proto_step.quiet [OF this] have 1: "proto_step demo_fp demo_principal proto_init pw_queued"
    by (simp add: proto_init_def pw_queued_def)
  have "claim_due (\<lambda>_. ''0b'') demo_principal (Aware 0) 1 ''w1'' 60 None (pt_outbox pw_queued)
     = (Inr [demo_claimed], demo_outbox demo_claimed)" using demo_claim by (simp add: pw_queued_def)
  from proto_step.claim [OF _ this] have 2: "proto_step demo_fp demo_principal pw_queued pw_claimed"
    by (simp add: hex_string_def pw_queued_def pw_claimed_def demo_claimed_def claim_update_def)
  have "mark_sending demo_principal (ob_id demo_claimed) ''claim_0b'' (Aware 5) (pt_outbox pw_claimed)
     = (Inr pw_sending, demo_outbox pw_sending)"
    using pw_mark_sending by (simp add: pw_claimed_def demo_defs claim_update_def)
  moreover have "(pr_tenant_id demo_principal, demo_claimed) \<in> pt_held pw_claimed" "ob_claim_token demo_claimed = Some ''claim_0b''"
    by (simp_all add: pw_claimed_def demo_claimed_def claim_update_def)
  moreover have "attempt_idempotency_key demo_claimed = ''m1:attempt:1''" by code_simp
  ultimately have 3: "proto_step demo_fp demo_principal pw_claimed pw_sent"
    using proto_step.send [of demo_principal demo_claimed pw_claimed "''claim_0b''" 5 pw_sending "demo_outbox pw_sending" demo_fp]
    by (simp add: pw_claimed_def pw_sent_def)
  from 1 2 3 show ?thesis by (blast intro: converse_rtranclp_into_rtranclp)
qed

text \<open>C1: no attempt is released twice.
  However claims, sends, retries, sweeps, operator decisions and failures of any number of
  workers and tenants interleave, and however long a worker holds on to the copy it
  claimed, no two provider calls are ever released with the same attempt key in a tenant:
  the provider sees each idempotency key at most once.\<close>

theorem attempt_released_once:
  assumes "proto_run fp P proto_init x"
  shows "distinct (pt_sent x)"
  by (rule proto_invD(4) [OF pt.reachable_inv [OF assms]])

theorem attempt_released_once_witness: "distinct (pt_sent pw_sent) \<and> pt_sent pw_sent = [(''t1'', ''m1:attempt:1'')]"
  using attempt_released_once [OF pw_run] by (simp add: pw_sent_def)



end
