(* ===== verification/Dispatch_Liveness.thy ===== *)
theory Dispatch_Liveness
  imports Dispatch_Safety
begin

text \<open>
  The dispatcher makes progress. For a claimed message with its reminder job, an accepted
  approval and a well-formed request, \<open>dispatch_one\<close> returns and leaves the message in the
  state that the answer of the provider determines; in particular no message stays in
  \<open>sending\<close> when the provider returns, raises or answers nonsense.
\<close>

section \<open>A message with its job\<close>

definition job_ok :: "(string \<Rightarrow> string option) \<Rightarrow> scheduled_reminder \<Rightarrow> bool" where
  "job_ok zi j \<longleftrightarrow> sr_reminder_id j \<noteq> [] \<and> sr_timezone j \<noteq> [] \<and> zi (sr_timezone j) = Some (sr_timezone j)
     \<and> sr_source_event_id j \<noteq> [] \<and> is_hex64 (sr_payload_fingerprint j)"

definition linked ::
    "(string \<Rightarrow> string option) \<Rightarrow> principal \<Rightarrow> string \<Rightarrow> string \<Rightarrow> outbox_message \<Rightarrow> scheduled_reminder \<Rightarrow> stores \<Rightarrow> bool" where
  "linked zi p k kj m j s \<longleftrightarrow> outbox_inv (st_outbox s) \<and> scheduler_inv (st_scheduler s)
     \<and> map_of (messages_by_key (st_outbox s)) (pr_tenant_id p, k) = Some m
     \<and> map_of (sc_jobs_by_key (st_scheduler s)) (pr_tenant_id p, kj) = Some j
     \<and> ev_subject (ob_event m) = Some (sr_reminder_id j) \<and> job_ok zi j"

lemma job_ok_mirrored [simp]: "job_ok zi (mirrored m j) = job_ok zi j" "sr_reminder_id (mirrored m j) = sr_reminder_id j"
  by (simp_all add: job_ok_def mirrored_def)

lemma linked_wf: "linked zi p k kj m j s \<Longrightarrow> wf_message m"
  using outbox_inv_wf by (auto simp: linked_def)

lemma transition_Ok:
  assumes "outbox_inv s" and "is_trusted p" and "map_of (messages_by_key s) (pr_tenant_id p, k) = Some m"
    and "ob_claim_token m = Some tok" and "tok \<noteq> []" and "ob_dispatch_status m = expected"
    and "upd_ok u" and "require_state_metadata (transition_target target u inc m) = Inr ()"
  shows "transition p (ob_id m) tok expected target u inc s =
    (Inr (transition_target target u inc m), set_message (pr_tenant_id p, k) (transition_target target u inc m) s)"
proof -
  have wf: "strip_message m = m" "ob_tenant_id m \<noteq> []" "ob_idempotency_key m \<noteq> []" "0 \<le> ob_attempts m"
    using outbox_inv_wf [OF assms(1,3)] by (auto simp: wf_message_iff)
  note t = transition_target_facts [OF assms(7) wf(1), of target inc]
  have "OutboxMessage_validate (transition_target target u inc m) = Inr (transition_target target u inc m)"
    using t assms(8) wf by (auto simp: OutboxMessage_validate_def Let_def same_identity_def bindR_def)
  then show ?thesis
    using assms(2,4-6) find_message [OF assms(1,3)]
    by (simp add: transition_def transition_target_def Let_def require_trusted_principal_cases)
qed

text \<open>The stores after the transaction that moves the message to \<open>m'\<close> and mirrors it.\<close>

definition moved :: "principal \<Rightarrow> string \<Rightarrow> string \<Rightarrow> outbox_message \<Rightarrow> scheduled_reminder \<Rightarrow> stores \<Rightarrow> stores" where
  "moved p k kj m' j s = s\<lparr>st_outbox := set_message (pr_tenant_id p, k) m' (st_outbox s),
     st_scheduler := set_job (pr_tenant_id p, kj) (mirrored m' j) (st_scheduler s)\<rparr>"

lemma linked_moved:
  assumes l: "linked zi p k kj m j s" and e: "evolves m m'" and wf: "wf_message m'"
  shows "linked zi p k kj m' (mirrored m' j) (moved p k kj m' j s)"
proof -
  from l have inv: "outbox_inv (st_outbox s)" "scheduler_inv (st_scheduler s)"
    and m: "map_of (messages_by_key (st_outbox s)) (pr_tenant_id p, k) = Some m"
    and j: "map_of (sc_jobs_by_key (st_scheduler s)) (pr_tenant_id p, kj) = Some j" by (simp_all add: linked_def)
  have "outbox_inv (set_message (pr_tenant_id p, k) m' (st_outbox s))"
    by (rule progress_inv [OF inv(1) progress_set_message [where p = p, OF progress_refl m e]]) (simp_all add: wf)
  moreover have "scheduler_inv (set_job (pr_tenant_id p, kj) (mirrored m' j) (st_scheduler s))"
    using wf by (intro set_job_inv [OF inv(2) j]) (simp_all add: mirrored_def same_reminder_def wf_message_iff)
  moreover have "ob_event m' = ob_event m" using evolves_identity [OF e] by (simp add: same_identity_def)
  ultimately show ?thesis using l by (simp add: linked_def moved_def set_job_def map_of_update)
qed

lemma mirror_Ok:
  assumes l: "linked zi p k kj m j s" and p: "is_trusted p" and e: "same_identity m m'" and a: "0 \<le> ob_attempts m'"
    and x: "st_scheduler (us_stores x) = st_scheduler s"
  shows "mirror zi p m' x = (Inr (), x\<lparr>us_stores := (us_stores x)\<lparr>st_scheduler := set_job (pr_tenant_id p, kj) (mirrored m' j) (st_scheduler s)\<rparr>\<rparr>)"
    "mirror_terminal zi p m' x = (Inr (), x\<lparr>us_stores := (us_stores x)\<lparr>st_scheduler := set_job (pr_tenant_id p, kj) (mirrored m' j) (st_scheduler s)\<rparr>\<rparr>)"
proof -
  from l have m: "map_of (messages_by_key (st_outbox s)) (pr_tenant_id p, k) = Some m" "outbox_inv (st_outbox s)"
    and sub: "ev_subject (ob_event m') = Some (sr_reminder_id j)" and ok: "job_ok zi j"
    using e by (simp_all add: linked_def same_identity_def)
  have v: "ScheduledReminder_validate zi (mirrored m' j) = Inr (mirrored m' j)"
    using a ok by (simp add: ScheduledReminder_validate_def mirrored_def job_ok_def)
  have "ob_tenant_id m' = pr_tenant_id p" using outbox_inv_message [OF m(2,1)] e by (simp add: same_identity_def)
  with l have "mirror_delivery zi p (sr_reminder_id j) m' (st_scheduler (us_stores x)) =
      (Inr (mirrored m' j), set_job (pr_tenant_id p, kj) (mirrored m' j) (st_scheduler s))"
    by (subst x) (rule mirror_delivery_Inr [OF _ p _ _ sub v]; simp add: linked_def)
  with sub ok show "mirror zi p m' x = (Inr (), x\<lparr>us_stores := (us_stores x)\<lparr>st_scheduler := set_job (pr_tenant_id p, kj) (mirrored m' j) (st_scheduler s)\<rparr>\<rparr>)"
    "mirror_terminal zi p m' x = (Inr (), x\<lparr>us_stores := (us_stores x)\<lparr>st_scheduler := set_job (pr_tenant_id p, kj) (mirrored m' j) (st_scheduler s)\<rparr>\<rparr>)"
    by (simp_all add: mirror_def mirror_terminal_def catchS_def bindS_cases on_scheduler_def on_field_def truthy_str_def job_ok_def)
qed

lemma moving_transaction:
  assumes l: "linked zi p k kj m j s" and p: "is_trusted p" and e: "evolves m m'" and wf: "wf_message m'"
    and k: "keeps (in_transaction s) op"
    and op: "op (opened s) = (Inr m', (opened s)\<lparr>us_stores := s\<lparr>st_outbox := set_message (pr_tenant_id p, k) m' (st_outbox s)\<rparr>\<rparr>)"
  shows "with_transaction p (bindS op (\<lambda>x. bindS (mirror zi p x) (\<lambda>_. bindS tx_commit (\<lambda>_. ret x)))) s = (Inr m', moved p k kj m' j s)"
    "with_transaction p (bindS op (\<lambda>x. bindS (mirror_terminal zi p x) (\<lambda>_. bindS tx_commit (\<lambda>_. ret x)))) s = (Inr m', moved p k kj m' j s)"
proof -
  note mir = mirror_Ok [OF l p evolves_identity [OF e], of "(opened s)\<lparr>us_stores := s\<lparr>st_outbox := set_message (pr_tenant_id p, k) m' (st_outbox s)\<rparr>\<rparr>"]
  have a: "0 \<le> ob_attempts m'" using wf by (simp add: wf_message_iff)
  have c: "tx_commit (x\<lparr>us_stores := y\<rparr>) = (Inr (), x\<lparr>us_stores := y, us_txn := (us_txn x)\<lparr>tx_committed := True\<rparr>\<rparr>)"
    if "x = opened s" for x y
    using that by (simp add: tx_commit_def require_active_def opened_def new_transaction_def)
  show "with_transaction p (bindS op (\<lambda>x. bindS (mirror zi p x) (\<lambda>_. bindS tx_commit (\<lambda>_. ret x)))) s = (Inr m', moved p k kj m' j s)"
    by (subst with_transaction_eq [OF p], intro step_intros k)
      (simp add: bindS_cases op mir(1) [OF a] c moved_def)
  show "with_transaction p (bindS op (\<lambda>x. bindS (mirror_terminal zi p x) (\<lambda>_. bindS tx_commit (\<lambda>_. ret x)))) s = (Inr m', moved p k kj m' j s)"
    by (subst with_transaction_eq [OF p], intro step_intros k)
      (simp add: bindS_cases op mir(2) [OF a] c moved_def)
qed

section \<open>The transactions of one attempt\<close>

lemma on_outbox_opened:
  "m (st_outbox s) = (r, b) \<Longrightarrow> on_outbox m (opened s) = (r, (opened s)\<lparr>us_stores := s\<lparr>st_outbox := b\<rparr>\<rparr>)"
  by (simp add: on_outbox_def on_field_def)

lemma transition_moves:
  assumes l: "linked zi p k kj m j s" and p: "is_trusted p" and tok: "ob_claim_token m = Some tok" "tok \<noteq> []"
    and st: "ob_dispatch_status m = expected" "edge expected target" "inc \<longleftrightarrow> target = sending"
    and u: "upd_ok u" "require_state_metadata (transition_target target u inc m) = Inr ()"
  shows "on_outbox (transition p (ob_id m) tok expected target u inc) (opened s) = (Inr (transition_target target u inc m),
      (opened s)\<lparr>us_stores := s\<lparr>st_outbox := set_message (pr_tenant_id p, k) (transition_target target u inc m) (st_outbox s)\<rparr>\<rparr>)"
    and "evolves m (transition_target target u inc m)" and "wf_message (transition_target target u inc m)"
proof -
  from l have inv: "outbox_inv (st_outbox s)" and m: "map_of (messages_by_key (st_outbox s)) (pr_tenant_id p, k) = Some m"
    by (simp_all add: linked_def)
  have wf: "strip_message m = m" "ob_tenant_id m \<noteq> []" "ob_idempotency_key m \<noteq> []" "0 \<le> ob_attempts m"
    using outbox_inv_wf [OF inv m] by (auto simp: wf_message_iff)
  note t = transition_target_facts [OF u(1) wf(1), of target inc]
  show "on_outbox (transition p (ob_id m) tok expected target u inc) (opened s) = (Inr (transition_target target u inc m),
      (opened s)\<lparr>us_stores := s\<lparr>st_outbox := set_message (pr_tenant_id p, k) (transition_target target u inc m) (st_outbox s)\<rparr>\<rparr>)"
    by (rule on_outbox_opened, rule transition_Ok [OF inv p m tok st(1) u])
  show "evolves m (transition_target target u inc m)" using t st by (simp add: evolves_def)
  show "wf_message (transition_target target u inc m)" using t u(2) wf by (auto simp: wf_message_iff same_identity_def)
qed

lemma claimed_facts:
  assumes "linked zi p k kj m j s" and "ob_dispatch_status m \<in> {claimed, sending}"
  obtains tok where "ob_claim_token m = Some tok" "tok \<noteq> []" "claim_token m = Inr tok"
proof -
  have "require_state_metadata m = Inr ()" using linked_wf [OF assms(1)] by (simp add: wf_message_iff)
  with assms(2) have "truthy_str (ob_claim_token m)" by (auto simp: require_state_metadata_iff)
  with that show ?thesis by (auto simp: truthy_str_def claim_token_def split: option.splits)
qed

definition sent_at :: "instant \<Rightarrow> outbox_message \<Rightarrow> outbox_message" where
  "sent_at t m = m\<lparr>ob_dispatch_status := sending, ob_sending_at := Some t, ob_attempts := ob_attempts m + 1\<rparr>"

lemma confirm_sending_Ok:
  assumes l: "linked zi p k kj m j s" and p: "is_trusted p" and c: "ob_dispatch_status m = claimed" and t: "in_datetime_range t"
  shows "confirm_sending zi p m t s = (Inr (sent_at t m), moved p k kj (sent_at t m) j s)"
    and "linked zi p k kj (sent_at t m) (mirrored (sent_at t m) j) (moved p k kj (sent_at t m) j s)"
proof -
  from c have "ob_dispatch_status m \<in> {claimed, sending}" by simp
  from claimed_facts [OF l this] obtain tok where tok: "ob_claim_token m = Some tok" "tok \<noteq> []" "claim_token m = Inr tok" .
  note wf = linked_wf [OF l]
  let ?u = "\<lambda>m. m\<lparr>ob_sending_at := Some t\<rparr>"
  have target: "transition_target sending ?u True m = sent_at t m" by (simp add: transition_target_def sent_at_def)
  have meta: "require_state_metadata (sent_at t m) = Inr ()"
    using wf c by (simp add: wf_message_iff require_state_metadata_iff sent_at_def)
  have op: "mark_sending p (ob_id m) tok (Aware t) = transition p (ob_id m) tok claimed sending ?u True"
    using t by (simp add: mark_sending_def canonical_utc_def bindS_def fun_eq_iff)
  note mv = transition_moves [where target = sending and inc = True and u = ?u, OF l p tok(1,2) c, unfolded target, simplified, OF meta]
  show "confirm_sending zi p m t s = (Inr (sent_at t m), moved p k kj (sent_at t m) j s)"
    using moving_transaction(1) [where op = "on_outbox (mark_sending p (ob_id m) tok (Aware t))", OF l p mv(2,3) _ mv(1) [folded op]]
    by (simp add: confirm_sending_def bindS_def tok(3) step_intros)
  show "linked zi p k kj (sent_at t m) (mirrored (sent_at t m) j) (moved p k kj (sent_at t m) j s)"
    by (rule linked_moved [OF l mv(2,3)])
qed

text \<open>Every way out of \<open>sending\<close> succeeds.\<close>

lemma sending_moves:
  assumes l: "linked zi p k kj m j s" and p: "is_trusted p" and st: "ob_dispatch_status m = sending"
    and tok: "ob_claim_token m = Some tok" "tok \<noteq> []"
    and op: "op = on_outbox (transition p (ob_id m) tok sending target u False)"
    and u: "edge sending target" "upd_ok u" "require_state_metadata (transition_target target u False m) = Inr ()"
  shows "\<exists>m'. with_transaction p (bindS op (\<lambda>x. bindS (mirror_terminal zi p x) (\<lambda>_. bindS tx_commit (\<lambda>_. ret x)))) s
      = (Inr m', moved p k kj m' j s) \<and> evolves m m' \<and> wf_message m' \<and> ob_dispatch_status m' = target"
proof -
  let ?m = "transition_target target u False m"
  have "False \<longleftrightarrow> target = sending" using u(1) by auto
  note mv = transition_moves [OF l p tok st u(1) this u(2,3)]
  have k: "keeps (in_transaction s) op" unfolding op by (intro step_intros)
  have "strip_message m = m" using linked_wf [OF l] by (simp add: wf_message_iff)
  then have "ob_dispatch_status ?m = target" using transition_target_facts(3) [OF u(2)] by blast
  with moving_transaction(2) [where op = op, OF l p mv(2,3) k mv(1) [folded op]] mv(2,3) show ?thesis by blast
qed

lemma sending_meta:
  assumes l: "linked zi p k kj m j s" and st: "ob_dispatch_status m = sending"
  shows "1 \<le> ob_attempts m" "ob_published_at m = None" "ob_sending_at m \<noteq> None"
  using linked_wf [OF l] st by (auto simp: wf_message_iff require_state_metadata_iff)

lemma record_unknown_Ok:
  assumes l: "linked zi p k kj m j s" and p: "is_trusted p" and st: "ob_dispatch_status m = sending" and t: "in_datetime_range t"
  shows "\<exists>m'. record_unknown zi p m t s = (Inr m', moved p k kj m' j s) \<and> evolves m m' \<and> wf_message m' \<and> ob_dispatch_status m' = uncertain"
proof -
  from st have "ob_dispatch_status m \<in> {claimed, sending}" by simp
  from claimed_facts [OF l this] obtain tok where tok: "ob_claim_token m = Some tok" "tok \<noteq> []" "claim_token m = Inr tok" .
  obtain err where err: "unknown_error t None = Inr err" using t by (simp add: unknown_error_def DeliveryError_make_def canonical_utc_def)
  let ?u = "\<lambda>m. (clear_claim m)\<lparr>ob_last_error := Some err\<rparr>"
  have "\<exists>m'. with_transaction p (bindS (on_outbox (mark_uncertain p (ob_id m) tok err))
      (\<lambda>x. bindS (mirror_terminal zi p x) (\<lambda>_. bindS tx_commit (\<lambda>_. ret x)))) s
      = (Inr m', moved p k kj m' j s) \<and> evolves m m' \<and> wf_message m' \<and> ob_dispatch_status m' = uncertain"
    by (rule sending_moves [where u = ?u, OF l p st tok(1,2) _ _ upd_ok_intros(2)])
      (use sending_meta [OF l st] in \<open>simp_all add: mark_uncertain_def terminal_error_def fun_eq_iff transition_target_def
         require_state_metadata_iff clear_claim_def claim_metadata_def\<close>)
  then show ?thesis by (simp add: record_unknown_def bindS_def tok(3) err)
qed

text \<open>The state a confirmed answer of the provider leads to, after the given number of attempts.\<close>

definition settled_status :: "notification_result \<Rightarrow> int \<Rightarrow> delivery_status" where
  "settled_status r attempts =
     (case nt_outcome r of
        success \<Rightarrow> published
      | known_transient \<Rightarrow> if attempts \<ge> MAX_DELIVERY_ATTEMPTS then failed else pending
      | permanent \<Rightarrow> failed
      | unknown_outcome \<Rightarrow> uncertain)"

lemma retry_at_range: "in_datetime_range (retry_at now d ra)"
  by (auto simp: retry_at_def Let_def in_datetime_range_def datetime_max_def datetime_min_def dt_add_Inr split: sum.splits)

lemma retry_delay_exists: "1 \<le> n \<Longrightarrow> n < MAX_DELIVERY_ATTEMPTS \<Longrightarrow> \<exists>d. py_index RETRY_DELAYS (n - 1) = Inr d"
  by (simp add: py_index_def RETRY_DELAYS_def MAX_DELIVERY_ATTEMPTS_def)

lemma errors_exist:
  assumes "NotificationResult_validate r = Inr r" and "in_datetime_range t"
  shows "\<exists>e. known_error r t = Inr e" "\<exists>e. unknown_error t (nt_provider_code r) = Inr e"
proof -
  have "\<not> (case nt_provider_code r of None \<Rightarrow> False | Some c \<Rightarrow> c < 100 \<or> c > 599)"
    using assms(1) by (auto simp: NotificationResult_validate_def split: if_splits)
  with assms(2) show "\<exists>e. known_error r t = Inr e" "\<exists>e. unknown_error t (nt_provider_code r) = Inr e"
    by (auto simp: known_error_def unknown_error_def DeliveryError_make_def canonical_utc_def Let_def split: option.splits prod.splits)
qed

lemma record_result_Ok:
  assumes l: "linked zi p k kj m j s" and p: "is_trusted p" and st: "ob_dispatch_status m = sending" and t: "in_datetime_range t"
    and r: "NotificationResult_validate r = Inr r"
  shows "\<exists>m'. record_result zi p m r t s = (Inr m', moved p k kj m' j s) \<and> evolves m m' \<and> wf_message m'
    \<and> ob_dispatch_status m' = settled_status r (ob_attempts m)"
proof -
  from st have "ob_dispatch_status m \<in> {claimed, sending}" by simp
  from claimed_facts [OF l this] obtain tok where tok: "ob_claim_token m = Some tok" "tok \<noteq> []" "claim_token m = Inr tok" .
  obtain e1 e2 where e: "known_error r t = Inr e1" "unknown_error t (nt_provider_code r) = Inr e2" using errors_exist [OF r t] by blast
  note meta = sending_meta [OF l st]
  note moves = sending_moves [OF l p st tok(1,2)]
  have rec: "record_result zi p m r t = with_transaction p (bindS (result_transition p m tok r t)
      (\<lambda>x. bindS (mirror_terminal zi p x) (\<lambda>_. bindS tx_commit (\<lambda>_. ret x))))"
    by (simp add: record_result_def bindS_def tok(3) fun_eq_iff)
  have target: "\<exists>u. upd_ok u \<and> require_state_metadata (transition_target (settled_status r (ob_attempts m)) u False m) = Inr ()
      \<and> result_transition p m tok r t = on_outbox (transition p (ob_id m) tok sending (settled_status r (ob_attempts m)) u False)"
  proof (cases "nt_outcome r")
    case success
    then show ?thesis
      by (intro exI [of _ "\<lambda>m. (clear_claim m)\<lparr>ob_published_at := Some t, ob_last_error := None\<rparr>"] conjI upd_ok_intros(3))
        (simp_all add: settled_status_def result_transition_def mark_published_def canonical_utc_def t bindS_lift_Inr
          transition_target_def require_state_metadata_iff clear_claim_def claim_metadata_def)
  next
    case permanent
    then show ?thesis using meta
      by (intro exI [of _ "\<lambda>m. (clear_claim m)\<lparr>ob_last_error := Some e1\<rparr>"] conjI upd_ok_intros(2))
        (simp_all add: settled_status_def result_transition_def mark_failed_def terminal_error_def bindS_lift_Inr e
          transition_target_def require_state_metadata_iff clear_claim_def claim_metadata_def fun_eq_iff)
  next
    case unknown_outcome
    then show ?thesis using meta
      by (intro exI [of _ "\<lambda>m. (clear_claim m)\<lparr>ob_last_error := Some e2\<rparr>"] conjI upd_ok_intros(2))
        (simp_all add: settled_status_def result_transition_def mark_uncertain_def terminal_error_def bindS_lift_Inr e
          transition_target_def require_state_metadata_iff clear_claim_def claim_metadata_def fun_eq_iff)
  next
    case known_transient
    show ?thesis
    proof (cases "ob_attempts m \<ge> MAX_DELIVERY_ATTEMPTS")
      case True
      with known_transient show ?thesis using meta
        by (intro exI [of _ "\<lambda>m. (clear_claim m)\<lparr>ob_last_error := Some e1\<rparr>"] conjI upd_ok_intros(2))
          (simp_all add: settled_status_def result_transition_def mark_failed_def terminal_error_def bindS_lift_Inr e
            transition_target_def require_state_metadata_iff clear_claim_def claim_metadata_def fun_eq_iff)
    next
      case False
      then obtain d where d: "py_index RETRY_DELAYS (ob_attempts m - 1) = Inr d" using retry_delay_exists meta(1) by force
      let ?at = "retry_at t d (nt_retry_after r)"
      from False known_transient show ?thesis using meta
        by (intro exI [of _ "\<lambda>m. (clear_claim m)\<lparr>ob_next_attempt_at := Some ?at, ob_sending_at := None, ob_last_error := Some e1\<rparr>"]
            conjI upd_ok_intros(5))
          (simp_all add: settled_status_def result_transition_def reschedule_def canonical_utc_def retry_at_range bindS_lift_Inr e d
            transition_target_def require_state_metadata_iff clear_claim_def claim_metadata_def fun_eq_iff)
    qed
  qed
  moreover have "edge sending (settled_status r (ob_attempts m))" by (simp add: settled_status_def split: notification_outcome.splits)
  ultimately obtain u where u: "upd_ok u" "require_state_metadata (transition_target (settled_status r (ob_attempts m)) u False m) = Inr ()"
      "result_transition p m tok r t = on_outbox (transition p (ob_id m) tok sending (settled_status r (ob_attempts m)) u False)"
    and "edge sending (settled_status r (ob_attempts m))" by blast
  from moves [OF u(3) this(4) u(1,2)] show ?thesis unfolding rec .
qed

section \<open>One attempt\<close>

text \<open>What one attempt makes of an answer: a missing answer or one for another request is uncertain.\<close>

definition answers :: "notification_request \<Rightarrow> notification_result \<Rightarrow> bool" where
  "answers rq r \<longleftrightarrow> nt_idempotency_key r = nr_idempotency_key rq \<and> nt_channel r = nr_channel rq"

definition attempt_status :: "notification_request \<Rightarrow> notification_result option \<Rightarrow> int \<Rightarrow> delivery_status" where
  "attempt_status rq res attempts =
     (case res of None \<Rightarrow> uncertain | Some r \<Rightarrow> if answers rq r then settled_status r attempts else uncertain)"

definition attempt_effect :: "string \<Rightarrow> notification_result option \<Rightarrow> delivery_status \<Rightarrow> dispatch_effect" where
  "attempt_effect i res st =
     (if st = published then Published (case res of Some r \<Rightarrow> nt_notification_id r | None \<Rightarrow> None)
      else if st = uncertain then Uncertain i else Skipped i)"

lemma in_world_eq: "m (wd_stores w) = (r, s) \<Longrightarrow> in_world m w = (r, w\<lparr>wd_stores := s\<rparr>)"
  by (simp add: in_world_def on_field_def)

lemma after_send_Ok:
  assumes l: "linked zi p k kj m j (wd_stores w)" and p: "is_trusted p" and st: "ob_dispatch_status m = sending"
    and clock: "\<forall>n. \<exists>t. clock n = Aware t \<and> in_datetime_range t" and i: "ob_id m = ob_id c"
    and res: "\<forall>r. res = Some r \<longrightarrow> NotificationResult_validate r = Inr r"
  shows "\<exists>w' m'. after_send zi clock p c m rq res w = (Inr (attempt_effect (ob_id c) res (ob_dispatch_status m')), w')
    \<and> linked zi p k kj m' (mirrored m' j) (wd_stores w') \<and> evolves m m'
    \<and> ob_dispatch_status m' = attempt_status rq res (ob_attempts m) \<and> wd_sent w' = wd_sent w"
proof -
  obtain t where t: "clock (wd_ticks w) = Aware t" "in_datetime_range t" using clock by blast
  let ?w = "w\<lparr>wd_ticks := Suc (wd_ticks w)\<rparr>"
  have tick: "now_tick clock w = (Inr t, ?w)" using t by (simp add: now_tick_def canonical_utc_def)
  have l': "linked zi p k kj m j (wd_stores ?w)" using l by simp
  show ?thesis
  proof (cases "\<exists>r. res = Some r \<and> answers rq r")
    case True
    then obtain r where r: "res = Some r" "answers rq r" by blast
    obtain m' where m': "record_result zi p m r t (wd_stores ?w) = (Inr m', moved p k kj m' j (wd_stores ?w))"
      "evolves m m'" "wf_message m'" "ob_dispatch_status m' = settled_status r (ob_attempts m)"
      using record_result_Ok [OF l' p st t(2)] res r(1) by blast
    have "after_send zi clock p c m rq res w =
        (Inr (attempt_effect (ob_id c) res (ob_dispatch_status m')), ?w\<lparr>wd_stores := moved p k kj m' j (wd_stores ?w)\<rparr>)"
      using r by (simp add: after_send_def bindS_cases tick in_world_eq [where m = "record_result zi p m r t" and w = ?w, OF m'(1)] answers_def attempt_effect_def)
    then show ?thesis
      by (intro exI [of _ "?w\<lparr>wd_stores := moved p k kj m' j (wd_stores ?w)\<rparr>"] exI [of _ m'])
        (use linked_moved [OF l' m'(2,3)] m'(2,4) r in \<open>simp add: attempt_status_def\<close>)
  next
    case False
    obtain m' where m': "record_unknown zi p m t (wd_stores ?w) = (Inr m', moved p k kj m' j (wd_stores ?w))"
      "evolves m m'" "wf_message m'" "ob_dispatch_status m' = uncertain"
      using record_unknown_Ok [OF l' p st t(2)] by blast
    have "after_send zi clock p c m rq res w =
        (Inr (attempt_effect (ob_id c) res (ob_dispatch_status m')), ?w\<lparr>wd_stores := moved p k kj m' j (wd_stores ?w)\<rparr>)"
      using False by (cases res) (auto simp: after_send_def bindS_cases tick in_world_eq [where m = "record_unknown zi p m t" and w = ?w, OF m'(1)] answers_def attempt_effect_def m'(4))
    then show ?thesis
      by (intro exI [of _ "?w\<lparr>wd_stores := moved p k kj m' j (wd_stores ?w)\<rparr>"] exI [of _ m'])
        (use linked_moved [OF l' m'(2,3)] m'(2,4) False in \<open>auto simp: attempt_status_def split: option.splits\<close>)
  qed
qed

text \<open>C19: every attempt is settled.
  For a claimed message whose reminder job is stored, with an accepted approval, a well-formed
  request and a working clock, \<open>dispatch_one\<close> returns whatever the provider answers or
  whether it raises: exactly one provider call was made, one attempt was counted, and the
  message and its job are in the state the answer determines (published, pending for another
  try, failed, or uncertain), never left in sending.\<close>

theorem dispatch_one_settles:
  assumes l: "linked zi p k kj m j (wd_stores w)" and c: "ob_dispatch_status m = claimed"
    and ap: "require_approval (wall (wd_ticks w)) p P5 (grants p m (attempt_idempotency_key m)) ''notification.send''
        (attempt_idempotency_key m) None = Inr d"
    and rq: "notification_request_of m (attempt_idempotency_key m) = Inr rq"
    and clock: "\<forall>n. \<exists>t. clock n = Aware t \<and> in_datetime_range t"
    and send: "\<And>s. send p rq (grants p m (attempt_idempotency_key m)) s = (res, s)"
    and res: "\<forall>r. res = Some r \<longrightarrow> NotificationResult_validate r = Inr r"
  shows "\<exists>w' m' j'. dispatch_one zi clock wall grants send p now m w = (Inr (attempt_effect (ob_id m) res (ob_dispatch_status m')), w')
    \<and> linked zi p k kj m' j' (wd_stores w') \<and> sr_delivery_status j' = ob_dispatch_status m'
    \<and> ob_dispatch_status m' = attempt_status rq res (ob_attempts m + 1) \<and> ob_attempts m' = ob_attempts m + 1
    \<and> length (wd_sent w') = length (wd_sent w) + 1"
proof -
  have p: "is_trusted p" using ap by (auto simp: require_approval_Inr dec_allowed_evaluate)
  obtain t where t: "clock (wd_ticks w) = Aware t" "in_datetime_range t" using clock by blast
  let ?w = "w\<lparr>wd_ticks := Suc (wd_ticks w)\<rparr>" and ?m = "sent_at t m" and ?ap = "grants p m (attempt_idempotency_key m)"
  have tick: "now_tick clock w = (Inr t, ?w)" using t by (simp add: now_tick_def canonical_utc_def)
  note conf = confirm_sending_Ok [OF l p c t(2)]
  let ?v = "?w\<lparr>wd_stores := moved p k kj ?m j (wd_stores w),
     wd_sent := wd_sent w @ [\<lparr>se_stores = moved p k kj ?m j (wd_stores w), se_request = rq, se_approval = ?ap\<rparr>]\<rparr>"
  have run: "dispatch_one zi clock wall grants send p now m w = after_send zi clock p m ?m rq res ?v"
    by (simp add: dispatch_one_def Let_def bindS_cases wall_time_def ap rq tick in_world_eq [where m = "confirm_sending zi p m t" and w = ?w, simplified, OF conf(1)] call_send_def send)
  have lv: "linked zi p k kj ?m (mirrored ?m j) (wd_stores ?v)" using conf(2) by simp
  have sm: "ob_dispatch_status ?m = sending" "ob_id ?m = ob_id m" "ob_attempts ?m = ob_attempts m + 1" by (simp_all add: sent_at_def)
  from after_send_Ok [where rq = rq, OF lv p sm(1) clock sm(2) res]
  obtain w' m' where w': "after_send zi clock p m ?m rq res ?v = (Inr (attempt_effect (ob_id m) res (ob_dispatch_status m')), w')"
    "linked zi p k kj m' (mirrored m' (mirrored ?m j)) (wd_stores w')" "evolves ?m m'"
    "ob_dispatch_status m' = attempt_status rq res (ob_attempts ?m)" "wd_sent w' = wd_sent ?v"
    by (elim exE conjE) (rule that)
  have "ob_dispatch_status m' \<noteq> sending"
    using w'(4) by (auto simp: attempt_status_def settled_status_def split: option.splits if_splits notification_outcome.splits)
  then have "ob_attempts m' = ob_attempts m + 1" using w'(3) sm by (auto simp: evolves_def)
  then show ?thesis
    by (intro exI [of _ w'] exI [of _ m'] exI [of _ "mirrored m' (mirrored ?m j)"])
      (use w' run sm in \<open>simp add: mirrored_def\<close>)
qed

section \<open>A concrete attempt\<close>

definition lw_message :: outbox_message where
  "lw_message = dw_message\<lparr>ob_dispatch_status := claimed, ob_claim_token := Some ''claim_0b'', ob_claim_owner := Some ''w1'',
     ob_claimed_until := Some 9\<rparr>"

definition lw_world :: world where
  "lw_world = \<lparr>wd_stores = dw_stores\<lparr>st_outbox := demo_outbox lw_message\<rparr>, wd_ticks = 0, wd_sent = []\<rparr>"

definition lw_send :: "notification_outcome \<Rightarrow> provider" where
  "lw_send o' p rq ap s = (Some \<lparr>nt_notification_id = None, nt_channel = nr_channel rq, nt_idempotency_key = nr_idempotency_key rq,
     nt_outcome = o', nt_provider_code = Some 503, nt_retry_after = None, nt_provider_message_id = None, nt_reused = False\<rparr>, s)"

lemma lw_linked: "linked Some dw_principal ''k1'' ''k1'' lw_message (demo_job ''hi'') (wd_stores lw_world)"
proof -
  have "progress demo_principal (demo_outbox dw_message) (set_message (''t1'', ''k1'') lw_message (demo_outbox dw_message))"
    by (rule progress_set_message [OF progress_refl, where m = dw_message])
      (auto simp: demo_outbox_def evolves_def lw_message_def dw_message_def new_message_def same_identity_def wf_message_def
        OutboxMessage_validate_def strip_message_def require_state_metadata_def claim_metadata_def py_strip_def py_isspace_def truthy_str_def)
  from progress_inv [OF dw_outbox_inv this] have "outbox_inv (demo_outbox lw_message)"
    by (simp add: demo_outbox_def set_message_def lw_message_def)
  then show ?thesis
    using demo_scheduler_inv demo_hex64
    by (simp add: linked_def lw_world_def dw_stores_def dw_principal_def demo_outbox_def demo_scheduler_def job_ok_def demo_job_def
        lw_message_def dw_message_def new_message_def dw_event_def)
qed

theorem dispatch_one_settles_witness:
  "\<exists>w' m'. dispatch_one Some (\<lambda>_. Aware 5) (\<lambda>_. 5) dw_grants (lw_send known_transient) dw_principal 3 lw_message lw_world
     = (Inr (Skipped ''m1''), w') \<and> map_of (messages_by_key (st_outbox (wd_stores w'))) (''t1'', ''k1'') = Some m'
     \<and> ob_dispatch_status m' = pending \<and> ob_attempts m' = 1 \<and> length (wd_sent w') = 1"
proof -
  let ?key = "attempt_idempotency_key lw_message"
  let ?rq = "\<lparr>nr_channel = ''telegram'', nr_recipient = ''r'', nr_body = ''hi'', nr_idempotency_key = ?key\<rparr>"
  let ?res = "Some \<lparr>nt_notification_id = None, nt_channel = ''telegram'', nt_idempotency_key = ?key, nt_outcome = known_transient,
     nt_provider_code = Some 503, nt_retry_after = None, nt_provider_message_id = None, nt_reused = False\<rparr>"
  have c: "ob_dispatch_status lw_message = claimed" "ob_id lw_message = ''m1''" "ob_attempts lw_message = 0"
    by (simp_all add: lw_message_def dw_message_def new_message_def)
  have "\<exists>d. require_approval 5 dw_principal P5 (dw_grants dw_principal lw_message ?key) ''notification.send'' ?key None = Inr d"
  proof -
    have "case require_approval 5 dw_principal P5 (dw_grants dw_principal lw_message ?key) ''notification.send'' ?key None of
        Inl _ \<Rightarrow> False | Inr _ \<Rightarrow> True" by code_simp
    then show ?thesis by (simp split: sum.splits)
  qed
  then obtain d where ap: "require_approval ((\<lambda>_. 5) (wd_ticks lw_world)) dw_principal P5 (dw_grants dw_principal lw_message ?key)
      ''notification.send'' ?key None = Inr d" by blast
  have rq: "notification_request_of lw_message ?key = Inr ?rq" by code_simp
  have clock: "\<forall>n::nat. \<exists>t. Aware 5 = Aware t \<and> in_datetime_range t" by (simp add: in_datetime_range_def datetime_min_def datetime_max_def)
  have send: "lw_send known_transient dw_principal ?rq (dw_grants dw_principal lw_message ?key) s = (?res, s)" for s
    by (simp add: lw_send_def)
  have v: "\<forall>r. ?res = Some r \<longrightarrow> NotificationResult_validate r = Inr r" by (simp add: NotificationResult_validate_def)
  from dispatch_one_settles [where send = "lw_send known_transient" and grants = dw_grants and res = ?res and wall = "\<lambda>_. 5" and clock = "\<lambda>_. Aware 5" and now = 3,
      OF lw_linked c(1) ap rq clock send v]
  show ?thesis
    by (auto simp: attempt_effect_def attempt_status_def answers_def settled_status_def MAX_DELIVERY_ATTEMPTS_def c linked_def lw_world_def
        dw_principal_def)
qed

end
