(* ===== verification/Approval_Store.thy ===== *)
theory Approval_Store
  imports Access_Control Contracts
begin

text \<open>
  Pending approvals and their store: \<open>PendingApproval\<close> of
  \<^verbatim>\<open>application/dto/commands.py\<close> and the class \<open>InMemoryApprovalStore\<close> of
  \<^verbatim>\<open>adapters/persistence/in_memory.py\<close>. \<open>fp\<close> is JSON and SHA-256 applied to the
  identifying fields; \<open>clock\<close> the time read by an update. The records are constructed
  objects.
\<close>

section \<open>Definitions\<close>

datatype pending_approval_status = pa_pending | pa_approved | pa_cancelled

record pending_approval =
  pa_approval_id :: string
  pa_tenant_id :: string
  pa_principal_id :: string
  pa_action :: string
  pa_resource :: string
  pa_tier :: string
  pa_workflow_kind :: string
  pa_message_id :: string
  pa_source_event_id :: string
  pa_conversation_id :: string
  pa_channel :: string
  pa_recipient :: string
  pa_request_text :: string
  pa_request_now :: instant
  pa_timezone :: string
  pa_idempotency_key :: string
  pa_payload_fingerprint :: string
  pa_status :: pending_approval_status
  pa_created_at :: instant
  pa_updated_at :: "instant option"

text \<open>The hashed fields: everything but the processing times and the status.\<close>

definition approval_fields :: "pending_approval \<Rightarrow> (string \<times> string) list" where
  "approval_fields a =
     [(''approval_id'', pa_approval_id a), (''tenant_id'', pa_tenant_id a),
      (''principal_id'', pa_principal_id a), (''action'', pa_action a),
      (''resource'', pa_resource a), (''tier'', pa_tier a),
      (''workflow_kind'', pa_workflow_kind a), (''idempotency_key'', pa_idempotency_key a),
      (''message_id'', pa_message_id a), (''source_event_id'', pa_source_event_id a),
      (''conversation_id'', pa_conversation_id a), (''channel'', pa_channel a),
      (''recipient'', pa_recipient a), (''request_text'', pa_request_text a),
      (''timezone'', pa_timezone a), (''payload_fingerprint'', pa_payload_fingerprint a)]"

type_synonym fields_fp = "(string \<times> string) list \<Rightarrow> string"

definition approval_hash :: "fields_fp \<Rightarrow> pending_approval \<Rightarrow> string" where
  "approval_hash fp a = fp (approval_fields a)"

type_synonym approval_key = "string \<times> string \<times> string \<times> string"

record approval_store =
  as_approvals_by_id :: "(string \<times> string, pending_approval) dict"
  as_approval_id_by_key :: "(approval_key, string) dict"
  as_fingerprints :: "(string \<times> string, string) dict"

definition InMemoryApprovalStore_init :: approval_store where
  "InMemoryApprovalStore_init =
     \<lparr>as_approvals_by_id = [], as_approval_id_by_key = [], as_fingerprints = []\<rparr>"

abbreviation approval_error :: "error_code \<Rightarrow> string \<Rightarrow> principal \<Rightarrow> py_error" where
  "approval_error code msg p \<equiv> AssistantError code msg (Some (pr_tenant_id p)) []"

definition approval_create ::
    "fields_fp \<Rightarrow> principal \<Rightarrow> pending_approval \<Rightarrow> (approval_store, pending_approval) op" where
  "approval_create fp p a s =
     (case require_trusted_principal p of Inl e \<Rightarrow> (Inl e, s) | Inr _ \<Rightarrow>
      if pa_tenant_id a \<noteq> pr_tenant_id p \<or> pa_principal_id a \<noteq> pr_principal_id p
      then (Inl (approval_error PERMISSION_DENIED ''approval principal mismatch'' p), s)
      else case coerce_tier (pa_tier a) of Inl e \<Rightarrow> (Inl e, s) | Inr tier \<Rightarrow>
      if rank tier < rank P3
      then (Inl (approval_error VALIDATION_FAILED ''approval requests are only valid for P3+ actions'' p), s)
      else
       (let ikey = (pr_tenant_id p, pr_principal_id p, pa_workflow_kind a, pa_idempotency_key a);
            afp = approval_hash fp a in
        case map_of (as_approval_id_by_key s) ikey of
          Some existing_id \<Rightarrow>
            (case map_of (as_fingerprints s) (pr_tenant_id p, existing_id) of
               None \<Rightarrow> (Inl KeyError, s)
             | Some f \<Rightarrow>
                 if f \<noteq> afp
                 then (Inl (approval_error CONFLICT ''approval request idempotency conflict'' p), s)
                 else case map_of (as_approvals_by_id s) (pr_tenant_id p, existing_id) of
                        None \<Rightarrow> (Inl KeyError, s)
                      | Some b \<Rightarrow> (Inr b, s))
        | None \<Rightarrow>
            (let key = (pr_tenant_id p, pa_approval_id a) in
             (Inr a, s\<lparr>as_approvals_by_id := AList.update key a (as_approvals_by_id s),
                       as_approval_id_by_key := AList.update ikey (pa_approval_id a) (as_approval_id_by_key s),
                       as_fingerprints := AList.update key afp (as_fingerprints s)\<rparr>))))"

definition approval_get :: "principal \<Rightarrow> string \<Rightarrow> (approval_store, pending_approval option) op" where
  "approval_get p approval_id s =
     (case require_trusted_principal p of Inl e \<Rightarrow> (Inl e, s) | Inr _ \<Rightarrow>
      (Inr (case map_of (as_approvals_by_id s) (pr_tenant_id p, approval_id) of
              None \<Rightarrow> None
            | Some a \<Rightarrow> if pa_principal_id a \<noteq> pr_principal_id p then None else Some a), s))"

definition approval_list_pending :: "principal \<Rightarrow> (approval_store, pending_approval list) op" where
  "approval_list_pending p s =
     (case require_trusted_principal p of Inl e \<Rightarrow> (Inl e, s) | Inr _ \<Rightarrow>
      (Inr (map snd (filter (\<lambda>(k, a). fst k = pr_tenant_id p \<and> pa_principal_id a = pr_principal_id p
                                       \<and> pa_status a = pa_pending) (as_approvals_by_id s))), s))"

definition approval_list_for_tenant :: "principal \<Rightarrow> (approval_store, pending_approval list) op" where
  "approval_list_for_tenant p s =
     (case require_trusted_principal p of Inl e \<Rightarrow> (Inl e, s) | Inr _ \<Rightarrow>
      (Inr (map snd (filter (\<lambda>(k, a). fst k = pr_tenant_id p \<and> pa_principal_id a = pr_principal_id p)
                       (as_approvals_by_id s))), s))"

definition set_approval_status ::
    "instant \<Rightarrow> principal \<Rightarrow> string \<Rightarrow> pending_approval_status \<Rightarrow> pending_approval
       \<Rightarrow> (approval_store, pending_approval) op" where
  "set_approval_status clock p approval_id st a s =
     (let updated = a\<lparr>pa_status := st, pa_updated_at := Some clock\<rparr> in
      (Inr updated, s\<lparr>as_approvals_by_id :=
         AList.update (pr_tenant_id p, approval_id) updated (as_approvals_by_id s)\<rparr>))"

definition approval_mark_approved ::
    "instant \<Rightarrow> principal \<Rightarrow> string \<Rightarrow> (approval_store, pending_approval) op" where
  "approval_mark_approved clock p approval_id =
     bindS (approval_get p approval_id) (\<lambda>r.
       case r of
         None \<Rightarrow> raise (approval_error NOT_FOUND ''approval not found'' p)
       | Some a \<Rightarrow> if pa_status a \<noteq> pa_pending then ret a
                  else set_approval_status clock p approval_id pa_approved a)"

definition approval_approve ::
    "fields_fp \<Rightarrow> instant \<Rightarrow> principal \<Rightarrow> string \<Rightarrow> (approval_store, approval_grant) op" where
  "approval_approve fp clock p approval_id =
     bindS (approval_get p approval_id) (\<lambda>r.
       case r of
         None \<Rightarrow> raise (approval_error NOT_FOUND ''approval not found'' p)
       | Some a \<Rightarrow>
          if pa_status a = pa_cancelled
          then raise (approval_error PERMISSION_DENIED ''approval was cancelled'' p)
          else
            bindS (lift (coerce_tier (pa_tier a))) (\<lambda>tier.
            bindS (lift (PermissionRequest_make (pa_action a) (pa_resource a) tier None)) (\<lambda>request.
            bindS (lift (require_permission p request)) (\<lambda>_.
            bindS (if pa_status a = pa_pending then approval_mark_approved clock p approval_id else ret a) (\<lambda>b.
              lift (ApprovalGrant_issue p (pa_action b) tier (pa_resource b) (pa_approval_id b) None
                      (Some (approval_hash fp b))))))))"

definition approval_cancel ::
    "instant \<Rightarrow> principal \<Rightarrow> string \<Rightarrow> (approval_store, pending_approval) op" where
  "approval_cancel clock p approval_id =
     bindS (approval_get p approval_id) (\<lambda>r.
       case r of
         None \<Rightarrow> raise (approval_error NOT_FOUND ''approval not found'' p)
       | Some a \<Rightarrow>
          if pa_status a = pa_approved
          then raise (approval_error CONFLICT ''approved approval cannot be cancelled'' p)
          else if pa_status a = pa_cancelled then ret a
          else set_approval_status clock p approval_id pa_cancelled a)"

definition approval_reject ::
    "instant \<Rightarrow> principal \<Rightarrow> string \<Rightarrow> (approval_store, pending_approval) op" where
  "approval_reject clock p approval_id = approval_cancel clock p approval_id"

section \<open>Decisions are final\<close>

text \<open>
  The calls that decide an approval, and the calls that create one. A creation is
  \<open>fresh\<close> when its approval id is not in use in the tenant.
\<close>

inductive approval_step :: "fields_fp \<Rightarrow> principal \<Rightarrow> approval_store \<Rightarrow> approval_store \<Rightarrow> bool"
  for fp p where
  mark_approved: "approval_mark_approved clock p i s = (r, s') \<Longrightarrow> approval_step fp p s s'"
| approve: "approval_approve fp clock p i s = (g, s') \<Longrightarrow> approval_step fp p s s'"
| cancel: "approval_cancel clock p i s = (r, s') \<Longrightarrow> approval_step fp p s s'"
| reject: "approval_reject clock p i s = (r, s') \<Longrightarrow> approval_step fp p s s'"
| create: "approval_create fp p a s = (r, s') \<Longrightarrow>
     map_of (as_approvals_by_id s) (pr_tenant_id p, pa_approval_id a) = None
     \<or> (\<exists>i. map_of (as_approval_id_by_key s)
             (pr_tenant_id p, pr_principal_id p, pa_workflow_kind a, pa_idempotency_key a) = Some i)
     \<Longrightarrow> approval_step fp p s s'"

inductive_cases approval_stepE: "approval_step fp p s s'"

definition decided :: "instant \<Rightarrow> pending_approval_status \<Rightarrow> pending_approval \<Rightarrow> pending_approval" where
  "decided clock st a = a\<lparr>pa_status := st, pa_updated_at := Some clock\<rparr>"

text \<open>The effect of a step: nothing, one pending approval of the caller decided, or one new approval.\<close>

definition approval_effect :: "principal \<Rightarrow> approval_store \<Rightarrow> approval_store \<Rightarrow> bool" where
  "approval_effect p s s' \<longleftrightarrow> s' = s
     \<or> (\<exists>i a clock st. map_of (as_approvals_by_id s) (pr_tenant_id p, i) = Some a
          \<and> pa_principal_id a = pr_principal_id p \<and> pa_status a = pa_pending
          \<and> (st = pa_approved \<and> is_trusted p \<or> st = pa_cancelled)
          \<and> s' = s\<lparr>as_approvals_by_id :=
                AList.update (pr_tenant_id p, i) (decided clock st a) (as_approvals_by_id s)\<rparr>)
     \<or> (\<exists>a f ik. map_of (as_approvals_by_id s) (pr_tenant_id p, pa_approval_id a) = None
          \<and> pa_tenant_id a = pr_tenant_id p \<and> pa_principal_id a = pr_principal_id p
          \<and> map_of (as_approval_id_by_key s) ik = None
          \<and> ik = (pr_tenant_id p, pr_principal_id p, pa_workflow_kind a, pa_idempotency_key a)
          \<and> s' = s\<lparr>as_approvals_by_id := AList.update (pr_tenant_id p, pa_approval_id a) a (as_approvals_by_id s),
                    as_approval_id_by_key := AList.update ik (pa_approval_id a) (as_approval_id_by_key s),
                    as_fingerprints := AList.update (pr_tenant_id p, pa_approval_id a) f (as_fingerprints s)\<rparr>)"

lemma approval_get_cases:
  "approval_get p i s = (r, t) \<longleftrightarrow> t = s \<and>
     r = (if is_trusted p then
            (case map_of (as_approvals_by_id s) (pr_tenant_id p, i) of
              None \<Rightarrow> Inr None
            | Some a \<Rightarrow> if pa_principal_id a = pr_principal_id p then Inr (Some a) else Inr None)
          else Inl (AssistantError AUTHENTICATION_REQUIRED
             ''principal must be derived from verified auth'' (Some (pr_tenant_id p)) []))"
  by (auto simp: approval_get_def require_trusted_principal_cases split: option.splits)

lemma approval_get_eq:
  "approval_get p i s = (fst (approval_get p i s), s)"
  by (auto simp: approval_get_def require_trusted_principal_cases split: sum.splits)

lemma set_approval_status_effect:
  assumes "map_of (as_approvals_by_id s) (pr_tenant_id p, i) = Some a" and "pa_principal_id a = pr_principal_id p"
    and "pa_status a = pa_pending" and "st = pa_approved \<and> is_trusted p \<or> st = pa_cancelled"
  shows "approval_effect p s (snd (set_approval_status clock p i st a s))"
  unfolding approval_effect_def set_approval_status_def Let_def snd_conv
  using assms by (intro disjI2 disjI1 exI [of _ i] exI [of _ a] exI [of _ clock] exI [of _ st]) (simp add: decided_def)

lemma effect_refl [simp]: "approval_effect p s s"
  by (simp add: approval_effect_def)

lemma mark_approved_effect: "approval_effect p s (snd (approval_mark_approved clock p i s))"
  unfolding approval_mark_approved_def bindS_cases
  by (cases "map_of (as_approvals_by_id s) (pr_tenant_id p, i)")
    (auto simp: approval_get_def require_trusted_principal_cases intro: set_approval_status_effect)

lemma pa_status_cases: "pa_status a \<noteq> pa_cancelled \<Longrightarrow> pa_status a \<noteq> pa_approved \<Longrightarrow> pa_status a = pa_pending"
  by (cases "pa_status a") auto

lemma cancel_effect: "approval_effect p s (snd (approval_cancel clock p i s))"
  unfolding approval_cancel_def bindS_cases
  by (cases "map_of (as_approvals_by_id s) (pr_tenant_id p, i)")
    (auto simp: approval_get_def require_trusted_principal_cases
        intro: set_approval_status_effect pa_status_cases)

lemma approve_state:
  "snd (approval_approve fp clock p i s) = s
   \<or> snd (approval_approve fp clock p i s) = snd (approval_mark_approved clock p i s)"
  by (auto simp: approval_approve_def bindS_cases approval_get_def require_trusted_principal_cases
      split: sum.splits option.splits prod.splits)

lemma approval_step_effect: "approval_step fp p s s' \<Longrightarrow> approval_effect p s s'"
proof (elim approval_stepE)
  fix clock i r
  show "approval_mark_approved clock p i s = (r, s') \<Longrightarrow> ?thesis"
    using mark_approved_effect [of p s clock i] by simp
next
  fix clock i g
  show "approval_approve fp clock p i s = (g, s') \<Longrightarrow> ?thesis"
    using approve_state [of fp clock p i s] mark_approved_effect [of p s clock i] by auto
next
  fix clock i r
  show "approval_cancel clock p i s = (r, s') \<Longrightarrow> ?thesis"
    using cancel_effect [of p s clock i] by simp
next
  fix clock i r
  show "approval_reject clock p i s = (r, s') \<Longrightarrow> ?thesis"
    using cancel_effect [of p s clock i] by (simp add: approval_reject_def)
next
  fix a :: pending_approval and r
  let ?ik = "(pr_tenant_id p, pr_principal_id p, pa_workflow_kind a, pa_idempotency_key a)"
  assume c: "approval_create fp p a s = (r, s')"
    and f: "map_of (as_approvals_by_id s) (pr_tenant_id p, pa_approval_id a) = None
      \<or> (\<exists>i. map_of (as_approval_id_by_key s) ?ik = Some i)"
  show ?thesis
  proof (cases "s' = s")
    case False
    with c have n: "map_of (as_approval_id_by_key s) ?ik = None"
      "pa_tenant_id a = pr_tenant_id p" "pa_principal_id a = pr_principal_id p"
      "s' = s\<lparr>as_approvals_by_id := AList.update (pr_tenant_id p, pa_approval_id a) a (as_approvals_by_id s),
              as_approval_id_by_key := AList.update ?ik (pa_approval_id a) (as_approval_id_by_key s),
              as_fingerprints := AList.update (pr_tenant_id p, pa_approval_id a) (approval_hash fp a) (as_fingerprints s)\<rparr>"
      by (auto simp: approval_create_def Let_def split: if_splits sum.splits option.splits)
    with f show ?thesis unfolding approval_effect_def by auto
  qed simp
qed

definition approval_inv :: "approval_store \<Rightarrow> bool" where
  "approval_inv s \<longleftrightarrow> distinct (map fst (as_approvals_by_id s))
     \<and> (\<forall>t i a. map_of (as_approvals_by_id s) (t, i) = Some a \<longrightarrow> pa_tenant_id a = t \<and> pa_approval_id a = i)
     \<and> (\<forall>t q w k i. map_of (as_approval_id_by_key s) (t, q, w, k) = Some i \<longrightarrow>
          map_of (as_fingerprints s) (t, i) \<noteq> None
          \<and> (\<exists>a. map_of (as_approvals_by_id s) (t, i) = Some a \<and> pa_principal_id a = q
                  \<and> pa_workflow_kind a = w \<and> pa_idempotency_key a = k))"

lemma approval_inv_approval:
  "approval_inv s \<Longrightarrow> map_of (as_approvals_by_id s) (t, i) = Some a \<Longrightarrow> pa_tenant_id a = t \<and> pa_approval_id a = i"
  unfolding approval_inv_def by blast

lemma approval_inv_index:
  "approval_inv s \<Longrightarrow> map_of (as_approval_id_by_key s) (t, q, w, k) = Some i \<Longrightarrow>
     map_of (as_fingerprints s) (t, i) \<noteq> None
     \<and> (\<exists>a. map_of (as_approvals_by_id s) (t, i) = Some a \<and> pa_principal_id a = q
             \<and> pa_workflow_kind a = w \<and> pa_idempotency_key a = k)"
  unfolding approval_inv_def by blast

lemma decided_sel [simp]:
  "pa_tenant_id (decided c st a) = pa_tenant_id a" "pa_approval_id (decided c st a) = pa_approval_id a"
  "pa_principal_id (decided c st a) = pa_principal_id a" "pa_workflow_kind (decided c st a) = pa_workflow_kind a"
  "pa_idempotency_key (decided c st a) = pa_idempotency_key a" "pa_status (decided c st a) = st"
  by (simp_all add: decided_def)

lemma decide_inv:
  assumes inv: "approval_inv s" and a: "map_of (as_approvals_by_id s) (t, i) = Some a"
  shows "approval_inv (s\<lparr>as_approvals_by_id := AList.update (t, i) (decided c st a) (as_approvals_by_id s)\<rparr>)"
proof -
  let ?s = "s\<lparr>as_approvals_by_id := AList.update (t, i) (decided c st a) (as_approvals_by_id s)\<rparr>"
  have "\<exists>b. map_of (as_approvals_by_id ?s) (t', i') = Some b \<and> pa_principal_id b = q
      \<and> pa_workflow_kind b = w \<and> pa_idempotency_key b = k"
    if "map_of (as_approval_id_by_key ?s) (t', q, w, k) = Some i'" for t' q w k i'
    using approval_inv_index [OF inv, of t' q w k i'] that a by (auto simp: map_of_update)
  moreover have "map_of (as_fingerprints ?s) (t', i') \<noteq> None"
    if "map_of (as_approval_id_by_key ?s) (t', q, w, k) = Some i'" for t' q w k i'
    using approval_inv_index [OF inv, of t' q w k i'] that by simp
  moreover have "pa_tenant_id b = t' \<and> pa_approval_id b = i'"
    if "map_of (as_approvals_by_id ?s) (t', i') = Some b" for t' i' b
    using that approval_inv_approval [OF inv] a by (auto simp: map_of_update split: if_splits)
  moreover have "distinct (map fst (as_approvals_by_id ?s))" using inv by (simp add: approval_inv_def)
  ultimately show ?thesis unfolding approval_inv_def by blast
qed

lemma create_inv:
  assumes inv: "approval_inv s" and new: "map_of (as_approvals_by_id s) (t, pa_approval_id a) = None"
    and "pa_tenant_id a = t" and "pa_principal_id a = q"
  shows "approval_inv (s\<lparr>as_approvals_by_id := AList.update (t, pa_approval_id a) a (as_approvals_by_id s),
       as_approval_id_by_key := AList.update (t, q, pa_workflow_kind a, pa_idempotency_key a)
          (pa_approval_id a) (as_approval_id_by_key s),
       as_fingerprints := AList.update (t, pa_approval_id a) f (as_fingerprints s)\<rparr>)" (is "approval_inv ?s")
proof -
  have "map_of (as_fingerprints ?s) (t', i') \<noteq> None
      \<and> (\<exists>b. map_of (as_approvals_by_id ?s) (t', i') = Some b \<and> pa_principal_id b = q'
      \<and> pa_workflow_kind b = w \<and> pa_idempotency_key b = k)"
    if "map_of (as_approval_id_by_key ?s) (t', q', w, k) = Some i'" for t' q' w k i'
  proof (cases "(t', q', w, k) = (t, q, pa_workflow_kind a, pa_idempotency_key a)")
    case True
    with that assms(4) show ?thesis by (auto simp: map_of_update)
  next
    case False
    with that have "map_of (as_approval_id_by_key s) (t', q', w, k) = Some i'"
      by (auto simp: map_of_update split: if_splits)
    from approval_inv_index [OF inv this] new show ?thesis by (auto simp: map_of_update)
  qed
  moreover have "pa_tenant_id b = t' \<and> pa_approval_id b = i'"
    if "map_of (as_approvals_by_id ?s) (t', i') = Some b" for t' i' b
    using that approval_inv_approval [OF inv] assms(3) by (auto simp: map_of_update split: if_splits)
  moreover have "distinct (map fst (as_approvals_by_id ?s))" using inv by (simp add: approval_inv_def)
  ultimately show ?thesis unfolding approval_inv_def by blast
qed

lemma approval_effect_inv: "approval_effect p s s' \<Longrightarrow> approval_inv s \<Longrightarrow> approval_inv s'"
  unfolding approval_effect_def by (auto intro: decide_inv create_inv)

interpretation aps: tenant_machine "approval_step fp" approval_inv InMemoryApprovalStore_init
    pr_tenant_id "\<lambda>t s. tenant_part t (as_approvals_by_id s)" for fp
proof unfold_locales
  show "approval_inv InMemoryApprovalStore_init"
    by (simp add: approval_inv_def InMemoryApprovalStore_init_def)
  show "approval_inv s'" if "approval_step fp p s s'" "approval_inv s" for p s s'
    using approval_effect_inv [OF approval_step_effect [OF that(1)] that(2)] .
  show "tenant_part t (as_approvals_by_id s') = tenant_part t (as_approvals_by_id s)"
    if "approval_step fp p s s'" "approval_inv s" "t \<noteq> pr_tenant_id p" for p s s' t
    using approval_step_effect [OF that(1)] that(3) by (auto simp: approval_effect_def)
qed

text \<open>What can become of a stored approval.\<close>

definition approval_evolves :: "pending_approval \<Rightarrow> pending_approval \<Rightarrow> bool" where
  "approval_evolves a b \<longleftrightarrow> b = a \<or>
     (pa_status a = pa_pending \<and> pa_status b \<noteq> pa_pending
      \<and> b = a\<lparr>pa_status := pa_status b, pa_updated_at := pa_updated_at b\<rparr>)"

lemma approval_step_evolves:
  assumes "approval_step fp p s s'" and "map_of (as_approvals_by_id s) (t, i) = Some a"
  shows "\<exists>b. map_of (as_approvals_by_id s') (t, i) = Some b \<and> approval_evolves a b
     \<and> (b \<noteq> a \<longrightarrow> t = pr_tenant_id p \<and> pa_principal_id a = pr_principal_id p)"
  using approval_step_effect [OF assms(1)] assms(2)
  by (auto simp: approval_effect_def approval_evolves_def map_of_update decided_def)

section \<open>Properties\<close>

lemma approval_run_evolves:
  assumes "(\<lambda>s s'. \<exists>p \<in> P. approval_step fp p s s')\<^sup>*\<^sup>* s s'"
    and "map_of (as_approvals_by_id s) (t, i) = Some a"
  shows "\<exists>b. map_of (as_approvals_by_id s') (t, i) = Some b \<and>
     (b = a \<or>
      pa_status a = pa_pending \<and> pa_status b \<noteq> pa_pending
      \<and> b = a\<lparr>pa_status := pa_status b, pa_updated_at := pa_updated_at b\<rparr>
      \<and> (\<exists>p \<in> P. pr_tenant_id p = t \<and> pr_principal_id p = pa_principal_id a))"
  using assms(1)
proof (induction rule: rtranclp_induct)
  case base
  show ?case using assms(2) by simp
next
  case (step u v)
  then obtain b p where b: "map_of (as_approvals_by_id u) (t, i) = Some b" and p: "p \<in> P" "approval_step fp p u v"
    and h: "b = a \<or> pa_status a = pa_pending \<and> pa_status b \<noteq> pa_pending
      \<and> b = a\<lparr>pa_status := pa_status b, pa_updated_at := pa_updated_at b\<rparr>
      \<and> (\<exists>p \<in> P. pr_tenant_id p = t \<and> pr_principal_id p = pa_principal_id a)" by blast
  from approval_step_evolves [OF p(2) b] obtain c where c: "map_of (as_approvals_by_id v) (t, i) = Some c"
    "approval_evolves b c" "c \<noteq> b \<longrightarrow> t = pr_tenant_id p \<and> pa_principal_id b = pr_principal_id p" by blast
  show ?case
  proof (cases "c = b")
    case True
    with c h show ?thesis by blast
  next
    case False
    with c(2) h have "b = a" by (auto simp: approval_evolves_def)
    with False c p(1) show ?thesis by (auto simp: approval_evolves_def)
  qed
qed

lemma approve_Inr:
  assumes "approval_approve fp clock p i s = (Inr g, s')"
  obtains a tier where "is_trusted p" "map_of (as_approvals_by_id s) (pr_tenant_id p, i) = Some a"
    "pa_principal_id a = pr_principal_id p" "pa_status a \<noteq> pa_cancelled" "coerce_tier (pa_tier a) = Inr tier"
    "tier \<le> pr_permission_tier p"
    "ApprovalGrant_issue p (pa_action a) tier (pa_resource a) (pa_approval_id a) None
       (Some (approval_hash fp a)) = Inr g"
    "map_of (as_approvals_by_id s') (pr_tenant_id p, i) =
       Some (if pa_status a = pa_pending then decided clock pa_approved a else a)"
proof -
  from assms obtain a where t: "is_trusted p" and a: "map_of (as_approvals_by_id s) (pr_tenant_id p, i) = Some a"
    "pa_principal_id a = pr_principal_id p" and st: "pa_status a \<noteq> pa_cancelled"
    by (auto simp: approval_approve_def bindS_cases approval_get_def require_trusted_principal_cases
        split: if_splits option.splits)
  have get: "approval_get p i s = (Inr (Some a), s)"
    using t a by (simp add: approval_get_def require_trusted_principal_cases)
  have mark: "approval_mark_approved clock p i s = (if pa_status a = pa_pending
      then set_approval_status clock p i pa_approved a s else (Inr a, s))"
    by (simp add: approval_mark_approved_def bindS_cases get)
  from assms get st obtain tier req d where tier: "coerce_tier (pa_tier a) = Inr tier"
    and req: "PermissionRequest_make (pa_action a) (pa_resource a) tier None = Inr req"
    and perm: "require_permission p req = Inr d"
    by (auto simp: approval_approve_def bindS_cases split: sum.splits)
  have le: "tier \<le> pr_permission_tier p"
    using perm PermissionRequest_make_fields [OF req] by (simp add: require_permission_Inr dec_allowed_evaluate)
  have h: "approval_hash fp (a\<lparr>pa_status := x, pa_updated_at := y\<rparr>) = approval_hash fp a" for x y
    by (simp add: approval_hash_def approval_fields_def)
  have "ApprovalGrant_issue p (pa_action a) tier (pa_resource a) (pa_approval_id a) None
      (Some (approval_hash fp a)) = Inr g \<and> map_of (as_approvals_by_id s') (pr_tenant_id p, i) =
       Some (if pa_status a = pa_pending then decided clock pa_approved a else a)"
    using assms get st tier req perm mark a
    by (auto simp: approval_approve_def bindS_cases set_approval_status_def Let_def h decided_def map_of_update
        split: if_splits)
  with that t a st tier le show ?thesis by blast
qed

text \<open>What an approval grants.
  When \<open>approve\<close> returns a grant, the approval belongs to the caller, was not cancelled
  and asks for a tier the caller has; afterwards it is approved. The grant is trusted, bound
  to the caller's tenant and identity, to the action, resource and tier of the approval, and
  to the hash of its request, so it opens the gate for exactly that.\<close>

theorem approve_grant_bound:
  assumes "approval_approve fp clock p i s = (Inr g, s')"
  shows "\<exists>a tier. map_of (as_approvals_by_id s) (pr_tenant_id p, i) = Some a
     \<and> pa_principal_id a = pr_principal_id p \<and> pa_status a \<noteq> pa_cancelled
     \<and> coerce_tier (pa_tier a) = Inr tier \<and> tier \<le> pr_permission_tier p \<and> is_trusted p
     \<and> map_option pa_status (map_of (as_approvals_by_id s') (pr_tenant_id p, i)) = Some pa_approved
     \<and> grant_is_trusted g \<and> ap_approved g \<and> ap_tenant_id g = py_strip (pr_tenant_id p)
     \<and> ap_principal_id g = py_strip (pr_principal_id p) \<and> ap_action g = py_strip (pa_action a)
     \<and> ap_resource g = py_strip (pa_resource a) \<and> ap_tier g = tier \<and> ap_expires_at g = None
     \<and> ap_request_hash g = Some (py_strip (approval_hash fp a))"
proof -
  obtain a tier where a: "is_trusted p" "map_of (as_approvals_by_id s) (pr_tenant_id p, i) = Some a"
    "pa_principal_id a = pr_principal_id p" "pa_status a \<noteq> pa_cancelled" "coerce_tier (pa_tier a) = Inr tier"
    "tier \<le> pr_permission_tier p"
    and g: "ApprovalGrant_issue p (pa_action a) tier (pa_resource a) (pa_approval_id a) None
       (Some (approval_hash fp a)) = Inr g"
    and s': "map_of (as_approvals_by_id s') (pr_tenant_id p, i) =
       Some (if pa_status a = pa_pending then decided clock pa_approved a else a)"
    by (rule approve_Inr [OF assms])
  have "map_option pa_status (map_of (as_approvals_by_id s') (pr_tenant_id p, i)) = Some pa_approved"
    using s' pa_status_cases [OF a(4)] by auto
  with a g show ?thesis
    by (auto simp: ApprovalGrant_issue_def grant_is_trusted_def split: if_splits)
qed

text \<open>a cancelled approval never grants anything.
  After an approval was cancelled, and whatever calls follow (creations not reusing its
  id), \<open>approve\<close> by its principal raises PERMISSION_DENIED and changes nothing.\<close>

theorem cancelled_never_grants:
  assumes "(\<lambda>s s'. \<exists>p \<in> P. approval_step fp p s s')\<^sup>*\<^sup>* s s'"
    and "map_of (as_approvals_by_id s) (pr_tenant_id p, i) = Some a" and "pa_status a = pa_cancelled"
    and "pa_principal_id a = pr_principal_id p" and "is_trusted p"
  shows "approval_approve fp clock p i s' =
     (Inl (AssistantError PERMISSION_DENIED ''approval was cancelled'' (Some (pr_tenant_id p)) []), s')"
proof -
  from approval_run_evolves [OF assms(1,2)] assms(3)
  have "map_of (as_approvals_by_id s') (pr_tenant_id p, i) = Some a" by auto
  then show ?thesis using assms(3-5)
    by (simp add: approval_approve_def bindS_cases approval_get_def require_trusted_principal_cases)
qed

text \<open>A creation that reuses an approval id replaces the stored approval.
  \<open>create\<close> checks the idempotency key only. If another principal of the tenant creates an
  approval whose id is already in use, the call succeeds, the stored approval is replaced and
  its principal no longer finds it: the durable store's primary key on tenant and approval
  id has no counterpart here.\<close>

theorem create_overwrites_foreign_approval:
  assumes "is_trusted p" and "is_trusted q" and "pr_tenant_id q = pr_tenant_id p"
    and "pr_principal_id q \<noteq> pr_principal_id p"
    and "map_of (as_approvals_by_id s) (pr_tenant_id p, pa_approval_id a) = Some b"
    and "pa_principal_id b = pr_principal_id p"
    and "pa_tenant_id a = pr_tenant_id q" and "pa_principal_id a = pr_principal_id q"
    and "coerce_tier (pa_tier a) = Inr tier" and "P3 \<le> tier"
    and "map_of (as_approval_id_by_key s)
           (pr_tenant_id q, pr_principal_id q, pa_workflow_kind a, pa_idempotency_key a) = None"
  shows "fst (approval_get p (pa_approval_id a) s) = Inr (Some b)
     \<and> fst (approval_create fp q a s) = Inr a
     \<and> fst (approval_get p (pa_approval_id a) (snd (approval_create fp q a s))) = Inr None"
proof -
  have "\<not> rank tier < rank P3" using assms(10) by (simp add: less_eq_permission_tier_def)
  with assms show ?thesis
    by (simp add: approval_create_def approval_get_def require_trusted_principal_cases Let_def map_of_update)
qed

section \<open>Concrete instances\<close>

definition demo_approval :: "string \<Rightarrow> pending_approval" where
  "demo_approval q = \<lparr>pa_approval_id = ''ap_1'', pa_tenant_id = ''t1'', pa_principal_id = q,
     pa_action = ''calendar.create_event'', pa_resource = ''k1'', pa_tier = ''P3'',
     pa_workflow_kind = ''reminder'', pa_message_id = ''m'', pa_source_event_id = ''e'',
     pa_conversation_id = ''c'', pa_channel = ''telegram'', pa_recipient = ''r'', pa_request_text = ''x'',
     pa_request_now = 0, pa_timezone = ''UTC'', pa_idempotency_key = ''k1'', pa_payload_fingerprint = ''f'',
     pa_status = pa_pending, pa_created_at = 0, pa_updated_at = None\<rparr>"

definition demo_approvals :: "pending_approval_status \<Rightarrow> approval_store" where
  "demo_approvals st = \<lparr>as_approvals_by_id = [((''t1'', ''ap_1''), (demo_approval ''u1'')\<lparr>pa_status := st\<rparr>)],
     as_approval_id_by_key = [((''t1'', ''u1'', ''reminder'', ''k1''), ''ap_1'')],
     as_fingerprints = [((''t1'', ''ap_1''), ''h'')]\<rparr>"

definition demo_other :: principal where
  "demo_other = demo_principal\<lparr>pr_principal_id := ''u2'', pr_auth_subject := ''u2''\<rparr>"

theorem create_overwrites_foreign_approval_witness:
  "fst (approval_get demo_principal ''ap_1''
      (snd (approval_create (\<lambda>_. ''h2'') demo_other (demo_approval ''u2'') (demo_approvals pa_approved)))) = Inr None"
proof -
  have t: "is_trusted demo_other" by (simp add: demo_other_def demo_principal_def is_trusted_def)
  from create_overwrites_foreign_approval [OF demo_principal_facts(1) t, where a = "demo_approval ''u2''"
      and s = "demo_approvals pa_approved" and b = "(demo_approval ''u1'')\<lparr>pa_status := pa_approved\<rparr>"
      and tier = P3 and fp = "\<lambda>_. ''h2''"]
  show ?thesis
    by (simp add: demo_other_def demo_approval_def demo_approvals_def coerce_tier_def
        less_eq_permission_tier_def)
qed

lemma demo_step:
  "approval_step (\<lambda>_. ''h'') demo_principal (demo_approvals st)
     (snd (approval_cancel 5 demo_principal ''ap_1'' (demo_approvals st)))"
  by (rule approval_step.cancel [of _ _ _ _ "fst (approval_cancel 5 demo_principal ''ap_1'' (demo_approvals st))"]) simp

lemma demo_run_step:
  "(\<lambda>s s'. \<exists>p \<in> {demo_principal}. approval_step (\<lambda>_. ''h'') p s s')\<^sup>*\<^sup>* (demo_approvals st)
     (snd (approval_cancel 5 demo_principal ''ap_1'' (demo_approvals st)))"
  using demo_step by blast


theorem cancelled_never_grants_witness:
  "fst (approval_approve (\<lambda>_. ''h'') 7 demo_principal ''ap_1''
      (snd (approval_cancel 5 demo_principal ''ap_1'' (demo_approvals pa_cancelled))))
   = Inl (AssistantError PERMISSION_DENIED ''approval was cancelled'' (Some ''t1'') [])"
proof -
  have look: "map_of (as_approvals_by_id (demo_approvals pa_cancelled)) (pr_tenant_id demo_principal, ''ap_1'')
      = Some ((demo_approval ''u1'')\<lparr>pa_status := pa_cancelled\<rparr>)" by (simp add: demo_approvals_def)
  from cancelled_never_grants [OF demo_run_step look, of 7] show ?thesis
    by (simp add: demo_approval_def)
qed

theorem approve_grant_bound_witness:
  "\<exists>g. fst (approval_approve (\<lambda>_. ''h'') 7 demo_principal ''ap_1'' (demo_approvals pa_pending)) = Inr g
     \<and> ap_resource g = ''k1''"
proof -
  let ?r = "approval_approve (\<lambda>_. ''h'') 7 demo_principal ''ap_1'' (demo_approvals pa_pending)"
  obtain g s' where g: "?r = (Inr g, s')"
    by (simp add: approval_approve_def bindS_cases approval_get_def require_trusted_principal_cases
        demo_approvals_def demo_approval_def demo_principal_def is_trusted_def coerce_tier_def
        PermissionRequest_make_def norm_request_text_def Let_def py_strip_def py_isspace_def
        require_permission_def evaluate_permission_def allows_def approval_mark_approved_def
        set_approval_status_def ApprovalGrant_issue_def)
  from approve_grant_bound [OF g] have "ap_resource g = py_strip (pa_resource (demo_approval ''u1''))"
    by (auto simp: demo_approvals_def)
  then have "ap_resource g = ''k1''" by (simp add: demo_approval_def py_strip_def py_isspace_def)
  with g show ?thesis by simp
qed

end
