(* ===== verification/Py_Regex.thy ===== *)
theory Py_Regex
  imports Prelude
begin

text \<open>
  Regular expressions as the sources use them with Python's \<^verbatim>\<open>re\<close> module: a backtracking
  matcher over a position in the text, with captures, greedy and lazy bounded repetition,
  and assertions on the neighbouring characters. \<open>ms r s\<close> lists the ways \<open>r\<close> can match from
  \<open>s\<close> in the order in which the engine tries them; a match is the first of them.
  \<open>lang\<close> is the declarative meaning, and \<open>ms_exact\<close> says that the matcher finds exactly
  the positions it admits. \<open>proper\<close> expressions repeat only bodies that consume input; all
  patterns of the program are proper and consume input themselves, so that neither the
  engine's treatment of empty repetitions nor that of empty matches plays a role.
  Characters are code points below 256; the classes are those of Python on that range.
\<close>

section \<open>Expressions and positions\<close>

datatype regex =
    Eps
  | Cls "char \<Rightarrow> bool"
  | Cat regex regex
  | Alt regex regex
  | Rep bool nat "nat option" regex
  | Grp nat regex
  | Look "char option \<Rightarrow> char option \<Rightarrow> bool"
  | Dollar

text \<open>The text before the position (nearest character first), the text after it, the captured groups.\<close>

record mpos =
  mp_before :: string
  mp_rest :: string
  mp_groups :: "(nat \<times> string) list"

definition at_pos :: "string \<Rightarrow> string \<Rightarrow> mpos" where
  "at_pos b rest = \<lparr>mp_before = b, mp_rest = rest, mp_groups = []\<rparr>"

definition nearest :: "string \<Rightarrow> char option" where
  "nearest xs = (case xs of [] \<Rightarrow> None | c # _ \<Rightarrow> Some c)"

definition advance :: "mpos \<Rightarrow> mpos" where
  "advance s = (case mp_rest s of [] \<Rightarrow> s | c # cs \<Rightarrow> s\<lparr>mp_before := c # mp_before s, mp_rest := cs\<rparr>)"

definition consumed :: "mpos \<Rightarrow> mpos \<Rightarrow> string" where
  "consumed s s' = take (length (mp_rest s) - length (mp_rest s')) (mp_rest s)"

definition capture :: "nat \<Rightarrow> mpos \<Rightarrow> mpos \<Rightarrow> mpos" where
  "capture n s s' = s'\<lparr>mp_groups := AList.update n (consumed s s') (mp_groups s')\<rparr>"

section \<open>The backtracking matcher\<close>

primrec rep_times :: "('a \<Rightarrow> 'a list) \<Rightarrow> nat \<Rightarrow> 'a \<Rightarrow> 'a list" where
  "rep_times f 0 s = [s]"
| "rep_times f (Suc n) s = concat (map (rep_times f n) (f s))"

text \<open>Up to \<open>n\<close> further iterations: a greedy loop tries to go on first, a lazy one to stop first.\<close>

primrec iter :: "(mpos \<Rightarrow> mpos list) \<Rightarrow> bool \<Rightarrow> nat \<Rightarrow> mpos \<Rightarrow> mpos list" where
  "iter f greedy 0 s = [s]"
| "iter f greedy (Suc n) s =
     (let more = concat (map (iter f greedy n) (f s)) in if greedy then more @ [s] else s # more)"

definition rep_bound :: "nat \<Rightarrow> nat option \<Rightarrow> mpos \<Rightarrow> nat" where
  "rep_bound lo hi s = (case hi of None \<Rightarrow> length (mp_rest s) | Some h \<Rightarrow> h - lo)"

primrec ms :: "regex \<Rightarrow> mpos \<Rightarrow> mpos list" where
  "ms Eps = (\<lambda>s. [s])"
| "ms (Cls p) = (\<lambda>s. case mp_rest s of [] \<Rightarrow> [] | c # _ \<Rightarrow> if p c then [advance s] else [])"
| "ms (Cat a b) = (\<lambda>s. concat (map (ms b) (ms a s)))"
| "ms (Alt a b) = (\<lambda>s. ms a s @ ms b s)"
| "ms (Rep g lo hi r) = (\<lambda>s. concat (map (\<lambda>t. iter (ms r) g (rep_bound lo hi t) t) (rep_times (ms r) lo s)))"
| "ms (Grp n r) = (\<lambda>s. map (capture n s) (ms r s))"
| "ms (Look q) = (\<lambda>s. if q (nearest (mp_before s)) (nearest (mp_rest s)) then [s] else [])"
| "ms Dollar = (\<lambda>s. if mp_rest s = [] \<or> mp_rest s = [CHR 0x0A] then [s] else [])"

section \<open>Scanning a text\<close>

fun find_from :: "regex \<Rightarrow> string \<Rightarrow> string \<Rightarrow> (mpos \<times> mpos) option" where
  "find_from r b rest =
     (case ms r (at_pos b rest) of
        s' # _ \<Rightarrow> Some (at_pos b rest, s')
      | [] \<Rightarrow> (case rest of [] \<Rightarrow> None | c # cs \<Rightarrow> find_from r (c # b) cs))"

declare find_from.simps [simp del]

definition re_search :: "regex \<Rightarrow> string \<Rightarrow> (mpos \<times> mpos) option" where
  "re_search r text = find_from r [] text"

function finditer_from :: "regex \<Rightarrow> string \<Rightarrow> string \<Rightarrow> (mpos \<times> mpos) list" where
  "finditer_from r b rest =
     (case find_from r b rest of
        None \<Rightarrow> []
      | Some (s, s') \<Rightarrow>
          (s, s') # (if length (mp_rest s') < length rest
                     then finditer_from r (mp_before s') (mp_rest s') else []))"
  by pat_completeness auto
termination
  by (relation "measure (\<lambda>(r, b, rest). length rest)") auto

declare finditer_from.simps [simp del]

definition re_finditer :: "regex \<Rightarrow> string \<Rightarrow> (mpos \<times> mpos) list" where
  "re_finditer r text = finditer_from r [] text"

definition match_start :: "mpos \<times> mpos \<Rightarrow> nat" where "match_start m = length (mp_before (fst m))"
definition match_end :: "mpos \<times> mpos \<Rightarrow> nat" where "match_end m = length (mp_before (snd m))"
definition match_group :: "mpos \<times> mpos \<Rightarrow> nat \<Rightarrow> string option" where
  "match_group m n = map_of (mp_groups (snd m)) n"

fun sub_pieces :: "(mpos \<times> mpos \<Rightarrow> string) \<Rightarrow> string \<Rightarrow> (mpos \<times> mpos) list \<Rightarrow> string" where
  "sub_pieces f rest [] = rest"
| "sub_pieces f rest (m # matches) =
     take (length rest - length (mp_rest (fst m))) rest @ f m @ sub_pieces f (mp_rest (snd m)) matches"

definition re_sub :: "regex \<Rightarrow> (mpos \<times> mpos \<Rightarrow> string) \<Rightarrow> string \<Rightarrow> string" where
  "re_sub r f text = sub_pieces f text (re_finditer r text)"

definition re_fullmatch :: "regex \<Rightarrow> string \<Rightarrow> bool" where
  "re_fullmatch r text \<longleftrightarrow> (\<exists>s \<in> set (ms r (at_pos [] text)). mp_rest s = [])"

definition re_test :: "regex \<Rightarrow> string \<Rightarrow> bool" where
  "re_test r text \<longleftrightarrow> re_search r text \<noteq> None"

section \<open>Building blocks of the patterns\<close>

definition char_code :: "char \<Rightarrow> int" where "char_code c = of_char c"

definition in_range :: "char \<Rightarrow> char \<Rightarrow> char \<Rightarrow> bool" where
  "in_range a b c \<longleftrightarrow> char_code a \<le> char_code c \<and> char_code c \<le> char_code b"

definition digit :: "char \<Rightarrow> bool" where "digit = in_range (CHR ''0'') (CHR ''9'')"
definition lower_az :: "char \<Rightarrow> bool" where "lower_az = in_range (CHR ''a'') (CHR ''z'')"
definition upper_az :: "char \<Rightarrow> bool" where "upper_az = in_range (CHR ''A'') (CHR ''Z'')"
definition alnum_az :: "char \<Rightarrow> bool" where "alnum_az c \<longleftrightarrow> digit c \<or> lower_az c \<or> upper_az c"

text \<open>\<^verbatim>\<open>\w\<close>: the underscore and the alphanumeric characters, also those with a numeric value.\<close>

definition word_char :: "char \<Rightarrow> bool" where
  "word_char c \<longleftrightarrow> alnum_az c \<or> c = CHR ''_'' \<or>
     char_code c \<in> {0xAA, 0xB2, 0xB3, 0xB5, 0xB9, 0xBA, 0xBC, 0xBD, 0xBE} \<or>
     (0xC0 \<le> char_code c \<and> char_code c \<noteq> 0xD7 \<and> char_code c \<noteq> 0xF7)"

definition one_of :: "string \<Rightarrow> char \<Rightarrow> bool" where "one_of cs c \<longleftrightarrow> c \<in> set cs"

definition chr :: "char \<Rightarrow> regex" where "chr c = Cls (\<lambda>d. d = c)"

primrec lit :: "string \<Rightarrow> regex" where
  "lit [] = Eps"
| "lit (c # cs) = (if cs = [] then chr c else Cat (chr c) (lit cs))"

fun cats :: "regex list \<Rightarrow> regex" where
  "cats [] = Eps"
| "cats [r] = r"
| "cats (r # rs) = Cat r (cats rs)"

fun alts :: "regex list \<Rightarrow> regex" where
  "alts [] = Cls (\<lambda>_. False)"
| "alts [r] = r"
| "alts (r # rs) = Alt r (alts rs)"

definition lits :: "string list \<Rightarrow> regex" where "lits ws = alts (map lit ws)"

abbreviation opt :: "regex \<Rightarrow> regex" where "opt r \<equiv> Rep True 0 (Some 1) r"
abbreviation star :: "regex \<Rightarrow> regex" where "star r \<equiv> Rep True 0 None r"
abbreviation plus1 :: "regex \<Rightarrow> regex" where "plus1 r \<equiv> Rep True 1 None r"
abbreviation reps :: "nat \<Rightarrow> nat \<Rightarrow> regex \<Rightarrow> regex" where "reps lo hi r \<equiv> Rep True lo (Some hi) r"
abbreviation at_least :: "nat \<Rightarrow> regex \<Rightarrow> regex" where "at_least lo r \<equiv> Rep True lo None r"

abbreviation spaces :: regex where "spaces \<equiv> star (Cls py_isspace)"
abbreviation spaces1 :: regex where "spaces1 \<equiv> plus1 (Cls py_isspace)"
definition any_char :: regex where "any_char = Cls (\<lambda>c. c \<noteq> CHR 0x0A)"

definition sat :: "(char \<Rightarrow> bool) \<Rightarrow> char option \<Rightarrow> bool" where
  "sat p x = (case x of None \<Rightarrow> False | Some c \<Rightarrow> p c)"

definition word_boundary :: regex where
  "word_boundary = Look (\<lambda>x y. sat word_char x \<noteq> sat word_char y)"
definition not_after :: "(char \<Rightarrow> bool) \<Rightarrow> regex" where "not_after p = Look (\<lambda>x y. \<not> sat p x)"
definition not_before :: "(char \<Rightarrow> bool) \<Rightarrow> regex" where "not_before p = Look (\<lambda>x y. \<not> sat p y)"
definition start_of_text :: regex where "start_of_text = Look (\<lambda>x y. x = None)"
definition end_of_text :: regex where "end_of_text = Look (\<lambda>x y. y = None)"

text \<open>\<^verbatim>\<open>re.IGNORECASE\<close>: a character matches when a case variant of it does.\<close>

definition py_upper_char :: "char \<Rightarrow> char" where
  "py_upper_char c = (let n = char_code c in
     if 97 \<le> n \<and> n \<le> 122 \<or> 224 \<le> n \<and> n \<le> 254 \<and> n \<noteq> 247 then char_of (n - 32) else c)"

definition any_case :: "(char \<Rightarrow> bool) \<Rightarrow> char \<Rightarrow> bool" where
  "any_case p c \<longleftrightarrow> p c \<or> p (py_lower_char c) \<or> p (py_upper_char c)"

primrec ignore_case :: "regex \<Rightarrow> regex" where
  "ignore_case Eps = Eps"
| "ignore_case (Cls p) = Cls (any_case p)"
| "ignore_case (Cat a b) = Cat (ignore_case a) (ignore_case b)"
| "ignore_case (Alt a b) = Alt (ignore_case a) (ignore_case b)"
| "ignore_case (Rep g lo hi r) = Rep g lo hi (ignore_case r)"
| "ignore_case (Grp n r) = Grp n (ignore_case r)"
| "ignore_case (Look q) = Look q"
| "ignore_case Dollar = Dollar"

section \<open>The declarative meaning\<close>

primrec lang :: "regex \<Rightarrow> mpos \<Rightarrow> mpos \<Rightarrow> bool" where
  "lang Eps = (\<lambda>s s'. s' = s)"
| "lang (Cls p) = (\<lambda>s s'. \<exists>c cs. mp_rest s = c # cs \<and> p c \<and> s' = advance s)"
| "lang (Cat a b) = lang a OO lang b"
| "lang (Alt a b) = (\<lambda>s s'. lang a s s' \<or> lang b s s')"
| "lang (Rep g lo hi r) = (\<lambda>s s'. \<exists>n. lo \<le> n \<and> (\<forall>h. hi = Some h \<longrightarrow> n \<le> h) \<and> (lang r ^^ n) s s')"
| "lang (Grp n r) = (\<lambda>s s'. \<exists>t. lang r s t \<and> s' = capture n s t)"
| "lang (Look q) = (\<lambda>s s'. q (nearest (mp_before s)) (nearest (mp_rest s)) \<and> s' = s)"
| "lang Dollar = (\<lambda>s s'. (mp_rest s = [] \<or> mp_rest s = [CHR 0x0A]) \<and> s' = s)"

text \<open>The least number of characters a match takes, and the expressions whose loops make progress.\<close>

primrec min_len :: "regex \<Rightarrow> nat" where
  "min_len Eps = 0"
| "min_len (Cls p) = 1"
| "min_len (Cat a b) = min_len a + min_len b"
| "min_len (Alt a b) = min (min_len a) (min_len b)"
| "min_len (Rep g lo hi r) = lo * min_len r"
| "min_len (Grp n r) = min_len r"
| "min_len (Look q) = 0"
| "min_len Dollar = 0"

primrec proper :: "regex \<Rightarrow> bool" where
  "proper Eps = True"
| "proper (Cls p) = True"
| "proper (Cat a b) = (proper a \<and> proper b)"
| "proper (Alt a b) = (proper a \<and> proper b)"
| "proper (Rep g lo hi r) = (proper r \<and> 0 < min_len r \<and> (case hi of None \<Rightarrow> True | Some h \<Rightarrow> lo \<le> h))"
| "proper (Grp n r) = proper r"
| "proper (Look q) = True"
| "proper Dollar = True"


section \<open>The matcher finds exactly the declared matches\<close>

definition moved :: "mpos \<Rightarrow> mpos \<Rightarrow> bool" where
  "moved s s' \<longleftrightarrow> (\<exists>u. mp_rest s = u @ mp_rest s' \<and> mp_before s' = rev u @ mp_before s)"

lemma moved_refl [simp]: "moved s s"
  by (simp add: moved_def)

lemma moved_trans [trans]: "moved s t \<Longrightarrow> moved t u \<Longrightarrow> moved s u"
  unfolding moved_def by force

lemma moved_length: "moved s s' \<Longrightarrow> length (mp_rest s') \<le> length (mp_rest s)"
  unfolding moved_def by auto

lemma moved_text: "moved s s' \<Longrightarrow> rev (mp_before s') @ mp_rest s' = rev (mp_before s) @ mp_rest s"
  unfolding moved_def by auto

lemma moved_advance: "moved s (advance s)"
  by (auto simp: moved_def advance_def split: list.splits)

lemma moved_capture [simp]: "moved s (capture n t s') = moved s s'"
  by (simp add: moved_def capture_def)

lemma rest_capture [simp]: "mp_rest (capture n s t) = mp_rest t"
  by (simp add: capture_def)

lemma relpowp_rel:
  assumes "\<And>s s'. R s s' \<Longrightarrow> Q s s'" and "\<And>s. Q s s" and "\<And>s t u. Q s t \<Longrightarrow> Q t u \<Longrightarrow> Q s u"
  shows "(R ^^ n) s s' \<Longrightarrow> Q s s'"
  by (induction n arbitrary: s') (auto intro: assms)

lemma lang_moved: "lang r s s' \<Longrightarrow> moved s s'"
proof (induction r arbitrary: s s')
  case (Rep g lo hi r)
  have "(lang r ^^ n) s s' \<Longrightarrow> moved s s'" for n
    by (rule relpowp_rel [where R = "lang r"]) (auto intro: Rep.IH moved_trans)
  with Rep.prems show ?case by auto
next
  case (Cat a b)
  then obtain t where "lang a s t" "lang b t s'" by auto
  then show ?case using Cat.IH moved_trans by blast
qed (auto intro: moved_advance)

lemma relpowp_lengths:
  fixes R :: "mpos \<Rightarrow> mpos \<Rightarrow> bool"
  assumes "\<And>s s'. R s s' \<Longrightarrow> length (mp_rest s') + d \<le> length (mp_rest s)"
  shows "(R ^^ n) s s' \<Longrightarrow> length (mp_rest s') + n * d \<le> length (mp_rest s)"
proof (induction n arbitrary: s')
  case (Suc n)
  from Suc.prems obtain t where t: "(R ^^ n) s t" "R t s'" by auto
  from Suc.IH [OF t(1)] assms [OF t(2)] show ?case by simp
qed simp

lemma lang_min_len: "lang r s s' \<Longrightarrow> length (mp_rest s') + min_len r \<le> length (mp_rest s)"
proof (induction r arbitrary: s s')
  case (Cat a b)
  then obtain t where "lang a s t" "lang b t s'" by auto
  with Cat.IH(1) [of s t] Cat.IH(2) [of t s'] show ?case by simp
next
  case (Alt a b)
  from Alt.prems have "lang a s s' \<or> lang b s s'" by simp
  with Alt.IH(1) [of s s'] Alt.IH(2) [of s s'] show ?case by (auto simp: min_def)
next
  case (Rep g lo hi r)
  from Rep.prems obtain n where n: "lo \<le> n" "(lang r ^^ n) s s'" by auto
  have "lo * min_len r \<le> n * min_len r" using n(1) by (rule mult_le_mono1)
  with relpowp_lengths [where R = "lang r" and d = "min_len r", OF Rep.IH n(2)] show ?case
    unfolding min_len.simps by (meson add_le_mono le_refl le_trans)
qed (auto simp: advance_def)

lemma relpowp_Suc_iff: "(R ^^ Suc n) s s' \<longleftrightarrow> (\<exists>t. R s t \<and> (R ^^ n) t s')"
  by (metis relpowp_Suc_D2 relpowp_Suc_I2)

lemma set_times:
  assumes "\<And>s. set (f s) = {s'. R s s'}"
  shows "set (rep_times f n s) = {s'. (R ^^ n) s s'}"
proof (induction n arbitrary: s)
  case (Suc n)
  show ?case unfolding relpowp_Suc_iff by (auto simp: Suc assms)
qed auto

lemma set_iter:
  assumes "\<And>s. set (f s) = {s'. R s s'}"
  shows "set (iter f g n s) = {s'. \<exists>k \<le> n. (R ^^ k) s s'}"
proof (induction n arbitrary: s)
  case (Suc n)
  have "(\<exists>k \<le> Suc n. (R ^^ k) s s') \<longleftrightarrow> s' = s \<or> (\<exists>t. R s t \<and> (\<exists>k \<le> n. (R ^^ k) t s'))" for s'
  proof
    assume "\<exists>k \<le> Suc n. (R ^^ k) s s'"
    then obtain k where "k \<le> Suc n" "(R ^^ k) s s'" by blast
    then show "s' = s \<or> (\<exists>t. R s t \<and> (\<exists>k \<le> n. (R ^^ k) t s'))"
      by (cases k) (auto simp: relpowp_Suc_iff simp del: relpowp.simps(2))
  next
    assume "s' = s \<or> (\<exists>t. R s t \<and> (\<exists>k \<le> n. (R ^^ k) t s'))"
    then show "\<exists>k \<le> Suc n. (R ^^ k) s s'"
    proof
      assume "s' = s"
      then show ?thesis by (intro exI [of _ 0]) simp
    next
      assume "\<exists>t. R s t \<and> (\<exists>k \<le> n. (R ^^ k) t s')"
      then show ?thesis using relpowp_Suc_iff [of _ R s s'] Suc_le_mono by metis
    qed
  qed
  then show ?case using Suc assms by (auto simp: Let_def)
qed auto

lemma relpowp_progress:
  fixes R :: "mpos \<Rightarrow> mpos \<Rightarrow> bool"
  assumes "\<And>s s'. R s s' \<Longrightarrow> length (mp_rest s') < length (mp_rest s)" and "(R ^^ n) s s'"
  shows "n \<le> length (mp_rest s)"
  using relpowp_lengths [where R = R and d = 1, OF _ assms(2)] assms(1) by (simp add: Suc_le_eq)

lemma ms_exact: "proper r \<Longrightarrow> set (ms r s) = {s'. lang r s s'}"
proof (induction r arbitrary: s)
  case (Rep g lo hi r)
  have IH: "set (ms r s) = {s'. lang r s s'}" for s using Rep by simp
  have pr: "lang r s s' \<Longrightarrow> length (mp_rest s') < length (mp_rest s)" for s s'
    using Rep.prems lang_min_len [of r s s'] by simp
  have "set (ms (Rep g lo hi r) s) =
      {s'. \<exists>t k. (lang r ^^ lo) s t \<and> k \<le> rep_bound lo hi t \<and> (lang r ^^ k) t s'}"
    by (auto simp: set_times [where f = "ms r" and R = "lang r", OF IH] set_iter [where f = "ms r" and R = "lang r", OF IH])
  also have "\<dots> = {s'. lang (Rep g lo hi r) s s'}"
  proof (intro Collect_cong iffI)
    fix s' assume "\<exists>t k. (lang r ^^ lo) s t \<and> k \<le> rep_bound lo hi t \<and> (lang r ^^ k) t s'"
    then obtain t k where t: "(lang r ^^ lo) s t" "k \<le> rep_bound lo hi t" "(lang r ^^ k) t s'" by blast
    then have "(lang r ^^ (lo + k)) s s'" by (auto simp: relpowp_add)
    with t(2) Rep.prems show "lang (Rep g lo hi r) s s'"
      by (auto simp: rep_bound_def split: option.splits intro!: exI [of _ "lo + k"])
  next
    fix s' assume "lang (Rep g lo hi r) s s'"
    then obtain n where n: "lo \<le> n" "\<forall>h. hi = Some h \<longrightarrow> n \<le> h" "(lang r ^^ n) s s'" by auto
    then have "(lang r ^^ (lo + (n - lo))) s s'" by simp
    then obtain t where t: "(lang r ^^ lo) s t" "(lang r ^^ (n - lo)) t s'" by (auto simp: relpowp_add)
    moreover have "n - lo \<le> rep_bound lo hi t"
      using n(2) relpowp_progress [where R = "lang r", OF pr t(2)] by (auto simp: rep_bound_def split: option.splits)
    ultimately show "\<exists>t k. (lang r ^^ lo) s t \<and> k \<le> rep_bound lo hi t \<and> (lang r ^^ k) t s'" by blast
  qed
  finally show ?case .
next
  case (Cls p)
  show ?case by (cases "mp_rest s") auto
qed auto

lemma ms_moved: "proper r \<Longrightarrow> s' \<in> set (ms r s) \<Longrightarrow> moved s s'"
  using ms_exact lang_moved by blast

lemma ms_min_len: "proper r \<Longrightarrow> s' \<in> set (ms r s) \<Longrightarrow> length (mp_rest s') + min_len r \<le> length (mp_rest s)"
  using ms_exact lang_min_len by blast

section \<open>Scanning\<close>

lemma find_from_Some:
  assumes "find_from r b rest = Some (s, s')"
  shows "\<exists>b' rest'. s = at_pos b' rest' \<and> moved (at_pos b rest) s \<and> s' \<in> set (ms r s)"
  using assms
proof (induction r b rest rule: find_from.induct)
  case (1 r b rest)
  show ?case
  proof (cases "ms r (at_pos b rest)")
    case (Cons t ts)
    with "1.prems" have "s = at_pos b rest" "s' = t"
      by (simp_all add: find_from.simps [of r b rest])
    with Cons show ?thesis by auto
  next
    case Nil
    with "1.prems" obtain c cs where c: "rest = c # cs" "find_from r (c # b) cs = Some (s, s')"
      by (auto simp: find_from.simps [of r b rest] split: list.splits)
    have "moved (at_pos b rest) (at_pos (c # b) cs)" by (simp add: c moved_def at_pos_def)
    with "1.IH" [OF Nil c] show ?thesis by (metis moved_trans)
  qed
qed

lemma find_from_None:
  "find_from r b rest = None \<longleftrightarrow> (\<forall>u v. rest = u @ v \<longrightarrow> ms r (at_pos (rev u @ b) v) = [])"
proof (induction r b rest rule: find_from.induct)
  case (1 r b rest)
  show ?case
  proof (cases "ms r (at_pos b rest)")
    case (Cons t ts)
    then show ?thesis by (auto simp: find_from.simps [of r b rest] intro: exI [of _ "[]"])
  next
    case Nil
    show ?thesis
    proof (cases rest)
      case Nil
      then show ?thesis using \<open>ms r (at_pos b rest) = []\<close> by (simp add: find_from.simps [of r b "[]"])
    next
      case (Cons c cs)
      have "(\<forall>u v. rest = u @ v \<longrightarrow> ms r (at_pos (rev u @ b) v) = []) \<longleftrightarrow>
          (\<forall>u v. cs = u @ v \<longrightarrow> ms r (at_pos (rev u @ c # b) v) = [])"
      proof (intro iffI allI impI)
        fix u v assume all: "\<forall>u v. rest = u @ v \<longrightarrow> ms r (at_pos (rev u @ b) v) = []" and "cs = u @ v"
        then show "ms r (at_pos (rev u @ c # b) v) = []" using all [rule_format, of "c # u" v] Cons by simp
      next
        fix u v assume all: "\<forall>u v. cs = u @ v \<longrightarrow> ms r (at_pos (rev u @ c # b) v) = []" and "rest = u @ v"
        then show "ms r (at_pos (rev u @ b) v) = []" using Nil all [rule_format, of "tl u" v] Cons by (cases u) auto
      qed
      moreover have "find_from r b rest = find_from r (c # b) cs"
        using Nil Cons by (simp add: find_from.simps [of r b "c # cs"])
      ultimately show ?thesis using "1.IH" [OF Nil Cons] by simp
    qed
  qed
qed

text \<open>\<^verbatim>\<open>re.search\<close> succeeds exactly when the expression matches at some position of the text.\<close>

definition occurs :: "regex \<Rightarrow> string \<Rightarrow> bool" where
  "occurs r text \<longleftrightarrow> (\<exists>u v s'. text = u @ v \<and> lang r (at_pos (rev u) v) s')"

lemma ms_Nil: "proper r \<Longrightarrow> ms r s = [] \<longleftrightarrow> (\<forall>s'. \<not> lang r s s')"
  using ms_exact [of r s] by (metis (mono_tags, lifting) Collect_empty_eq set_empty)

lemma re_search_None: "proper r \<Longrightarrow> re_search r text = None \<longleftrightarrow> \<not> occurs r text"
  by (auto simp: re_search_def find_from_None occurs_def ms_Nil)

lemma re_test_exact: "proper r \<Longrightarrow> re_test r text \<longleftrightarrow> occurs r text"
  by (simp add: re_test_def re_search_None)

lemma re_finditer_Nil: "re_finditer r text = [] \<longleftrightarrow> re_search r text = None"
  by (simp add: re_finditer_def re_search_def finditer_from.simps [of r "[]" "text"] split: option.splits prod.splits)

lemma finditer_from_matches:
  "m \<in> set (finditer_from r b rest) \<Longrightarrow> \<exists>b' rest'. fst m = at_pos b' rest' \<and> snd m \<in> set (ms r (fst m))"
proof (induction r b rest rule: finditer_from.induct)
  case (1 r b rest)
  from "1.prems" obtain s s' where f: "find_from r b rest = Some (s, s')"
    and m: "m = (s, s') \<or> (length (mp_rest s') < length rest \<and> m \<in> set (finditer_from r (mp_before s') (mp_rest s')))"
    by (cases "find_from r b rest") (auto simp: finditer_from.simps [of r b rest] split: if_splits)
  from m show ?case
  proof (elim disjE conjE)
    assume "m = (s, s')"
    then show ?thesis using find_from_Some [OF f] by auto
  next
    assume "length (mp_rest s') < length rest" "m \<in> set (finditer_from r (mp_before s') (mp_rest s'))"
    then show ?thesis using "1.IH" [OF f refl] by auto
  qed
qed

text \<open>Matches that consume input: they follow one another without overlap.\<close>

lemma moved_before_length: "moved s s' \<Longrightarrow> length (mp_before s') + length (mp_rest s') = length (mp_before s) + length (mp_rest s)"
  unfolding moved_def by auto

definition span_in :: "nat \<Rightarrow> nat \<Rightarrow> mpos \<times> mpos \<Rightarrow> bool" where
  "span_in lo hi m \<longleftrightarrow> lo \<le> match_start m \<and> match_start m < match_end m \<and> match_end m \<le> hi"

lemma find_from_span:
  assumes "proper r" and "0 < min_len r" and "find_from r b rest = Some (s, s')"
  shows "span_in (length b) (length b + length rest) (s, s')" "length (mp_rest s') < length rest"
    "length (mp_before s') + length (mp_rest s') = length b + length rest"
proof -
  from find_from_Some [OF assms(3)] have s: "moved (at_pos b rest) s" "s' \<in> set (ms r s)" by blast+
  from moved_before_length [OF s(1)] moved_length [OF s(1)]
    moved_before_length [OF ms_moved [OF assms(1) s(2)]] ms_min_len [OF assms(1) s(2)] assms(2)
  show "span_in (length b) (length b + length rest) (s, s')" "length (mp_rest s') < length rest"
    "length (mp_before s') + length (mp_rest s') = length b + length rest"
    by (simp_all add: span_in_def match_start_def match_end_def at_pos_def)
qed

lemma finditer_from_spans:
  assumes "proper r" and "0 < min_len r"
  shows "sorted_wrt (\<lambda>m m'. match_end m \<le> match_start m') (finditer_from r b rest)
    \<and> (\<forall>m \<in> set (finditer_from r b rest). span_in (length b) (length b + length rest) m)"
  using assms
proof (induction r b rest rule: finditer_from.induct)
  case (1 r b rest)
  show ?case
  proof (cases "find_from r b rest")
    case None
    then show ?thesis by (simp add: finditer_from.simps [of r b rest])
  next
    case (Some ss)
    obtain s s' where ss: "ss = (s, s')" by (rule prod.exhaust)
    note f = find_from_span [OF "1.prems" Some [unfolded ss]]
    from "1.IH" [OF Some ss [symmetric] f(2) "1.prems"] have
      ih: "sorted_wrt (\<lambda>m m'. match_end m \<le> match_start m') (finditer_from r (mp_before s') (mp_rest s'))"
      "\<forall>m \<in> set (finditer_from r (mp_before s') (mp_rest s')).
         span_in (length (mp_before s')) (length b + length rest) m" by (simp_all add: f(3))
    have "length b \<le> length (mp_before s')" using f(1) by (auto simp: span_in_def match_end_def)
    with ih f(1,2) Some ss show ?thesis
      by (auto simp: finditer_from.simps [of r b rest] span_in_def match_end_def [of "(s, s')"])
  qed
qed


section \<open>Runs of a character class\<close>

definition skip :: "nat \<Rightarrow> mpos \<Rightarrow> mpos" where
  "skip n s = s\<lparr>mp_before := rev (take n (mp_rest s)) @ mp_before s, mp_rest := drop n (mp_rest s)\<rparr>"

lemma rest_skip [simp]: "mp_rest (skip n s) = drop n (mp_rest s)"
  by (simp add: skip_def)

lemma skip_0 [simp]: "skip 0 s = s"
  by (simp add: skip_def)

lemma skip_Suc: "mp_rest s = c # cs \<Longrightarrow> skip (Suc n) s = skip n (advance s)"
  by (simp add: skip_def advance_def)

lemma lang_class_run:
  "(lang (Cls p) ^^ n) s s' \<longleftrightarrow> n \<le> length (mp_rest s) \<and> list_all p (take n (mp_rest s)) \<and> s' = skip n s"
proof (induction n arbitrary: s)
  case (Suc n)
  show ?case
  proof (cases "mp_rest s")
    case Nil
    then show ?thesis by (simp only: relpowp_Suc_iff) simp
  next
    case (Cons c cs)
    have "(lang (Cls p) ^^ Suc n) s s' \<longleftrightarrow> p c \<and> (lang (Cls p) ^^ n) (advance s) s'"
      unfolding relpowp_Suc_iff using Cons by auto
    moreover have "mp_rest (advance s) = cs" using Cons by (simp add: advance_def)
    ultimately show ?thesis using Suc.IH [of "advance s"] Cons skip_Suc [OF Cons] by auto
  qed
qed auto

lemma lang_class_rep:
  "lang (Rep g lo hi (Cls p)) s s' \<longleftrightarrow>
     (\<exists>n. lo \<le> n \<and> (\<forall>h. hi = Some h \<longrightarrow> n \<le> h) \<and> n \<le> length (mp_rest s)
        \<and> list_all p (take n (mp_rest s)) \<and> s' = skip n s)"
  by (simp only: lang.simps(5) lang_class_run)

lemma re_fullmatch_lang:
  "proper r \<Longrightarrow> re_fullmatch r t \<longleftrightarrow> (\<exists>s'. lang r (at_pos [] t) s' \<and> mp_rest s' = [])"
  using ms_exact by (auto simp: re_fullmatch_def)

lemma nearest_None [simp]: "nearest xs = None \<longleftrightarrow> xs = []"
  by (simp add: nearest_def split: list.splits)

lemma lang_Cat_Cls:
  "lang (Cat (Cls a) r) s s' \<longleftrightarrow> (\<exists>c cs. mp_rest s = c # cs \<and> a c \<and> lang r (advance s) s')"
  by (cases "mp_rest s") auto

lemma lang_Cat_run:
  "lang (Cat (Rep g lo hi (Cls p)) r) s s' \<longleftrightarrow>
     (\<exists>n. lo \<le> n \<and> (\<forall>h. hi = Some h \<longrightarrow> n \<le> h) \<and> n \<le> length (mp_rest s)
        \<and> list_all p (take n (mp_rest s)) \<and> lang r (skip n s) s')"
  unfolding lang.simps(3) relcompp_apply lang_class_rep by blast

lemma lang_Cat_Look: "lang (Cat (Look q) r) s s' \<longleftrightarrow> q (nearest (mp_before s)) (nearest (mp_rest s)) \<and> lang r s s'"
  by auto

lemma lang_end_of_text: "lang end_of_text s s' \<longleftrightarrow> mp_rest s = [] \<and> s' = s"
  by (simp add: end_of_text_def)

lemma rest_advance: "mp_rest (advance s) = tl (mp_rest s)"
  by (cases "mp_rest s") (simp_all add: advance_def)

text \<open>The shape of the anchored patterns: a first character, then a bounded run.\<close>

lemma fullmatch_head_run:
  "re_fullmatch (cats [Cls a, reps 0 n (Cls b), end_of_text]) t \<longleftrightarrow>
     t \<noteq> [] \<and> a (hd t) \<and> list_all b (tl t) \<and> length (tl t) \<le> n"
proof -
  have pr: "proper (cats [Cls a, reps 0 n (Cls b), end_of_text])" by (simp add: end_of_text_def)
  have "re_fullmatch (cats [Cls a, reps 0 n (Cls b), end_of_text]) t \<longleftrightarrow>
      (\<exists>c cs k. t = c # cs \<and> a c \<and> k \<le> n \<and> k \<le> length cs \<and> list_all b (take k cs) \<and> drop k cs = [])"
    unfolding re_fullmatch_lang [OF pr] unfolding cats.simps lang_Cat_Cls lang_Cat_run lang_end_of_text rest_advance
    by (cases t) (auto simp: at_pos_def rest_advance)
  also have "\<dots> \<longleftrightarrow> t \<noteq> [] \<and> a (hd t) \<and> list_all b (tl t) \<and> length (tl t) \<le> n"
    by (cases t) auto
  finally show ?thesis .
qed

text \<open>Optional parts and literals.\<close>

lemma lang_opt: "lang (opt r) s s' \<longleftrightarrow> s' = s \<or> lang r s s'"
proof -
  have "lang (opt r) s s' \<longleftrightarrow> (\<exists>n. (n = 0 \<or> n = 1) \<and> (lang r ^^ n) s s')"
    unfolding lang.simps(5) by (auto simp: le_Suc_eq)
  also have "\<dots> \<longleftrightarrow> s' = s \<or> lang r s s'" by (metis relpowp_0_E relpowp_0_I relpowp_1)
  finally show ?thesis .
qed

lemma skip_skip: "skip n (skip m s) = skip (m + n) s"
  by (simp add: skip_def take_add add.commute)

lemma lang_chr: "lang (chr c) s s' \<longleftrightarrow> (\<exists>cs. mp_rest s = c # cs) \<and> s' = advance s"
  by (auto simp: chr_def)

lemma advance_skip: "mp_rest s \<noteq> [] \<Longrightarrow> advance s = skip 1 s"
  by (cases "mp_rest s") (simp_all add: advance_def skip_def)

lemma lang_lit: "lang (lit w) s s' \<longleftrightarrow> (\<exists>v. mp_rest s = w @ v) \<and> s' = skip (length w) s"
proof (induction w arbitrary: s)
  case (Cons c cs)
  show ?case
  proof (cases "mp_rest s")
    case Nil
    then show ?thesis using Cons by (cases "cs = []") (auto simp: lang_chr)
  next
    case (Cons x xs)
    then have a: "advance s = skip 1 s" "mp_rest (advance s) = xs" by (simp_all add: advance_skip rest_advance)
    show ?thesis
      using Cons.IH [of "advance s"] Cons a
      by (cases "cs = []") (auto simp: lang_chr relcompp_apply skip_skip a(1) [symmetric])
  qed
qed simp

end
