(* ===== verification/Privacy.thy ===== *)
theory Privacy
  imports Py_Regex Py_Value Idempotency Delivery
begin

text \<open>
  The privacy boundary of traces and structured errors: \<^verbatim>\<open>domain/common/privacy.py\<close>.
  \<open>sha\<close> is the hexadecimal SHA-256 digest of a byte string, \<open>rp\<close> the text of values that
  are not strings. The regular expressions are those of the module, written with the
  combinators of \<open>Py_Regex\<close> in the order of the pattern text. The set of visited object
  identities only cuts cycles, which a value tree does not have; the depth bound is kept as
  the number of levels still allowed (nine at the top).
\<close>

section \<open>Patterns and key classes\<close>

definition REDACTED :: string where "REDACTED = ''[REDACTED]''"
definition REDACTED_URL :: string where "REDACTED_URL = ''[REDACTED_URL]''"
definition MAX_DEPTH :: nat where "MAX_DEPTH = 8"
definition MAX_ITEMS :: nat where "MAX_ITEMS = 100"
definition MAX_KEY_LENGTH :: nat where "MAX_KEY_LENGTH = 80"

definition ident_char :: "char \<Rightarrow> bool" where
  "ident_char c \<longleftrightarrow> alnum_az c \<or> one_of ''_.:/+@-'' c"

definition SAFE_KEY_RE :: regex where
  "SAFE_KEY_RE = cats [Cls (\<lambda>c. lower_az c \<or> upper_az c), reps 0 79 (Cls (\<lambda>c. alnum_az c \<or> one_of ''_.-'' c)), end_of_text]"

definition SAFE_IDENTIFIER_RE :: regex where
  "SAFE_IDENTIFIER_RE = cats [Cls alnum_az, reps 0 239 (Cls ident_char), end_of_text]"

definition SAFE_CATEGORY_RE :: regex where
  "SAFE_CATEGORY_RE = cats [Cls alnum_az, reps 0 159 (Cls ident_char), end_of_text]"

definition hex_any :: "char \<Rightarrow> bool" where
  "hex_any c \<longleftrightarrow> digit c \<or> in_range (CHR ''A'') (CHR ''F'') c \<or> in_range (CHR ''a'') (CHR ''f'') c"

definition SAFE_HASH_RE :: regex where
  "SAFE_HASH_RE = cats [opt (lit ''sha256:''), reps 32 128 (Cls hex_any), end_of_text]"

definition URL_RE :: regex where
  "URL_RE = ignore_case (cats [word_boundary, Cls (\<lambda>c. lower_az c \<or> upper_az c),
     star (Cls (\<lambda>c. alnum_az c \<or> one_of ''+.-'' c)), lit ''://'',
     plus1 (Cls (\<lambda>c. \<not> py_isspace c \<and> \<not> one_of [CHR 0x22, CHR 0x27, CHR ''<'', CHR ''>''] c))])"

definition AUTHORITY_CREDENTIAL_RE :: regex where
  "AUTHORITY_CREDENTIAL_RE = cats [not_after alnum_az,
     reps 1 64 (Cls (\<lambda>c. alnum_az c \<or> one_of ''._~-'' c)), lit '':'',
     reps 1 128 (Cls (\<lambda>c. \<not> py_isspace c \<and> \<not> one_of ''@/:'' c)), lit ''@'',
     plus1 (Cls (\<lambda>c. alnum_az c \<or> one_of ''.-'' c)),
     opt (Cat (lit ''/'') (star (Cls (\<lambda>c. \<not> py_isspace c))))]"

definition sep3 :: regex where "sep3 = opt (Cls (one_of '' _-''))"

definition SECRET_ASSIGNMENT_RE :: regex where
  "SECRET_ASSIGNMENT_RE = ignore_case (cats [word_boundary,
     Grp 1 (alts [cats [lit ''api'', sep3, lit ''key''], cats [lit ''access'', sep3, lit ''token''],
                  cats [lit ''refresh'', sep3, lit ''token''], lit ''token'', lit ''secret'', lit ''password'',
                  lit ''passwd'', lit ''authorization'', lit ''credential'', lit ''cookie'', lit ''session'']),
     word_boundary, Grp 2 (cats [spaces, Cls (one_of '':=''), spaces]),
     Grp 3 (plus1 (Cls (\<lambda>c. \<not> py_isspace c \<and> \<not> one_of '',;'' c)))])"

definition PRIVATE_TEXT_ASSIGNMENT_RE :: regex where
  "PRIVATE_TEXT_ASSIGNMENT_RE = ignore_case (cats [word_boundary,
     Grp 1 (lits [''message'', ''text'', ''transcript'', ''prompt'', ''body'', ''content'', ''audio'']), word_boundary,
     spaces, opt (Cls (one_of [CHR 0x22, CHR 0x27])), spaces, Cls (one_of '':=''), spaces,
     opt (Cls (one_of [CHR 0x22, CHR 0x27])),
     Grp 2 (plus1 (Cls (\<lambda>c. \<not> one_of [CHR '';'', CHR 0x0D, CHR 0x0A, CHR ''}'', CHR '']''] c)))])"

definition BEARER_RE :: regex where
  "BEARER_RE = ignore_case (cats [word_boundary, Grp 1 (lits [''bearer'', ''basic'']), spaces1,
     plus1 (Cls (\<lambda>c. alnum_az c \<or> one_of ''._~+/=-'' c))])"

definition token_char :: "char \<Rightarrow> bool" where "token_char c \<longleftrightarrow> alnum_az c \<or> one_of ''_-'' c"

definition JWT_RE :: regex where
  "JWT_RE = cats [word_boundary, lit ''eyJ'', plus1 (Cls token_char), lit ''.'', plus1 (Cls token_char), lit ''.'',
     plus1 (Cls token_char), word_boundary]"

definition OPAQUE_SECRET_RE :: regex where
  "OPAQUE_SECRET_RE = ignore_case (cats [word_boundary, lits [''sk'', ''ghp'', ''gho'', ''ghu'', ''ghs'', ''github_pat''],
     opt (lit ''-''), at_least 18 (Cls token_char), word_boundary])"

definition TELEGRAM_TOKEN_RE :: regex where
  "TELEGRAM_TOKEN_RE = cats [word_boundary, reps 6 12 (Cls digit), lit '':'', at_least 20 (Cls token_char), word_boundary]"

definition TELEGRAM_TRACE_SOURCE_RE :: regex where
  "TELEGRAM_TRACE_SOURCE_RE = ignore_case (cats [alts [start_of_text, Cls (one_of '':/_.@+-'')], lit ''telegram'',
     alts [Dollar, Cls (one_of '':/_.@+-'')]])"

definition PUBLIC_ERROR_MESSAGES :: "(string \<times> string) list" where
  "PUBLIC_ERROR_MESSAGES =
     [(''authentication_required'', ''authentication required''), (''conflict'', ''request conflict''),
      (''guardrail_blocked'', ''guardrail blocked''), (''internal_error'', ''internal error''),
      (''not_found'', ''resource not found''), (''permission_denied'', ''permission denied''),
      (''pii_detected'', ''sensitive input detected''), (''prompt_injection_detected'', ''unsafe input detected''),
      (''tenant_required'', ''tenant required''), (''token_budget_exceeded'', ''token budget exceeded''),
      (''validation_failed'', ''request validation failed'')]"

definition PUBLIC_ERROR_MESSAGE_ALLOWLIST :: "(string \<times> string) list" where
  "PUBLIC_ERROR_MESSAGE_ALLOWLIST =
     [(''conflict'', ''reminder replay payload conflicts with the registered event''),
      (''conflict'', ''workflow identity is immutable'')]"

definition IDENTIFIER_KEYS :: "string list" where
  "IDENTIFIER_KEYS = [''actorid'', ''agentid'', ''approvalid'', ''calendareventid'', ''causationid'', ''chatid'',
     ''conversationid'', ''correlationid'', ''eventid'', ''fileid'', ''id'', ''idempotencykey'', ''jobid'', ''messageid'',
     ''parenteventid'', ''principalid'', ''providermessageid'', ''promptid'', ''reminderid'', ''replyid'', ''requestid'',
     ''runid'', ''sourceeventid'', ''tenantid'', ''traceid'', ''updateid'', ''userid'', ''workflowid'']"

definition EXTERNAL_IDENTIFIER_KEYS :: "string list" where
  "EXTERNAL_IDENTIFIER_KEYS = [''actorid'', ''chatid'', ''conversationid'', ''messageid'', ''principalid'',
     ''providermessageid'', ''sourceeventid'', ''updateid'', ''userid'']"

definition HASH_KEYS :: "string list" where
  "HASH_KEYS = [''digest'', ''fingerprint'', ''hash'', ''payloadfingerprint'', ''requesthash'', ''sha256'']"

definition METRIC_KEYS :: "string list" where
  "METRIC_KEYS = [''accepted'', ''confidence'', ''contextutilization'', ''count'', ''durationms'', ''end'',
     ''identityversion'', ''inputtokens'', ''latencyms'', ''limit'', ''matched'', ''mediafilesize'', ''outputtokens'',
     ''sizebytes'', ''start'', ''temperature'', ''textlength'', ''threshold'', ''tokencount'', ''truncatedcount'']"

definition CATEGORY_KEYS :: "string list" where
  "CATEGORY_KEYS = [''audioformat'', ''category'', ''channel'', ''code'', ''component'', ''contenttype'', ''errortype'',
     ''extension'', ''field'', ''format'', ''kind'', ''label'', ''language'', ''mediakind'', ''mediamimetype'', ''model'',
     ''name'', ''operation'', ''promptversion'', ''provider'', ''retryable'', ''schema'', ''severity'', ''source'', ''stage'',
     ''status'', ''step'', ''telegramfileextension'', ''tier'', ''timezone'', ''type'', ''validation'', ''version'',
     ''workflow'', ''workflowtype'']"

definition CONTAINER_KEYS :: "string list" where
  "CONTAINER_KEYS = [''categories'', ''context'', ''details'', ''errors'', ''findings'', ''items'', ''loc'', ''metadata'',
     ''result'', ''results'']"

definition SENSITIVE_KEY_PARTS :: "string list" where
  "SENSITIVE_KEY_PARTS = [''apikey'', ''authorization'', ''body'', ''content'', ''cookie'', ''credential'', ''document'',
     ''excerpt'', ''input'', ''message'', ''password'', ''passwd'', ''prompt'', ''query'', ''reason'', ''secret'', ''session'',
     ''text'', ''token'', ''transcript'', ''url'', ''uri'']"

definition BINARY_KEY_PARTS :: "string list" where
  "BINARY_KEY_PARTS = [''attachment'', ''audio'', ''binary'', ''blob'', ''bytes'', ''data'', ''file'', ''image'', ''media'',
     ''payload'']"

section \<open>Text\<close>

definition is_sensitive_string :: "string \<Rightarrow> bool" where
  "is_sensitive_string v \<longleftrightarrow>
     re_test URL_RE v \<or> re_test AUTHORITY_CREDENTIAL_RE v \<or> re_test SECRET_ASSIGNMENT_RE v
     \<or> re_test PRIVATE_TEXT_ASSIGNMENT_RE v \<or> re_test BEARER_RE v \<or> re_test JWT_RE v
     \<or> re_test OPAQUE_SECRET_RE v \<or> re_test TELEGRAM_TOKEN_RE v"

definition group_text :: "mpos \<times> mpos \<Rightarrow> nat \<Rightarrow> string" where
  "group_text m n = (case match_group m n of None \<Rightarrow> ''None'' | Some t \<Rightarrow> t)"

definition redact_error_message :: "(pyval \<Rightarrow> string) \<Rightarrow> pyval \<Rightarrow> string" where
  "redact_error_message rp v =
     (case v of
        PBytes b \<Rightarrow> REDACTED @ '' binary size='' @ str_of_int (int (length b))
      | _ \<Rightarrow>
        (let t1 = re_sub URL_RE (\<lambda>_. REDACTED_URL) (py_str rp v);
             t2 = re_sub AUTHORITY_CREDENTIAL_RE (\<lambda>_. REDACTED_URL) t1;
             t3 = re_sub SECRET_ASSIGNMENT_RE (\<lambda>m. group_text m 1 @ group_text m 2 @ REDACTED) t2;
             t4 = re_sub BEARER_RE (\<lambda>m. group_text m 1 @ '' '' @ REDACTED) t3;
             t5 = re_sub PRIVATE_TEXT_ASSIGNMENT_RE (\<lambda>m. group_text m 1 @ ''='' @ REDACTED) t4;
             t6 = re_sub JWT_RE (\<lambda>_. REDACTED) t5;
             t7 = re_sub OPAQUE_SECRET_RE (\<lambda>_. REDACTED) t6;
             t8 = re_sub TELEGRAM_TOKEN_RE (\<lambda>_. REDACTED) t7
         in take 500 t8))"

definition public_error_message :: "(pyval \<Rightarrow> string) \<Rightarrow> string \<Rightarrow> pyval option \<Rightarrow> string" where
  "public_error_message rp code candidate =
     (let candidate_text = (case candidate of None \<Rightarrow> [] | Some c \<Rightarrow> py_strip (redact_error_message rp c)) in
      if (code, candidate_text) \<in> set PUBLIC_ERROR_MESSAGE_ALLOWLIST then candidate_text
      else case map_of PUBLIC_ERROR_MESSAGES code of None \<Rightarrow> ''request failed'' | Some m \<Rightarrow> m)"

definition redacted_text_metadata :: "(string \<Rightarrow> string) \<Rightarrow> (pyval \<Rightarrow> string) \<Rightarrow> pyval \<Rightarrow> (string \<times> pyval) list" where
  "redacted_text_metadata sha rp v =
     (case v of
        PBytes b \<Rightarrow> [(''message_length'', PInt (int (length b))), (''message_sha256'', PStr (sha b))]
      | _ \<Rightarrow> [(''message_length'', PInt (int (length (py_str rp v)))),
              (''message_sha256'', PStr (sha (utf8_encode (py_str rp v))))])"

definition digest_of :: "(string \<Rightarrow> string) \<Rightarrow> string \<Rightarrow> string" where
  "digest_of sha t = ''sha256:'' @ sha (utf8_encode t)"

definition safe_identifier :: "(string \<Rightarrow> string) \<Rightarrow> string \<Rightarrow> string" where
  "safe_identifier sha v =
     (let t = py_strip v in
      if t = [] then t
      else if is_sensitive_string t \<or> \<not> re_fullmatch SAFE_IDENTIFIER_RE t then digest_of sha t
      else t)"

definition opaque_trace_identifier :: "(string \<Rightarrow> string) \<Rightarrow> string \<Rightarrow> string" where
  "opaque_trace_identifier sha v =
     (let t = py_strip v in
      if t = [] then t
      else if starts_with ''sha256:'' t \<and> re_fullmatch SAFE_HASH_RE t then t
      else digest_of sha t)"

definition safe_trace_run_id :: "(string \<Rightarrow> string) \<Rightarrow> string \<Rightarrow> string" where
  "safe_trace_run_id sha v =
     (let t = py_strip v in
      if re_test TELEGRAM_TRACE_SOURCE_RE t then opaque_trace_identifier sha t else safe_identifier sha t)"

definition trace_run_id_lookup_candidates :: "(string \<Rightarrow> string) \<Rightarrow> string \<Rightarrow> string list" where
  "trace_run_id_lookup_candidates sha v =
     (let t = py_strip v; safe_value = safe_trace_run_id sha t in
      if t \<noteq> safe_value \<and> safe_identifier sha t = t \<and> re_test TELEGRAM_TRACE_SOURCE_RE t
      then [safe_value, t] else [safe_value])"

definition safe_optional_identifier :: "(string \<Rightarrow> string) \<Rightarrow> string option \<Rightarrow> string option" where
  "safe_optional_identifier sha v = map_option (safe_identifier sha) v"

definition safe_category_text :: "string \<Rightarrow> string" where
  "safe_category_text v =
     (let t = py_strip v in
      if t = [] then t
      else if is_sensitive_string t \<or> \<not> re_fullmatch SAFE_CATEGORY_RE t then REDACTED
      else t)"

definition safe_category :: "(pyval \<Rightarrow> string) \<Rightarrow> pyval \<Rightarrow> pyval" where
  "safe_category rp v = (case v of PNone \<Rightarrow> PNone | _ \<Rightarrow> PStr (safe_category_text (py_str rp v)))"

definition safe_context_refs :: "string list \<Rightarrow> string list" where
  "safe_context_refs refs = filter (\<lambda>r. r \<noteq> []) (map safe_category_text (take MAX_ITEMS refs))"

definition binary_metadata :: "(string \<Rightarrow> string) \<Rightarrow> string \<Rightarrow> pyval" where
  "binary_metadata sha b =
     PMap [(''kind'', PStr ''binary''), (''size_bytes'', PInt (int (length b))), (''sha256'', PStr (sha b))]"

section \<open>Metadata trees\<close>

definition canonical_key :: "string \<Rightarrow> string" where
  "canonical_key key = filter (\<lambda>c. lower_az c \<or> digit c) (py_casefold key)"

definition is_metric_key :: "string \<Rightarrow> bool" where
  "is_metric_key key =
     ends_with_any [''bytes'', ''count'', ''durationms'', ''length'', ''latencyms'', ''size'', ''tokens''] key"

definition is_sensitive_key :: "string \<Rightarrow> bool" where
  "is_sensitive_key key = contains_any SENSITIVE_KEY_PARTS key"

definition is_binary_metadata :: "pyval \<Rightarrow> bool" where
  "is_binary_metadata v =
     (case v of
        PDict d \<Rightarrow> map_of d (PStr ''kind'') = Some (PStr ''binary'')
          \<and> (case map_of d (PStr ''size_bytes'') of Some (PInt _) \<Rightarrow> True | Some (PBool _) \<Rightarrow> True | _ \<Rightarrow> False)
          \<and> (case map_of d (PStr ''sha256'') of Some (PStr h) \<Rightarrow> re_fullmatch SAFE_HASH_RE h | _ \<Rightarrow> False)
      | _ \<Rightarrow> False)"

definition sanitize_metric :: "pyval \<Rightarrow> pyval option" where
  "sanitize_metric v = (case v of PBool _ \<Rightarrow> Some v | PInt _ \<Rightarrow> Some v | PFloat _ \<Rightarrow> Some v | _ \<Rightarrow> None)"

definition sanitize_hash :: "(string \<Rightarrow> string) \<Rightarrow> (pyval \<Rightarrow> string) \<Rightarrow> pyval \<Rightarrow> string" where
  "sanitize_hash sha rp v =
     (let t = py_strip (py_str rp v) in if re_fullmatch SAFE_HASH_RE t then t else digest_of sha t)"

definition safe_trace_metadata_identifier :: "(string \<Rightarrow> string) \<Rightarrow> (pyval \<Rightarrow> string) \<Rightarrow> pyval \<Rightarrow> string" where
  "safe_trace_metadata_identifier sha rp v = safe_trace_run_id sha (py_str rp v)"

definition sanitize_identifier_value :: "(string \<Rightarrow> string) \<Rightarrow> (pyval \<Rightarrow> string) \<Rightarrow> bool \<Rightarrow> pyval \<Rightarrow> pyval" where
  "sanitize_identifier_value sha rp force_opaque v =
     (let san = (if force_opaque then (\<lambda>x. opaque_trace_identifier sha (py_str rp x))
                 else safe_trace_metadata_identifier sha rp) in
      case v of
        PList xs \<Rightarrow> PList (map (\<lambda>x. PStr (san x)) (take MAX_ITEMS xs))
      | _ \<Rightarrow> PStr (san v))"

fun sanitize_category_value :: "(pyval \<Rightarrow> string) \<Rightarrow> pyval \<Rightarrow> pyval" where
  "sanitize_category_value rp (PBool b) = PBool b"
| "sanitize_category_value rp (PList xs) = PList (take MAX_ITEMS (map (sanitize_category_value rp) xs))"
| "sanitize_category_value rp v = safe_category rp v"

definition store_redacted ::
    "(string \<Rightarrow> string) \<Rightarrow> string \<Rightarrow> pyval \<Rightarrow> (string \<times> pyval) list \<Rightarrow> (string \<times> pyval) list" where
  "store_redacted sha key v out =
     (case v of
        PBytes b \<Rightarrow> AList.update key (binary_metadata sha b) out
      | PStr t \<Rightarrow>
          if t = REDACTED \<or> t = REDACTED_URL then AList.update key v out
          else AList.update (key @ ''_sha256'') (PStr (sha (utf8_encode t)))
                 (AList.update (key @ ''_length'') (PInt (int (length t)))
                   (AList.update key (PStr (if re_test URL_RE t then REDACTED_URL else REDACTED)) out))
      | PDict d \<Rightarrow> AList.update (key @ ''_count'') (PInt (int (length d))) (AList.update key (PStr REDACTED) out)
      | PList xs \<Rightarrow> AList.update (key @ ''_count'') (PInt (int (length xs))) (AList.update key (PStr REDACTED) out)
      | _ \<Rightarrow> AList.update key (PStr REDACTED) out)"

text \<open>
  One item of a mapping; \<open>cont\<close> sanitises the value of a container key, \<open>sub\<close> a mapping one
  level down.
\<close>

definition sanitize_item ::
    "(string \<Rightarrow> string) \<Rightarrow> (pyval \<Rightarrow> string) \<Rightarrow> (string \<Rightarrow> pyval \<Rightarrow> pyval) \<Rightarrow> ((pyval \<times> pyval) list \<Rightarrow> pyval)
       \<Rightarrow> pyval \<times> pyval \<Rightarrow> (string \<times> pyval) list \<Rightarrow> (string \<times> pyval) list" where
  "sanitize_item sha rp cont sub item out =
     (case item of
        (PStr raw_key, v) \<Rightarrow>
          (let key = py_strip raw_key; canonical = canonical_key key in
           if key = [] \<or> length key > MAX_KEY_LENGTH \<or> \<not> re_fullmatch SAFE_KEY_RE key then out
           else if canonical \<in> set METRIC_KEYS \<or> is_metric_key canonical
           then (case sanitize_metric v of Some m \<Rightarrow> AList.update key m out | None \<Rightarrow> store_redacted sha key v out)
           else if canonical \<in> set IDENTIFIER_KEYS
           then AList.update key (sanitize_identifier_value sha rp (canonical \<in> set EXTERNAL_IDENTIFIER_KEYS) v) out
           else if canonical \<in> set HASH_KEYS \<or> ends_with_any [''hash'', ''fingerprint'', ''sha256''] canonical
           then AList.update key (PStr (sanitize_hash sha rp v)) out
           else if canonical \<in> set CATEGORY_KEYS then AList.update key (sanitize_category_value rp v) out
           else if canonical \<in> set CONTAINER_KEYS then AList.update key (cont canonical v) out
           else if is_sensitive_key canonical then store_redacted sha key v out
           else if contains_any BINARY_KEY_PARTS canonical
           then (case v of
                   PDict d \<Rightarrow> (let metadata = sub d in
                     if is_binary_metadata metadata then AList.update key metadata out
                     else store_redacted sha key v out)
                 | _ \<Rightarrow> store_redacted sha key v out)
           else out)
      | _ \<Rightarrow> out)"

text \<open>One element of a list under a container key.\<close>

definition sanitize_element ::
    "(string \<Rightarrow> string) \<Rightarrow> (pyval \<Rightarrow> string) \<Rightarrow> (pyval \<Rightarrow> pyval) \<Rightarrow> ((pyval \<times> pyval) list \<Rightarrow> pyval)
       \<Rightarrow> string \<Rightarrow> pyval \<Rightarrow> pyval" where
  "sanitize_element sha rp cont sub key x =
     (case x of
        PDict d \<Rightarrow> sub d
      | PList ys \<Rightarrow> cont x
      | _ \<Rightarrow>
        if key = ''loc'' then sanitize_identifier_value sha rp False x
        else if key = ''categories'' then sanitize_category_value rp x
        else (case x of PBytes b \<Rightarrow> binary_metadata sha b | _ \<Rightarrow> PStr REDACTED))"

function sanitize_mapping ::
      "(string \<Rightarrow> string) \<Rightarrow> (pyval \<Rightarrow> string) \<Rightarrow> nat \<Rightarrow> (pyval \<times> pyval) list \<Rightarrow> pyval"
  and sanitize_container ::
      "(string \<Rightarrow> string) \<Rightarrow> (pyval \<Rightarrow> string) \<Rightarrow> nat \<Rightarrow> string \<Rightarrow> pyval \<Rightarrow> pyval"
  where
  "sanitize_mapping sha rp 0 d = PStr REDACTED"
| "sanitize_mapping sha rp (Suc n) d =
     (let out = fold (sanitize_item sha rp (sanitize_container sha rp n) (sanitize_mapping sha rp n)) (take MAX_ITEMS d) []
      in PMap (if length d > MAX_ITEMS
               then AList.update ''truncated_count'' (PInt (int (length d - MAX_ITEMS))) out else out))"
| "sanitize_container sha rp 0 key v = PStr REDACTED"
| "sanitize_container sha rp (Suc n) key v =
     (case v of
        PDict d \<Rightarrow> sanitize_mapping sha rp (Suc n) d
      | PList xs \<Rightarrow>
          (let out = map (sanitize_element sha rp (sanitize_container sha rp n key) (sanitize_mapping sha rp n) key)
                       (take MAX_ITEMS xs)
           in PList (if length xs > MAX_ITEMS
                     then out @ [PMap [(''truncated_count'', PInt (int (length xs - MAX_ITEMS)))]] else out))
      | _ \<Rightarrow> PStr REDACTED)"
  by pat_completeness auto
termination
  by (relation "measure (\<lambda>x. case x of Inl (_, _, n, _) \<Rightarrow> 2 * n | Inr (_, _, n, _) \<Rightarrow> 2 * n + 1)") auto

definition redact_trace_mapping :: "(string \<Rightarrow> string) \<Rightarrow> (pyval \<Rightarrow> string) \<Rightarrow> pyval \<Rightarrow> pyval" where
  "redact_trace_mapping sha rp v =
     (case v of
        PDict d \<Rightarrow> (case sanitize_mapping sha rp (Suc MAX_DEPTH) d of PDict o' \<Rightarrow> PDict o' | _ \<Rightarrow> PMap [])
      | _ \<Rightarrow> PMap [])"

definition redact_error_context :: "(string \<Rightarrow> string) \<Rightarrow> (pyval \<Rightarrow> string) \<Rightarrow> pyval \<Rightarrow> pyval" where
  "redact_error_context sha rp v = redact_trace_mapping sha rp v"

end
