(* ===== verification/Guardrails.thy ===== *)
theory Guardrails
  imports Py_Regex Privacy "HOL-Library.Product_Lexorder"
begin

text \<open>
  Guardrail scans: \<^verbatim>\<open>domain/common/guardrails.py\<close>, the enforcement helpers of
  \<^verbatim>\<open>application/use_cases/runtime.py\<close> and the telemetry payload of
  \<^verbatim>\<open>application/dto/tracing.py\<close>. The rule tables hold the patterns of the module in
  its order. A finding is a validated object: its excerpt is stripped and may have at most
  160 characters, otherwise the constructor raises and the whole scan with it.
\<close>

section \<open>Findings\<close>

datatype guardrail_category = PROMPT_INJECTION | PII | CONTENT_POLICY
datatype guardrail_severity = LOW | MEDIUM | HIGH

fun category_value :: "guardrail_category \<Rightarrow> string" where
  "category_value PROMPT_INJECTION = ''prompt_injection''"
| "category_value PII = ''pii''"
| "category_value CONTENT_POLICY = ''content_policy''"

fun severity_value :: "guardrail_severity \<Rightarrow> string" where
  "severity_value LOW = ''low''"
| "severity_value MEDIUM = ''medium''"
| "severity_value HIGH = ''high''"

record guardrail_finding =
  gf_category :: guardrail_category
  gf_severity :: guardrail_severity
  gf_label :: string
  gf_start :: nat
  gf_end :: nat
  gf_excerpt :: string

definition GuardrailFinding_make :: "guardrail_finding \<Rightarrow> guardrail_finding result" where
  "GuardrailFinding_make f =
     (let g = f\<lparr>gf_label := py_strip (gf_label f), gf_excerpt := py_strip (gf_excerpt f)\<rparr> in
      if gf_label g = [] \<or> length (gf_label g) > 120 \<or> length (gf_excerpt g) > 160
      then Inl (ValueError ''invalid guardrail finding'') else Inr g)"

type_synonym guardrail_result = "guardrail_finding list"

definition blocked :: "guardrail_result \<Rightarrow> bool" where
  "blocked r \<longleftrightarrow> (\<exists>f \<in> set r. gf_severity f = HIGH)"

section \<open>Rules\<close>

type_synonym rule = "string \<times> regex \<times> guardrail_severity"

definition words :: "string list \<Rightarrow> regex" where
  "words ws = cats [word_boundary, Grp 1 (lits ws), word_boundary]"

definition plural :: "string \<Rightarrow> regex" where
  "plural w = Cat (lit w) (opt (lit ''s''))"

definition gap :: "nat \<Rightarrow> regex" where "gap n = reps 0 n any_char"

definition PROMPT_INJECTION_PATTERNS :: "rule list" where
  "PROMPT_INJECTION_PATTERNS =
     [(''ignore_instructions'',
       ignore_case (cats [words [''ignore'', ''override'', ''forget'', ''disregard''], gap 60, word_boundary,
         Grp 2 (alts [plural ''instruction'', plural ''rule'', lit ''policy'', lit ''system'']), word_boundary]), HIGH),
      (''reveal_system_prompt'',
       ignore_case (cats [words [''show'', ''reveal'', ''print'', ''dump'', ''exfiltrate''], gap 80, word_boundary,
         Grp 2 (alts [lit ''system prompt'', lit ''developer message'', plural ''hidden instruction'']), word_boundary]), HIGH),
      (''jailbreak'',
       ignore_case (words [''jailbreak'', ''dan mode'', ''developer mode'', ''bypass safety'', ''unrestricted mode'']), HIGH),
      (''tool_exfiltration'',
       ignore_case (cats [words [''send'', ''post'', ''upload'', ''email''], gap 80, word_boundary,
         Grp 2 (alts [plural ''secret'', plural ''token'', plural ''credential'', plural ''api key'']), word_boundary]), HIGH)]"

definition phone_sep :: regex where
  "phone_sep = opt (Cls (\<lambda>c. one_of ''-.'' c \<or> py_isspace c))"

definition PII_PATTERNS :: "rule list" where
  "PII_PATTERNS =
     [(''email'',
       ignore_case (cats [word_boundary, plus1 (Cls (\<lambda>c. upper_az c \<or> digit c \<or> one_of ''._%+-'' c)), lit ''@'',
         plus1 (Cls (\<lambda>c. upper_az c \<or> digit c \<or> one_of ''.-'' c)), lit ''.'', at_least 2 (Cls upper_az), word_boundary]),
       MEDIUM),
      (''phone'',
       cats [not_after digit, opt (cats [opt (lit ''+''), reps 1 3 (Cls digit), phone_sep]),
         reps 2 2 (cats [opt (lit ''(''), reps 3 3 (Cls digit), opt (lit '')''), phone_sep]),
         reps 4 4 (Cls digit), not_before digit], MEDIUM),
      (''ssn'',
       cats [word_boundary, reps 3 3 (Cls digit), lit ''-'', reps 2 2 (Cls digit), lit ''-'', reps 4 4 (Cls digit),
         word_boundary], HIGH),
      (''credit_card'',
       cats [word_boundary, reps 13 19 (Cat (Cls digit) (Rep False 0 None (Cls (one_of '' -'')))), word_boundary], HIGH)]"

definition CONTENT_POLICY_INPUT_PATTERNS :: "rule list" where
  "CONTENT_POLICY_INPUT_PATTERNS =
     [(''cp_in_001_violent_threat'',
       ignore_case (cats [words [''kill'', ''murder'', ''assassinate'', ''bomb'', ''hurt''], gap 40, word_boundary,
         Grp 2 (alts [lit ''you'', lit ''him'', lit ''her'', lit ''them'', lit ''someone'',
           cats [lit ''my'', spaces1, lits [''boss'', ''partner'', ''neighbor'', ''neighbour'']]]), word_boundary]), MEDIUM),
      (''cp_in_002_secret_sharing'',
       ignore_case (cats [word_boundary,
         Grp 1 (alts [lit ''password'', lit ''passwd'', cats [lit ''api'', opt (Cls (one_of ''_ -'')), lit ''key''],
           lit ''secret'', lit ''token'']), word_boundary, spaces, lits [''is'', ''='', '':''], spaces,
         plus1 (Cls (\<lambda>c. \<not> py_isspace c))]), MEDIUM)]"

definition CONTENT_POLICY_OUTPUT_PATTERNS :: "rule list" where
  "CONTENT_POLICY_OUTPUT_PATTERNS =
     [(''cp_out_001_credential_material'',
       alts [cats [word_boundary, lit ''sk-'', at_least 20 (Cls alnum_az), word_boundary],
             cats [word_boundary, lit ''AKIA'', reps 16 16 (Cls (\<lambda>c. digit c \<or> upper_az c)), word_boundary],
             cats [word_boundary, lit ''ghp_'', at_least 30 (Cls alnum_az), word_boundary],
             cats [word_boundary, lit ''xox'', Cls (one_of ''baprs''), lit ''-'',
               at_least 10 (Cls (\<lambda>c. alnum_az c \<or> c = CHR ''-'')), word_boundary],
             cats [word_boundary, reps 8 10 (Cls digit), lit '':'', reps 35 35 (Cls token_char), word_boundary],
             cats [word_boundary, lit ''Bearer'', spaces1, at_least 20 (Cls (\<lambda>c. alnum_az c \<or> one_of ''._~+/=-'' c))],
             cats [lit ''-----BEGIN '', opt (lits [''RSA '', ''EC '', ''OPENSSH '', ''PGP '']), lit ''PRIVATE KEY'',
               opt (lit '' BLOCK''), lit ''-----'']], HIGH),
      (''cp_out_002_exfiltration_instruction'',
       ignore_case (alts [cats [word_boundary, lit ''exfiltrat'', star (Cls word_char), word_boundary],
         cats [word_boundary, lits [''send'', ''post'', ''upload'', ''email'', ''forward''], word_boundary, gap 80,
           word_boundary, lit ''http'', opt (lit ''s''), lit ''://'']]), HIGH),
      (''cp_out_003_hidden_instruction_leak'',
       ignore_case (alts [cats [word_boundary,
           alts [lit ''system prompt'', lit ''developer message'', plural ''hidden instruction''], word_boundary, spaces,
           Cls (one_of '':='')],
         cats [word_boundary, lit ''my'', spaces1, alts [lit ''system prompt'', plural ''hidden instruction''], spaces1,
           alts [lit ''is'', lit ''are'', plural ''say''], word_boundary]]), HIGH),
      (''cp_out_004_destructive_action'',
       ignore_case (alts [
         cats [word_boundary, lit ''rm'', spaces1, lit ''-'', reps 1 2 (Cls (one_of ''rf'')), alts [Cls py_isspace, Dollar]],
         cats [word_boundary, lit ''del'', spaces1, lit ''/'', Cls (one_of ''fsq''), word_boundary],
         cats [word_boundary, lit ''format'', spaces1, Cls lower_az, lit '':''],
         cats [word_boundary, lit ''drop'', spaces1, lit ''table'', word_boundary],
         cats [word_boundary, lit ''delete'', spaces1, lit ''all'', spaces1, lits [''files'', ''data'', ''records''], word_boundary],
         cats [word_boundary, lit ''wipe'', spaces1, opt (Cat (lit ''the'') spaces1), lits [''disk'', ''drive'', ''database''],
           word_boundary]]), HIGH)]"

section \<open>Scans\<close>

definition excerpt :: "string \<Rightarrow> nat \<Rightarrow> nat \<Rightarrow> string" where
  "excerpt text start e =
     (let prefix_start = start - 20; suffix_end = min (length text) (e + 20) in
      map (\<lambda>c. if c = CHR 0x0A then CHR '' '' else c) (take (suffix_end - prefix_start) (drop prefix_start text)))"

definition finding_of :: "string \<Rightarrow> guardrail_category \<Rightarrow> rule \<Rightarrow> mpos \<times> mpos \<Rightarrow> guardrail_finding" where
  "finding_of text cat rl m =
     (case rl of (label, pattern, severity) \<Rightarrow>
        \<lparr>gf_category = cat, gf_severity = severity, gf_label = label, gf_start = match_start m, gf_end = match_end m,
         gf_excerpt = excerpt text (match_start m) (match_end m)\<rparr>)"

definition rule_hits :: "string \<Rightarrow> guardrail_category \<Rightarrow> rule list \<Rightarrow> guardrail_finding list" where
  "rule_hits text cat rules =
     concat (map (\<lambda>rl. map (finding_of text cat rl) (re_finditer (fst (snd rl)) text)) rules)"

definition scan_prompt :: "string \<Rightarrow> guardrail_result result" where
  "scan_prompt text = mapR GuardrailFinding_make
     (rule_hits text PROMPT_INJECTION PROMPT_INJECTION_PATTERNS @ rule_hits text PII PII_PATTERNS
      @ rule_hits text CONTENT_POLICY CONTENT_POLICY_INPUT_PATTERNS)"

definition scan_output :: "string \<Rightarrow> guardrail_result result" where
  "scan_output text = mapR GuardrailFinding_make (rule_hits text CONTENT_POLICY CONTENT_POLICY_OUTPUT_PATTERNS)"

definition redact_pii :: "string \<Rightarrow> string \<Rightarrow> string" where
  "redact_pii text replacement = fold (\<lambda>(_, pattern, _). re_sub pattern (\<lambda>_. replacement)) PII_PATTERNS text"

definition detect_prompt_injection :: "string \<Rightarrow> bool result" where
  "detect_prompt_injection text = bindR (scan_prompt text) (\<lambda>r. Inr (\<exists>f \<in> set r. gf_category f = PROMPT_INJECTION))"

definition detect_pii :: "string \<Rightarrow> bool result" where
  "detect_pii text = bindR (scan_prompt text) (\<lambda>r. Inr (\<exists>f \<in> set r. gf_category f = PII))"

section \<open>Enforcement\<close>

definition categories_of :: "guardrail_result \<Rightarrow> string list" where
  "categories_of r = sort (remdups (map (category_value \<circ> gf_category) r))"

definition finding_dump :: "guardrail_finding \<Rightarrow> (string \<times> ctx_value) list" where
  "finding_dump f = [(''category'', CStr (category_value (gf_category f))), (''severity'', CStr (severity_value (gf_severity f))),
     (''label'', CStr (gf_label f)), (''start'', CInt (int (gf_start f))), (''end'', CInt (int (gf_end f))),
     (''excerpt'', CStr (gf_excerpt f))]"

definition finding_summary :: "guardrail_finding \<Rightarrow> (string \<times> ctx_value) list" where
  "finding_summary f = [(''category'', CStr (category_value (gf_category f))), (''label'', CStr (gf_label f)),
     (''severity'', CStr (severity_value (gf_severity f)))]"

definition prompt_error :: "guardrail_result \<Rightarrow> py_error" where
  "prompt_error r = AssistantError
     (if ''prompt_injection'' \<in> set (categories_of r) then PROMPT_INJECTION_DETECTED else PII_DETECTED)
     ''prompt failed guardrail checks'' None
     [(''categories'', CList (categories_of r)), (''findings'', CItems (map finding_dump r))]"

definition GuardrailViolation :: "string \<Rightarrow> (string \<times> ctx_value) list \<Rightarrow> py_error" where
  "GuardrailViolation message context = AssistantError GUARDRAIL_BLOCKED message None context"

definition output_error :: "guardrail_result \<Rightarrow> py_error" where
  "output_error r = GuardrailViolation ''assistant output failed content policy checks''
     [(''categories'', CList (categories_of r)), (''findings'', CItems (map finding_summary r))]"

definition assert_prompt_safe :: "string \<Rightarrow> guardrail_result result" where
  "assert_prompt_safe text = bindR (scan_prompt text) (\<lambda>r. if blocked r then Inl (prompt_error r) else Inr r)"

definition assert_output_safe :: "string \<Rightarrow> guardrail_result result" where
  "assert_output_safe text = bindR (scan_output text) (\<lambda>r. if blocked r then Inl (output_error r) else Inr r)"

definition enforce_prompt_scan :: "guardrail_result \<Rightarrow> unit result" where
  "enforce_prompt_scan r = (if \<not> blocked r then Inr () else Inl (prompt_error r))"

definition enforce_output_scan :: "guardrail_result \<Rightarrow> unit result" where
  "enforce_output_scan r = (if \<not> blocked r then Inr () else Inl (output_error r))"

definition derive_guardrail_action :: "guardrail_result \<Rightarrow> string" where
  "derive_guardrail_action r = (if blocked r then ''blocked'' else if r \<noteq> [] then ''flagged'' else ''allowed'')"

definition GUARDRAIL_ACTIONS :: "string list" where
  "GUARDRAIL_ACTIONS = [''allowed'', ''flagged'', ''blocked'']"

definition build_guardrail_validation :: "guardrail_result \<Rightarrow> string \<Rightarrow> pyval result" where
  "build_guardrail_validation r action =
     (if action \<notin> set GUARDRAIL_ACTIONS
      then Inl (ValueError ''guardrail action must be allowed, flagged, or blocked'')
      else
       (let entries = sort_key id (map (\<lambda>f. (category_value (gf_category f), severity_value (gf_severity f), gf_label f)) r);
            categories = sort (remdups (map fst entries)) in
        Inr (PMap [(''status'', PStr action), (''categories'', PList (map PStr categories)),
                   (''findings_count'', PInt (int (length entries))),
                   (''findings'', PList (map (\<lambda>(c, s, l). PMap [(''category'', PStr c), (''severity'', PStr s),
                                                               (''label'', PStr l)]) entries))])))"

end
