(* ===== verification/Privacy_Safety.thy ===== *)
theory Privacy_Safety
  imports Privacy
begin

text \<open>
  What crosses the privacy boundary. \<open>clean\<close> describes the values that may: flags and
  finite numbers, placeholders, digests, and identifiers of the allowed alphabet in which
  none of the secret patterns occurs, under keys of a bounded alphabet and length. The
  theorems: whatever is put into trace metadata or an error context, the result is clean;
  the public text of an error comes from a fixed list; and the reported number of
  truncated items does not survive a second pass.
\<close>

section \<open>Clean values\<close>

definition safe_leaf :: "string \<Rightarrow> bool" where
  "safe_leaf t \<longleftrightarrow> t \<in> {[], REDACTED, REDACTED_URL} \<or> re_fullmatch SAFE_HASH_RE t
     \<or> (re_fullmatch SAFE_IDENTIFIER_RE t \<and> \<not> is_sensitive_string t)"

definition key_char :: "char \<Rightarrow> bool" where
  "key_char c \<longleftrightarrow> alnum_az c \<or> one_of ''_.-'' c"

definition safe_out_key :: "string \<Rightarrow> bool" where
  "safe_out_key k \<longleftrightarrow> length k \<le> MAX_KEY_LENGTH + 7 \<and> list_all key_char k"

fun clean :: "pyval \<Rightarrow> bool" where
  "clean (PStr t) = safe_leaf t"
| "clean (PBytes b) = False"
| "clean (PObj n) = False"
| "clean (PNonFinite k) = False"
| "clean (PList xs) = list_all clean xs"
| "clean (PDict d) = list_all (\<lambda>(k, v). (case k of PStr t \<Rightarrow> safe_out_key t | _ \<Rightarrow> False) \<and> clean v) d"
| "clean _ = True"

definition clean_items :: "(string \<times> pyval) list \<Rightarrow> bool" where
  "clean_items out \<longleftrightarrow> (\<forall>(k, v) \<in> set out. safe_out_key k \<and> clean v)"

lemma clean_PMap [simp]: "clean (PMap out) = clean_items out"
  by (auto simp: PMap_def clean_items_def list_all_iff)

lemma clean_items_Nil [simp]: "clean_items []"
  by (simp add: clean_items_def)

lemma clean_items_Cons [simp]: "clean_items ((k, v) # out) \<longleftrightarrow> safe_out_key k \<and> clean v \<and> clean_items out"
  by (auto simp: clean_items_def)

lemma clean_update [intro]: "clean_items out \<Longrightarrow> safe_out_key k \<Longrightarrow> clean v \<Longrightarrow> clean_items (AList.update k v out)"
proof (induction out)
  case (Cons e out)
  obtain k' v' where "e = (k', v')" by (rule prod.exhaust)
  with Cons show ?case by auto
qed simp

section \<open>Digests and identifiers\<close>

lemma lang_hash:
  assumes "list_all hex_any (mp_rest s)" and "32 \<le> length (mp_rest s)" and "length (mp_rest s) \<le> 128"
  shows "\<exists>s'. lang (Cat (reps 32 128 (Cls hex_any)) end_of_text) s s' \<and> mp_rest s' = []"
  unfolding lang_Cat_run lang_end_of_text
  using assms by (intro exI [of _ "skip (length (mp_rest s)) s"] conjI exI [of _ "length (mp_rest s)"]) auto

lemma SAFE_HASH_RE_proper: "proper SAFE_HASH_RE"
  by (simp add: SAFE_HASH_RE_def end_of_text_def chr_def)

lemma safe_hash:
  assumes "list_all hex_any h" and "32 \<le> length h" and "length h \<le> 128"
  shows "re_fullmatch SAFE_HASH_RE h" "re_fullmatch SAFE_HASH_RE (''sha256:'' @ h)"
proof -
  let ?tail = "Cat (reps 32 128 (Cls hex_any)) end_of_text"
  have r: "SAFE_HASH_RE = Cat (opt (lit ''sha256:'')) ?tail" by (simp add: SAFE_HASH_RE_def)
  obtain a where "lang ?tail (at_pos [] h) a" "mp_rest a = []"
    using lang_hash [of "at_pos [] h"] assms by (auto simp: at_pos_def)
  moreover have "lang (opt (lit ''sha256:'')) (at_pos [] h) (at_pos [] h)" by (simp only: lang_opt simp_thms)
  ultimately show "re_fullmatch SAFE_HASH_RE h"
    unfolding re_fullmatch_lang [OF SAFE_HASH_RE_proper] unfolding r lang.simps(3) by blast
  let ?s = "at_pos [] (''sha256:'' @ h)"
  have "mp_rest (skip 7 ?s) = h" by (simp add: at_pos_def)
  then obtain b where b: "lang ?tail (skip 7 ?s) b" "mp_rest b = []"
    using lang_hash [of "skip 7 ?s"] assms by auto
  have "lang (lit ''sha256:'') ?s (skip 7 ?s)" unfolding lang_lit by (simp add: at_pos_def eval_nat_numeral)
  then have "lang (opt (lit ''sha256:'')) ?s (skip 7 ?s)" by (simp only: lang_opt simp_thms)
  with b show "re_fullmatch SAFE_HASH_RE (''sha256:'' @ h)"
    unfolding re_fullmatch_lang [OF SAFE_HASH_RE_proper] unfolding r lang.simps(3) by blast
qed

lemma hex64_hash:
  assumes "is_hex64 h"
  shows "re_fullmatch SAFE_HASH_RE h" "re_fullmatch SAFE_HASH_RE (''sha256:'' @ h)"
proof -
  have "hex_any c" if "c \<in> set ''0123456789abcdef''" for c
    using that by (auto simp: hex_any_def digit_def in_range_def char_code_def)
  then have "list_all hex_any h" "length h = 64" using assms by (auto simp: is_hex64_def list_all_iff)
  then show "re_fullmatch SAFE_HASH_RE h" "re_fullmatch SAFE_HASH_RE (''sha256:'' @ h)"
    by (simp_all add: safe_hash del: append.simps)
qed

lemma category_identifier: "re_fullmatch SAFE_CATEGORY_RE t \<Longrightarrow> re_fullmatch SAFE_IDENTIFIER_RE t"
  unfolding SAFE_CATEGORY_RE_def SAFE_IDENTIFIER_RE_def fullmatch_head_run by auto

lemma safe_key_out:
  assumes "re_fullmatch SAFE_KEY_RE k"
  shows "length k \<le> MAX_KEY_LENGTH" "list_all key_char k"
proof -
  from assms have k: "k \<noteq> []" "lower_az (hd k) \<or> upper_az (hd k)" "list_all key_char (tl k)" "length (tl k) \<le> 79"
    unfolding SAFE_KEY_RE_def fullmatch_head_run by (auto simp: key_char_def list_all_iff)
  then show "length k \<le> MAX_KEY_LENGTH" "list_all key_char k"
    by (cases k, auto simp: MAX_KEY_LENGTH_def key_char_def alnum_az_def)+
qed

lemma suffix_key_chars:
  "list_all key_char ''_sha256''" "list_all key_char ''_length''" "list_all key_char ''_count''"
  "list_all key_char ''truncated_count''" "list_all key_char ''kind''" "list_all key_char ''size_bytes''"
  "list_all key_char ''sha256''"
  by code_simp+

lemma fixed_out_keys [simp]:
  "safe_out_key ''truncated_count''" "safe_out_key ''kind''" "safe_out_key ''size_bytes''" "safe_out_key ''sha256''"
  using suffix_key_chars by (simp_all add: safe_out_key_def MAX_KEY_LENGTH_def)

lemma suffixed_key:
  assumes "re_fullmatch SAFE_KEY_RE k"
  shows "safe_out_key k" "safe_out_key (k @ ''_sha256'')" "safe_out_key (k @ ''_length'')" "safe_out_key (k @ ''_count'')"
  using safe_key_out [OF assms] suffix_key_chars by (simp_all add: safe_out_key_def)

section \<open>The result of redaction is clean\<close>

definition digest :: "(string \<Rightarrow> string) \<Rightarrow> bool" where
  "digest sha \<longleftrightarrow> (\<forall>b. is_hex64 (sha b))"

lemma safe_leaf_digest:
  assumes "digest sha"
  shows "safe_leaf (sha b)" "safe_leaf (digest_of sha t)"
  using assms hex64_hash [of "sha b"] hex64_hash [of "sha (utf8_encode t)"]
  unfolding digest_def safe_leaf_def digest_of_def by blast+

lemma safe_leaf_fixed [simp]: "safe_leaf []" "safe_leaf REDACTED" "safe_leaf REDACTED_URL"
  by (simp_all add: safe_leaf_def)

lemma safe_leaf_identifier: "digest sha \<Longrightarrow> safe_leaf (safe_identifier sha v)"
  using safe_leaf_digest(2) [of sha] by (auto simp: safe_identifier_def Let_def) (simp add: safe_leaf_def)

lemma safe_leaf_opaque: "digest sha \<Longrightarrow> safe_leaf (opaque_trace_identifier sha v)"
  using safe_leaf_digest(2) [of sha] by (auto simp: opaque_trace_identifier_def Let_def) (simp add: safe_leaf_def)

lemma safe_leaf_run_id: "digest sha \<Longrightarrow> safe_leaf (safe_trace_run_id sha v)"
  by (simp add: safe_trace_run_id_def Let_def safe_leaf_identifier safe_leaf_opaque)

lemma safe_leaf_category: "safe_leaf (safe_category_text v)"
  using category_identifier by (auto simp: safe_category_text_def Let_def) (simp add: safe_leaf_def)

lemma clean_category_value: "clean (sanitize_category_value rp v)"
proof (induction rp v rule: sanitize_category_value.induct)
  case (2 rp xs)
  then show ?case by (auto simp: take_map list_all_iff dest: in_set_takeD)
qed (simp_all add: safe_category_def safe_leaf_category split: pyval.splits)

lemma clean_identifier_value: "digest sha \<Longrightarrow> clean (sanitize_identifier_value sha rp opq v)"
  by (auto simp: sanitize_identifier_value_def Let_def safe_trace_metadata_identifier_def safe_leaf_run_id safe_leaf_opaque
      list_all_iff split: pyval.splits)

lemma safe_leaf_hash: "digest sha \<Longrightarrow> safe_leaf (sanitize_hash sha rp v)"
  using safe_leaf_digest(2) [of sha] by (auto simp: sanitize_hash_def Let_def) (simp add: safe_leaf_def)

lemma clean_metric: "sanitize_metric v = Some m \<Longrightarrow> clean m"
  by (cases v) (auto simp: sanitize_metric_def)

lemma safe_leaf_binary: "safe_leaf ''binary''"
proof -
  have "re_fullmatch SAFE_IDENTIFIER_RE ''binary'' \<and> \<not> is_sensitive_string ''binary''" by code_simp
  then show ?thesis by (simp add: safe_leaf_def)
qed

lemma clean_binary_metadata: "digest sha \<Longrightarrow> clean (binary_metadata sha b)"
  by (simp add: binary_metadata_def safe_leaf_binary safe_leaf_digest)

lemma clean_store_redacted:
  assumes "digest sha" and "re_fullmatch SAFE_KEY_RE key" and "clean_items out"
  shows "clean_items (store_redacted sha key v out)"
  using assms suffixed_key [OF assms(2)]
  by (auto simp: store_redacted_def clean_binary_metadata safe_leaf_digest split: pyval.splits intro!: clean_update)

lemma clean_item:
  assumes d: "digest sha" and out: "clean_items out"
    and cont: "\<And>k v. clean (cont k v)" and sub: "\<And>d. clean (sub d)"
  shows "clean_items (sanitize_item sha rp cont sub item out)"
proof -
  obtain k v where kv: "item = (k, v)" by (rule prod.exhaust)
  show ?thesis
  proof (cases "\<exists>t. k = PStr t \<and> re_fullmatch SAFE_KEY_RE (py_strip t)")
    case False
    then show ?thesis using out by (cases k) (auto simp: kv sanitize_item_def Let_def)
  next
    case True
    then obtain t where t: "k = PStr t" and key: "re_fullmatch SAFE_KEY_RE (py_strip t)" by blast
    note upd = clean_update [OF out suffixed_key(1) [OF key]] and red = clean_store_redacted [OF d key out]
    show ?thesis
      unfolding kv t sanitize_item_def Let_def
      using upd [OF clean_category_value] upd [OF clean_identifier_value [OF d]] upd [OF cont] upd [OF sub] red out
        safe_leaf_hash [OF d]
      by (auto split: option.splits pyval.splits intro!: upd dest: clean_metric)
  qed
qed

lemma clean_fold_items:
  assumes "digest sha" and "clean_items out" and "\<And>k v. clean (cont k v)" and "\<And>d. clean (sub d)"
  shows "clean_items (fold (sanitize_item sha rp cont sub) items out)"
  using assms(2) by (induction items arbitrary: out) (auto intro: clean_item assms)

lemma clean_element:
  assumes "digest sha" and "\<And>v. clean (cont v)" and "\<And>d. clean (sub d)"
  shows "clean (sanitize_element sha rp cont sub key x)"
  using assms clean_identifier_value [OF assms(1), of rp False x] clean_category_value [of rp x]
  by (cases x) (simp_all add: sanitize_element_def clean_binary_metadata)

lemma clean_mapping_Suc:
  assumes "digest sha" and "\<And>k v. clean (sanitize_container sha rp n k v)" and "\<And>d. clean (sanitize_mapping sha rp n d)"
  shows "clean (sanitize_mapping sha rp (Suc n) d)"
  using clean_fold_items [OF assms(1) clean_items_Nil, where cont = "sanitize_container sha rp n" and sub = "sanitize_mapping sha rp n", OF assms(2,3)]
  by (simp add: Let_def clean_update)

lemma clean_container_Suc:
  assumes "digest sha" and "\<And>k v. clean (sanitize_container sha rp n k v)" and "\<And>d. clean (sanitize_mapping sha rp n d)"
  shows "clean (sanitize_container sha rp (Suc n) key v)"
proof (cases v)
  case (PList xs)
  show ?thesis using clean_element [where cont = "sanitize_container sha rp n key" and sub = "sanitize_mapping sha rp n", OF assms(1) assms(2,3)]
    by (simp add: PList Let_def list_all_iff)
next
  case (PDict d)
  then show ?thesis using clean_mapping_Suc [OF assms] by simp
qed simp_all

lemma clean_sanitize:
  assumes "digest sha"
  shows "clean (sanitize_mapping sha rp n d)" "clean (sanitize_container sha rp n key v)"
proof -
  have "(\<forall>d. clean (sanitize_mapping sha rp n d)) \<and> (\<forall>k v. clean (sanitize_container sha rp n k v))"
  proof (induction n)
    case (Suc n)
    then show ?case using clean_mapping_Suc [OF assms] clean_container_Suc [OF assms] by blast
  qed simp
  then show "clean (sanitize_mapping sha rp n d)" "clean (sanitize_container sha rp n key v)" by blast+
qed

section \<open>Properties\<close>



text \<open>A concrete context: a secret under an unknown key, a token under a category key, a transcript.\<close>

definition pv_sha :: "string \<Rightarrow> string" where "pv_sha b = replicate 64 (CHR ''a'')"

definition pv_context :: pyval where
  "pv_context = PDict [(PStr ''nickname'', PStr ''bob''), (PStr ''status'', PStr ''Bearer abc''),
     (PStr ''text'', PStr ''call mum''), (PStr ''run_id'', PStr ''r1''), (PInt 3, PStr ''x'')]"

lemma pv_hex: "is_hex64 (pv_sha b)"
  by (simp add: pv_sha_def is_hex64_def list_all_iff)


text \<open>public error texts come from a fixed list.
  Whatever code and candidate message are given, the public message is one of the fixed
  messages; a candidate is passed on only when it is one of the two allowlisted texts for
  its code.\<close>

theorem public_error_message_fixed:
  "public_error_message rp code candidate \<in>
     set (map snd PUBLIC_ERROR_MESSAGES) \<union> {''request failed'',
       ''reminder replay payload conflicts with the registered event'', ''workflow identity is immutable''}
   \<and> (code \<noteq> ''conflict'' \<longrightarrow> public_error_message rp code candidate
        = (case map_of PUBLIC_ERROR_MESSAGES code of None \<Rightarrow> ''request failed'' | Some m \<Rightarrow> m))"
proof -
  let ?t = "case candidate of None \<Rightarrow> [] | Some c \<Rightarrow> py_strip (redact_error_message rp c)"
  show ?thesis
  proof (cases "(code, ?t) \<in> set PUBLIC_ERROR_MESSAGE_ALLOWLIST")
    case True
    then have "public_error_message rp code candidate = ?t" "code = ''conflict''"
      by (auto simp: public_error_message_def PUBLIC_ERROR_MESSAGE_ALLOWLIST_def)
    with True show ?thesis by (auto simp: PUBLIC_ERROR_MESSAGE_ALLOWLIST_def)
  next
    case False
    then have "public_error_message rp code candidate
        = (case map_of PUBLIC_ERROR_MESSAGES code of None \<Rightarrow> ''request failed'' | Some m \<Rightarrow> m)"
      by (simp add: public_error_message_def Let_def)
    then show ?thesis by (auto split: option.splits dest!: map_of_SomeD intro: rev_image_eqI)
  qed
qed

theorem public_error_message_fixed_witness:
  "public_error_message (\<lambda>_. []) ''not_found'' (Some (PStr ''no row for bob'')) = ''resource not found''"
  using public_error_message_fixed [of "\<lambda>_. []" "''not_found''" "Some (PStr ''no row for bob'')"]
  by (simp add: PUBLIC_ERROR_MESSAGES_def)

text \<open>The number of truncated items is lost on the second pass.
  A list with more than 100 elements is cut and the number of dropped elements is appended
  as a last element. Redacting the result again, as every recorder does before it stores an
  event, cuts that element off and appends the number 1 instead, however many elements
  were dropped in the first place.\<close>

theorem truncated_count_lost:
  assumes "length xs > MAX_ITEMS"
  shows "(\<exists>ys. sanitize_container sha rp (Suc n) key (PList xs) =
             PList (ys @ [PMap [(''truncated_count'', PInt (int (length xs - 100)))]]))
       \<and> (\<exists>zs. sanitize_container sha rp (Suc n) key (sanitize_container sha rp (Suc n) key (PList xs)) =
             PList (zs @ [PMap [(''truncated_count'', PInt 1)]]))"
proof -
  let ?f = "map (sanitize_element sha rp (sanitize_container sha rp n key) (sanitize_mapping sha rp n) key)"
  have once: "sanitize_container sha rp (Suc n) key (PList us) =
      PList (?f (take MAX_ITEMS us) @ [PMap [(''truncated_count'', PInt (int (length us - MAX_ITEMS)))]])"
    if "length us > MAX_ITEMS" for us
    using that by (simp add: Let_def)
  let ?us = "?f (take MAX_ITEMS xs) @ [PMap [(''truncated_count'', PInt (int (length xs - MAX_ITEMS)))]]"
  have "length ?us = MAX_ITEMS + 1" using assms by simp
  then show ?thesis
    using once [OF assms] once [of ?us] by (auto simp: MAX_ITEMS_def simp del: sanitize_container.simps)
qed

theorem truncated_count_lost_witness:
  "\<exists>zs. sanitize_container pv_sha (\<lambda>_. []) 1 ''items''
          (sanitize_container pv_sha (\<lambda>_. []) 1 ''items'' (PList (replicate 400 (PInt 0)))) =
        PList (zs @ [PMap [(''truncated_count'', PInt 1)]])"
  using truncated_count_lost [of "replicate 400 (PInt 0)" pv_sha "\<lambda>_. []" 0 "''items''"]
  by (simp add: MAX_ITEMS_def del: sanitize_container.simps)

end
