(* ===== verification/Tracing.thy ===== *)
theory Tracing
  imports Privacy_Safety Guardrails Access_Control Contracts
begin

text \<open>
  Trace events and their recorder: \<^verbatim>\<open>application/dto/tracing.py\<close>,
  \<^verbatim>\<open>application/ports/observability.py\<close>, \<^verbatim>\<open>adapters/observability/local.py\<close>, and the
  structured error payload of \<^verbatim>\<open>domain/common/exceptions.py\<close>. Validators and serializers
  of a field are the same redaction; \<open>for_persistence\<close> dumps an event and validates the
  dump. The lemmas: whatever events are written, also ones whose fields were assigned after
  construction, the recorder holds only clean ones.
\<close>

section \<open>Trace events\<close>

datatype trace_event_type = agent_started | context_selected | llm_called | tool_called | guardrail_checked
  | approval_requested | agent_completed | agent_failed

record trace_event =
  te_trace_id :: string
  te_run_id :: string
  te_agent_id :: string
  te_event_type :: trace_event_type
  te_timestamp :: instant
  te_tenant_id :: string
  te_input_summary :: pyval
  te_context_refs :: "string list"
  te_tool_call :: pyval
  te_model :: "string option"
  te_output_summary :: pyval
  te_validation :: pyval
  te_error :: pyval
  te_parent_event_id :: "string option"

definition trace_fields :: "(string \<Rightarrow> string) \<Rightarrow> (pyval \<Rightarrow> string) \<Rightarrow> trace_event \<Rightarrow> trace_event" where
  "trace_fields sha rp e =
     e\<lparr>te_trace_id := safe_identifier sha (te_trace_id e), te_run_id := safe_trace_run_id sha (te_run_id e),
       te_agent_id := safe_identifier sha (te_agent_id e), te_tenant_id := safe_identifier sha (te_tenant_id e),
       te_input_summary := redact_trace_mapping sha rp (te_input_summary e),
       te_context_refs := safe_context_refs (te_context_refs e),
       te_tool_call := redact_trace_mapping sha rp (te_tool_call e),
       te_model := map_option safe_category_text (te_model e),
       te_output_summary := redact_trace_mapping sha rp (te_output_summary e),
       te_validation := redact_trace_mapping sha rp (te_validation e),
       te_error := redact_trace_mapping sha rp (te_error e),
       te_parent_event_id := safe_optional_identifier sha (te_parent_event_id e)\<rparr>"

definition TraceEvent_make :: "(string \<Rightarrow> string) \<Rightarrow> (pyval \<Rightarrow> string) \<Rightarrow> trace_event \<Rightarrow> trace_event result" where
  "TraceEvent_make sha rp e =
     (let v = trace_fields sha rp e in
      if te_agent_id v = [] \<or> te_tenant_id v = [] then Inl (ValueError ''trace identifier must not be empty'') else Inr v)"

definition for_persistence :: "(string \<Rightarrow> string) \<Rightarrow> (pyval \<Rightarrow> string) \<Rightarrow> trace_event \<Rightarrow> trace_event result" where
  "for_persistence sha rp e = TraceEvent_make sha rp (trace_fields sha rp e)"

definition empty_map :: "pyval \<Rightarrow> bool" where
  "empty_map v \<longleftrightarrow> v = PDict []"

fun missing_field :: "trace_event \<Rightarrow> string option" where
  "missing_field e =
     (case te_event_type e of
        agent_started \<Rightarrow> if empty_map (te_input_summary e) then Some ''input_summary'' else None
      | context_selected \<Rightarrow> if te_context_refs e = [] then Some ''context_refs'' else None
      | llm_called \<Rightarrow> if truthy_str (te_model e) then None else Some ''model''
      | tool_called \<Rightarrow> if empty_map (te_tool_call e) then Some ''tool_call'' else None
      | guardrail_checked \<Rightarrow> if empty_map (te_validation e) then Some ''validation'' else None
      | approval_requested \<Rightarrow> if empty_map (te_tool_call e) then Some ''tool_call'' else None
      | agent_completed \<Rightarrow> if empty_map (te_output_summary e) then Some ''output_summary'' else None
      | agent_failed \<Rightarrow> if empty_map (te_error e) then Some ''error'' else None)"

fun event_type_value :: "trace_event_type \<Rightarrow> string" where
  "event_type_value agent_started = ''agent.started''"
| "event_type_value context_selected = ''context.selected''"
| "event_type_value llm_called = ''llm.called''"
| "event_type_value tool_called = ''tool.called''"
| "event_type_value guardrail_checked = ''guardrail.checked''"
| "event_type_value approval_requested = ''approval.requested''"
| "event_type_value agent_completed = ''agent.completed''"
| "event_type_value agent_failed = ''agent.failed''"

definition require_trace_completeness :: "trace_event \<Rightarrow> trace_event result" where
  "require_trace_completeness e =
     (case missing_field e of
        None \<Rightarrow> Inr e
      | Some f \<Rightarrow> Inl (ValueError (''incomplete trace event: '' @ event_type_value (te_event_type e) @ '' requires '' @ f)))"

section \<open>The recorder\<close>

type_synonym trace_log = "trace_event list"

definition trace_write :: "(string \<Rightarrow> string) \<Rightarrow> (pyval \<Rightarrow> string) \<Rightarrow> trace_event \<Rightarrow> (trace_log, unit) op" where
  "trace_write sha rp e l =
     (case bindR (require_trace_completeness e) (for_persistence sha rp) of
        Inl err \<Rightarrow> (Inl err, l)
      | Inr e' \<Rightarrow> (Inr (), l @ [e']))"

definition trace_list_for_tenant :: "(string \<Rightarrow> string) \<Rightarrow> (pyval \<Rightarrow> string) \<Rightarrow> principal \<Rightarrow> (trace_log, trace_event list) op" where
  "trace_list_for_tenant sha rp p l =
     (bindR (require_trusted_principal p) (\<lambda>_.
        mapR (for_persistence sha rp) (filter (\<lambda>e. te_tenant_id e = pr_tenant_id p) l)), l)"

definition trace_list_for_run ::
    "(string \<Rightarrow> string) \<Rightarrow> (pyval \<Rightarrow> string) \<Rightarrow> principal \<Rightarrow> string \<Rightarrow> (trace_log, trace_event list) op" where
  "trace_list_for_run sha rp p run_id l =
     (bindR (require_trusted_principal p) (\<lambda>_.
        mapR (for_persistence sha rp)
          (filter (\<lambda>e. te_tenant_id e = pr_tenant_id p \<and> te_run_id e = safe_trace_run_id sha run_id) l)), l)"

text \<open>A new event with the defaults of the class; \<open>uuid\<close> and \<open>now\<close> are drawn at construction.\<close>

definition new_trace :: "string \<Rightarrow> instant \<Rightarrow> string \<Rightarrow> string \<Rightarrow> trace_event_type \<Rightarrow> string \<Rightarrow> trace_event" where
  "new_trace uuid now run_id agent_id ety tenant =
     \<lparr>te_trace_id = uuid, te_run_id = run_id, te_agent_id = agent_id, te_event_type = ety, te_timestamp = now,
      te_tenant_id = tenant, te_input_summary = PDict [], te_context_refs = [], te_tool_call = PDict [], te_model = None,
      te_output_summary = PDict [], te_validation = PDict [], te_error = PDict [], te_parent_event_id = None\<rparr>"

definition emit_guardrail_checked ::
    "(string \<Rightarrow> string) \<Rightarrow> (pyval \<Rightarrow> string) \<Rightarrow> string \<Rightarrow> instant \<Rightarrow> string \<Rightarrow> string \<Rightarrow> pyval \<Rightarrow> string
       \<Rightarrow> (trace_log, trace_event) op" where
  "emit_guardrail_checked sha rp uuid now agent_id tenant validation run_id =
     bindS (lift (TraceEvent_make sha rp
              ((new_trace uuid now run_id agent_id guardrail_checked tenant)\<lparr>te_validation := validation\<rparr>))) (\<lambda>e.
     bindS (lift (require_trace_completeness e)) (\<lambda>_.
     bindS (trace_write sha rp e) (\<lambda>_. ret e)))"

definition emit_guardrail_scan ::
    "(string \<Rightarrow> string) \<Rightarrow> (pyval \<Rightarrow> string) \<Rightarrow> string \<Rightarrow> instant \<Rightarrow> guardrail_result \<Rightarrow> string \<Rightarrow> string \<Rightarrow> string
       \<Rightarrow> (trace_log, trace_event) op" where
  "emit_guardrail_scan sha rp uuid now r agent_id tenant run_id =
     bindS (lift (build_guardrail_validation r (derive_guardrail_action r))) (\<lambda>v.
       emit_guardrail_checked sha rp uuid now agent_id tenant v run_id)"

section \<open>Error payloads\<close>

record error_detail =
  ed_code :: string
  ed_message :: string
  ed_field :: "string option"
  ed_context :: pyval

definition set_default :: "string \<times> pyval \<Rightarrow> (pyval \<times> pyval) list \<Rightarrow> (pyval \<times> pyval) list" where
  "set_default kv d = (if map_of d (PStr (fst kv)) = None then d @ [(PStr (fst kv), snd kv)] else d)"

definition ErrorDetail_make ::
    "(string \<Rightarrow> string) \<Rightarrow> (pyval \<Rightarrow> string) \<Rightarrow> string \<Rightarrow> pyval \<Rightarrow> string option \<Rightarrow> (pyval \<times> pyval) list
       \<Rightarrow> error_detail result" where
  "ErrorDetail_make sha rp code message field context =
     (let public = public_error_message rp code (Some message);
          ctx = (if public \<noteq> py_strip (py_str rp message)
                 then fold set_default (redacted_text_metadata sha rp message) context else context);
          msg = py_strip (redact_error_message rp (PStr public));
          fld = safe_optional_identifier sha field in
      if msg = [] \<or> length msg > 500 \<or> (case fld of None \<Rightarrow> False | Some f \<Rightarrow> length f > 200)
      then Inl (ValueError ''invalid error detail'')
      else Inr \<lparr>ed_code = code, ed_message = msg, ed_field = fld, ed_context = redact_error_context sha rp (PDict ctx)\<rparr>)"

end
