(* ===== verification/Tracing_Properties.thy ===== *)
theory Tracing_Properties
  imports Tracing
begin

text \<open>
  The recorder of trace events as a machine whose steps are writes: its invariant is that
  everything stored is clean, and its isolation gap is that a tenant whose id is not a safe
  identifier is filed under a digest and finds nothing under its own name.
\<close>

definition event_clean :: "trace_event \<Rightarrow> bool" where
  "event_clean e \<longleftrightarrow>
     (\<forall>t \<in> {te_trace_id e, te_run_id e, te_agent_id e, te_tenant_id e} \<union> set (te_context_refs e)
        \<union> set_option (te_model e) \<union> set_option (te_parent_event_id e). safe_leaf t)
     \<and> (\<forall>v \<in> {te_input_summary e, te_tool_call e, te_output_summary e, te_validation e, te_error e}. clean v)"

lemma clean_redact: "digest sha \<Longrightarrow> clean (redact_trace_mapping sha rp v)"
proof (cases v)
  case (PDict d)
  assume "digest sha"
  then show ?thesis using clean_sanitize(1) [of sha rp "Suc MAX_DEPTH" d]
    by (cases "sanitize_mapping sha rp (Suc MAX_DEPTH) d")
      (simp_all add: PDict redact_trace_mapping_def del: sanitize_mapping.simps)
qed (simp_all add: redact_trace_mapping_def)

lemma trace_fields_clean:
  assumes "digest sha"
  shows "event_clean (trace_fields sha rp e)"
  by (auto simp: event_clean_def trace_fields_def safe_leaf_identifier [OF assms] safe_leaf_run_id [OF assms]
      clean_redact [OF assms] safe_context_refs_def safe_leaf_category safe_optional_identifier_def)

lemma for_persistence_Inr: "for_persistence sha rp e = Inr e' \<Longrightarrow> e' = trace_fields sha rp (trace_fields sha rp e)"
  by (auto simp: for_persistence_def TraceEvent_make_def Let_def split: if_splits)

lemma trace_write_cases:
  assumes "trace_write sha rp e l = (r, l')"
  obtains "l' = l" | "l' = l @ [trace_fields sha rp (trace_fields sha rp e)]"
  using assms
  by (auto simp: trace_write_def bindR_def require_trace_completeness_def dest: for_persistence_Inr
      split: sum.splits option.splits)

definition trace_step :: "(string \<Rightarrow> string) \<Rightarrow> (pyval \<Rightarrow> string) \<Rightarrow> trace_event \<Rightarrow> trace_log \<Rightarrow> trace_log \<Rightarrow> bool" where
  "trace_step sha rp e l l' \<longleftrightarrow> (\<exists>r. trace_write sha rp e l = (r, l'))"

definition log_inv :: "(string \<Rightarrow> string) \<Rightarrow> (pyval \<Rightarrow> string) \<Rightarrow> trace_log \<Rightarrow> bool" where
  "log_inv sha rp l \<longleftrightarrow> (\<forall>e \<in> set l. \<exists>e'. e = trace_fields sha rp e')"

interpretation tl: machine "trace_step sha rp" "log_inv sha rp" "[]"
  by unfold_locales (auto simp: log_inv_def trace_step_def elim!: trace_write_cases)

text \<open>C38: the recorder holds only clean events.
  After any sequence of writes, whatever the written events contain, every stored event has
  only safe identifiers, references and model names and only clean metadata.\<close>

theorem trace_log_clean:
  assumes "\<And>b. is_hex64 (sha b)" and "(\<lambda>l l'. \<exists>e \<in> E. trace_step sha rp e l l')\<^sup>*\<^sup>* [] l" and "e \<in> set l"
  shows "event_clean e"
proof -
  have "digest sha" using assms(1) by (simp add: digest_def)
  moreover obtain e' where "e = trace_fields sha rp e'"
    using tl.reachable_inv [OF assms(2)] assms(3) unfolding log_inv_def by blast
  ultimately show ?thesis using trace_fields_clean by blast
qed

definition tw_event :: trace_event where
  "tw_event = (new_trace ''t1'' 0 ''r1'' ''a'' agent_started ''acme corp'')\<lparr>te_input_summary := PDict [(PStr ''channel'', PStr ''sms'')]\<rparr>"

definition tw_log :: trace_log where
  "tw_log = snd (trace_write pv_sha (\<lambda>_. []) tw_event [])"

lemma tw_run: "(\<lambda>l l'. \<exists>e \<in> {tw_event}. trace_step pv_sha (\<lambda>_. []) e l l')\<^sup>*\<^sup>* [] tw_log"
  by (rule r_into_rtranclp) (simp add: trace_step_def tw_log_def prod_eq_iff)

lemma py_strip_Cons: "\<not> py_isspace c \<Longrightarrow> py_strip (c # cs) \<noteq> []"
  by (auto simp: py_strip_def dropWhile_eq_Nil_conv)

lemma safe_identifier_nonblank: "py_strip v \<noteq> [] \<Longrightarrow> py_strip (safe_identifier sha v) \<noteq> []"
  by (auto simp: safe_identifier_def Let_def digest_of_def py_isspace_def intro!: py_strip_Cons)

lemma trace_write_ok:
  assumes "missing_field e = None" and "py_strip (te_agent_id e) \<noteq> []" and "py_strip (te_tenant_id e) \<noteq> []"
  shows "trace_write sha rp e l = (Inr (), l @ [trace_fields sha rp (trace_fields sha rp e)])"
proof -
  have "safe_identifier sha (safe_identifier sha (te_agent_id e)) \<noteq> []" "safe_identifier sha (safe_identifier sha (te_tenant_id e)) \<noteq> []"
    using safe_identifier_nonblank [OF safe_identifier_nonblank] assms(2,3) by (metis py_strip_Nil)+
  then show ?thesis
    using assms(1) by (simp add: trace_write_def bindR_def require_trace_completeness_def for_persistence_def
        TraceEvent_make_def Let_def trace_fields_def del: missing_field.simps)
qed

lemma tw_log_length: "length tw_log = 1"
  unfolding tw_log_def
  by (subst trace_write_ok) (simp_all add: tw_event_def new_trace_def empty_map_def py_strip_def py_isspace_def)

theorem trace_log_clean_witness: "length tw_log = 1 \<and> list_all event_clean tw_log"
  using trace_log_clean [where sha = pv_sha, OF pv_hex tw_run] tw_log_length by (auto simp: list_all_iff)

section \<open>Visibility\<close>

lemma safe_identifier_range:
  "safe_identifier sha v = [] \<or> starts_with ''sha256:'' (safe_identifier sha v)
     \<or> (re_fullmatch SAFE_IDENTIFIER_RE (safe_identifier sha v) \<and> \<not> is_sensitive_string (safe_identifier sha v))"
  by (auto simp: safe_identifier_def Let_def digest_of_def starts_with_def)

text \<open>A tenant whose id is not a safe identifier cannot see its own traces.
  The recorder files an event under the redacted tenant id but looks it up under the id of
  the principal as it is. If that id is not of the safe alphabet (and is not itself a
  digest), the tenant's listing is empty in every reachable state, whatever was written.\<close>

theorem unsafe_tenant_sees_no_traces:
  assumes "(\<lambda>l l'. \<exists>e \<in> E. trace_step sha rp e l l')\<^sup>*\<^sup>* [] l" and "is_trusted p"
    and "pr_tenant_id p \<noteq> []" and "\<not> starts_with ''sha256:'' (pr_tenant_id p)"
    and "is_sensitive_string (pr_tenant_id p) \<or> \<not> re_fullmatch SAFE_IDENTIFIER_RE (pr_tenant_id p)"
  shows "fst (trace_list_for_tenant sha rp p l) = Inr []"
proof -
  have "te_tenant_id e \<noteq> pr_tenant_id p" if "e \<in> set l" for e
  proof -
    from tl.reachable_inv [OF assms(1)] that obtain e' where "e = trace_fields sha rp e'" unfolding log_inv_def by blast
    then have "te_tenant_id e = safe_identifier sha (te_tenant_id e')" by (simp add: trace_fields_def)
    with safe_identifier_range [of sha "te_tenant_id e'"] assms(3-5) show ?thesis by auto
  qed
  then have "filter (\<lambda>e. te_tenant_id e = pr_tenant_id p) l = []" by (simp add: filter_empty_conv)
  then show ?thesis using assms(2) by (simp add: trace_list_for_tenant_def bindR_def require_trusted_principal_cases)
qed

theorem unsafe_tenant_sees_no_traces_witness:
  "tw_log \<noteq> [] \<and> fst (trace_list_for_tenant pv_sha (\<lambda>_. []) (demo_principal\<lparr>pr_tenant_id := ''acme corp''\<rparr>) tw_log) = Inr []"
proof -
  have "\<not> re_fullmatch SAFE_IDENTIFIER_RE ''acme corp''" "\<not> starts_with ''sha256:'' ''acme corp''" by code_simp+
  then show ?thesis
    using unsafe_tenant_sees_no_traces [OF tw_run, of "demo_principal\<lparr>pr_tenant_id := ''acme corp''\<rparr>"] tw_log_length
    by (auto simp: demo_principal_def is_trusted_def)
qed

end
