(* ===== verification/Reminder_Parser.thy ===== *)
theory Reminder_Parser
  imports Py_Regex Py_Value Idempotency Delivery
begin

text \<open>
  Reminder extraction: \<^verbatim>\<open>domain/reminders/models.py\<close> and
  \<^verbatim>\<open>domain/reminders/parser.py\<close>. Time zones are a parameter \<open>tz\<close>: the value of
  \<^verbatim>\<open>ZoneInfo(name)\<close>, or \<open>None\<close> where the constructor raises. A zone reads an instant as a
  local wall clock (microseconds since the epoch as if it were UTC, and the fold flag) and
  resolves a wall clock with a fold flag to an instant; both may leave the datetime range.
  A date is the number of days since 1970-01-01, a Thursday. A confidence is the rational
  number the literal denotes.
\<close>

section \<open>Models\<close>

datatype reminder_intent = intent_create | intent_unsupported

datatype clarification_reason = ambiguous_hour | missing_date | missing_time | missing_datetime
  | nonexistent_local_time | ambiguous_local_time | invalid_timezone

datatype unsupported_reason = not_a_reminder | invalid_reference_instant | invalid_relative_amount
  | invalid_time | past_time | conflicting_temporal_expression

fun reason_value :: "clarification_reason \<Rightarrow> string" where
  "reason_value ambiguous_hour = ''ambiguous_hour''"
| "reason_value missing_date = ''missing_date''"
| "reason_value missing_time = ''missing_time''"
| "reason_value missing_datetime = ''missing_datetime''"
| "reason_value nonexistent_local_time = ''nonexistent_local_time''"
| "reason_value ambiguous_local_time = ''ambiguous_local_time''"
| "reason_value invalid_timezone = ''invalid_timezone''"

record zone =
  zn_key :: string
  zn_local :: "instant \<Rightarrow> (int \<times> bool) result"
  zn_utc :: "int \<Rightarrow> bool \<Rightarrow> instant result"

type_synonym zones = "string \<Rightarrow> zone option"

record reminder_extraction =
  rx_title :: string
  rx_timezone :: string
  rx_starts_at :: instant
  rx_notify_at :: "instant option"
  rx_confidence :: rat

definition require_iana_timezone :: "zones \<Rightarrow> string \<Rightarrow> string result" where
  "require_iana_timezone tz v =
     (case tz v of None \<Rightarrow> Inl (ValueError ''timezone must be a valid IANA timezone'') | Some z \<Rightarrow> Inr (zn_key z))"

definition canonicalize_datetime :: "py_datetime \<Rightarrow> instant result" where
  "canonicalize_datetime v =
     (case v of
        Naive _ \<Rightarrow> Inl (ValueError ''reminder datetimes must be timezone-aware'')
      | Aware t \<Rightarrow> if in_datetime_range t then Inr t else Inl OverflowError)"

definition ReminderExtraction_make ::
    "zones \<Rightarrow> string \<Rightarrow> string \<Rightarrow> py_datetime \<Rightarrow> py_datetime option \<Rightarrow> rat \<Rightarrow> reminder_extraction result" where
  "ReminderExtraction_make tz title timezone starts_at notify_at confidence =
     (if py_strip title = [] \<or> py_strip timezone = [] \<or> confidence < 0 \<or> 1 < confidence
      then Inl (ValueError ''invalid reminder extraction'')
      else
        bindR (require_iana_timezone tz (py_strip timezone)) (\<lambda>key.
        bindR (canonicalize_datetime starts_at) (\<lambda>s.
        bindR (case notify_at of None \<Rightarrow> Inr None
               | Some n \<Rightarrow> bindR (canonicalize_datetime n) (\<lambda>u. Inr (Some u))) (\<lambda>n.
          Inr \<lparr>rx_title = py_strip title, rx_timezone = key, rx_starts_at = s, rx_notify_at = n,
               rx_confidence = confidence\<rparr>))))"

datatype parse_result =
    ParsedReminder reminder_extraction
  | ReminderNeedsClarification clarification_reason string
  | UnsupportedReminder unsupported_reason

section \<open>Tables and patterns\<close>

definition SPANISH_WEEKDAYS :: "(string \<times> int) list" where
  "SPANISH_WEEKDAYS = [(''lunes'', 0), (''martes'', 1), (''miercoles'', 2), (''jueves'', 3), (''viernes'', 4),
     (''sabado'', 5), (''domingo'', 6)]"

definition REMINDER_TRIGGERS :: "string list" where
  "REMINDER_TRIGGERS = [''recuerd'', ''record'', ''agend'', ''cita'', ''recordatorio'']"

definition SPANISH_NUMBER_WORDS :: "(string \<times> int) list" where
  "SPANISH_NUMBER_WORDS = [(''un'', 1), (''una'', 1), (''uno'', 1), (''dos'', 2), (''tres'', 3), (''cuatro'', 4),
     (''cinco'', 5), (''seis'', 6), (''siete'', 7), (''ocho'', 8), (''nueve'', 9), (''diez'', 10), (''once'', 11),
     (''doce'', 12), (''quince'', 15), (''treinta'', 30), (''sesenta'', 60)]"

definition optional_s :: "string \<Rightarrow> regex" where
  "optional_s w = Cat (lit w) (opt (lit ''s''))"

definition RELATIVE_RE :: regex where
  "RELATIVE_RE = ignore_case (cats [word_boundary, alts [lit ''en'', cats [lit ''dentro'', spaces1, lit ''de'']], spaces1,
     Grp 1 (Alt (reps 1 4 (Cls digit)) (plus1 (Cls lower_az))), spaces,
     Grp 2 (alts [optional_s ''minuto'', optional_s ''min'', optional_s ''hora'', lit ''h'']), word_boundary])"

definition at_the :: regex where
  "at_the = alts [cats [lit ''a'', spaces1, optional_s ''la''], optional_s ''la'', lit ''a'']"

text \<open>The named groups \<^verbatim>\<open>hour\<close>, \<^verbatim>\<open>minute\<close> and \<^verbatim>\<open>meridiem\<close> are the groups 1, 2 and 3.\<close>

definition WALL_CLOCK_RE :: regex where
  "WALL_CLOCK_RE = ignore_case (cats [word_boundary, at_the, spaces1, Grp 1 (reps 1 2 (Cls digit)),
     opt (Cat (lit '':'') (Grp 2 (star (Cls digit)))),
     opt (Cat spaces (Grp 3 (cats [Cls (one_of ''ap''), spaces, opt (lit ''.''), spaces, lit ''m'', opt (lit ''.'')]))),
     not_before (\<lambda>c. c = CHR '':'' \<or> word_char c)])"

definition WALL_CLOCK_CANDIDATE_RE :: regex where
  "WALL_CLOCK_CANDIDATE_RE = ignore_case (cats [word_boundary, at_the, spaces1, Cls digit,
     star (Cls (\<lambda>c. \<not> py_isspace c \<and> \<not> one_of '',;.!?)]}'' c))])"

definition MIDNIGHT_RE :: regex where
  "MIDNIGHT_RE = ignore_case (cats [word_boundary, opt (cats [lit ''a'', spaces1, lit ''la'', spaces1]),
     lit ''medianoche'', word_boundary])"

definition NOON_RE :: regex where
  "NOON_RE = ignore_case (cats [word_boundary, opt (cats [lit ''al'', spaces1]), lit ''mediodia'', word_boundary])"

text \<open>A vowel or n with or without its diacritic.\<close>

definition e_acute :: regex where "e_acute = Cls (one_of [CHR ''e'', CHR 0xE9])"
definition i_acute :: regex where "i_acute = Cls (one_of [CHR ''i'', CHR 0xED])"
definition a_acute :: regex where "a_acute = Cls (one_of [CHR ''a'', CHR 0xE1])"
definition n_tilde :: regex where "n_tilde = Cls (one_of [CHR ''n'', CHR 0xF1])"

definition TITLE_STOPWORDS_RE :: regex where
  "TITLE_STOPWORDS_RE = ignore_case (cats [word_boundary, Grp 1 (alts (
     [cats [lit ''recu'', e_acute, lit ''rdame''], lit ''recuerdame'', lit ''recuerdes'', lit ''recordarme'',
      lit ''recordatorio'', cats [lit ''ag'', e_acute, lit ''ndame'']]
     @ map lit [''agendame'', ''agendarme'', ''agenda'', ''agendar'', ''necesito'', ''quiero'', ''que'', ''me'', ''el'',
         ''la'', ''los'', ''las'', ''este'', ''esta'', ''de'', ''para''])), word_boundary])"

definition TITLE_DATE_RE :: regex where
  "TITLE_DATE_RE = ignore_case (cats [word_boundary, Grp 1 (alts [lit ''hoy'', cats [lit ''ma'', n_tilde, lit ''ana''],
     lit ''lunes'', lit ''martes'', cats [lit ''mi'', e_acute, lit ''rcoles''], lit ''jueves'', lit ''viernes'',
     cats [lit ''s'', a_acute, lit ''bado''], lit ''domingo'']), word_boundary])"

definition NOON_TITLE_RE :: regex where
  "NOON_TITLE_RE = ignore_case (cats [word_boundary, opt (cats [lit ''al'', spaces1]), lit ''mediod'', i_acute, lit ''a'',
     word_boundary])"

definition word_re :: "string \<Rightarrow> regex" where
  "word_re w = cats [word_boundary, lit w, word_boundary]"

section \<open>Text\<close>

text \<open>
  Compatibility decomposition of one lower-case character without its combining marks. Two
  characters leave the range: the micro sign becomes the Greek letter, for which it stands
  itself (both are letters), and the bar of a fraction becomes the fraction slash, for which
  the not sign stands (both are symbols).
\<close>

definition decompose :: "char \<Rightarrow> string" where
  "decompose c =
     (let n = char_code c in
      if n \<in> {0xA0, 0xA8, 0xAF, 0xB4, 0xB8} then '' ''
      else if n = 0xAA then ''a'' else if n = 0xBA then ''o''
      else if n = 0xB2 then ''2'' else if n = 0xB3 then ''3'' else if n = 0xB9 then ''1''
      else if n = 0xBC then [CHR ''1'', CHR 0xAC, CHR ''4'']
      else if n = 0xBD then [CHR ''1'', CHR 0xAC, CHR ''2'']
      else if n = 0xBE then [CHR ''3'', CHR 0xAC, CHR ''4'']
      else if 0xE0 \<le> n \<and> n \<le> 0xE5 then ''a'' else if n = 0xE7 then ''c''
      else if 0xE8 \<le> n \<and> n \<le> 0xEB then ''e'' else if 0xEC \<le> n \<and> n \<le> 0xEF then ''i''
      else if n = 0xF1 then ''n'' else if 0xF2 \<le> n \<and> n \<le> 0xF6 then ''o''
      else if 0xF9 \<le> n \<and> n \<le> 0xFC then ''u'' else if n = 0xFD \<or> n = 0xFF then ''y''
      else [c])"

definition fold_text :: "string \<Rightarrow> string" where
  "fold_text t = concat (map decompose (py_casefold t))"

text \<open>\<^verbatim>\<open>str.strip(chars)\<close>.\<close>

definition strip_chars :: "string \<Rightarrow> string \<Rightarrow> string" where
  "strip_chars cs s = rev (dropWhile (one_of cs) (rev (dropWhile (one_of cs) s)))"

definition clean_title :: "string \<Rightarrow> string" where
  "clean_title t =
     (let blank = (\<lambda>_. '' '');
          t1 = re_sub RELATIVE_RE blank t;
          t2 = re_sub WALL_CLOCK_RE blank t1;
          t3 = re_sub MIDNIGHT_RE blank t2;
          t4 = re_sub NOON_TITLE_RE blank t3;
          t5 = re_sub TITLE_DATE_RE blank t4;
          t6 = re_sub TITLE_STOPWORDS_RE blank t5;
          title = strip_chars '' .,:;-'' (re_sub spaces1 blank t6)
      in if title = [] then ''Recordatorio'' else title)"

definition parse_amount :: "string \<Rightarrow> int option" where
  "parse_amount raw =
     (if raw \<noteq> [] \<and> list_all digit raw then Some (int (digits_value raw)) else map_of SPANISH_NUMBER_WORDS raw)"

definition load_timezone :: "zones \<Rightarrow> string \<Rightarrow> zone option" where
  "load_timezone tz timezone = tz (py_strip timezone)"

section \<open>Clock and date\<close>

type_synonym clock_time = "int \<times> int"

definition clarify :: "clarification_reason \<Rightarrow> string \<Rightarrow> parse_result" where
  "clarify reason timezone = ReminderNeedsClarification reason (py_strip timezone)"

definition group_of :: "mpos \<times> mpos \<Rightarrow> nat \<Rightarrow> string" where
  "group_of m n = (case match_group m n of None \<Rightarrow> [] | Some t \<Rightarrow> t)"

definition parse_clock :: "string \<Rightarrow> string \<Rightarrow> (parse_result + clock_time) option" where
  "parse_clock folded timezone =
     (let clock_candidates = re_finditer WALL_CLOCK_CANDIDATE_RE folded;
          midnight_matches = re_finditer MIDNIGHT_RE folded;
          noon_matches = re_finditer NOON_RE folded in
      if length clock_candidates + length midnight_matches + length noon_matches > 1
      then Some (Inl (UnsupportedReminder conflicting_temporal_expression))
      else if midnight_matches \<noteq> [] then Some (Inr (0, 0))
      else if noon_matches \<noteq> [] then Some (Inr (12, 0))
      else
        (case clock_candidates of
           [] \<Rightarrow> None
         | candidate # _ \<Rightarrow>
            (case re_search WALL_CLOCK_RE folded of
               None \<Rightarrow> Some (Inl (UnsupportedReminder invalid_time))
             | Some m \<Rightarrow>
                if match_start m \<noteq> match_start candidate \<or> match_end m < match_end candidate
                then Some (Inl (UnsupportedReminder invalid_time))
                else
                 (let hour = int (digits_value (group_of m 1)); minute_raw = match_group m 2 in
                  if minute_raw \<noteq> None \<and> length (the minute_raw) \<noteq> 2
                  then Some (Inl (UnsupportedReminder invalid_time))
                  else
                   (let minute = (case minute_raw of None \<Rightarrow> 0 | Some s \<Rightarrow> int (digits_value s)) in
                    if \<not> (0 \<le> minute \<and> minute \<le> 59) then Some (Inl (UnsupportedReminder invalid_time))
                    else
                     (case match_group m 3 of
                        Some meridiem_raw \<Rightarrow>
                          if \<not> (1 \<le> hour \<and> hour \<le> 12) then Some (Inl (UnsupportedReminder invalid_time))
                          else if filter (\<lambda>c. c \<noteq> CHR '' '') (filter (\<lambda>c. c \<noteq> CHR ''.'') meridiem_raw) = ''am''
                          then Some (Inr (if hour = 12 then 0 else hour, minute))
                          else Some (Inr (if hour = 12 then 12 else hour + 12, minute))
                      | None \<Rightarrow>
                          if 1 \<le> hour \<and> hour \<le> 12 then Some (Inl (clarify ambiguous_hour timezone))
                          else if \<not> (0 \<le> hour \<and> hour \<le> 23) then Some (Inl (UnsupportedReminder invalid_time))
                          else Some (Inr (hour, minute))))))))"

definition utc_candidate :: "zone \<Rightarrow> int \<Rightarrow> bool \<Rightarrow> instant list result" where
  "utc_candidate z local f =
     bindR (zn_utc z local f) (\<lambda>u.
     bindR (zn_local z u) (\<lambda>round_trip.
       Inr (if round_trip = (local, f) then [u] else [])))"

definition utc_candidates :: "zone \<Rightarrow> int \<Rightarrow> instant list result" where
  "utc_candidates z local =
     bindR (utc_candidate z local False) (\<lambda>a.
     bindR (utc_candidate z local True) (\<lambda>b.
       Inr (sort (remdups (a @ b)))))"

definition weekdays_in :: "string \<Rightarrow> int list" where
  "weekdays_in text = map snd (filter (\<lambda>(name, _). re_test (word_re name) text) SPANISH_WEEKDAYS)"

definition has_date_selector :: "string \<Rightarrow> bool" where
  "has_date_selector text \<longleftrightarrow>
     re_test (cats [word_boundary, lits [''hoy'', ''manana''], word_boundary]) text \<or> weekdays_in text \<noteq> []"

definition has_wall_clock :: "string \<Rightarrow> bool" where
  "has_wall_clock text \<longleftrightarrow>
     list_ex (\<lambda>r. re_test r text) [WALL_CLOCK_CANDIDATE_RE, MIDNIGHT_RE, NOON_RE]"

definition day_length :: int where "day_length = seconds 86400"

definition local_date :: "int \<Rightarrow> int" where "local_date l = l div day_length"
definition date_weekday :: "int \<Rightarrow> int" where "date_weekday d = (d + 3) mod 7"

definition date_add :: "int \<Rightarrow> int \<Rightarrow> int result" where
  "date_add d n = (if in_datetime_range ((d + n) * day_length) then Inr (d + n) else Inl OverflowError)"

definition combine :: "int \<Rightarrow> clock_time \<Rightarrow> int" where
  "combine d clock = d * day_length + minutes (60 * fst clock + snd clock)"

definition wall_clock_date :: "string \<Rightarrow> clock_time \<Rightarrow> int \<Rightarrow> (parse_result + int option) result" where
  "wall_clock_date folded clock reference_local =
     (let has_today = re_test (word_re ''hoy'') folded;
          has_tomorrow = re_test (word_re ''manana'') folded;
          weekdays = weekdays_in folded in
      if length weekdays > 1 then Inr (Inl (UnsupportedReminder conflicting_temporal_expression))
      else if of_bool has_today + of_bool has_tomorrow + of_bool (weekdays \<noteq> []) > (1 :: nat)
      then Inr (Inl (UnsupportedReminder conflicting_temporal_expression))
      else
       (let reference_date = local_date reference_local in
        if has_today then Inr (Inr (Some reference_date))
        else if has_tomorrow then bindR (date_add reference_date 1) (\<lambda>d. Inr (Inr (Some d)))
        else
         (case weekdays of
            weekday # _ \<Rightarrow>
              bindR (date_add reference_date ((weekday - date_weekday reference_date) mod 7)) (\<lambda>target_date.
              if combine target_date clock \<le> reference_local
              then bindR (date_add target_date 7) (\<lambda>d. Inr (Inr (Some d)))
              else Inr (Inr (Some target_date)))
          | [] \<Rightarrow> Inr (Inr None))))"

section \<open>Extraction\<close>

definition extract_relative ::
    "zones \<Rightarrow> zone \<Rightarrow> string \<Rightarrow> string \<Rightarrow> instant \<Rightarrow> (mpos \<times> mpos) list \<Rightarrow> parse_result result" where
  "extract_relative tz z text folded now_utc relative_matches =
     (if length relative_matches > 1 then Inr (UnsupportedReminder conflicting_temporal_expression)
      else if has_date_selector folded \<or> has_wall_clock folded
      then Inr (UnsupportedReminder conflicting_temporal_expression)
      else
       (let m = hd relative_matches in
        case parse_amount (group_of m 1) of
          None \<Rightarrow> Inr (UnsupportedReminder invalid_relative_amount)
        | Some amount \<Rightarrow>
           if amount < 1 then Inr (UnsupportedReminder invalid_relative_amount)
           else
             bindR (dt_add now_utc (minutes (if starts_with_any [''hora'', ''h''] (group_of m 2) then amount * 60
                                             else amount))) (\<lambda>starts_at.
             bindR (ReminderExtraction_make tz (clean_title text) (zn_key z) (Aware starts_at) (Some (Aware starts_at))
                      (88 / 100)) (\<lambda>e. Inr (ParsedReminder e)))))"

definition extract_wall_clock ::
    "zones \<Rightarrow> zone \<Rightarrow> string \<Rightarrow> string \<Rightarrow> instant \<Rightarrow> parse_result result" where
  "extract_wall_clock tz z text folded now_utc =
     (case parse_clock folded (zn_key z) of
        None \<Rightarrow> Inr (clarify (if has_date_selector folded then missing_time else missing_datetime) (zn_key z))
      | Some (Inl r) \<Rightarrow> Inr r
      | Some (Inr clock) \<Rightarrow>
          bindR (zn_local z now_utc) (\<lambda>reference_local.
          bindR (wall_clock_date folded clock (fst reference_local)) (\<lambda>date_result.
          case date_result of
            Inl r \<Rightarrow> Inr r
          | Inr None \<Rightarrow> Inr (clarify missing_date (zn_key z))
          | Inr (Some d) \<Rightarrow>
              bindR (utc_candidates z (combine d clock)) (\<lambda>candidates.
              case candidates of
                [] \<Rightarrow> Inr (clarify nonexistent_local_time (zn_key z))
              | [starts_at] \<Rightarrow>
                  if re_test (word_re ''hoy'') folded \<and> starts_at \<le> now_utc
                  then Inr (UnsupportedReminder past_time)
                  else bindR (ReminderExtraction_make tz (clean_title text) (zn_key z) (Aware starts_at) None (86 / 100))
                         (\<lambda>e. Inr (ParsedReminder e))
              | _ \<Rightarrow> Inr (clarify ambiguous_local_time (zn_key z))))))"

definition extract_reminder :: "zones \<Rightarrow> string \<Rightarrow> py_datetime \<Rightarrow> string \<Rightarrow> parse_result result" where
  "extract_reminder tz text now timezone =
     (let folded = fold_text text in
      if \<not> contains_any REMINDER_TRIGGERS folded then Inr (UnsupportedReminder not_a_reminder)
      else
       (case now of
          Naive _ \<Rightarrow> Inr (UnsupportedReminder invalid_reference_instant)
        | Aware t \<Rightarrow>
           (case load_timezone tz timezone of
              None \<Rightarrow> Inr (clarify invalid_timezone timezone)
            | Some z \<Rightarrow>
               if \<not> in_datetime_range t then Inl OverflowError
               else
                (let relative_matches = re_finditer RELATIVE_RE folded in
                 if relative_matches \<noteq> [] then extract_relative tz z text folded t relative_matches
                 else extract_wall_clock tz z text folded t))))"

end
