(* ===== verification/Reminder_Parser_Properties.thy ===== *)
theory Reminder_Parser_Properties
  imports Reminder_Parser
begin

text \<open>
  What a parsed reminder means. A wall clock is resolved only when exactly one instant has
  that local reading, so neither a skipped nor a repeated hour is guessed; the date is the
  one the text selects relative to the local date of the reference instant; a relative
  amount is added to the reference instant. The laws of a time zone that the statements
  need are a locale, interpreted on zones with a fixed offset.
\<close>

section \<open>Time zones\<close>

locale consistent_zone =
  fixes z :: zone
  assumes local_utc: "zn_local z u = Inr (l, f) \<Longrightarrow> zn_utc z l f = Inr u"
begin

lemma utc_candidate_exact:
  "utc_candidate z l f = Inr us \<Longrightarrow> set us = {u. zn_local z u = Inr (l, f)}"
  using local_utc by (auto simp: utc_candidate_def bindR_eq_Inr split: if_splits)

lemma utc_candidates_exact:
  assumes "utc_candidates z l = Inr us"
  shows "set us = {u. \<exists>f. zn_local z u = Inr (l, f)}"
proof -
  from assms obtain a b where "utc_candidate z l False = Inr a" "utc_candidate z l True = Inr b" "set us = set a \<union> set b"
    by (auto simp: utc_candidates_def bindR_eq_Inr)
  then have "set us = {u. zn_local z u = Inr (l, False)} \<union> {u. zn_local z u = Inr (l, True)}"
    by (simp add: utc_candidate_exact)
  moreover have "(\<exists>f. P f) \<longleftrightarrow> P False \<or> P True" for P by (metis (full_types))
  ultimately show ?thesis by auto
qed

end

definition fixed_zone :: "string \<Rightarrow> int \<Rightarrow> zone" where
  "fixed_zone key offset = \<lparr>zn_key = key, zn_local = (\<lambda>u. Inr (u + offset, False)), zn_utc = (\<lambda>l f. Inr (l - offset))\<rparr>"

interpretation fz: consistent_zone "fixed_zone key offset"
  by unfold_locales (auto simp: fixed_zone_def)

section \<open>Clock and date\<close>

definition clock_outcome_ok :: "(parse_result + clock_time) option \<Rightarrow> bool" where
  "clock_outcome_ok r \<longleftrightarrow>
     (case r of Some (Inl p) \<Rightarrow> (\<forall>e. p \<noteq> ParsedReminder e)
      | Some (Inr (h, m)) \<Rightarrow> 0 \<le> h \<and> h \<le> 23 \<and> 0 \<le> m \<and> m \<le> 59
      | None \<Rightarrow> True)"

lemma clock_outcome_simps [simp]:
  "clock_outcome_ok None" "clock_outcome_ok (Some (Inl (UnsupportedReminder u)))" "clock_outcome_ok (Some (Inl (clarify c zk)))"
  "clock_outcome_ok (Some (Inr (h, m))) \<longleftrightarrow> 0 \<le> h \<and> h \<le> 23 \<and> 0 \<le> m \<and> m \<le> 59"
  by (simp_all add: clock_outcome_ok_def clarify_def)

lemma parse_clock_ok: "clock_outcome_ok (parse_clock folded zk)"
  by (simp add: parse_clock_def Let_def split: option.split list.split)

lemma parse_clock_valid:
  "parse_clock folded zk = Some (Inr (h, m)) \<Longrightarrow> 0 \<le> h \<and> h \<le> 23 \<and> 0 \<le> m \<and> m \<le> 59"
  using parse_clock_ok [of folded zk] by simp

lemma weekdays_in_range: "w \<in> set (weekdays_in folded) \<Longrightarrow> 0 \<le> w \<and> w \<le> 6"
proof -
  assume "w \<in> set (weekdays_in folded)"
  then have "w \<in> snd ` set SPANISH_WEEKDAYS" by (auto simp: weekdays_in_def)
  then show ?thesis by (auto simp: SPANISH_WEEKDAYS_def)
qed

lemma day_length_pos [simp]: "0 < day_length"
  by (simp add: day_length_def seconds_def)

lemma combine_within:
  assumes "0 \<le> h" "h \<le> 23" "0 \<le> m" "m \<le> 59"
  shows "d * day_length \<le> combine d (h, m)" "combine d (h, m) < (d + 1) * day_length"
  using assms by (simp_all add: combine_def day_length_def seconds_def minutes_def algebra_simps)

lemma local_date_bounds: "local_date l * day_length \<le> l" "l < (local_date l + 1) * day_length"
  by (simp_all add: local_date_def algebra_simps day_length_def seconds_def)

lemma combine_add: "combine (d + n) c = combine d c + n * day_length"
  by (simp add: combine_def algebra_simps)

lemma date_add_Inr: "date_add d n = Inr e \<longleftrightarrow> e = d + n \<and> in_datetime_range (e * day_length)"
  by (auto simp: date_add_def)

lemma weekday_reached:
  assumes "0 \<le> w" "w \<le> 6"
  shows "date_weekday (d + (w - date_weekday d) mod 7) = w" "0 \<le> (w - date_weekday d) mod 7" "(w - date_weekday d) mod 7 \<le> 6"
proof -
  have "(d + (w - (d + 3) mod 7) mod 7 + 3) mod 7 = (d + 3 + (w - (d + 3) mod 7) mod 7) mod 7" by (simp add: ac_simps)
  also have "\<dots> = (d + 3 + (w - (d + 3))) mod 7" by (simp only: mod_add_right_eq mod_diff_right_eq)
  finally have "date_weekday (d + (w - date_weekday d) mod 7) = w mod 7" by (simp add: date_weekday_def)
  then show "date_weekday (d + (w - date_weekday d) mod 7) = w" using assms by simp
qed (use pos_mod_bound [of 7 "w - date_weekday d"] in simp_all)

text \<open>The date the text selects, for a reference with local reading \<open>ref\<close>.\<close>

definition chosen_date :: "string \<Rightarrow> clock_time \<Rightarrow> int \<Rightarrow> int \<Rightarrow> bool" where
  "chosen_date folded clock ref d \<longleftrightarrow>
     (re_test (word_re ''hoy'') folded \<and> d = local_date ref)
   \<or> (re_test (word_re ''manana'') folded \<and> d = local_date ref + 1)
   \<or> (\<exists>w. weekdays_in folded = [w] \<and> date_weekday d = w \<and> ref < combine d clock \<and> combine d clock \<le> ref + 7 * day_length)"

lemma next_weekday:
  assumes c: "0 \<le> h" "h \<le> 23" "0 \<le> m" "m \<le> 59" and w: "0 \<le> w" "w \<le> 6"
    and t: "t = local_date ref + (w - date_weekday (local_date ref)) mod 7"
    and d: "d = (if combine t (h, m) \<le> ref then t + 7 else t)"
  shows "date_weekday d = w \<and> ref < combine d (h, m) \<and> combine d (h, m) \<le> ref + 7 * day_length"
proof -
  note k = weekday_reached [OF w, of "local_date ref"]
  note b = local_date_bounds [of ref]
  define k where "k = (w - date_weekday (local_date ref)) mod 7"
  have lo: "local_date ref * day_length + k * day_length \<le> combine t (h, m)"
    and hi: "combine t (h, m) < (local_date ref + k + 1) * day_length"
    using combine_within [OF c, of t] unfolding t k_def by (simp_all add: algebra_simps)
  have "0 \<le> k * day_length" "(local_date ref + k + 1) * day_length \<le> (local_date ref + 7) * day_length"
    using k(2,3) unfolding k_def by (simp_all add: mult_right_mono less_imp_le [OF day_length_pos])
  with lo hi b have "ref - day_length < combine t (h, m)" "combine t (h, m) < ref + 7 * day_length"
    unfolding distrib_right by linarith+
  moreover have "date_weekday (t + 7) = date_weekday t" by (simp add: date_weekday_def) presburger
  ultimately show ?thesis using k(1) by (auto simp: d t combine_add day_length_def seconds_def)
qed

lemma wall_clock_date_chosen:
  assumes "wall_clock_date folded (h, m) ref = Inr (Inr (Some d))" and c: "0 \<le> h" "h \<le> 23" "0 \<le> m" "m \<le> 59"
  shows "chosen_date folded (h, m) ref d"
proof (cases "re_test (word_re ''hoy'') folded \<or> re_test (word_re ''manana'') folded")
  case True
  then show ?thesis using assms(1)
    by (auto simp: wall_clock_date_def Let_def chosen_date_def bindR_eq_Inr date_add_Inr split: if_splits)
next
  case False
  with assms(1) obtain w where w: "weekdays_in folded = [w]"
    by (cases "weekdays_in folded") (auto simp: wall_clock_date_def Let_def split: if_splits)
  define t where "t = local_date ref + (w - date_weekday (local_date ref)) mod 7"
  have "d = (if combine t (h, m) \<le> ref then t + 7 else t)"
    using False assms(1) w unfolding t_def
    by (auto simp: wall_clock_date_def Let_def bindR_eq_Inr date_add_Inr split: if_splits)
  moreover have "0 \<le> w \<and> w \<le> 6" using weekdays_in_range [of w folded] w by simp
  ultimately have "date_weekday d = w \<and> ref < combine d (h, m) \<and> combine d (h, m) \<le> ref + 7 * day_length"
    using next_weekday [OF c _ _ t_def] by blast
  with w show ?thesis by (auto simp: chosen_date_def)
qed

section \<open>Parsed reminders\<close>

lemma ReminderExtraction_make_Inr:
  "ReminderExtraction_make tz t zk (Aware s) n c = Inr e \<Longrightarrow> rx_starts_at e = s \<and> in_datetime_range s \<and>
     (n = None \<longrightarrow> rx_notify_at e = None) \<and> (\<forall>u. n = Some (Aware u) \<longrightarrow> rx_notify_at e = Some u)"
  by (auto simp: ReminderExtraction_make_def bindR_eq_Inr canonicalize_datetime_def split: if_splits option.splits)

lemma extract_reminder_Parsed:
  assumes "extract_reminder tz text (Aware now) timezone = Inr (ParsedReminder e)"
  obtains z where "tz (py_strip timezone) = Some z"
    and "re_finditer RELATIVE_RE (fold_text text) = [] \<Longrightarrow>
           extract_wall_clock tz z text (fold_text text) now = Inr (ParsedReminder e)"
    and "re_finditer RELATIVE_RE (fold_text text) \<noteq> [] \<Longrightarrow>
           extract_relative tz z text (fold_text text) now (re_finditer RELATIVE_RE (fold_text text)) = Inr (ParsedReminder e)"
  using assms by (auto simp: extract_reminder_def Let_def clarify_def load_timezone_def split: if_splits option.splits)

lemma parse_clock_not_Parsed: "parse_clock folded zk \<noteq> Some (Inl (ParsedReminder e))"
  using parse_clock_ok [of folded zk] by (auto simp: clock_outcome_ok_def)

lemma wall_clock_date_not_Parsed: "wall_clock_date folded c ref \<noteq> Inr (Inl (ParsedReminder e))"
  by (auto simp: wall_clock_date_def Let_def bindR_eq_Inr split: if_splits list.splits)

lemma extract_wall_clock_Parsed:
  assumes "extract_wall_clock tz z text folded now = Inr (ParsedReminder e)"
  shows "\<exists>h m ref f d s. parse_clock folded (zn_key z) = Some (Inr (h, m)) \<and> zn_local z now = Inr (ref, f)
    \<and> wall_clock_date folded (h, m) ref = Inr (Inr (Some d)) \<and> utc_candidates z (combine d (h, m)) = Inr [s]
    \<and> (re_test (word_re ''hoy'') folded \<longrightarrow> now < s) \<and> rx_starts_at e = s"
proof -
  from assms parse_clock_not_Parsed obtain h m where c: "parse_clock folded (zn_key z) = Some (Inr (h, m))"
    by (force simp: extract_wall_clock_def clarify_def split: option.splits sum.splits)
  with assms obtain ref f r where l: "zn_local z now = Inr (ref, f)" "wall_clock_date folded (h, m) ref = Inr r"
    by (auto simp: extract_wall_clock_def bindR_eq_Inr)
  with assms c wall_clock_date_not_Parsed obtain d where d: "r = Inr (Some d)"
    by (force simp: extract_wall_clock_def clarify_def split: option.splits sum.splits)
  with assms c l obtain us where us: "utc_candidates z (combine d (h, m)) = Inr us"
    by (auto simp: extract_wall_clock_def bindR_eq_Inr)
  with assms c l d obtain s where "us = [s]"
    by (cases us) (auto simp: extract_wall_clock_def clarify_def split: list.splits)
  with assms c l d us have "re_test (word_re ''hoy'') folded \<longrightarrow> now < s" "rx_starts_at e = s"
    by (auto simp: extract_wall_clock_def bindR_eq_Inr not_le split: if_splits dest: ReminderExtraction_make_Inr)
  with c l d us \<open>us = [s]\<close> show ?thesis by blast
qed

lemma extract_relative_made:
  "extract_relative tz z text folded now rs = Inr (ParsedReminder e) \<Longrightarrow>
     \<exists>a b c d f. ReminderExtraction_make tz a b c d f = Inr e"
  by (auto simp: extract_relative_def Let_def bindR_eq_Inr split: if_splits option.splits) blast+

lemma extract_wall_clock_made:
  assumes "extract_wall_clock tz z text folded now = Inr (ParsedReminder e)"
  shows "\<exists>a b c d f. ReminderExtraction_make tz a b c d f = Inr e"
proof -
  obtain h m ref f d s where "parse_clock folded (zn_key z) = Some (Inr (h, m))" "zn_local z now = Inr (ref, f)"
    "wall_clock_date folded (h, m) ref = Inr (Inr (Some d))" "utc_candidates z (combine d (h, m)) = Inr [s]"
    using extract_wall_clock_Parsed [OF assms] by blast
  with assms show ?thesis by (auto simp: extract_wall_clock_def bindR_eq_Inr split: if_splits) blast+
qed

text \<open>C25: a wall clock is never guessed.
  When a text without a relative amount is parsed, it has one clock time and selects one
  date (today, tomorrow, or the first day with the named weekday at which that clock time is
  still to come), and the reminder starts at the only instant whose local reading in the
  zone is that date and time: a local time that the zone skips or repeats is never parsed.
  Today's times are parsed only when they lie ahead.\<close>

theorem wall_clock_unambiguous:
  assumes law: "\<And>u l f. zn_local z u = Inr (l, f) \<Longrightarrow> zn_utc z l f = Inr u"
    and z: "tz (py_strip timezone) = Some z"
    and parsed: "extract_reminder tz text (Aware now) timezone = Inr (ParsedReminder e)"
    and absolute: "re_finditer RELATIVE_RE (fold_text text) = []"
  shows "\<exists>h m ref f d.
      parse_clock (fold_text text) (zn_key z) = Some (Inr (h, m)) \<and> 0 \<le> h \<and> h \<le> 23 \<and> 0 \<le> m \<and> m \<le> 59
    \<and> zn_local z now = Inr (ref, f) \<and> chosen_date (fold_text text) (h, m) ref d
    \<and> (\<forall>u. (\<exists>f. zn_local z u = Inr (combine d (h, m), f)) \<longleftrightarrow> u = rx_starts_at e)
    \<and> (re_test (word_re ''hoy'') (fold_text text) \<longrightarrow> now < rx_starts_at e)"
proof -
  have cz: "consistent_zone z" by unfold_locales (fact law)
  have "extract_wall_clock tz z text (fold_text text) now = Inr (ParsedReminder e)"
    using extract_reminder_Parsed [OF parsed] z absolute by (metis option.inject)
  then obtain h m ref f d s where w: "parse_clock (fold_text text) (zn_key z) = Some (Inr (h, m))"
      "zn_local z now = Inr (ref, f)" "wall_clock_date (fold_text text) (h, m) ref = Inr (Inr (Some d))"
      "utc_candidates z (combine d (h, m)) = Inr [s]" "re_test (word_re ''hoy'') (fold_text text) \<longrightarrow> now < s"
      "rx_starts_at e = s"
    using extract_wall_clock_Parsed by blast
  note c = parse_clock_valid [OF w(1)]
  have "{u. \<exists>f. zn_local z u = Inr (combine d (h, m), f)} = {s}"
    using consistent_zone.utc_candidates_exact [OF cz w(4)] by simp
  then have "\<forall>u. (\<exists>f. zn_local z u = Inr (combine d (h, m), f)) \<longleftrightarrow> u = rx_starts_at e" using w(6) by blast
  with w c wall_clock_date_chosen [OF w(3)] show ?thesis by blast
qed

definition rw_zones :: zones where
  "rw_zones n = (if n = ''America/Bogota'' then Some (fixed_zone n (- minutes 300)) else None)"

definition rw_extraction :: reminder_extraction where
  "rw_extraction = \<lparr>rx_title = ''cita'', rx_timezone = ''America/Bogota'', rx_starts_at = 1700078400000000,
     rx_notify_at = None, rx_confidence = 43 / 50\<rparr>"

lemma rw_parsed:
  "extract_reminder rw_zones ''cita manana a las 15'' (Aware 1700000000000000) ''America/Bogota'' = Inr (ParsedReminder rw_extraction)"
  by code_simp

theorem wall_clock_unambiguous_witness:
  "\<exists>d h m. \<forall>u. (\<exists>f. zn_local (fixed_zone ''America/Bogota'' (- minutes 300)) u = Inr (combine d (h, m), f)) \<longleftrightarrow> u = 1700078400000000"
proof -
  have z: "rw_zones (py_strip ''America/Bogota'') = Some (fixed_zone ''America/Bogota'' (- minutes 300))"
    by (simp add: rw_zones_def py_strip_def py_isspace_def)
  have a: "re_finditer RELATIVE_RE (fold_text ''cita manana a las 15'') = []" by code_simp
  show ?thesis
    using wall_clock_unambiguous [OF fz.local_utc z rw_parsed a] by (auto simp: rw_extraction_def)
qed

text \<open>
  A relative amount is added to the reference instant, and the notice is given at that time;
  a text that also names a date or a clock time is not parsed.
\<close>

lemma relative_exact:
  assumes parsed: "extract_reminder tz text (Aware now) timezone = Inr (ParsedReminder e)"
    and relative: "re_finditer RELATIVE_RE (fold_text text) \<noteq> []"
  shows "\<exists>m n. re_finditer RELATIVE_RE (fold_text text) = [m] \<and> parse_amount (group_of m 1) = Some n \<and> 1 \<le> n
    \<and> rx_starts_at e = now + minutes (if starts_with_any [''hora'', ''h''] (group_of m 2) then n * 60 else n)
    \<and> rx_notify_at e = Some (rx_starts_at e) \<and> \<not> has_date_selector (fold_text text) \<and> \<not> has_wall_clock (fold_text text)"
proof -
  obtain m ms where m: "re_finditer RELATIVE_RE (fold_text text) = m # ms" using relative by (meson neq_Nil_conv)
  obtain z where "extract_relative tz z text (fold_text text) now (m # ms) = Inr (ParsedReminder e)"
    using extract_reminder_Parsed [OF parsed] relative m by metis
  then show ?thesis unfolding m
    by (auto simp: extract_relative_def Let_def bindR_eq_Inr dt_add_Inr split: if_splits option.splits
        dest!: ReminderExtraction_make_Inr)
qed

text \<open>
  The meridiem pattern admits any white space between its letters but only blanks are
  removed before the comparison, so a morning hour written with a tab is read as an
  evening hour.
\<close>

lemma meridiem_tab_is_evening:
  "parse_clock (''a las 8 a'' @ [CHR 0x09] @ ''m'') zk = Some (Inr (20, 0)) \<and> parse_clock ''a las 8 a m'' zk = Some (Inr (8, 0))"
  by code_simp

end
