(* ===== verification/Py_Datetime.thy ===== *)
theory Py_Datetime
  imports Prelude
begin

text \<open>
  \<^verbatim>\<open>datetime.isoformat()\<close> of a UTC instant: the proleptic Gregorian date, the time of day,
  the microseconds when they are not zero, and the offset.
\<close>

text \<open>Year, month and day of the day with a given number of days since 1970-01-01.\<close>

definition civil_date :: "int \<Rightarrow> int \<times> int \<times> int" where
  "civil_date days =
     (let z = days + 719468; era = z div 146097; doe = z mod 146097;
          yoe = (doe - doe div 1460 + doe div 36524 - doe div 146096) div 365;
          doy = doe - (365 * yoe + yoe div 4 - yoe div 100);
          mp = (5 * doy + 2) div 153;
          d = doy - (153 * mp + 2) div 5 + 1;
          m = (if mp < 10 then mp + 3 else mp - 9)
      in (yoe + era * 400 + (if m \<le> 2 then 1 else 0), m, d))"

text \<open>A number with leading zeros.\<close>

definition padded :: "nat \<Rightarrow> int \<Rightarrow> string" where
  "padded w n = (let s = str_of_int n in replicate (w - length s) (CHR ''0'') @ s)"

definition isoformat :: "instant \<Rightarrow> string" where
  "isoformat t =
     (let us = t mod 1000000; secs = t div 1000000; days = secs div 86400; sod = secs mod 86400;
          (y, m, d) = civil_date days
      in padded 4 y @ ''-'' @ padded 2 m @ ''-'' @ padded 2 d @ ''T'' @ padded 2 (sod div 3600) @ '':''
         @ padded 2 (sod mod 3600 div 60) @ '':'' @ padded 2 (sod mod 60)
         @ (if us = 0 then [] else ''.'' @ padded 6 us) @ ''+00:00'')"

lemma isoformat_examples:
  "isoformat 0 = ''1970-01-01T00:00:00+00:00''"
  "isoformat 1709210096000001 = ''2024-02-29T12:34:56.000001+00:00''"
  "isoformat datetime_min = ''0001-01-01T00:00:00+00:00''"
  "isoformat datetime_max = ''9999-12-31T23:59:59.999999+00:00''"
  by code_simp+

end
