(* ===== verification/Reminder_Draft.thy ===== *)
theory Reminder_Draft
  imports Reminder_Parser_Properties Py_Datetime Workflow_Store
begin

text \<open>
  The draft of a reminder that waits for approval: \<^verbatim>\<open>domain/reminders/workflow_state.py\<close>.
  The class has the fields and validators of an extraction. The conversion of untyped values
  to text, datetimes and floats is the validation library's, a parameter \<open>co\<close>; the lemmas
  use that it accepts a text as itself, the ISO form of an instant as that instant, and a
  float as itself. The result: the draft stored when approval is requested is read back as
  the extraction the user saw, whatever else the workflow data holds.
\<close>

datatype workflow_step = step_classify | step_needs_clarification | step_approval_required | step_completed

fun step_value :: "workflow_step \<Rightarrow> string" where
  "step_value step_classify = ''classify''"
| "step_value step_needs_clarification = ''needs_clarification''"
| "step_value step_approval_required = ''approval_required''"
| "step_value step_completed = ''completed''"

type_synonym reminder_draft = reminder_extraction

definition ReminderDraft_make ::
    "zones \<Rightarrow> string \<Rightarrow> string \<Rightarrow> py_datetime \<Rightarrow> py_datetime option \<Rightarrow> rat \<Rightarrow> reminder_draft result" where
  "ReminderDraft_make tz title timezone starts_at notify_at confidence =
     ReminderExtraction_make tz title timezone starts_at notify_at confidence"

definition from_extraction :: "zones \<Rightarrow> reminder_extraction \<Rightarrow> reminder_draft result" where
  "from_extraction tz e =
     ReminderDraft_make tz (rx_title e) (rx_timezone e) (Aware (rx_starts_at e)) (map_option Aware (rx_notify_at e))
       (rx_confidence e)"

definition to_extraction :: "zones \<Rightarrow> reminder_draft \<Rightarrow> reminder_extraction result" where
  "to_extraction tz d =
     ReminderExtraction_make tz (rx_title d) (rx_timezone d) (Aware (rx_starts_at d)) (map_option Aware (rx_notify_at d))
       (rx_confidence d)"

definition to_workflow_data :: "reminder_draft \<Rightarrow> (string, pyval) dict" where
  "to_workflow_data d =
     [(''title'', PStr (rx_title d)), (''timezone'', PStr (rx_timezone d)), (''starts_at'', PStr (isoformat (rx_starts_at d))),
      (''notify_at'', (case rx_notify_at d of None \<Rightarrow> PNone | Some n \<Rightarrow> PStr (isoformat n))),
      (''confidence'', PFloat (rx_confidence d))]"

text \<open>What the validation library reads a value as; \<open>None\<close> when it rejects it.\<close>

record coercion =
  co_str :: "pyval \<Rightarrow> string option"
  co_datetime :: "pyval \<Rightarrow> py_datetime option"
  co_float :: "pyval \<Rightarrow> rat option"

definition coerced :: "'a option \<Rightarrow> 'a result" where
  "coerced v = (case v of None \<Rightarrow> Inl (ValueError ''invalid value'') | Some x \<Rightarrow> Inr x)"

definition from_mapping :: "zones \<Rightarrow> coercion \<Rightarrow> (string, pyval) dict \<Rightarrow> reminder_draft result" where
  "from_mapping tz co data =
     (case (map_of data ''title'', map_of data ''starts_at'') of
        (Some title, Some starts_at) \<Rightarrow>
          bindR (coerced (co_str co title)) (\<lambda>t.
          bindR (coerced (co_str co (case map_of data ''timezone'' of None \<Rightarrow> PStr ''UTC'' | Some z \<Rightarrow> z))) (\<lambda>z.
          bindR (coerced (co_datetime co starts_at)) (\<lambda>s.
          bindR (case map_of data ''notify_at'' of
                   None \<Rightarrow> Inr None
                 | Some PNone \<Rightarrow> Inr None
                 | Some n \<Rightarrow> bindR (coerced (co_datetime co n)) (\<lambda>u. Inr (Some u))) (\<lambda>n.
          bindR (coerced (co_float co (case map_of data ''confidence'' of None \<Rightarrow> PFloat (86 / 100) | Some c \<Rightarrow> c))) (\<lambda>c.
            ReminderDraft_make tz t z s n c)))))
      | _ \<Rightarrow> Inl KeyError)"

section \<open>The draft is the extraction\<close>

text \<open>\<^verbatim>\<open>ZoneInfo(key).key\<close> is the key; the coercions are the identity on values of the type.\<close>

definition zone_keys :: "zones \<Rightarrow> bool" where
  "zone_keys tz \<longleftrightarrow> (\<forall>n z. tz n = Some z \<longrightarrow> zn_key z = n)"

definition plain_coercion :: "coercion \<Rightarrow> instant set \<Rightarrow> bool" where
  "plain_coercion co T \<longleftrightarrow> (\<forall>s. co_str co (PStr s) = Some s) \<and> (\<forall>q. co_float co (PFloat q) = Some q)
     \<and> (\<forall>t \<in> T. co_datetime co (PStr (isoformat t)) = Some (Aware t))"

definition instants_of :: "reminder_extraction \<Rightarrow> instant set" where
  "instants_of e = insert (rx_starts_at e) (set_option (rx_notify_at e))"

definition valid_extraction :: "zones \<Rightarrow> reminder_extraction \<Rightarrow> bool" where
  "valid_extraction tz e \<longleftrightarrow> py_strip (rx_title e) = rx_title e \<and> rx_title e \<noteq> []
     \<and> py_strip (rx_timezone e) = rx_timezone e \<and> rx_timezone e \<noteq> []
     \<and> (\<exists>z. tz (rx_timezone e) = Some z \<and> zn_key z = rx_timezone e)
     \<and> 0 \<le> rx_confidence e \<and> rx_confidence e \<le> 1 \<and> (\<forall>t \<in> instants_of e. in_datetime_range t)"

lemma made_extraction_valid:
  assumes "zone_keys tz" and "ReminderExtraction_make tz t zn s n c = Inr e"
  shows "valid_extraction tz e"
  using assms
  by (auto simp: ReminderExtraction_make_def valid_extraction_def instants_of_def zone_keys_def require_iana_timezone_def
      canonicalize_datetime_def bindR_eq_Inr split: if_splits option.splits py_datetime.splits)

lemma remake_extraction:
  assumes "valid_extraction tz e"
  shows "ReminderExtraction_make tz (rx_title e) (rx_timezone e) (Aware (rx_starts_at e)) (map_option Aware (rx_notify_at e))
    (rx_confidence e) = Inr e"
  using assms
  by (auto simp: ReminderExtraction_make_def valid_extraction_def instants_of_def require_iana_timezone_def
      canonicalize_datetime_def not_less split: option.split)

lemma parsed_extraction_valid:
  assumes "zone_keys tz" and "extract_reminder tz text now timezone = Inr (ParsedReminder e)"
  shows "valid_extraction tz e"
proof -
  obtain t where t: "now = Aware t" using assms(2) by (auto simp: extract_reminder_def Let_def split: if_splits py_datetime.splits)
  note p = assms(2) [unfolded t]
  obtain z where "re_finditer RELATIVE_RE (fold_text text) = [] \<Longrightarrow> extract_wall_clock tz z text (fold_text text) t = Inr (ParsedReminder e)"
    and "re_finditer RELATIVE_RE (fold_text text) \<noteq> [] \<Longrightarrow>
      extract_relative tz z text (fold_text text) t (re_finditer RELATIVE_RE (fold_text text)) = Inr (ParsedReminder e)"
    using extract_reminder_Parsed [OF p] by metis
  then have "\<exists>a b c d f. ReminderExtraction_make tz a b c d f = Inr e"
    using extract_wall_clock_made extract_relative_made by blast
  with made_extraction_valid [OF assms(1)] show ?thesis by blast
qed

text \<open>C37: an approved draft is the reminder that was parsed.
  The data of a workflow that waits for approval, however it was filled before, reads back
  as exactly the extraction that was stored: title, zone, both instants and confidence.\<close>

theorem draft_roundtrip:
  assumes "zone_keys tz" and "plain_coercion co (instants_of e)"
    and "extract_reminder tz text now timezone = Inr (ParsedReminder e)"
  shows "\<exists>d. from_extraction tz e = Inr d
    \<and> bindR (from_mapping tz co (dict_update data (to_workflow_data d))) (to_extraction tz) = Inr e"
proof -
  note v = parsed_extraction_valid [OF assms(1,3)]
  have "from_extraction tz e = Inr e" using remake_extraction [OF v] by (simp add: from_extraction_def ReminderDraft_make_def)
  moreover have "from_mapping tz co (dict_update data (to_workflow_data e)) = Inr e"
    using assms(2) remake_extraction [OF v]
    by (cases "rx_notify_at e")
      (simp_all add: from_mapping_def dict_update_def map_of_update to_workflow_data_def coerced_def plain_coercion_def instants_of_def
        ReminderDraft_make_def)
  moreover have "to_extraction tz e = Inr e" using remake_extraction [OF v] by (simp add: to_extraction_def)
  ultimately show ?thesis by simp
qed

definition dw_coercion :: coercion where
  "dw_coercion = \<lparr>co_str = (\<lambda>v. case v of PStr s \<Rightarrow> Some s | _ \<Rightarrow> None),
     co_datetime = (\<lambda>v. if v = PStr ''2023-11-15T20:00:00+00:00'' then Some (Aware 1700078400000000) else None),
     co_float = (\<lambda>v. case v of PFloat q \<Rightarrow> Some q | _ \<Rightarrow> None)\<rparr>"

theorem draft_roundtrip_witness:
  "\<exists>d. from_extraction rw_zones rw_extraction = Inr d
    \<and> bindR (from_mapping rw_zones dw_coercion (dict_update [(''title'', PStr ''old'')] (to_workflow_data d))) (to_extraction rw_zones)
      = Inr rw_extraction"
proof -
  have k: "zone_keys rw_zones" by (simp add: zone_keys_def rw_zones_def fixed_zone_def)
  have "isoformat 1700078400000000 = ''2023-11-15T20:00:00+00:00''" by code_simp
  then have c: "plain_coercion dw_coercion (instants_of rw_extraction)"
    by (simp add: plain_coercion_def dw_coercion_def instants_of_def rw_extraction_def)
  show ?thesis by (rule draft_roundtrip [OF k c rw_parsed])
qed

end
