(* ===== verification/Replies.thy ===== *)
theory Replies
  imports Reminder_Parser Py_Datetime
begin

text \<open>
  User-facing copy: \<^verbatim>\<open>application/services/replies.py\<close>. A catalog maps keys to a text or to
  a list of lines; \<^verbatim>\<open>str.format\<close> is given for plain named fields and doubled braces, which
  is all that the catalogs use. A missing key raises \<open>KeyError\<close>, a value of the wrong shape
  \<open>TypeError\<close>.
\<close>

datatype catalog_value = CatText string | CatLines "string list"

type_synonym catalog = "(string, catalog_value) dict"

definition reply_text :: "catalog \<Rightarrow> string \<Rightarrow> string result" where
  "reply_text cat key =
     (case map_of cat key of
        None \<Rightarrow> Inl KeyError
      | Some (CatText t) \<Rightarrow> Inr t
      | Some (CatLines _) \<Rightarrow> Inl (TypeError ''reply copy must be a string''))"

definition reply_lines :: "catalog \<Rightarrow> string \<Rightarrow> string list result" where
  "reply_lines cat key =
     (case map_of cat key of
        None \<Rightarrow> Inl KeyError
      | Some (CatText t) \<Rightarrow> Inr [t]
      | Some (CatLines ls) \<Rightarrow> Inr ls)"

text \<open>\<^verbatim>\<open>str.format\<close> with named arguments.\<close>

function py_format :: "(string \<times> string) list \<Rightarrow> string \<Rightarrow> string result" where
  "py_format vars s =
     (case s of
        [] \<Rightarrow> Inr []
      | c # cs \<Rightarrow>
          if c = CHR ''{''
          then (case cs of
                  d # ds \<Rightarrow>
                    if d = CHR ''{'' then bindR (py_format vars ds) (\<lambda>t. Inr (CHR ''{'' # t))
                    else
                     (let name = takeWhile (\<lambda>x. x \<noteq> CHR ''}'') cs; rest = dropWhile (\<lambda>x. x \<noteq> CHR ''}'') cs in
                      if rest = [] then Inl (ValueError ''expected closing brace before end of string'')
                      else case map_of vars name of
                             None \<Rightarrow> Inl KeyError
                           | Some v \<Rightarrow> bindR (py_format vars (tl rest)) (\<lambda>t. Inr (v @ t)))
                | [] \<Rightarrow> Inl (ValueError ''single opening brace in format string''))
          else if c = CHR ''}''
          then (case cs of
                  d # ds \<Rightarrow> if d = CHR ''}'' then bindR (py_format vars ds) (\<lambda>t. Inr (CHR ''}'' # t))
                           else Inl (ValueError ''single closing brace in format string'')
                | [] \<Rightarrow> Inl (ValueError ''single closing brace in format string''))
          else bindR (py_format vars cs) (\<lambda>t. Inr (c # t)))"
  by pat_completeness auto
termination
proof (relation "measure (\<lambda>(vars, s). length s)", goal_cases)
  case (3 vars s c cs d ds name rest)
  have "length rest \<le> length cs" using length_dropWhile_le [of _ cs] by (simp only: 3)
  with 3 show ?case by (cases rest) auto
qed auto

declare py_format.simps [simp del]

definition reply_format :: "catalog \<Rightarrow> string \<Rightarrow> (string \<times> string) list \<Rightarrow> string result" where
  "reply_format cat key vars = bindR (reply_text cat key) (py_format vars)"

text \<open>\<^verbatim>\<open>"\n".join(lines)\<close>.\<close>

fun join_lines :: "string list \<Rightarrow> string" where
  "join_lines [] = []"
| "join_lines [l] = l"
| "join_lines (l # ls) = l @ [CHR 0x0A] @ join_lines ls"

section \<open>Replies\<close>

definition reply_help :: "catalog \<Rightarrow> string result" where
  "reply_help cat = bindR (reply_lines cat ''help'') (\<lambda>ls. Inr (join_lines ls))"

definition reply_status :: "catalog \<Rightarrow> int \<Rightarrow> int \<Rightarrow> int \<Rightarrow> int \<Rightarrow> string result" where
  "reply_status cat pending_count state_count event_count outbox_count =
     reply_format cat ''status'' [(''pending_count'', str_of_int pending_count), (''state_count'', str_of_int state_count),
       (''event_count'', str_of_int event_count), (''outbox_count'', str_of_int outbox_count)]"

definition reply_agenda :: "catalog \<Rightarrow> (instant \<times> string \<times> string) list \<Rightarrow> string result" where
  "reply_agenda cat rows =
     bindR (reply_text cat ''agenda_header'') (\<lambda>header.
     bindR (mapR (\<lambda>(starts_at, title, event_id). reply_format cat ''agenda_row''
              [(''starts_at'', isoformat starts_at), (''title'', title), (''event_id'', event_id)]) rows) (\<lambda>ls.
       Inr (join_lines (header # ls))))"

definition reply_pending_approvals :: "catalog \<Rightarrow> (string \<times> string \<times> string) list \<Rightarrow> string result" where
  "reply_pending_approvals cat rows =
     bindR (reply_text cat ''pending_header'') (\<lambda>header.
     bindR (mapR (\<lambda>(approval_id, action, request_text). reply_format cat ''pending_row''
              [(''approval_id'', approval_id), (''action'', action), (''request_text'', request_text)]) rows) (\<lambda>ls.
     bindR (reply_text cat ''pending_footer'') (\<lambda>footer.
       Inr (join_lines (header # ls @ [footer])))))"

definition reminder_duplicate :: "catalog \<Rightarrow> string result" where
  "reminder_duplicate cat = reply_text cat ''reminder_duplicate''"

text \<open>Identity, version and copy of the clarification for one reason.\<close>

definition reminder_clarification :: "catalog \<Rightarrow> clarification_reason \<Rightarrow> (string \<times> string \<times> string) result" where
  "reminder_clarification cat reason =
     (let reply_id = ''reminder_'' @ reason_value reason in
      bindR (reply_text cat reply_id) (\<lambda>t. Inr (reply_id, ''v1'', t)))"

definition reminder_needs_approval :: "catalog \<Rightarrow> string \<Rightarrow> string result" where
  "reminder_needs_approval cat title = reply_format cat ''reminder_needs_approval'' [(''title'', title)]"

definition approval_command_hint :: "catalog \<Rightarrow> string \<Rightarrow> string result" where
  "approval_command_hint cat approval_id = reply_format cat ''approval_command_hint'' [(''approval_id'', approval_id)]"

definition reminder_notification_body :: "catalog \<Rightarrow> string \<Rightarrow> string result" where
  "reminder_notification_body cat title = reply_format cat ''reminder_notification_body'' [(''title'', title)]"

definition minutes_label :: "catalog \<Rightarrow> int \<Rightarrow> string result" where
  "minutes_label cat n =
     (if n = 1 then reply_text cat ''minutes_singular'' else reply_format cat ''minutes_plural'' [(''minutes'', str_of_int n)])"

definition reminder_created :: "catalog \<Rightarrow> string \<Rightarrow> int \<Rightarrow> bool \<Rightarrow> string result" where
  "reminder_created cat title minutes_before direct_notice =
     (if direct_notice then reply_format cat ''reminder_created_direct'' [(''title'', title)]
      else bindR (minutes_label cat minutes_before) (\<lambda>label.
        reply_format cat ''reminder_created_with_notice'' [(''title'', title), (''minutes_label'', label)]))"

section \<open>Formatting inserts values verbatim\<close>

text \<open>
  A value is inserted as it is: braces in a title are not read as fields. This is what keeps
  user text from being interpreted by the template.
\<close>

lemma py_format_step [simp]:
  "py_format vars [] = Inr []"
  "c \<noteq> CHR ''{'' \<Longrightarrow> c \<noteq> CHR ''}'' \<Longrightarrow> py_format vars (c # cs) = bindR (py_format vars cs) (\<lambda>t. Inr (c # t))"
  by (simp_all add: py_format.simps [of _ "[]"] py_format.simps [of _ "c # cs"])

lemma py_format_append_plain:
  "CHR ''{'' \<notin> set a \<Longrightarrow> CHR ''}'' \<notin> set a \<Longrightarrow>
     py_format vars (a @ s) = bindR (py_format vars s) (\<lambda>t. Inr (a @ t))"
proof (induction a)
  case Nil
  show ?case by (cases "py_format vars s") simp_all
next
  case (Cons c a)
  then have "c \<noteq> CHR ''{''" "c \<noteq> CHR ''}''" by auto
  with Cons show ?case by (cases "py_format vars s") simp_all
qed

lemma py_format_field:
  assumes "CHR ''}'' \<notin> set name" and "name \<noteq> []" and "hd name \<noteq> CHR ''{''" and "map_of vars name = Some v"
  shows "py_format vars (''{'' @ name @ ''}'' @ s) = bindR (py_format vars s) (\<lambda>t. Inr (v @ t))"
proof -
  obtain d ds where n: "name = d # ds" using assms(2) by (cases name) auto
  have "takeWhile (\<lambda>x. x \<noteq> CHR ''}'') (name @ CHR ''}'' # s) = name"
    "dropWhile (\<lambda>x. x \<noteq> CHR ''}'') (name @ CHR ''}'' # s) = CHR ''}'' # s"
    using assms(1) by (induction name) auto
  then show ?thesis
    using assms(3,4) unfolding n by (simp add: py_format.simps [of vars "CHR ''{'' # d # ds @ CHR ''}'' # s"] Let_def)
qed

end
