(* ===== verification/Reminder_Workflow.thy ===== *)
theory Reminder_Workflow
  imports Reminder_Draft Replies Tracing Unit_Of_Work
begin

text \<open>
  The reminder workflow: \<^verbatim>\<open>application/use_cases/reminders.py\<close> with the classes of
  \<^verbatim>\<open>application/dto/reminders.py\<close>. The state \<open>world\<close> holds the five stores, the trace
  recorder, the open transaction and a counter that numbers the draws of identifiers and
  clock readings; the record \<open>wenv\<close> holds what the workflow object is configured with and the
  code outside the repository: digests and fingerprints, the language model, the prompt
  catalog, float and datetime parsing, the name and text of an exception.
\<close>

section \<open>Requests and results\<close>

datatype agent_status = ag_completed | ag_needs_clarification | ag_declined | ag_escalated | ag_failed

record workflow_input =
  wi_message_id :: string
  wi_source_event_id :: string
  wi_conversation_id :: string
  wi_text :: string
  wi_channel :: string
  wi_recipient :: string
  wi_now :: instant
  wi_timezone :: string
  wi_idempotency_key :: "string option"
  wi_approval :: "approval_grant option"

definition ReminderWorkflowInput_make :: "workflow_input \<Rightarrow> py_datetime \<Rightarrow> workflow_input result" where
  "ReminderWorkflowInput_make i now =
     (let r = i\<lparr>wi_message_id := py_strip (wi_message_id i), wi_source_event_id := py_strip (wi_source_event_id i),
                wi_conversation_id := py_strip (wi_conversation_id i), wi_text := py_strip (wi_text i),
                wi_recipient := py_strip (wi_recipient i), wi_timezone := py_strip (wi_timezone i),
                wi_idempotency_key := map_option py_strip (wi_idempotency_key i)\<rparr> in
      if wi_message_id r = [] \<or> wi_source_event_id r = [] \<or> wi_conversation_id r = [] \<or> wi_text r = []
         \<or> wi_recipient r = [] \<or> wi_timezone r = [] \<or> wi_channel r \<notin> {''telegram'', ''whatsapp''}
      then Inl (ValueError ''invalid reminder workflow input'')
      else case now of
             Naive _ \<Rightarrow> Inl (ValueError ''now must be timezone-aware'')
           | Aware t \<Rightarrow> if in_datetime_range t then Inr (r\<lparr>wi_now := t\<rparr>) else Inl OverflowError)"

record workflow_result =
  wr_status :: agent_status
  wr_intent :: reminder_intent
  wr_reply :: string
  wr_idempotency_key :: string
  wr_source_event_id :: string
  wr_payload_fingerprint :: string
  wr_timezone :: string
  wr_clarification_reason :: "clarification_reason option"
  wr_clarification_reply_id :: "string option"
  wr_clarification_reply_version :: "string option"
  wr_approval_required :: bool
  wr_calendar_event_id :: "string option"
  wr_reminder_id :: "string option"
  wr_reused :: bool
  wr_trace_ids :: "string list"

definition version_ok :: "string \<Rightarrow> bool" where
  "version_ok v \<longleftrightarrow> (case v of c # d # ds \<Rightarrow> c = CHR ''v'' \<and> digit d \<and> d \<noteq> CHR ''0'' \<and> list_all digit ds | _ \<Rightarrow> False)"

definition require_versioned_clarification_identity :: "zones \<Rightarrow> workflow_result \<Rightarrow> workflow_result result" where
  "require_versioned_clarification_identity tz r =
     bindR (if wr_clarification_reason r \<noteq> Some invalid_timezone
            then (case tz (wr_timezone r) of
                    None \<Rightarrow> Inl (ValueError ''timezone must be valid unless requesting timezone clarification'')
                  | Some z \<Rightarrow> Inr (r\<lparr>wr_timezone := zn_key z\<rparr>))
            else Inr r) (\<lambda>r.
     case wr_clarification_reason r of
       None \<Rightarrow>
         if wr_clarification_reply_id r \<noteq> None \<or> wr_clarification_reply_version r \<noteq> None
         then Inl (ValueError ''clarification reply identity requires a reason'') else Inr r
     | Some reason \<Rightarrow>
         if wr_clarification_reply_id r \<noteq> Some (''reminder_'' @ reason_value reason)
         then Inl (ValueError ''clarification reply id must match its typed reason'')
         else if wr_clarification_reply_version r = None
         then Inl (ValueError ''clarification reply version is required'') else Inr r)"

definition ReminderWorkflowResult_make :: "zones \<Rightarrow> workflow_result \<Rightarrow> workflow_result result" where
  "ReminderWorkflowResult_make tz r =
     (if wr_source_event_id r = [] \<or> \<not> is_hex64 (wr_payload_fingerprint r) \<or> wr_timezone r = []
         \<or> \<not> opt_ok (\<lambda>s. s \<noteq> []) (wr_clarification_reply_id r) \<or> \<not> opt_ok version_ok (wr_clarification_reply_version r)
      then Inl (ValueError ''invalid reminder workflow result'')
      else require_versioned_clarification_identity tz r)"

section \<open>Configuration and state\<close>

record llm_result =
  lr_provider :: string
  lr_model :: string
  lr_data :: "(string, pyval) dict"
  lr_input_tokens :: int
  lr_output_tokens :: int

record rendered_prompt =
  pt_prompt_id :: string
  pt_version :: string
  pt_text :: string

record wenv =
  we_sha :: "string \<Rightarrow> string"
  we_rp :: "pyval \<Rightarrow> string"
  we_uuid :: "nat \<Rightarrow> string"
  we_clock :: "nat \<Rightarrow> instant"
  we_tz :: zones
  we_co :: coercion
  we_fp_calendar :: "calendar_request \<Rightarrow> string"
  we_fp_state :: "workflow_state \<Rightarrow> string"
  we_fp_event :: "cloud_event \<Rightarrow> string"
  we_fp_write :: write_fp
  we_catalog :: catalog
  we_minutes_before :: int
  we_context_window :: int
  we_unit_of_work :: bool
  we_llm :: "(nat \<Rightarrow> string \<Rightarrow> llm_result result) option"
  we_render :: "string \<Rightarrow> (string \<times> string) list \<Rightarrow> rendered_prompt result"
  we_repr :: "string \<Rightarrow> string"
  we_float :: "string \<Rightarrow> pyval result"
  we_fromiso :: "string \<Rightarrow> py_datetime result"
  we_ratio :: "int \<Rightarrow> int \<Rightarrow> rat"
  we_exception :: "py_error \<Rightarrow> string \<times> string"

abbreviation zone_key :: "wenv \<Rightarrow> string \<Rightarrow> string option" where
  "zone_key env n \<equiv> map_option zn_key (we_tz env n)"

record world =
  wd_stores :: stores
  wd_txn :: txn
  wd_traces :: trace_log
  wd_tick :: nat

definition draw :: "wenv \<Rightarrow> (world, string \<times> instant) op" where
  "draw env w = (Inr (we_uuid env (wd_tick w), we_clock env (wd_tick w)), w\<lparr>wd_tick := Suc (wd_tick w)\<rparr>)"

definition on_traces :: "(trace_log, 'a) op \<Rightarrow> (world, 'a) op" where
  "on_traces = on_field wd_traces (\<lambda>l w. w\<lparr>wd_traces := l\<rparr>)"

definition on_uow :: "(uow_state, 'a) op \<Rightarrow> (world, 'a) op" where
  "on_uow = on_field (\<lambda>w. \<lparr>us_txn = wd_txn w, us_stores = wd_stores w\<rparr>)
     (\<lambda>x w. w\<lparr>wd_txn := us_txn x, wd_stores := us_stores x\<rparr>)"

text \<open>
  \<^verbatim>\<open>with self._begin_transaction(principal) as transaction: body\<close>. Without a unit of work the
  body runs directly on the stores and commit does nothing.
\<close>

definition set_transaction :: "txn \<Rightarrow> (world, unit) op" where
  "set_transaction tx w = (Inr (), w\<lparr>wd_txn := tx\<rparr>)"

definition exit_block :: "(world, 'a) op \<Rightarrow> (world, 'a) op" where
  "exit_block body w =
     (case body w of (r, y) \<Rightarrow>
      case on_uow (tx_exit (case r of Inl _ \<Rightarrow> True | Inr _ \<Rightarrow> False)) y of
        (Inl e, z) \<Rightarrow> (Inl e, z)
      | (Inr _, z) \<Rightarrow> (r, z))"

definition with_reminder_transaction :: "wenv \<Rightarrow> principal \<Rightarrow> (world, 'a) op \<Rightarrow> (world, 'a) op" where
  "with_reminder_transaction env p body =
     (if we_unit_of_work env
      then bindS (lift (begin_transaction p)) (\<lambda>tx.
           bindS (set_transaction tx) (\<lambda>_.
           bindS (on_uow tx_enter) (\<lambda>_. exit_block body)))
      else body)"

definition commit :: "wenv \<Rightarrow> (world, unit) op" where
  "commit env = (if we_unit_of_work env then on_uow tx_commit else ret ())"

section \<open>Traces and replies\<close>

definition make_trace ::
    "wenv \<Rightarrow> string \<Rightarrow> trace_event_type \<Rightarrow> string \<Rightarrow> (trace_event \<Rightarrow> trace_event) \<Rightarrow> (world, trace_event) op" where
  "make_trace env run_id ety tenant upd =
     bindS (draw env) (\<lambda>d. lift (TraceEvent_make (we_sha env) (we_rp env)
       (upd (new_trace (fst d) (snd d) run_id ''personal_assistant'' ety tenant))))"

definition write_trace :: "wenv \<Rightarrow> trace_event \<Rightarrow> (world, unit) op" where
  "write_trace env e = on_traces (trace_write (we_sha env) (we_rp env) e)"

definition record_trace ::
    "wenv \<Rightarrow> string \<Rightarrow> trace_event_type \<Rightarrow> string \<Rightarrow> (trace_event \<Rightarrow> trace_event) \<Rightarrow> (world, trace_event) op" where
  "record_trace env run_id ety tenant upd =
     bindS (make_trace env run_id ety tenant upd) (\<lambda>e. bindS (write_trace env e) (\<lambda>_. ret e))"

definition emit_scan :: "wenv \<Rightarrow> guardrail_result \<Rightarrow> principal \<Rightarrow> string \<Rightarrow> (world, trace_event) op" where
  "emit_scan env r p run_id =
     bindS (draw env) (\<lambda>d. on_traces (emit_guardrail_scan (we_sha env) (we_rp env) (fst d) (snd d) r
       ''reminder_workflow'' (pr_tenant_id p) run_id))"

definition guarded_reply :: "wenv \<Rightarrow> principal \<Rightarrow> string \<Rightarrow> string \<Rightarrow> (world, string) op" where
  "guarded_reply env p run_id text =
     bindS (lift (scan_output text)) (\<lambda>output_scan.
     bindS (emit_scan env output_scan p run_id) (\<lambda>_.
     bindS (lift (enforce_output_scan output_scan)) (\<lambda>_. ret text)))"

definition guarded :: "wenv \<Rightarrow> principal \<Rightarrow> string \<Rightarrow> string result \<Rightarrow> (world, string) op" where
  "guarded env p run_id reply = bindS (lift reply) (guarded_reply env p run_id)"

section \<open>Extraction\<close>

definition reminder_idempotency_of :: "principal \<Rightarrow> workflow_input \<Rightarrow> reminder_idempotency result" where
  "reminder_idempotency_of p request =
     bindR (ReminderIdempotencyIdentity_make (pr_tenant_id p) (wi_channel request) (pr_principal_id p)
              (wi_conversation_id request) (wi_source_event_id request)) (\<lambda>identity.
     bindR (ReminderPayload_make (wi_text request) (wi_recipient request) (wi_timezone request)) (\<lambda>payload.
       Inr \<lparr>idem_identity = identity, idem_payload = payload\<rparr>))"

definition value_or :: "(string, pyval) dict \<Rightarrow> string \<Rightarrow> pyval \<Rightarrow> pyval" where
  "value_or data key d = (case map_of data key of Some v \<Rightarrow> if truthy v then v else d | None \<Rightarrow> d)"

text \<open>
  \<^verbatim>\<open>float(value)\<close>; an integer beyond the range of floats overflows. Rounding of integers above
  \<open>2 ^ 53\<close> is left out: only comparisons with numbers up to one follow.
\<close>

definition py_float :: "wenv \<Rightarrow> pyval \<Rightarrow> pyval result" where
  "py_float env v =
     (case v of
        PBool b \<Rightarrow> Inr (PFloat (if b then 1 else 0))
      | PInt i \<Rightarrow> if \<bar>i\<bar> < 2 ^ 1024 - 2 ^ 970 then Inr (PFloat (of_int i)) else Inl OverflowError
      | PFloat q \<Rightarrow> Inr v
      | PNonFinite k \<Rightarrow> Inr v
      | PStr s \<Rightarrow> we_float env s
      | _ \<Rightarrow> Inl (TypeError ''float() argument must be a string or a real number''))"

definition float_below :: "pyval \<Rightarrow> rat \<Rightarrow> bool" where
  "float_below v q = (case v of PFloat r \<Rightarrow> r < q | PNonFinite k \<Rightarrow> k = NegInf | _ \<Rightarrow> False)"

definition reminder_extraction_from_llm ::
    "wenv \<Rightarrow> (string, pyval) dict \<Rightarrow> string \<Rightarrow> reminder_extraction option result" where
  "reminder_extraction_from_llm env data timezone =
     (if \<not> truthy (value_or data ''is_reminder'' PNone) then Inr None
      else
       (let title = py_strip (py_str (we_rp env) (value_or data ''title'' (PStr [])));
            starts_at_raw = py_strip (py_str (we_rp env) (value_or data ''starts_at'' (PStr []))) in
        bindR (py_float env (value_or data ''confidence'' (PFloat 0))) (\<lambda>confidence.
        if title = [] \<or> starts_at_raw = [] \<or> float_below confidence (65 / 100) then Inr None
        else
          bindR (we_fromiso env starts_at_raw) (\<lambda>starts_at.
          case starts_at of
            Naive _ \<Rightarrow> Inr None
          | Aware _ \<Rightarrow>
             (let notify_at_raw = py_strip (py_str (we_rp env) (value_or data ''notify_at'' (PStr []))) in
              bindR (if notify_at_raw = [] then Inr None
                     else bindR (we_fromiso env notify_at_raw) (\<lambda>n. Inr (Some n))) (\<lambda>notify_at.
              case notify_at of
                Some (Naive _) \<Rightarrow> Inr None
              | _ \<Rightarrow>
                 (case confidence of
                    PFloat c \<Rightarrow> bindR (ReminderExtraction_make (we_tz env) title timezone starts_at notify_at c)
                                 (\<lambda>e. Inr (Some e))
                  | _ \<Rightarrow> Inl (ValueError ''invalid reminder extraction''))))))))"

definition notice_minutes_before :: "reminder_extraction \<Rightarrow> int \<Rightarrow> int" where
  "notice_minutes_before e default_minutes =
     (case rx_notify_at e of
        None \<Rightarrow> default_minutes
      | Some n \<Rightarrow>
          if rx_starts_at e - n \<le> 0 then 0 else max ((rx_starts_at e - n) div minutes 1) 0)"

definition llm_usage_metrics :: "wenv \<Rightarrow> llm_result \<Rightarrow> (string \<times> pyval) list" where
  "llm_usage_metrics env r =
     (if lr_input_tokens r \<le> 0 \<and> lr_output_tokens r \<le> 0 then []
      else [(''input_tokens'', PInt (lr_input_tokens r)), (''output_tokens'', PInt (lr_output_tokens r))]
        @ (if lr_input_tokens r > 0 \<and> we_context_window env > 0
           then [(''context_utilization'', PFloat (we_ratio env (lr_input_tokens r) (we_context_window env)))] else []))"

definition prompt_trace_summary :: "rendered_prompt option \<Rightarrow> (string \<times> pyval) list" where
  "prompt_trace_summary prompt =
     (case prompt of None \<Rightarrow> []
      | Some t \<Rightarrow> [(''prompt_id'', PStr (pt_prompt_id t)), (''prompt_version'', PStr (pt_version t))])"

definition llm_trace ::
    "wenv \<Rightarrow> principal \<Rightarrow> string \<Rightarrow> string \<Rightarrow> llm_result \<Rightarrow> reminder_extraction option \<Rightarrow> rendered_prompt
       \<Rightarrow> (world, trace_event) op" where
  "llm_trace env p run_id parent r extraction prompt =
     make_trace env run_id llm_called (pr_tenant_id p) (\<lambda>e.
       e\<lparr>te_model := Some (lr_model r),
         te_input_summary := PMap ([(''schema'', PStr ''reminder_extraction''), (''provider'', PStr (lr_provider r))]
            @ prompt_trace_summary (Some prompt)),
         te_output_summary := PMap ((''matched'', PBool (extraction \<noteq> None)) # llm_usage_metrics env r),
         te_parent_event_id := Some parent\<rparr>)"

definition llm_failure_trace ::
    "wenv \<Rightarrow> principal \<Rightarrow> string \<Rightarrow> string \<Rightarrow> rendered_prompt option \<Rightarrow> py_error \<Rightarrow> (world, trace_event) op" where
  "llm_failure_trace env p run_id parent prompt exc =
     make_trace env run_id llm_called (pr_tenant_id p) (\<lambda>e.
       e\<lparr>te_model := Some ''configured'',
         te_input_summary := PMap ((''schema'', PStr ''reminder_extraction'') # prompt_trace_summary prompt),
         te_error := PMap [(''type'', PStr (fst (we_exception env exc))),
                           (''message'', PStr (take 240 (snd (we_exception env exc))))],
         te_parent_event_id := Some parent\<rparr>)"

definition call_llm :: "(nat \<Rightarrow> string \<Rightarrow> llm_result result) \<Rightarrow> string \<Rightarrow> (world, llm_result) op" where
  "call_llm llm prompt w = (llm (wd_tick w) prompt, w\<lparr>wd_tick := Suc (wd_tick w)\<rparr>)"

definition extract_with_llm ::
    "wenv \<Rightarrow> (nat \<Rightarrow> string \<Rightarrow> llm_result result) \<Rightarrow> principal \<Rightarrow> workflow_input \<Rightarrow> string \<Rightarrow> string
       \<Rightarrow> (world, reminder_extraction option \<times> string) op" where
  "extract_with_llm env llm p request run_id parent =
     (let failure = (\<lambda>prompt exc. bindS (llm_failure_trace env p run_id parent prompt exc) (\<lambda>e. ret (None, e))) in
      bindS
       (case we_render env ''reminder_extraction''
               [(''now'', isoformat (wi_now request)), (''timezone'', wi_timezone request),
                (''text'', we_repr env (wi_text request))] of
          Inl exc \<Rightarrow> failure None exc
        | Inr prompt \<Rightarrow>
            catchS
              (bindS (call_llm llm (pt_text prompt)) (\<lambda>r.
               bindS (lift (reminder_extraction_from_llm env (lr_data r) (wi_timezone request))) (\<lambda>extraction.
               bindS (llm_trace env p run_id parent r extraction prompt) (\<lambda>e. ret (extraction, e)))))
              (failure (Some prompt))) (\<lambda>(extraction, e).
      bindS (write_trace env e) (\<lambda>_. ret (extraction, te_trace_id e))))"

definition resolve_extraction ::
    "wenv \<Rightarrow> principal \<Rightarrow> workflow_input \<Rightarrow> string \<Rightarrow> string
       \<Rightarrow> (world, reminder_extraction option \<times> clarification_reason option \<times> string option) op" where
  "resolve_extraction env p request run_id parent =
     bindS (lift (extract_reminder (we_tz env) (wi_text request) (Aware (wi_now request)) (wi_timezone request))) (\<lambda>r.
     case r of
       ParsedReminder e \<Rightarrow> ret (Some e, None, None)
     | ReminderNeedsClarification reason _ \<Rightarrow> ret (None, Some reason, None)
     | UnsupportedReminder reason \<Rightarrow>
         (case we_llm env of
            Some llm \<Rightarrow>
              if reason = not_a_reminder
              then bindS (extract_with_llm env llm p request run_id parent) (\<lambda>(extraction, tid). ret (extraction, None, Some tid))
              else ret (None, None, None)
          | None \<Rightarrow> ret (None, None, None)))"

section \<open>Outcomes of a registration\<close>

text \<open>What every result of one run shares: key, source event, payload fingerprint and zone.\<close>

record run_ids =
  rn_key :: string
  rn_source_event_id :: string
  rn_payload_fingerprint :: string
  rn_timezone :: string

definition base_result :: "run_ids \<Rightarrow> agent_status \<Rightarrow> reminder_intent \<Rightarrow> string \<Rightarrow> string list \<Rightarrow> workflow_result" where
  "base_result n status intent reply trace_ids =
     \<lparr>wr_status = status, wr_intent = intent, wr_reply = reply, wr_idempotency_key = rn_key n,
      wr_source_event_id = rn_source_event_id n, wr_payload_fingerprint = rn_payload_fingerprint n,
      wr_timezone = rn_timezone n, wr_clarification_reason = None, wr_clarification_reply_id = None,
      wr_clarification_reply_version = None, wr_approval_required = False, wr_calendar_event_id = None,
      wr_reminder_id = None, wr_reused = False, wr_trace_ids = trace_ids\<rparr>"

abbreviation make_result :: "wenv \<Rightarrow> workflow_result \<Rightarrow> (world, workflow_result) op" where
  "make_result env r \<equiv> lift (ReminderWorkflowResult_make (we_tz env) r)"

definition clarified :: "clarification_reason \<Rightarrow> string \<Rightarrow> string \<Rightarrow> workflow_result \<Rightarrow> workflow_result" where
  "clarified reason reply_id reply_version r =
     r\<lparr>wr_clarification_reason := Some reason, wr_clarification_reply_id := Some reply_id,
       wr_clarification_reply_version := Some reply_version\<rparr>"

text \<open>A value of the stored data as an optional string field of the result.\<close>

definition data_string :: "wenv \<Rightarrow> (string, pyval) dict \<Rightarrow> string \<Rightarrow> string option result" where
  "data_string env data key =
     (case map_of data key of
        None \<Rightarrow> Inr None
      | Some PNone \<Rightarrow> Inr None
      | Some v \<Rightarrow> bindR (coerced (co_str (we_co env) v)) (\<lambda>s. Inr (Some s)))"

fun reason_of_value :: "string \<Rightarrow> clarification_reason option" where
  "reason_of_value s = find (\<lambda>r. reason_value r = s) [ambiguous_hour, missing_date, missing_time, missing_datetime,
     nonexistent_local_time, ambiguous_local_time, invalid_timezone]"

definition stored_reason :: "wenv \<Rightarrow> (string, pyval) dict \<Rightarrow> clarification_reason" where
  "stored_reason env data =
     (case reason_of_value (py_str (we_rp env) (case map_of data ''clarification_reason'' of None \<Rightarrow> PNone | Some v \<Rightarrow> v)) of
        Some r \<Rightarrow> r | None \<Rightarrow> missing_datetime)"

definition registration_result ::
    "wenv \<Rightarrow> workflow_registration \<Rightarrow> principal \<Rightarrow> run_ids \<Rightarrow> string list \<Rightarrow> (world, workflow_result option) op" where
  "registration_result env registration p n trace_ids =
     (if \<not> reg_replayed registration then ret None
      else
       (let existing = reg_state registration;
            duplicate = guarded env p (rn_key n) (reminder_duplicate (we_catalog env));
            done = (\<lambda>r. bindS (make_result env r) (\<lambda>r. ret (Some r))) in
        case ws_status existing of
          wf_completed \<Rightarrow>
            bindS duplicate (\<lambda>reply.
            bindS (lift (data_string env (ws_data existing) ''calendar_event_id'')) (\<lambda>event_id.
            bindS (lift (data_string env (ws_data existing) ''reminder_id'')) (\<lambda>reminder_id.
              done ((base_result n ag_completed intent_create reply trace_ids)
                \<lparr>wr_calendar_event_id := event_id, wr_reminder_id := reminder_id, wr_reused := True\<rparr>))))
        | wf_running \<Rightarrow>
            bindS duplicate (\<lambda>reply. done ((base_result n ag_escalated intent_create reply trace_ids)\<lparr>wr_reused := True\<rparr>))
        | wf_failed \<Rightarrow>
            bindS duplicate (\<lambda>reply. done ((base_result n ag_failed intent_create reply trace_ids)\<lparr>wr_reused := True\<rparr>))
        | wf_pending \<Rightarrow> ret None
        | wf_waiting_approval \<Rightarrow>
            if ws_step existing = step_value step_approval_required
            then
              bindS (lift (from_mapping (we_tz env) (we_co env) (ws_data existing))) (\<lambda>draft.
              bindS (guarded env p (rn_key n) (reminder_needs_approval (we_catalog env) (rx_title draft))) (\<lambda>reply.
                done ((base_result n ag_escalated intent_create reply trace_ids)
                  \<lparr>wr_approval_required := True, wr_reused := True\<rparr>)))
            else
             (let reason = stored_reason env (ws_data existing) in
              bindS (lift (reminder_clarification (we_catalog env) reason)) (\<lambda>(reply_id, reply_version, text).
              bindS (guarded_reply env p (rn_key n) text) (\<lambda>reply.
                done (clarified reason reply_id reply_version
                  ((base_result n ag_needs_clarification intent_unsupported reply trace_ids)\<lparr>wr_reused := True\<rparr>)))))))"

section \<open>Before approval\<close>

definition w_states :: "(workflow_store, 'a) op \<Rightarrow> (world, 'a) op" where
  "w_states m = on_uow (on_states m)"

definition transition_state ::
    "wenv \<Rightarrow> workflow_state \<Rightarrow> workflow_status \<Rightarrow> string \<Rightarrow> (string, pyval) dict \<Rightarrow> (world, workflow_state) op" where
  "transition_state env state status step data =
     bindS (draw env) (\<lambda>d. ret (workflow_transition (snd d) state (Some status) (Some step) (Some data)))"

definition register :: "wenv \<Rightarrow> principal \<Rightarrow> workflow_state \<Rightarrow> string option \<Rightarrow> (world, workflow_registration) op" where
  "register env p state resume_from_step =
     bindS (draw env) (\<lambda>d. w_states (register_or_replay (snd d) p state resume_from_step))"

definition upsert :: "wenv \<Rightarrow> principal \<Rightarrow> workflow_state \<Rightarrow> (world, workflow_state) op" where
  "upsert env p state = w_states (workflow_upsert (we_fp_state env) p state)"

definition clarification_data :: "clarification_reason \<Rightarrow> string \<Rightarrow> string \<Rightarrow> (string, pyval) dict" where
  "clarification_data reason reply_id reply_version =
     [(''clarification_reason'', PStr (reason_value reason)), (''clarification_reply_id'', PStr reply_id),
      (''clarification_reply_version'', PStr reply_version)]"

text \<open>
  The clarification branch, the same before approval and inside the transaction: reply,
  guard, store the waiting state, let \<open>finish\<close> end the block, and build the result.
\<close>

definition ask_clarification ::
    "wenv \<Rightarrow> principal \<Rightarrow> run_ids \<Rightarrow> workflow_state \<Rightarrow> clarification_reason option \<Rightarrow> string list \<Rightarrow> (world, unit) op
       \<Rightarrow> (world, workflow_result) op" where
  "ask_clarification env p n state clarification trace_ids finish =
     (let reason = (case clarification of Some r \<Rightarrow> r | None \<Rightarrow> missing_datetime) in
      bindS (lift (reminder_clarification (we_catalog env) reason)) (\<lambda>(reply_id, reply_version, text).
      bindS (guarded_reply env p (rn_key n) text) (\<lambda>reply.
      bindS (transition_state env state wf_waiting_approval (step_value step_needs_clarification)
               (clarification_data reason reply_id reply_version)) (\<lambda>waiting.
      bindS (upsert env p waiting) (\<lambda>_.
      bindS finish (\<lambda>_.
        make_result env (clarified reason reply_id reply_version
          (base_result n ag_needs_clarification intent_unsupported reply trace_ids))))))))"

definition run_before_approval ::
    "wenv \<Rightarrow> principal \<Rightarrow> workflow_input \<Rightarrow> workflow_state \<Rightarrow> run_ids \<Rightarrow> string \<Rightarrow> string list \<Rightarrow> (world, workflow_result) op" where
  "run_before_approval env p request initial_state n context_trace_id base_trace_ids =
     bindS (register env p initial_state None) (\<lambda>registration.
     bindS (registration_result env registration p n base_trace_ids) (\<lambda>replay.
     case replay of Some r \<Rightarrow> ret r | None \<Rightarrow>
     bindS (resolve_extraction env p request (rn_key n) context_trace_id) (\<lambda>(extraction, clarification, llm_trace_id).
     let llm_ids = (case llm_trace_id of None \<Rightarrow> [] | Some i \<Rightarrow> [i]) in
     case extraction of
       None \<Rightarrow>
         ask_clarification env p n (reg_state registration) clarification (base_trace_ids @ llm_ids) (ret ())
     | Some e \<Rightarrow>
         bindS (record_trace env (rn_key n) approval_requested (pr_tenant_id p) (\<lambda>t.
                  t\<lparr>te_tool_call := PMap [(''name'', PStr ''calendar.create_event''), (''tier'', PStr (tier_value P3))],
                    te_parent_event_id := Some context_trace_id\<rparr>)) (\<lambda>approval.
         bindS (lift (from_extraction (we_tz env) e)) (\<lambda>draft.
         bindS (transition_state env (reg_state registration) wf_waiting_approval (step_value step_approval_required)
                  (to_workflow_data draft)) (\<lambda>waiting.
         bindS (upsert env p waiting) (\<lambda>_.
         bindS (guarded env p (rn_key n) (reminder_needs_approval (we_catalog env) (rx_title e))) (\<lambda>reply.
           make_result env ((base_result n ag_escalated intent_create reply
             (base_trace_ids @ llm_ids @ [te_trace_id approval]))\<lparr>wr_approval_required := True\<rparr>))))))))) "

section \<open>The approved transaction\<close>

text \<open>The effects of one reminder, inside the transaction.\<close>

definition create_calendar_event ::
    "wenv \<Rightarrow> principal \<Rightarrow> workflow_input \<Rightarrow> run_ids \<Rightarrow> reminder_effect_ids \<Rightarrow> reminder_extraction \<Rightarrow> (world, calendar_result) op" where
  "create_calendar_event env p request n ids e =
     bindS (lift (CalendarEventRequest_validate (zone_key env)
              \<lparr>cr_event_id = Some (fx_calendar_event_id ids), cr_title = rx_title e, cr_starts_at = rx_starts_at e,
               cr_ends_at = None, cr_timezone = rx_timezone e, cr_idempotency_key = rn_key n @ '':calendar'',
               cr_source_event_id = Some (rn_source_event_id n),
               cr_payload_fingerprint = Some (rn_payload_fingerprint n)\<rparr>)) (\<lambda>calendar_request.
     bindS (draw env) (\<lambda>d.
       on_uow (on_calendar (create_event (we_fp_calendar env) (zone_key env) (fst d) (snd d) p calendar_request
         (wi_approval request)))))"

definition schedule_reminder ::
    "wenv \<Rightarrow> principal \<Rightarrow> workflow_input \<Rightarrow> run_ids \<Rightarrow> reminder_effect_ids \<Rightarrow> reminder_extraction \<Rightarrow> string \<Rightarrow> int
       \<Rightarrow> (world, scheduled_reminder) op" where
  "schedule_reminder env p request n ids e calendar_event_id notice =
     bindS (guarded env p (rn_key n) (reminder_notification_body (we_catalog env) (rx_title e))) (\<lambda>body.
     bindS (draw env) (\<lambda>d.
       on_uow (on_scheduler (schedule_before_event (zone_key env) (fst d) p
         \<lparr>sa_calendar_event_id = calendar_event_id, sa_starts_at = Aware (rx_starts_at e), sa_channel = wi_channel request,
          sa_recipient = wi_recipient request, sa_body = body, sa_timezone = rx_timezone e,
          sa_source_event_id = rn_source_event_id n, sa_payload_fingerprint = rn_payload_fingerprint n,
          sa_minutes_before = notice, sa_idempotency_key = rn_key n @ '':notify'',
          sa_reminder_id = Some (fx_reminder_id ids)\<rparr>))))"

definition reminder_event ::
    "wenv \<Rightarrow> principal \<Rightarrow> run_ids \<Rightarrow> reminder_extraction \<Rightarrow> string \<Rightarrow> string \<Rightarrow> string \<Rightarrow> string \<Rightarrow> (string, json) dict
       \<Rightarrow> (world, cloud_event) op" where
  "reminder_event env p n e event_id event_type subject causation data =
     bindS (draw env) (\<lambda>d. lift (CloudEvent_validate (zone_key env)
       \<lparr>ev_id = event_id, ev_specversion = ''1.0'', ev_type = event_type,
        ev_source = ''personal_assistant.application.reminders'', ev_subject = Some subject,
        ev_tenant_id = pr_tenant_id p, ev_correlation_id = rn_key n, ev_causation_id = Some causation,
        ev_source_event_id = Some (rn_source_event_id n), ev_payload_fingerprint = Some (rn_payload_fingerprint n),
        ev_timezone = Some (rx_timezone e), ev_data = data, ev_time = snd d\<rparr>))"

definition publish_reminder ::
    "wenv \<Rightarrow> principal \<Rightarrow> workflow_input \<Rightarrow> run_ids \<Rightarrow> reminder_effect_ids \<Rightarrow> reminder_extraction \<Rightarrow> calendar_result
       \<Rightarrow> scheduled_reminder \<Rightarrow> (world, unit) op" where
  "publish_reminder env p request n ids e calendar_result reminder =
     bindS (reminder_event env p n e (fx_reminder_created_event_id ids) ''reminder.created'' (sr_reminder_id reminder)
              (rn_source_event_id n)
              [(''calendar_event_id'', JStr (ce_event_id calendar_result)), (''reminder_id'', JStr (sr_reminder_id reminder)),
               (''starts_at'', JStr (isoformat (rx_starts_at e))), (''timezone'', JStr (rx_timezone e)),
               (''notify_at'', JStr (isoformat (sr_notify_at reminder))), (''source_event_id'', JStr (rn_source_event_id n)),
               (''payload_fingerprint'', JStr (rn_payload_fingerprint n))]) (\<lambda>reminder_created.
     bindS (on_uow (on_events (event_append (we_fp_event env) p reminder_created))) (\<lambda>_.
     bindS (reminder_event env p n e (fx_notification_requested_event_id ids) ''notification.requested''
              (sr_reminder_id reminder) (ev_id reminder_created)
              [(''calendar_event_id'', JStr (ce_event_id calendar_result)), (''reminder_id'', JStr (sr_reminder_id reminder)),
               (''channel'', JStr (wi_channel request)), (''recipient'', JStr (wi_recipient request)),
               (''body'', JStr (sr_body reminder)), (''notify_at'', JStr (isoformat (sr_notify_at reminder))),
               (''timezone'', JStr (rx_timezone e)), (''source_event_id'', JStr (rn_source_event_id n)),
               (''payload_fingerprint'', JStr (rn_payload_fingerprint n))]) (\<lambda>notification_requested.
     bindS (draw env) (\<lambda>d.
     bindS (on_uow (on_outbox (outbox_add (we_fp_write env) (fst d) (snd d) p notification_requested
              (rn_key n @ '':outbox'') (Some (Aware (sr_notify_at reminder))) (Some (fx_outbox_message_id ids))))) (\<lambda>_.
       ret ())))))"

text \<open>Either the run ends inside the block with a result, or the effects are committed.\<close>

definition approved_block ::
    "wenv \<Rightarrow> principal \<Rightarrow> workflow_input \<Rightarrow> workflow_state \<Rightarrow> run_ids \<Rightarrow> reminder_effect_ids \<Rightarrow> string list
       \<Rightarrow> reminder_extraction option \<Rightarrow> clarification_reason option \<Rightarrow> string list
       \<Rightarrow> (world, workflow_result + (reminder_extraction \<times> calendar_result \<times> scheduled_reminder \<times> int)) op" where
  "approved_block env p request initial_state n ids base_trace_ids extraction clarification llm_ids =
     bindS (register env p initial_state (Some (step_value step_approval_required))) (\<lambda>registration.
     bindS (registration_result env registration p n base_trace_ids) (\<lambda>replay.
     case replay of
       Some r \<Rightarrow> bindS (commit env) (\<lambda>_. ret (Inl r))
     | None \<Rightarrow>
        (case extraction of
           None \<Rightarrow>
             bindS (ask_clarification env p n (reg_state registration) clarification (base_trace_ids @ llm_ids) (commit env))
               (\<lambda>r. ret (Inl r))
         | Some e \<Rightarrow>
             bindS (create_calendar_event env p request n ids e) (\<lambda>calendar_result.
             let notice = notice_minutes_before e (we_minutes_before env) in
             bindS (schedule_reminder env p request n ids e (ce_event_id calendar_result) notice) (\<lambda>reminder.
             bindS (publish_reminder env p request n ids e calendar_result reminder) (\<lambda>_.
             bindS (transition_state env (reg_state registration) wf_completed (step_value step_completed)
                      [(''calendar_event_id'', PStr (ce_event_id calendar_result)),
                       (''reminder_id'', PStr (sr_reminder_id reminder)),
                       (''notify_at'', PStr (isoformat (sr_notify_at reminder))), (''timezone'', PStr (rx_timezone e)),
                       (''source_event_id'', PStr (rn_source_event_id n))]) (\<lambda>completed.
             bindS (upsert env p completed) (\<lambda>_.
             bindS (commit env) (\<lambda>_.
               ret (Inr (e, calendar_result, reminder, notice)))))))))))"

definition run_approved ::
    "wenv \<Rightarrow> principal \<Rightarrow> workflow_input \<Rightarrow> workflow_state \<Rightarrow> run_ids \<Rightarrow> reminder_effect_ids \<Rightarrow> string \<Rightarrow> string list
       \<Rightarrow> (world, workflow_result) op" where
  "run_approved env p request initial_state n ids context_trace_id base_trace_ids =
     bindS (w_states (get_by_idempotency_key p (rn_key n))) (\<lambda>existing.
     if existing \<noteq> None \<and> ws_payload_fingerprint (the existing) \<noteq> Some (rn_payload_fingerprint n)
     then raise (ReminderIdempotencyConflict (pr_tenant_id p) (rn_key n))
     else
     bindS (case existing of
              None \<Rightarrow> resolve_extraction env p request (rn_key n) context_trace_id
            | Some state \<Rightarrow>
                if ws_status state = wf_waiting_approval \<and> ws_step state = step_value step_approval_required
                then bindS (lift (bindR (from_mapping (we_tz env) (we_co env) (ws_data state)) (to_extraction (we_tz env))))
                       (\<lambda>e. ret (Some e, None, None))
                else ret (None, None, None)) (\<lambda>(extraction, clarification, llm_trace_id).
     let llm_ids = (case llm_trace_id of None \<Rightarrow> [] | Some i \<Rightarrow> [i]) in
     bindS (with_reminder_transaction env p
              (approved_block env p request initial_state n ids base_trace_ids extraction clarification llm_ids)) (\<lambda>outcome.
     case outcome of
       Inl r \<Rightarrow> ret r
     | Inr (e, calendar_result, reminder, notice) \<Rightarrow>
         bindS (record_trace env (rn_key n) tool_called (pr_tenant_id p) (\<lambda>t.
                  t\<lparr>te_tool_call := PMap [(''name'', PStr ''calendar.create_event''),
                                          (''event_id'', PStr (ce_event_id calendar_result))],
                    te_parent_event_id := Some context_trace_id\<rparr>)) (\<lambda>tool_trace.
         bindS (record_trace env (rn_key n) agent_completed (pr_tenant_id p) (\<lambda>t.
                  t\<lparr>te_output_summary := PMap [(''reminder_id'', PStr (sr_reminder_id reminder))],
                    te_parent_event_id := Some (te_trace_id tool_trace)\<rparr>)) (\<lambda>completed_trace.
         bindS (guarded env p (rn_key n) (reminder_created (we_catalog env) (rx_title e) notice (rx_notify_at e \<noteq> None))) (\<lambda>reply.
           make_result env ((base_result n ag_completed intent_create reply
             (base_trace_ids @ llm_ids @ [te_trace_id tool_trace, te_trace_id completed_trace]))
               \<lparr>wr_calendar_event_id := Some (ce_event_id calendar_result),
                wr_reminder_id := Some (sr_reminder_id reminder), wr_reused := ce_reused calendar_result\<rparr>)))))))"

section \<open>The workflow\<close>

definition ReminderWorkflow_init :: "wenv \<Rightarrow> unit result" where
  "ReminderWorkflow_init env =
     (if we_minutes_before env < 1 then Inl (ValueError ''reminder_minutes_before must be greater than zero'')
      else if we_context_window env < 1 then Inl (ValueError ''llm_context_window_tokens must be greater than zero'')
      else Inr ())"

definition initial_state ::
    "wenv \<Rightarrow> principal \<Rightarrow> workflow_input \<Rightarrow> run_ids \<Rightarrow> (world, workflow_state) op" where
  "initial_state env p request n =
     bindS (draw env) (\<lambda>created. bindS (draw env) (\<lambda>updated. ret
       \<lparr>ws_workflow_id = ''wf_'' @ fst created, ws_tenant_id = pr_tenant_id p, ws_workflow_type = ''reminder.create'',
        ws_status = wf_running, ws_step = step_value step_classify, ws_idempotency_key = rn_key n,
        ws_payload_fingerprint = Some (rn_payload_fingerprint n),
        ws_data = [(''message_id'', PStr (wi_message_id request)), (''source_event_id'', PStr (rn_source_event_id n)),
                   (''channel'', PStr (wi_channel request)), (''conversation_id'', PStr (wi_conversation_id request)),
                   (''timezone'', PStr (rn_timezone n))],
        ws_created_at = snd created, ws_updated_at = snd updated\<rparr>))"

definition ids_of_run :: "wenv \<Rightarrow> reminder_idempotency \<Rightarrow> run_ids" where
  "ids_of_run env idem =
     \<lparr>rn_key = idem_key (we_sha env) idem, rn_source_event_id = ri_source_event_id (idem_identity idem),
      rn_payload_fingerprint = idem_payload_fingerprint (we_sha env) idem, rn_timezone = rp_timezone (idem_payload idem)\<rparr>"

text \<open>Scan, key assertion and approval check: everything before the first workflow trace.\<close>

definition admit_request :: "wenv \<Rightarrow> principal \<Rightarrow> workflow_input \<Rightarrow> run_ids \<Rightarrow> (world, trace_event) op" where
  "admit_request env p request n =
     bindS (lift (scan_prompt (wi_text request))) (\<lambda>input_scan.
     bindS (emit_scan env input_scan p (rn_key n)) (\<lambda>guardrail_trace.
     bindS (lift (enforce_prompt_scan input_scan)) (\<lambda>_.
     if wi_idempotency_key request \<noteq> None \<and> wi_idempotency_key request \<noteq> Some (rn_key n)
     then raise (ReminderIdempotencyConflict (pr_tenant_id p) (rn_key n))
     else
       bindS (case wi_approval request of
                None \<Rightarrow> ret ()
              | Some g \<Rightarrow> bindS (draw env) (\<lambda>d.
                  bindS (lift (require_approval (snd d) p P3 (Some g) ''calendar.create_event'' (rn_key n @ '':calendar'') None))
                    (\<lambda>_. ret ()))) (\<lambda>_. ret guardrail_trace))))"

definition run_workflow :: "wenv \<Rightarrow> principal \<Rightarrow> workflow_input \<Rightarrow> (world, workflow_result) op" where
  "run_workflow env p request =
     bindS (lift (reminder_idempotency_of p request)) (\<lambda>idem.
     let n = ids_of_run env idem in
     bindS (admit_request env p request n) (\<lambda>guardrail_trace.
     bindS (record_trace env (rn_key n) agent_started (pr_tenant_id p) (\<lambda>t.
              t\<lparr>te_input_summary := PMap [(''message_id'', PStr (wi_message_id request)),
                  (''source_event_id'', PStr (rn_source_event_id n)), (''channel'', PStr (wi_channel request))]\<rparr>)) (\<lambda>started.
     bindS (record_trace env (rn_key n) context_selected (pr_tenant_id p) (\<lambda>t.
              t\<lparr>te_context_refs := [''agent_contract'', ''current_message'', ''principal''],
                te_input_summary := PMap [(''text_length'', PInt (int (length (wi_text request)))),
                  (''estimated_tokens'', PInt (max (int (length (wi_text request)) div 4) 1))],
                te_parent_event_id := Some (te_trace_id guardrail_trace)\<rparr>)) (\<lambda>context_trace.
     bindS (initial_state env p request n) (\<lambda>state.
     let base_trace_ids = [te_trace_id started, te_trace_id guardrail_trace, te_trace_id context_trace] in
     case wi_approval request of
       None \<Rightarrow> run_before_approval env p request state n (te_trace_id context_trace) base_trace_ids
     | Some _ \<Rightarrow> run_approved env p request state n (idem_effect_ids (we_sha env) idem) (te_trace_id context_trace)
                  base_trace_ids)))))"

end
