(* ===== verification/Reminder_Workflow_Properties.thy ===== *)
theory Reminder_Workflow_Properties
  imports Reminder_Workflow
begin

text \<open>
  What a run of the reminder workflow does to the stores. Most of its steps touch only the
  traces (\<open>quiet\<close>); the rest is followed store by store. Without an approval grant no effect
  happens; with one, the effects in calendar, scheduler, event log and outbox and the
  completed workflow state appear together or not at all.
\<close>

section \<open>Operations that leave the stores alone\<close>

named_theorems quiet_intros \<open>operations that touch only the traces and the counter\<close>

definition quiet :: "(world, 'a) op \<Rightarrow> bool" where
  "quiet m \<longleftrightarrow> (\<forall>P. keeps (\<lambda>w. P (wd_stores w) (wd_txn w)) m)"

lemma quietI: "(\<And>w. wd_stores (snd (m w)) = wd_stores w \<and> wd_txn (snd (m w)) = wd_txn w) \<Longrightarrow> quiet m"
  by (simp add: quiet_def keeps_def)

lemma quiet_keeps: "quiet m \<Longrightarrow> keeps (\<lambda>w. P (wd_stores w) (wd_txn w)) m"
  by (simp add: quiet_def)

lemma quietD:
  assumes "quiet m"
  shows "wd_stores (snd (m w)) = wd_stores w" "wd_txn (snd (m w)) = wd_txn w"
  using keepsD [OF quiet_keeps [OF assms], of "\<lambda>s t. s = wd_stores w \<and> t = wd_txn w" w] by simp_all

lemma quiet_result: "quiet m \<Longrightarrow> m w = (r, w') \<Longrightarrow> wd_stores w' = wd_stores w \<and> wd_txn w' = wd_txn w"
  by (metis quietD snd_conv)

lemma quiet_basic [quiet_intros]: "quiet (ret x)" "quiet (raise e)" "quiet (lift r)" "quiet (draw env)"
  "quiet (call_llm llm prompt)" "quiet (on_traces m)"
  by (auto intro!: quietI simp: draw_def call_llm_def on_traces_def on_field_def split: prod.splits)

lemma quiet_bindS [quiet_intros]: "quiet m \<Longrightarrow> (\<And>x. quiet (f x)) \<Longrightarrow> quiet (bindS m f)"
  unfolding quiet_def by (blast intro: keeps_bindS)

lemma quiet_catchS [quiet_intros]: "quiet m \<Longrightarrow> (\<And>e. quiet (h e)) \<Longrightarrow> quiet (catchS m h)"
  unfolding quiet_def by (blast intro: keeps_catchS)

lemma quiet_if [quiet_intros]: "(b \<Longrightarrow> quiet m) \<Longrightarrow> (\<not> b \<Longrightarrow> quiet k) \<Longrightarrow> quiet (if b then m else k)"
  by simp

lemma quiet_cases [quiet_intros]:
  "(x = None \<Longrightarrow> quiet m) \<Longrightarrow> (\<And>y. x = Some y \<Longrightarrow> quiet (f y)) \<Longrightarrow> quiet (case x of None \<Rightarrow> m | Some y \<Rightarrow> f y)"
  "(\<And>a. s = Inl a \<Longrightarrow> quiet (g a)) \<Longrightarrow> (\<And>b. s = Inr b \<Longrightarrow> quiet (h b)) \<Longrightarrow> quiet (case s of Inl a \<Rightarrow> g a | Inr b \<Rightarrow> h b)"
  "(\<And>a b. q = (a, b) \<Longrightarrow> quiet (k a b)) \<Longrightarrow> quiet (case q of (a, b) \<Rightarrow> k a b)"
  by (simp_all split: option.split sum.split prod.split)

lemma quiet_trace [quiet_intros]: "quiet (make_trace env run_id ety tenant upd)" "quiet (write_trace env e)"
  "quiet (record_trace env run_id ety tenant upd)" "quiet (emit_scan env r p run_id)"
  "quiet (guarded_reply env p run_id text)" "quiet (guarded env p run_id reply)"
  unfolding make_trace_def write_trace_def record_trace_def emit_scan_def guarded_reply_def guarded_def
  by (intro quiet_intros)+

lemma quiet_extraction [quiet_intros]: "quiet (extract_with_llm env llm p request run_id parent)"
  "quiet (resolve_extraction env p request run_id parent)"
  unfolding extract_with_llm_def resolve_extraction_def llm_trace_def llm_failure_trace_def Let_def
  by (intro quiet_intros | simp split: parse_result.split; intro conjI allI impI quiet_intros)+

lemma quiet_registration [quiet_intros]: "quiet (registration_result env registration p n trace_ids)"
  unfolding registration_result_def Let_def
  by (cases "ws_status (reg_state registration)") (auto intro!: quiet_intros)

lemma quiet_state [quiet_intros]: "quiet (transition_state env state status step data)" "quiet (initial_state env p request n)"
  "quiet (admit_request env p request n)"
  unfolding transition_state_def initial_state_def admit_request_def by (intro quiet_intros)+

section \<open>Effects\<close>

text \<open>The stores that hold the outcome of a reminder, as opposed to the workflow states.\<close>

definition effects :: "world \<Rightarrow> calendar \<times> scheduler \<times> event_store \<times> outbox" where
  "effects w = (st_calendar (wd_stores w), st_scheduler (wd_stores w), st_events (wd_stores w), st_outbox (wd_stores w))"

lemma quiet_effects: "quiet m \<Longrightarrow> keeps (\<lambda>w. effects w = x) m"
  unfolding effects_def by (rule quiet_keeps [of m "\<lambda>s t. (st_calendar s, st_scheduler s, st_events s, st_outbox s) = x"])

lemma states_keep_effects: "keeps (\<lambda>w. effects w = x) (w_states m)"
  by (auto simp: keeps_def w_states_def on_uow_def on_states_def on_field_def effects_def split: prod.splits)

lemma keeps_cases [step_intros]:
  "(x = None \<Longrightarrow> keeps P m) \<Longrightarrow> (\<And>y. x = Some y \<Longrightarrow> keeps P (f y)) \<Longrightarrow> keeps P (case x of None \<Rightarrow> m | Some y \<Rightarrow> f y)"
  "(\<And>a. s = Inl a \<Longrightarrow> keeps P (g a)) \<Longrightarrow> (\<And>b. s = Inr b \<Longrightarrow> keeps P (h b)) \<Longrightarrow> keeps P (case s of Inl a \<Rightarrow> g a | Inr b \<Rightarrow> h b)"
  "(\<And>a b. q = (a, b) \<Longrightarrow> keeps P (k a b)) \<Longrightarrow> keeps P (case q of (a, b) \<Rightarrow> k a b)"
  "(c \<Longrightarrow> keeps P u) \<Longrightarrow> (\<not> c \<Longrightarrow> keeps P v) \<Longrightarrow> keeps P (if c then u else v)"
  by (simp_all split: option.split sum.split prod.split)

lemma register_effects: "keeps (\<lambda>w. effects w = x) (register env p state step)" "keeps (\<lambda>w. effects w = x) (upsert env p state)"
  unfolding register_def upsert_def by (intro step_intros states_keep_effects quiet_effects quiet_intros)+

lemma ask_clarification_effects:
  "keeps (\<lambda>w. effects w = x) finish \<Longrightarrow> keeps (\<lambda>w. effects w = x) (ask_clarification env p n state c ids finish)"
  unfolding ask_clarification_def Let_def by (assumption | rule step_intros register_effects quiet_effects quiet_intros)+

lemma run_before_approval_effects:
  "keeps (\<lambda>w. effects w = x) (run_before_approval env p request state n tid ids)"
  unfolding run_before_approval_def Let_def
  by (intro step_intros register_effects ask_clarification_effects quiet_effects quiet_intros)

lemma run_without_approval_effects:
  assumes "wi_approval request = None"
  shows "keeps (\<lambda>v. effects v = x) (run_workflow env p request)"
  unfolding run_workflow_def Let_def assms option.case
  by (intro step_intros run_before_approval_effects quiet_effects quiet_intros)

text \<open>C13: nothing happens without approval.
  A request without an approval grant, whatever its text, the language model's answer and
  the state of the stores, leaves calendar, scheduler, event log and outbox exactly as they
  were, also when the run raises.\<close>

theorem no_effect_without_approval:
  "effects (snd (run_workflow env p (request\<lparr>wi_approval := None\<rparr>) w)) = effects w"
  by (rule keepsD [OF run_without_approval_effects]) simp_all

section \<open>The transaction block\<close>

definition in_tx :: "stores \<Rightarrow> world \<Rightarrow> bool" where
  "in_tx s w \<longleftrightarrow> in_transaction s \<lparr>us_txn = wd_txn w, us_stores = wd_stores w\<rparr>"

definition w_open :: "world \<Rightarrow> world" where
  "w_open w = w\<lparr>wd_txn := us_txn (opened (wd_stores w))\<rparr>"

lemma w_open_facts [simp]: "in_tx (wd_stores w) (w_open w)" "wd_stores (w_open w) = wd_stores w" "effects (w_open w) = effects w"
  by (simp_all add: in_tx_def w_open_def effects_def opened_def in_transaction_def new_transaction_def)

lemma on_uow_in_tx: "keeps (in_transaction s) m \<Longrightarrow> keeps (in_tx s) (on_uow m)"
  unfolding on_uow_def by (rule keeps_on_field) (auto simp: in_tx_def in_transaction_def)

lemma quiet_in_tx: "quiet m \<Longrightarrow> keeps (in_tx s) m"
  unfolding in_tx_def by (rule quiet_keeps [of m "\<lambda>s' t. in_transaction s \<lparr>us_txn = t, us_stores = s'\<rparr>"])

lemma exit_block_stores:
  assumes "body v = (r, y)" and "in_tx s y"
  shows "fst (exit_block body v) = r \<and> wd_stores (snd (exit_block body v)) =
    (case r of Inl _ \<Rightarrow> s | Inr _ \<Rightarrow> if tx_committed (wd_txn y) then wd_stores y else s)"
proof -
  let ?x = "\<lparr>us_txn = wd_txn y, us_stores = wd_stores y\<rparr>"
  note ex = exit_in_transaction [OF assms(2) [unfolded in_tx_def]]
  have "on_uow (tx_exit b) y = (Inr False, y\<lparr>wd_txn := us_txn (snd (tx_exit b ?x)), wd_stores := us_stores (snd (tx_exit b ?x))\<rparr>)" for b
    unfolding on_uow_def on_field_def by (subst ex(1)) simp
  then show ?thesis using ex(2) by (cases r) (simp_all add: exit_block_def assms(1))
qed

lemma with_block_stores:
  assumes "we_unit_of_work env" and "keeps (in_tx (wd_stores w)) body"
    and run: "with_reminder_transaction env p body w = (r, w')"
  shows "(wd_stores w' = wd_stores w \<and> (\<exists>e. r = Inl e)) \<or> (\<exists>y. body (w_open w) = (r, y) \<and> wd_stores w' =
    (case r of Inl _ \<Rightarrow> wd_stores w | Inr _ \<Rightarrow> if tx_committed (wd_txn y) then wd_stores y else wd_stores w))"
proof (cases "is_trusted p")
  case False
  then show ?thesis using run assms(1)
    by (auto simp: with_reminder_transaction_def begin_transaction_def require_trusted_principal_cases bindS_def bindR_def)
next
  case True
  then have "begin_transaction p = Inr new_transaction" by (simp add: begin_transaction_def require_trusted_principal_cases)
  then have "with_reminder_transaction env p body w = exit_block body (w_open w)"
    using assms(1)
    by (simp add: with_reminder_transaction_def bindS_def set_transaction_def on_uow_def on_field_def entered w_open_def opened_def)
  with run have x: "exit_block body (w_open w) = (r, w')" by simp
  obtain q y where b: "body (w_open w) = (q, y)" by force
  then have "in_tx (wd_stores w) y" using keepsD [OF assms(2), of "w_open w"] by simp
  from exit_block_stores [where body = body, OF b this] x b show ?thesis by auto
qed

section \<open>Booked reminders\<close>

text \<open>
  The specification of the stores: a set of booked reminders, each a tenant and an
  idempotency key. The stores represent the set when the completed workflows, the calendar
  events, the scheduled jobs and the outbox messages are exactly those of its elements.
\<close>

definition completed_keys :: "workflow_store \<Rightarrow> (string \<times> string) set" where
  "completed_keys s = {(t, k). \<exists>x. map_of (wk_states_by_key s) (t, k) = Some x \<and> ws_status x = wf_completed}"

definition keyed :: "string \<Rightarrow> (string \<times> string) set \<Rightarrow> (string \<times> string) set" where
  "keyed suffix D = (\<lambda>(t, k). (t, k @ suffix)) ` D"

definition books :: "(string \<times> string) set \<Rightarrow> stores \<Rightarrow> bool" where
  "books D s \<longleftrightarrow> workflow_inv (st_states s) \<and> completed_keys (st_states s) = D
     \<and> dom (map_of (cal_events_by_key (st_calendar s))) = keyed '':calendar'' D
     \<and> dom (map_of (sc_jobs_by_key (st_scheduler s))) = keyed '':notify'' D
     \<and> dom (map_of (messages_by_key (st_outbox s))) = keyed '':outbox'' D"

lemma keyed_insert: "keyed x (insert (t, k) D) = insert (t, k @ x) (keyed x D)"
  by (simp add: keyed_def)

subsection \<open>What each write does to the keys of its store\<close>

lemma on_uow_store:
  "on_uow (on_calendar c) w = (r, w') \<Longrightarrow> \<exists>x. c (st_calendar (wd_stores w)) = (r, x) \<and> wd_stores w' = (wd_stores w)\<lparr>st_calendar := x\<rparr>"
  "on_uow (on_scheduler h) w = (r', w') \<Longrightarrow> \<exists>x. h (st_scheduler (wd_stores w)) = (r', x) \<and> wd_stores w' = (wd_stores w)\<lparr>st_scheduler := x\<rparr>"
  "on_uow (on_events v) w = (r2, w') \<Longrightarrow> \<exists>x. v (st_events (wd_stores w)) = (r2, x) \<and> wd_stores w' = (wd_stores w)\<lparr>st_events := x\<rparr>"
  "on_uow (on_outbox b) w = (r3, w') \<Longrightarrow> \<exists>x. b (st_outbox (wd_stores w)) = (r3, x) \<and> wd_stores w' = (wd_stores w)\<lparr>st_outbox := x\<rparr>"
  "w_states k w = (r4, w') \<Longrightarrow> \<exists>x. k (st_states (wd_stores w)) = (r4, x) \<and> wd_stores w' = (wd_stores w)\<lparr>st_states := x\<rparr>"
  by (auto simp: on_uow_def on_field_def on_calendar_def on_scheduler_def on_events_def on_outbox_def w_states_def on_states_def
      split: prod.splits)

lemma create_event_dom:
  "create_event fp zi uuid now p request approval s = (Inr c, s') \<Longrightarrow>
     dom (map_of (cal_events_by_key s')) = insert (pr_tenant_id p, cr_idempotency_key request) (dom (map_of (cal_events_by_key s)))"
  by (auto simp: create_event_def Let_def map_of_update split: if_splits sum.splits option.splits)

lemma schedule_dom:
  "schedule_before_event zi uuid p a s = (Inr job, s') \<Longrightarrow>
     dom (map_of (sc_jobs_by_key s')) = insert (pr_tenant_id p, sa_idempotency_key a) (dom (map_of (sc_jobs_by_key s)))"
  by (auto simp: schedule_before_event_def Let_def map_of_update split: if_splits sum.splits option.splits)

lemma outbox_add_dom:
  "outbox_add fp uuid clock p e key n i s = (Inr m, s') \<Longrightarrow>
     dom (map_of (messages_by_key s')) = insert (pr_tenant_id p, key) (dom (map_of (messages_by_key s)))"
  by (auto simp: outbox_add_def Let_def map_of_update split: if_splits sum.splits option.splits)

lemma create_calendar_event_dom:
  assumes "create_calendar_event env p request n ids e w = (Inr c, w')"
  shows "\<exists>x. wd_stores w' = (wd_stores w)\<lparr>st_calendar := x\<rparr> \<and> dom (map_of (cal_events_by_key x)) =
    insert (pr_tenant_id p, rn_key n @ '':calendar'') (dom (map_of (cal_events_by_key (st_calendar (wd_stores w)))))"
proof -
  from assms obtain d w1 x where d: "draw env w = (Inr d, w1)" and "wd_stores w' = (wd_stores w1)\<lparr>st_calendar := x\<rparr>"
    "dom (map_of (cal_events_by_key x)) =
       insert (pr_tenant_id p, rn_key n @ '':calendar'') (dom (map_of (cal_events_by_key (st_calendar (wd_stores w1)))))"
    by (auto simp: create_calendar_event_def bindS_eq_Inr CalendarEventRequest_validate_def split: if_splits option.splits
        dest!: on_uow_store(1) create_event_dom)
  then show ?thesis using quiet_result [OF quiet_basic(4) d] by auto
qed

lemma schedule_reminder_dom:
  assumes "schedule_reminder env p request n ids e i k w = (Inr job, w')"
  shows "\<exists>x. wd_stores w' = (wd_stores w)\<lparr>st_scheduler := x\<rparr> \<and> dom (map_of (sc_jobs_by_key x)) =
    insert (pr_tenant_id p, rn_key n @ '':notify'') (dom (map_of (sc_jobs_by_key (st_scheduler (wd_stores w)))))"
proof -
  from assms obtain body d w1 w2 x
    where b: "guarded env p (rn_key n) (reminder_notification_body (we_catalog env) (rx_title e)) w = (Inr body, w1)"
      and d: "draw env w1 = (Inr d, w2)" and "wd_stores w' = (wd_stores w2)\<lparr>st_scheduler := x\<rparr>"
      "dom (map_of (sc_jobs_by_key x)) =
         insert (pr_tenant_id p, rn_key n @ '':notify'') (dom (map_of (sc_jobs_by_key (st_scheduler (wd_stores w2)))))"
    by (auto simp: schedule_reminder_def bindS_eq_Inr dest!: on_uow_store(2) schedule_dom)
  then show ?thesis using quiet_result [OF quiet_trace(6) b] quiet_result [OF quiet_basic(4) d] by auto
qed

lemma reminder_event_quiet [quiet_intros]: "quiet (reminder_event env p n e i ty sub caus data)"
  unfolding reminder_event_def by (intro quiet_intros)

lemma publish_reminder_dom:
  assumes "publish_reminder env p request n ids e c job w = (Inr u, w')"
  shows "\<exists>x y. wd_stores w' = (wd_stores w)\<lparr>st_events := x, st_outbox := y\<rparr> \<and> dom (map_of (messages_by_key y)) =
    insert (pr_tenant_id p, rn_key n @ '':outbox'') (dom (map_of (messages_by_key (st_outbox (wd_stores w)))))"
proof -
  from assms obtain e1 w1 v w2 e2 w3 d w4 m data1 data2 sub where e1: "reminder_event env p n e (fx_reminder_created_event_id ids)
        ''reminder.created'' sub (rn_source_event_id n) data1 w = (Inr e1, w1)"
    and a: "on_uow (on_events (event_append (we_fp_event env) p e1)) w1 = (Inr v, w2)"
    and e2: "reminder_event env p n e (fx_notification_requested_event_id ids) ''notification.requested'' sub (ev_id e1) data2 w2 = (Inr e2, w3)"
    and d: "draw env w3 = (Inr d, w4)"
    and o: "on_uow (on_outbox (outbox_add (we_fp_write env) (fst d) (snd d) p e2 (rn_key n @ '':outbox'')
        (Some (Aware (sr_notify_at job))) (Some (fx_outbox_message_id ids)))) w4 = (Inr m, w')"
    unfolding publish_reminder_def bindS_eq_Inr by (auto simp del: split_paired_Ex)
  from on_uow_store(3) [OF a] quiet_result [OF reminder_event_quiet e1] obtain x where
    x: "wd_stores w2 = (wd_stores w)\<lparr>st_events := x\<rparr>" by metis
  from on_uow_store(4) [OF o] obtain y where "wd_stores w' = (wd_stores w4)\<lparr>st_outbox := y\<rparr>"
    "dom (map_of (messages_by_key y)) = insert (pr_tenant_id p, rn_key n @ '':outbox'') (dom (map_of (messages_by_key (st_outbox (wd_stores w4)))))"
    using outbox_add_dom by metis
  then show ?thesis using x quiet_result [OF reminder_event_quiet e2] quiet_result [OF quiet_basic(4) d] by auto
qed

subsection \<open>The workflow states\<close>

lemma put_state_completed:
  "completed_keys (put_state p x s) =
     (if ws_status x = wf_completed then insert (pr_tenant_id p, ws_idempotency_key x) (completed_keys s)
      else completed_keys s - {(pr_tenant_id p, ws_idempotency_key x)})"
  by (auto simp: completed_keys_def put_state_def map_of_update)

lemma upsert_completed:
  assumes "workflow_upsert fp p x s = (r, s')" and "ws_status x \<noteq> wf_completed"
  shows "completed_keys s' = completed_keys s"
proof -
  have "s' = s \<or> (s' = put_state p x s \<and> (pr_tenant_id p, ws_idempotency_key x) \<notin> completed_keys s)"
    using assms by (auto simp: workflow_upsert_def completed_keys_def Let_def split: if_splits sum.splits option.splits)
  with assms(2) show ?thesis by (auto simp: put_state_completed)
qed

lemma upsert_workflow_inv:
  assumes "workflow_inv s" and "workflow_upsert fp p x s = (r, s')"
  shows "workflow_inv s'"
  using workflow_step_effect [OF workflow_step.upsert [OF assms(2)] assms(1)] written_inv [OF assms(1)] assms(1) by blast

lemma register_workflow_inv:
  assumes "workflow_inv s" and "register_or_replay clock p x resume s = (r, s')"
  shows "workflow_inv s'"
  using register_effect [OF assms] written_inv [OF assms(1)] assms(1) by blast

lemma register_completed:
  assumes inv: "workflow_inv s" and reg: "register_or_replay clock p x resume s = (r, s')" and x: "ws_status x = wf_running"
  shows "completed_keys s' = completed_keys s"
    and "r = Inr g \<Longrightarrow> map_of (wk_states_by_key s') (pr_tenant_id p, ws_idempotency_key x) = Some (reg_state g)
           \<and> ws_idempotency_key (reg_state g) = ws_idempotency_key x \<and> (\<not> reg_replayed g \<longrightarrow> ws_status (reg_state g) = wf_running)"
proof -
  let ?k = "(pr_tenant_id p, ws_idempotency_key x)"
  show "completed_keys s' = completed_keys s"
    using reg x by (auto simp: register_or_replay_def completed_keys_def put_state_def workflow_transition_def Let_def map_of_update
        split: if_splits sum.splits option.splits)
  show "map_of (wk_states_by_key s') ?k = Some (reg_state g) \<and> ws_idempotency_key (reg_state g) = ws_idempotency_key x
      \<and> (\<not> reg_replayed g \<longrightarrow> ws_status (reg_state g) = wf_running)" if "r = Inr g"
    using reg x that workflow_inv_state [OF inv]
    by (auto simp: register_or_replay_def put_state_def workflow_transition_def Let_def map_of_update
        split: if_splits sum.splits option.splits)
qed

abbreviation w_books :: "(string \<times> string) set \<Rightarrow> world \<Rightarrow> bool" where
  "w_books D w \<equiv> books D (wd_stores w)"

lemma quiet_books: "quiet m \<Longrightarrow> keeps (w_books D) m"
  by (rule quiet_keeps [of m "\<lambda>s t. books D s"])

lemma commit_quiet_stores: "wd_stores (snd (commit env w)) = wd_stores w"
  by (auto simp: commit_def on_uow_def on_field_def tx_commit_def split: sum.splits)

lemma commit_books: "keeps (w_books D) (commit env)"
  by (simp add: keeps_def commit_quiet_stores)

lemma states_books:
  assumes "\<And>s r s'. m s = (r, s') \<Longrightarrow> workflow_inv s \<Longrightarrow> workflow_inv s' \<and> completed_keys s' = completed_keys s"
  shows "keeps (w_books D) (w_states m)"
proof (rule keepsI)
  fix w assume b: "w_books D w"
  obtain r w' where m: "w_states m w = (r, w')" by force
  from on_uow_store(5) [OF m] obtain s where "m (st_states (wd_stores w)) = (r, s)" "wd_stores w' = (wd_stores w)\<lparr>st_states := s\<rparr>"
    by blast
  with b assms show "w_books D (snd (w_states m w))" unfolding m by (auto simp: books_def)
qed

lemma register_books: "ws_status x = wf_running \<Longrightarrow> keeps (w_books D) (register env p x resume)"
  unfolding register_def
  by (rule keeps_bindS [OF quiet_books states_books]) (auto intro: quiet_intros register_workflow_inv dest: register_completed(1))

lemma upsert_books: "ws_status x \<noteq> wf_completed \<Longrightarrow> keeps (w_books D) (upsert env p x)"
  unfolding upsert_def by (rule states_books) (auto intro: upsert_workflow_inv dest: upsert_completed)

text \<open>A transition to a status other than completed, followed by the write of the state.\<close>

lemma transition_upsert_books:
  assumes "status \<noteq> wf_completed" and "\<And>x. keeps (w_books D) (k x)"
  shows "keeps (w_books D) (bindS (transition_state env st status step data) (\<lambda>x. bindS (upsert env p x) (\<lambda>_. k x)))"
proof -
  have "bindS (transition_state env st status step data) (\<lambda>x. bindS (upsert env p x) (\<lambda>_. k x)) =
    bindS (draw env) (\<lambda>d. let x = workflow_transition (snd d) st (Some status) (Some step) (Some data) in
      bindS (upsert env p x) (\<lambda>_. k x))"
    by (simp add: transition_state_def bindS_def ret_def fun_eq_iff Let_def split: prod.splits sum.splits)
  moreover have "keeps (w_books D) (bindS (upsert env p (workflow_transition t st (Some status) (Some step) (Some data)))
      (\<lambda>_. k (workflow_transition t st (Some status) (Some step) (Some data))))" for t
    by (rule keeps_bindS [OF upsert_books]) (simp_all add: workflow_transition_def assms)
  ultimately show ?thesis by (simp add: Let_def keeps_bindS [OF quiet_books [OF quiet_basic(4)]])
qed

lemma ask_clarification_books:
  "keeps (w_books D) finish \<Longrightarrow> keeps (w_books D) (ask_clarification env p n st c ids finish)"
  unfolding ask_clarification_def Let_def
  by (assumption | rule transition_upsert_books workflow_status.distinct quiet_trace [THEN quiet_books] step_intros)+

lemma run_before_approval_books:
  "ws_status st = wf_running \<Longrightarrow> keeps (w_books D) (run_before_approval env p request st n tid ids)"
  unfolding run_before_approval_def Let_def
  by (assumption | rule register_books transition_upsert_books ask_clarification_books workflow_status.distinct
      quiet_trace [THEN quiet_books] quiet_extraction [THEN quiet_books] quiet_registration [THEN quiet_books] step_intros)+

subsection \<open>The approved block\<close>

lemma on_uow_in_txs [step_intros]:
  "keeps (in_tx s) (on_uow (on_calendar c))" "keeps (in_tx s) (on_uow (on_scheduler h))" "keeps (in_tx s) (on_uow (on_events v))"
  "keeps (in_tx s) (on_uow (on_outbox b))" "keeps (in_tx s) (w_states k)" "keeps (in_tx s) (commit env)"
  unfolding w_states_def commit_def by (auto intro!: on_uow_in_tx keeps_commit keeps_stores step_intros)

lemma approved_block_in_tx:
  "keeps (in_tx s) (approved_block env p request st n ids base extraction c lids)"
  unfolding approved_block_def create_calendar_event_def schedule_reminder_def publish_reminder_def ask_clarification_def
    register_def upsert_def transition_state_def Let_def
  by (rule quiet_registration [THEN quiet_in_tx] quiet_trace [THEN quiet_in_tx] quiet_basic(4) [THEN quiet_in_tx]
      reminder_event_quiet [THEN quiet_in_tx] step_intros)+

text \<open>A registration that lets the block go on holds a state that is not completed.\<close>

lemma registration_open:
  assumes "registration_result env g p n base w = (Inr None, w')" and "\<not> reg_replayed g \<longrightarrow> ws_status (reg_state g) = wf_running"
  shows "ws_status (reg_state g) \<noteq> wf_completed"
  using assms by (auto simp: registration_result_def Let_def bindS_eq_Inr split: if_splits)

lemma upsert_adds_completed:
  assumes "workflow_upsert fp p x s = (Inr r, s')" and "ws_status x = wf_completed"
  shows "completed_keys s' = insert (pr_tenant_id p, ws_idempotency_key x) (completed_keys s)"
proof -
  have "(s' = s \<and> (pr_tenant_id p, ws_idempotency_key x) \<in> completed_keys s) \<or> s' = put_state p x s"
    using assms by (auto simp: workflow_upsert_def completed_keys_def Let_def split: if_splits sum.splits option.splits)
  with assms(2) show ?thesis by (auto simp: put_state_completed)
qed

text \<open>The writes of the approved branch, taken together, book the key of the run.\<close>

lemma booking_writes:
  assumes b: "w_books D w" and key: "ws_idempotency_key st = rn_key n"
    and c: "create_calendar_event env p request n ids e w = (Inr cal, w1)"
    and j: "schedule_reminder env p request n ids e i k w1 = (Inr job, w2)"
    and o: "publish_reminder env p request n ids e cal job w2 = (Inr u, w3)"
    and t: "transition_state env st wf_completed step data w3 = (Inr x, w4)"
    and u: "upsert env p x w4 = (Inr v, w5)"
  shows "w_books (insert (pr_tenant_id p, rn_key n) D) w5"
proof -
  from create_calendar_event_dom [OF c] schedule_reminder_dom [OF j] publish_reminder_dom [OF o]
    quiet_result [OF quiet_state(1) t] on_uow_store(5) [OF u [unfolded upsert_def]]
  obtain a1 a2 a3 a4 a5 where s: "wd_stores w5 = (wd_stores w)\<lparr>st_calendar := a1, st_scheduler := a2, st_events := a3, st_outbox := a4, st_states := a5\<rparr>"
    and dom: "dom (map_of (cal_events_by_key a1)) =
        insert (pr_tenant_id p, rn_key n @ '':calendar'') (dom (map_of (cal_events_by_key (st_calendar (wd_stores w)))))"
      "dom (map_of (sc_jobs_by_key a2)) =
        insert (pr_tenant_id p, rn_key n @ '':notify'') (dom (map_of (sc_jobs_by_key (st_scheduler (wd_stores w)))))"
      "dom (map_of (messages_by_key a4)) =
        insert (pr_tenant_id p, rn_key n @ '':outbox'') (dom (map_of (messages_by_key (st_outbox (wd_stores w)))))"
    and up: "workflow_upsert (we_fp_state env) p x (st_states (wd_stores w)) = (Inr v, a5)"
    by auto
  have x: "ws_status x = wf_completed" "ws_idempotency_key x = rn_key n"
    using t key by (auto simp: transition_state_def bindS_eq_Inr workflow_transition_def)
  show ?thesis
    using b upsert_adds_completed [OF up x(1)] upsert_workflow_inv [OF _ up]
    by (simp add: books_def s dom keyed_insert x(2))
qed

text \<open>After a registration the key is booked exactly when the registered state is completed.\<close>

lemma register_outcome:
  assumes b: "w_books D w" and st: "ws_status st = wf_running" "ws_idempotency_key st = rn_key n"
    and g: "register env p st resume w = (Inr g, w1)"
  shows "w_books D w1" "ws_idempotency_key (reg_state g) = rn_key n" "\<not> reg_replayed g \<longrightarrow> ws_status (reg_state g) = wf_running"
    "(pr_tenant_id p, rn_key n) \<in> D \<longleftrightarrow> ws_status (reg_state g) = wf_completed"
proof -
  from g obtain d w0 where d: "draw env w = (Inr d, w0)"
    and "w_states (register_or_replay (snd d) p st resume) w0 = (Inr g, w1)"
    by (auto simp: register_def bindS_eq_Inr)
  from on_uow_store(5) [OF this(2)] quiet_result [OF quiet_basic(4) d] obtain s' where
    r: "register_or_replay (snd d) p st resume (st_states (wd_stores w)) = (Inr g, s')"
    and w1: "wd_stores w1 = (wd_stores w)\<lparr>st_states := s'\<rparr>" by auto
  have inv: "workflow_inv (st_states (wd_stores w))" using b by (simp add: books_def)
  note reg = register_completed(2) [OF inv r st(1) refl]
  show b1: "w_books D w1" using keepsD [OF register_books [OF st(1)] b] g by (metis snd_conv)
  show "ws_idempotency_key (reg_state g) = rn_key n" "\<not> reg_replayed g \<longrightarrow> ws_status (reg_state g) = wf_running"
    using reg st(2) by simp_all
  show "(pr_tenant_id p, rn_key n) \<in> D \<longleftrightarrow> ws_status (reg_state g) = wf_completed"
    using b1 reg st(2) w1 by (auto simp: books_def completed_keys_def)
qed

lemma make_result_keeps:
  "ReminderWorkflowResult_make tz r = Inr r' \<Longrightarrow> wr_status r' = wr_status r \<and> wr_reused r' = wr_reused r
     \<and> wr_calendar_event_id r' = wr_calendar_event_id r \<and> wr_reminder_id r' = wr_reminder_id r"
  by (auto simp: ReminderWorkflowResult_make_def require_versioned_clarification_identity_def bindR_def
      split: if_splits option.splits)

lemma registration_reply_status:
  assumes "registration_result env g p n base w = (Inr (Some r), w')"
  shows "wr_reused r \<and> (wr_status r = ag_completed \<longleftrightarrow> ws_status (reg_state g) = wf_completed)"
  using assms
  by (auto simp: registration_result_def Let_def bindS_eq_Inr base_result_def clarified_def dest!: make_result_keeps
      split: if_splits workflow_status.splits)

lemma ask_clarification_status:
  "ask_clarification env p n st c ids finish w = (Inr r, w') \<Longrightarrow> wr_status r = ag_needs_clarification"
  by (auto simp: ask_clarification_def Let_def bindS_eq_Inr base_result_def clarified_def dest!: make_result_keeps split: prod.splits)

lemma commit_marks: "we_unit_of_work env \<Longrightarrow> commit env w = (Inr u, w') \<Longrightarrow> tx_committed (wd_txn w')"
  by (auto simp: commit_def on_uow_def on_field_def tx_commit_def split: sum.splits prod.splits if_splits)

text \<open>The block ends with a reply and the bookings as they were, or commits one new booking.\<close>

lemma approved_block_outcome:
  assumes b: "w_books D w" and st: "ws_status st = wf_running" "ws_idempotency_key st = rn_key n"
    and run: "approved_block env p request st n ids base extraction c lids w = (Inr out, y)"
  shows "case out of Inl r \<Rightarrow> w_books D y \<and> (wr_status r = ag_completed \<longrightarrow> (pr_tenant_id p, rn_key n) \<in> D)
     | Inr x \<Rightarrow> (pr_tenant_id p, rn_key n) \<notin> D \<and> w_books (insert (pr_tenant_id p, rn_key n) D) y
                 \<and> (we_unit_of_work env \<longrightarrow> tx_committed (wd_txn y))"
proof -
  from run obtain g w1 replay w2 where g: "register env p st (Some (step_value step_approval_required)) w = (Inr g, w1)"
    and q: "registration_result env g p n base w1 = (Inr replay, w2)"
    by (auto simp: approved_block_def bindS_eq_Inr)
  note rest = run [unfolded approved_block_def bindS_eq_Inr]
  note reg = register_outcome [OF b st g]
  have b2: "w_books D w2" using reg(1) quiet_result [OF quiet_registration q] by simp
  show ?thesis
  proof (cases replay)
    case (Some a)
    with rest g q have "out = Inl a" "y = snd (commit env w2)" by (auto simp: bindS_eq_Inr)
    then show ?thesis using b2 registration_reply_status [OF q [unfolded Some]] reg(4) by (simp add: commit_quiet_stores)
  next
    case None
    then have fresh: "(pr_tenant_id p, rn_key n) \<notin> D" using registration_open q reg(3,4) by blast
    show ?thesis
    proof (cases extraction)
      case None
      with \<open>replay = None\<close> rest g q obtain r where out: "out = Inl r"
        and ask: "ask_clarification env p n (reg_state g) c (base @ lids) (commit env) w2 = (Inr r, y)"
        by (auto simp: bindS_eq_Inr)
      have "w_books D y" using keepsD [OF ask_clarification_books [OF commit_books] b2] ask by (metis snd_conv)
      then show ?thesis using ask_clarification_status [OF ask] by (simp add: out)
    next
      case (Some e)
      with \<open>replay = None\<close> rest g q obtain cal a1 job a2 u a3 x a4 v a5 i k step data m where
        "create_calendar_event env p request n ids e w2 = (Inr cal, a1)"
        "schedule_reminder env p request n ids e i k a1 = (Inr job, a2)"
        "publish_reminder env p request n ids e cal job a2 = (Inr u, a3)"
        "transition_state env (reg_state g) wf_completed step data a3 = (Inr x, a4)"
        "upsert env p x a4 = (Inr v, a5)" and out: "out = Inr (e, cal, job, k)" and y: "commit env a5 = (Inr m, y)"
        by (auto simp: bindS_eq_Inr Let_def)
      from booking_writes [OF b2 reg(2) this(1-5)] fresh show ?thesis
        using commit_quiet_stores [of env a5] commit_marks [OF _ y] by (simp add: out y)
    qed
  qed
qed

text \<open>The whole approved run, given a unit of work.\<close>

lemma quiet_get [quiet_intros]: "quiet (w_states (get_by_idempotency_key p k))"
  by (rule quietI) (auto simp: w_states_def on_uow_def on_states_def on_field_def get_by_idempotency_key_def split: sum.splits)

lemma quiet_bindE [consumes 2, case_names err ok]:
  assumes "quiet m" and "bindS m f w = (r, w')"
  obtains (err) e where "r = Inl e" "wd_stores w' = wd_stores w"
  | (ok) x w1 where "m w = (Inr x, w1)" "wd_stores w1 = wd_stores w" "f x w1 = (r, w')"
proof (cases "m w")
  case (Pair q w1)
  with quiet_result [OF assms(1) this] assms(2) err ok show ?thesis
    by (cases q) (auto simp: bindS_def)
qed

text \<open>The transaction of an approved run and the traces and the reply that follow it.\<close>

lemma approved_transaction_books:
  assumes b: "w_books D w" and st: "ws_status st = wf_running" "ws_idempotency_key st = rn_key n" and uow: "we_unit_of_work env"
    and tail: "\<And>out. quiet (tail out)" "\<And>x. tail (Inl x) = ret x"
    and run: "bindS (with_reminder_transaction env p (approved_block env p request st n ids base ext cl lids)) tail w = (r, w')"
  shows "(w_books D w' \<and> (\<forall>x. r = Inr x \<longrightarrow> wr_status x = ag_completed \<longrightarrow> (pr_tenant_id p, rn_key n) \<in> D))
    \<or> ((pr_tenant_id p, rn_key n) \<notin> D \<and> w_books (insert (pr_tenant_id p, rn_key n) D) w')"
proof -
  let ?block = "approved_block env p request st n ids base ext cl lids"
  obtain q w3 where q: "with_reminder_transaction env p ?block w = (q, w3)" by force
  from with_block_stores [OF uow approved_block_in_tx q] consider (err) e where "q = Inl e" "wd_stores w3 = wd_stores w"
    | (ok) out y where "q = Inr out" "?block (w_open w) = (Inr out, y)"
        "wd_stores w3 = (if tx_committed (wd_txn y) then wd_stores y else wd_stores w)"
    by (cases q) auto
  then show ?thesis
  proof cases
    case err
    with run q b show ?thesis by (auto simp: bindS_def)
  next
    case ok
    then have t: "tail out w3 = (r, w')" using run q by (simp add: bindS_def)
    have "w_books D (w_open w)" using b by simp
    from approved_block_outcome [OF this st ok(2)] show ?thesis
      using quiet_result [OF tail(1) t] ok(3) b t uow by (cases out) (auto simp: tail(2) split: if_splits)
  qed
qed

text \<open>An approved run ends before it touches the stores, or runs the block in a transaction.\<close>

lemma run_approved_start [consumes 1, case_names err block]:
  assumes run: "run_approved env p request st n ids tid base w = (r, w')"
  obtains (err) e where "r = Inl e" "wd_stores w' = wd_stores w"
  | (block) ext cl lids tail w2 where "wd_stores w2 = wd_stores w" "\<And>out. quiet (tail out)" "\<And>x. tail (Inl x) = ret x"
      "bindS (with_reminder_transaction env p (approved_block env p request st n ids base ext cl lids)) tail w2 = (r, w')"
  using quiet_get run [unfolded run_approved_def Let_def]
proof (cases rule: quiet_bindE)
  case (ok existing w1)
  note w1 = ok(2)
  show ?thesis
  proof (cases "existing \<noteq> None \<and> ws_payload_fingerprint (the existing) \<noteq> Some (rn_payload_fingerprint n)")
    case True
    with ok err show ?thesis by auto
  next
    case False
    have "quiet (case existing of
              None \<Rightarrow> resolve_extraction env p request (rn_key n) tid
            | Some state \<Rightarrow>
                if ws_status state = wf_waiting_approval \<and> ws_step state = step_value step_approval_required
                then bindS (lift (bindR (from_mapping (we_tz env) (we_co env) (ws_data state)) (to_extraction (we_tz env))))
                       (\<lambda>e. ret (Some e, None, None))
                else ret (None, None, None))" by (intro quiet_intros)
    from this ok(3) [unfolded if_not_P [OF False]] show ?thesis
    proof (cases rule: quiet_bindE)
      case (ok x w2)
      obtain ext cl tid' where x: "x = (ext, cl, tid')" by (cases x)
      show ?thesis
        by (rule block [OF _ _ _ ok(3) [unfolded x prod.case]]) (use ok(2) w1 in \<open>auto intro!: quiet_intros split: prod.splits\<close>)
    qed (use w1 err in simp)
  qed
qed (use err in simp)

lemma run_approved_books:
  assumes b: "w_books D w" and st: "ws_status st = wf_running" "ws_idempotency_key st = rn_key n" and uow: "we_unit_of_work env"
    and run: "run_approved env p request st n ids tid base w = (r, w')"
  shows "(w_books D w' \<and> (\<forall>x. r = Inr x \<longrightarrow> wr_status x = ag_completed \<longrightarrow> (pr_tenant_id p, rn_key n) \<in> D))
    \<or> ((pr_tenant_id p, rn_key n) \<notin> D \<and> w_books (insert (pr_tenant_id p, rn_key n) D) w')"
  using run
proof (cases rule: run_approved_start)
  case (block ext cl lids tail w2)
  then show ?thesis using approved_transaction_books [OF _ st uow] b by metis
qed (use b in simp)

lemma run_before_approval_status:
  assumes b: "w_books D w" and st: "ws_status st = wf_running" "ws_idempotency_key st = rn_key n"
    and run: "run_before_approval env p request st n tid base w = (Inr r, w')" and c: "wr_status r = ag_completed"
  shows "(pr_tenant_id p, rn_key n) \<in> D"
proof -
  note rest = run [unfolded run_before_approval_def bindS_eq_Inr]
  from rest obtain g w1 replay w2 where g: "register env p st None w = (Inr g, w1)"
    and q: "registration_result env g p n base w1 = (Inr replay, w2)" by blast
  have "replay = Some r"
  proof (cases replay)
    case None
    with rest g q have "wr_status r \<noteq> ag_completed"
      by (auto simp: bindS_eq_Inr Let_def base_result_def dest!: ask_clarification_status make_result_keeps split: option.splits)
    with c show ?thesis by simp
  qed (use rest g q in auto)
  then show ?thesis using registration_reply_status [of env g p n base w1 r w2] q c register_outcome(4) [OF b st g] by simp
qed

subsection \<open>The booking specification\<close>

text \<open>
  The specification of one request: the set of booked reminders stays, or grows by the key of
  the request if a grant for exactly this key's calendar event was accepted at a clock
  reading of the run and the key was not booked before.
\<close>

inductive booking :: "wenv \<Rightarrow> principal \<Rightarrow> workflow_input \<Rightarrow> (string \<times> string) set \<Rightarrow> (string \<times> string) set \<Rightarrow> bool"
  for env p request where
  unchanged: "booking env p request D D"
| booked: "reminder_idempotency_of p request = Inr idem \<Longrightarrow> wi_approval request = Some g \<Longrightarrow>
    require_approval (we_clock env t) p P3 (Some g) ''calendar.create_event'' (idem_key (we_sha env) idem @ '':calendar'') None = Inr d \<Longrightarrow>
    (pr_tenant_id p, idem_key (we_sha env) idem) \<notin> D \<Longrightarrow>
    booking env p request D (insert (pr_tenant_id p, idem_key (we_sha env) idem) D)"

lemma admitted:
  assumes "admit_request env p request n w = (Inr e, w')" and "wi_approval request = Some g"
  shows "\<exists>t d. require_approval (we_clock env t) p P3 (Some g) ''calendar.create_event'' (rn_key n @ '':calendar'') None = Inr d"
  using assms by (auto simp: admit_request_def bindS_eq_Inr draw_def split: if_splits)

text \<open>A run ends before it touches the stores, or starts one of the two branches on them.\<close>

lemma run_workflow_start [consumes 2, case_names err start]:
  assumes idem: "reminder_idempotency_of p request = Inr idem" and run: "run_workflow env p request w = (r, w')"
  obtains (err) e where "r = Inl e" "wd_stores w' = wd_stores w"
  | (start) g w0 st w1 w2 tid base where "admit_request env p request (ids_of_run env idem) w = (Inr g, w0)"
      "initial_state env p request (ids_of_run env idem) w1 = (Inr st, w2)" "wd_stores w2 = wd_stores w"
      "(case wi_approval request of
          None \<Rightarrow> run_before_approval env p request st (ids_of_run env idem) tid base
        | Some _ \<Rightarrow> run_approved env p request st (ids_of_run env idem) (idem_effect_ids (we_sha env) idem) tid base) w2 = (r, w')"
proof -
  have "(\<exists>e. r = Inl e \<and> wd_stores w' = wd_stores w) \<or> (\<exists>g w0 st w1 w2 tid base.
      admit_request env p request (ids_of_run env idem) w = (Inr g, w0) \<and>
      initial_state env p request (ids_of_run env idem) w1 = (Inr st, w2) \<and> wd_stores w2 = wd_stores w \<and>
      (case wi_approval request of
          None \<Rightarrow> run_before_approval env p request st (ids_of_run env idem) tid base
        | Some _ \<Rightarrow> run_approved env p request st (ids_of_run env idem) (idem_effect_ids (we_sha env) idem) tid base) w2 = (r, w'))"
    (is ?goal)
    using quiet_state(3) [of env p request "ids_of_run env idem"]
      run [unfolded run_workflow_def Let_def bindS_lift_Inr [OF idem]]
  proof (cases rule: quiet_bindE)
    case a: (ok g w0)
    from quiet_trace(3) a(3) show ?goal
    proof (cases rule: quiet_bindE)
      case b: (ok started v1)
      from quiet_trace(3) b(3) show ?goal
      proof (cases rule: quiet_bindE)
        case c: (ok ctx v2)
        from quiet_state(2) c(3) show ?goal
        proof (cases rule: quiet_bindE)
          case d: (ok st v3)
          have "wd_stores v3 = wd_stores w" using a(2) b(2) c(2) d(2) by simp
          with a(1) d(1,3) show ?goal by blast
        qed (use a b c in simp)
      qed (use a b in simp)
    qed (use a in simp)
  qed simp
  with err start show thesis by blast
qed

lemma initial_state_shape:
  "initial_state env p request n w = (Inr st, w') \<Longrightarrow> ws_status st = wf_running \<and> ws_idempotency_key st = rn_key n
     \<and> ws_tenant_id st = pr_tenant_id p \<and> ws_workflow_type st = ''reminder.create''
     \<and> ws_payload_fingerprint st = Some (rn_payload_fingerprint n)"
  by (auto simp: initial_state_def bindS_eq_Inr)

lemma run_books:
  assumes b: "books D (wd_stores w)" and uow: "we_unit_of_work env" and run: "run_workflow env p request w = (r, w')"
  shows "\<exists>D'. booking env p request D D' \<and> books D' (wd_stores w') \<and>
    (\<forall>x idem. r = Inr x \<longrightarrow> wr_status x = ag_completed \<longrightarrow> reminder_idempotency_of p request = Inr idem \<longrightarrow>
       (pr_tenant_id p, idem_key (we_sha env) idem) \<in> D')"
proof (cases "reminder_idempotency_of p request")
  case (Inl e)
  with run b show ?thesis by (auto simp: run_workflow_def bindS_def intro: booking.unchanged)
next
  case (Inr idem)
  let ?n = "ids_of_run env idem" and ?k = "(pr_tenant_id p, idem_key (we_sha env) idem)"
  have key: "rn_key ?n = idem_key (we_sha env) idem" by (simp add: ids_of_run_def)
  have keep: ?thesis if "w_books D w'" "\<And>x. r = Inr x \<Longrightarrow> wr_status x = ag_completed \<Longrightarrow> ?k \<in> D"
    using that Inr by (auto intro!: exI [of _ D] booking.unchanged)
  from Inr run show ?thesis
  proof (cases rule: run_workflow_start)
    case (start g w0 st w1 w2 tid base)
    from initial_state_shape [OF start(2)] have st: "ws_status st = wf_running" "ws_idempotency_key st = rn_key ?n" by simp_all
    have b2: "w_books D w2" using b start(3) by simp
    show ?thesis
    proof (cases "wi_approval request")
      case None
      with start(4) have "run_before_approval env p request st ?n tid base w2 = (r, w')" by simp
      then show ?thesis
        using keep keepsD [OF run_before_approval_books [OF st(1)] b2] run_before_approval_status [OF b2 st] key by (metis snd_conv)
    next
      case (Some h)
      with start(4) have "run_approved env p request st ?n (idem_effect_ids (we_sha env) idem) tid base w2 = (r, w')" by simp
      from run_approved_books [OF b2 st uow this] show ?thesis
      proof (elim disjE conjE)
        assume "(pr_tenant_id p, rn_key ?n) \<notin> D" "w_books (insert (pr_tenant_id p, rn_key ?n) D) w'"
        moreover from this have "booking env p request D (insert ?k D)"
          using admitted [OF start(1) Some] booking.booked [OF Inr Some] by (auto simp: key)
        ultimately show ?thesis using Inr by (auto simp: key intro!: exI [of _ "insert ?k D"])
      qed (use keep key in auto)
    qed
  qed (use keep b in auto)
qed

text \<open>C3: the workflow refines the booking specification.
  On stores that represent a set of booked reminders (completed workflows, calendar events,
  scheduled jobs and outbox messages agree), any run of the workflow, whether it returns or
  raises, ends in stores that represent the set the specification allows: unchanged, or with
  exactly the key of this request added after an accepted grant. A reply that says completed
  is only given when the key is booked.\<close>

theorem run_refines_booking:
  assumes b: "books D (wd_stores w)" and uow: "we_unit_of_work env" and run: "run_workflow env p request w = (r, w')"
  shows "\<exists>D'. booking env p request D D' \<and> books D' (wd_stores w') \<and>
    (\<forall>x idem. r = Inr x \<longrightarrow> wr_status x = ag_completed \<longrightarrow> reminder_idempotency_of p request = Inr idem \<longrightarrow>
       (pr_tenant_id p, idem_key (we_sha env) idem) \<in> D')"
  using run_books [OF assms] .

section \<open>Completed workflows\<close>

text \<open>The reply to a request whose workflow is already completed, from its stored data.\<close>

definition repeats :: "wenv \<Rightarrow> workflow_state \<Rightarrow> workflow_result \<Rightarrow> bool" where
  "repeats env x r \<longleftrightarrow> wr_status r = ag_completed \<and> wr_reused r
     \<and> data_string env (ws_data x) ''calendar_event_id'' = Inr (wr_calendar_event_id r)
     \<and> data_string env (ws_data x) ''reminder_id'' = Inr (wr_reminder_id r)"

lemma register_final:
  assumes "map_of (wk_states_by_key (st_states (wd_stores w))) (pr_tenant_id p, ws_idempotency_key st) = Some x"
    and "ws_status x = wf_completed" and g: "register env p st resume w = (q, w')"
  shows "wd_stores w' = wd_stores w \<and> (\<forall>g. q = Inr g \<longrightarrow> g = \<lparr>reg_state = x, reg_replayed = True, reg_resumed = False\<rparr>)"
proof -
  from g [unfolded register_def] obtain d w0 where d: "draw env w = (Inr d, w0)"
    and "w_states (register_or_replay (snd d) p st resume) w0 = (q, w')" by (auto simp: bindS_def draw_def)
  from on_uow_store(5) [OF this(2)] quiet_result [OF quiet_basic(4) d] obtain s' where
    "register_or_replay (snd d) p st resume (st_states (wd_stores w)) = (q, s')" "wd_stores w' = (wd_stores w)\<lparr>st_states := s'\<rparr>"
    by auto
  then show ?thesis using assms(1,2) by (auto simp: register_or_replay_def Let_def split: sum.splits if_splits)
qed

lemma registration_repeats:
  assumes "registration_result env \<lparr>reg_state = x, reg_replayed = True, reg_resumed = False\<rparr> p n base w = (Inr q, w')"
    and "ws_status x = wf_completed"
  shows "\<exists>r. q = Some r \<and> repeats env x r"
  using assms by (auto simp: registration_result_def Let_def bindS_eq_Inr repeats_def base_result_def dest!: make_result_keeps)

lemma run_before_approval_final:
  assumes x: "map_of (wk_states_by_key (st_states (wd_stores w))) (pr_tenant_id p, ws_idempotency_key st) = Some x"
      "ws_status x = wf_completed"
    and run: "run_before_approval env p request st n tid base w = (r, w')"
  shows "wd_stores w' = wd_stores w \<and> (\<forall>a. r = Inr a \<longrightarrow> repeats env x a)"
proof -
  obtain q w1 where g: "register env p st None w = (q, w1)" by force
  note f = register_final [OF x g]
  show ?thesis
  proof (cases q)
    case (Inl e)
    with run g f show ?thesis by (auto simp: run_before_approval_def bindS_def)
  next
    case (Inr h)
    with f have h: "h = \<lparr>reg_state = x, reg_replayed = True, reg_resumed = False\<rparr>" by simp
    obtain v w2 where v: "registration_result env h p n base w1 = (v, w2)" by force
    with quiet_result [OF quiet_registration v] f run g Inr registration_repeats [OF _ x(2), folded h] show ?thesis
      by (cases v) (fastforce simp: run_before_approval_def bindS_def)+
  qed
qed

lemma approved_block_final:
  assumes x: "map_of (wk_states_by_key (st_states (wd_stores w))) (pr_tenant_id p, ws_idempotency_key st) = Some x"
      "ws_status x = wf_completed"
    and run: "approved_block env p request st n ids base ext cl lids w = (r, y)"
  shows "wd_stores y = wd_stores w \<and> (\<forall>q. r = Inr q \<longrightarrow> (\<exists>a. q = Inl a \<and> repeats env x a))"
proof -
  obtain q w1 where g: "register env p st (Some (step_value step_approval_required)) w = (q, w1)" by force
  note f = register_final [OF x g]
  show ?thesis
  proof (cases q)
    case (Inl e)
    with run g f show ?thesis by (auto simp: approved_block_def bindS_def)
  next
    case (Inr h)
    with f have h: "h = \<lparr>reg_state = x, reg_replayed = True, reg_resumed = False\<rparr>" by simp
    obtain v w2 where v: "registration_result env h p n base w1 = (v, w2)" by force
    note w2 = quiet_result [OF quiet_registration v]
    show ?thesis
    proof (cases v)
      case (Inl e)
      with run g v w2 f \<open>q = Inr h\<close> show ?thesis by (auto simp: approved_block_def bindS_def)
    next
      case (Inr t)
      with registration_repeats [OF _ x(2), folded h] v obtain a where a: "t = Some a" "repeats env x a" by blast
      have "bindS (commit env) (\<lambda>_. ret (Inl a)) w2 = (r, y)"
        using run g v Inr \<open>q = Inr h\<close> a(1) by (simp add: approved_block_def bindS_def)
      then show ?thesis using commit_quiet_stores [of env w2] w2 f a(2)
        by (auto simp: bindS_def split: prod.splits sum.splits)
    qed
  qed
qed

text \<open>Without a unit of work the block runs directly on the stores; with one, they are kept or restored.\<close>

lemma run_approved_final:
  assumes x: "map_of (wk_states_by_key (st_states (wd_stores w))) (pr_tenant_id p, ws_idempotency_key st) = Some x"
      "ws_status x = wf_completed"
    and run: "run_approved env p request st n ids tid base w = (r, w')"
  shows "wd_stores w' = wd_stores w \<and> (\<forall>a. r = Inr a \<longrightarrow> repeats env x a)"
  using run
proof (cases rule: run_approved_start)
  case (block ext cl lids tail w2)
  let ?body = "approved_block env p request st n ids base ext cl lids"
  obtain q w3 where q: "with_reminder_transaction env p ?body w2 = (q, w3)" by force
  have "wd_stores w3 = wd_stores w2 \<and> (\<forall>out. q = Inr out \<longrightarrow> (\<exists>a. out = Inl a \<and> repeats env x a))"
  proof (cases "we_unit_of_work env")
    case True
    have "map_of (wk_states_by_key (st_states (wd_stores (w_open w2)))) (pr_tenant_id p, ws_idempotency_key st) = Some x"
      using x(1) block(1) by simp
    note fin = approved_block_final [OF this x(2)]
    from with_block_stores [OF True approved_block_in_tx q] show ?thesis
      by (cases q) (auto dest!: fin split: if_splits)
  next
    case False
    with q have "?body w2 = (q, w3)" by (simp add: with_reminder_transaction_def)
    then show ?thesis using approved_block_final [OF _ x(2)] x(1) block(1) by metis
  qed
  then show ?thesis using block(1,4) q quiet_result [OF block(2)] block(3) by (cases q) (auto simp: bindS_def)
qed simp

text \<open>C23: a completed reminder is final.
  A request whose idempotency key already has a completed workflow, with or without an
  approval grant and with or without a unit of work, changes nothing in the five stores,
  whatever its text or fingerprint; and if it gets a result at all, the result says completed,
  is marked as reused and carries the calendar event and the reminder of the first run.\<close>

theorem completed_run_is_final:
  assumes idem: "reminder_idempotency_of p request = Inr idem"
    and x: "map_of (wk_states_by_key (st_states (wd_stores w))) (pr_tenant_id p, idem_key (we_sha env) idem) = Some x"
      "ws_status x = wf_completed"
    and run: "run_workflow env p request w = (r, w')"
  shows "wd_stores w' = wd_stores w \<and> (\<forall>a. r = Inr a \<longrightarrow> repeats env x a)"
  using idem run
proof (cases rule: run_workflow_start)
  case (start g w0 st w1 w2 tid base)
  have key: "map_of (wk_states_by_key (st_states (wd_stores w2))) (pr_tenant_id p, ws_idempotency_key st) = Some x"
    using x(1) initial_state_shape [OF start(2)] start(3) by (simp add: ids_of_run_def)
  show ?thesis
    using start(3,4) run_before_approval_final [OF key x(2)] run_approved_final [OF key x(2)]
    by (cases "wi_approval request") auto
qed simp

section \<open>Concrete instances\<close>

definition demo_env :: wenv where
  "demo_env = \<lparr>we_sha = (\<lambda>b. replicate 64 (CHR ''a'')), we_rp = (\<lambda>v. ''x''), we_uuid = (\<lambda>n. replicate n (CHR ''b'')),
     we_clock = (\<lambda>n. 1700000000000000 + int n), we_tz = rw_zones, we_co = dw_coercion,
     we_fp_calendar = cr_title, we_fp_state = ws_step, we_fp_event = ev_source, we_fp_write = (\<lambda>_ _ _. ''f''),
     we_catalog = [(''reminder_notification_body'', CatText ''Recordatorio: {title}''),
       (''reminder_created_with_notice'', CatText ''Listo: {title}, {minutes_label}''),
       (''minutes_plural'', CatText ''{minutes} min''), (''reminder_duplicate'', CatText ''Ya existe'')],
     we_minutes_before = 30, we_context_window = 1000, we_unit_of_work = True, we_llm = None,
     we_render = (\<lambda>_ _. Inl KeyError), we_repr = (\<lambda>s. s), we_float = (\<lambda>_. Inl (ValueError [])),
     we_fromiso = (\<lambda>_. Inl (ValueError [])), we_ratio = (\<lambda>a b. 0), we_exception = (\<lambda>_. (''E'', []))\<rparr>"

definition demo_key :: string where
  "demo_key = REMINDER_IDEMPOTENCY_KEY_PREFIX @ replicate 64 (CHR ''a'')"

definition demo_input :: workflow_input where
  "demo_input = \<lparr>wi_message_id = ''m1'', wi_source_event_id = ''e1'', wi_conversation_id = ''c1'',
     wi_text = ''cita manana a las 15'', wi_channel = ''telegram'', wi_recipient = ''r1'', wi_now = 1700000000000000,
     wi_timezone = ''America/Bogota'', wi_idempotency_key = None,
     wi_approval = Some (demo_grant\<lparr>ap_resource := demo_key @ '':calendar''\<rparr>)\<rparr>"

definition demo_world :: world where
  "demo_world = \<lparr>wd_stores = empty_stores, wd_txn = new_transaction, wd_traces = [], wd_tick = 0\<rparr>"

definition demo_completed :: workflow_state where
  "demo_completed = \<lparr>ws_workflow_id = ''wf_1'', ws_tenant_id = ''t1'', ws_workflow_type = ''reminder.create'',
     ws_status = wf_completed, ws_step = ''completed'', ws_idempotency_key = demo_key,
     ws_payload_fingerprint = Some (replicate 64 (CHR ''a'')),
     ws_data = [(''calendar_event_id'', PStr ''cal_1''), (''reminder_id'', PStr ''rem_1'')],
     ws_created_at = 0, ws_updated_at = 0\<rparr>"

definition demo_later :: world where
  "demo_later = demo_world\<lparr>wd_stores := empty_stores\<lparr>st_states := put_state demo_principal demo_completed InMemoryWorkflowStateStore_init\<rparr>\<rparr>"

lemma demo_idem: "\<exists>idem. reminder_idempotency_of demo_principal demo_input = Inr idem \<and> idem_key (we_sha demo_env) idem = demo_key"
proof -
  have "case reminder_idempotency_of demo_principal demo_input of Inl e \<Rightarrow> False | Inr i \<Rightarrow> idem_key (we_sha demo_env) i = demo_key"
    by code_simp
  then show ?thesis by (simp split: sum.splits)
qed

lemma empty_books: "books {} empty_stores"
  by (simp add: books_def empty_stores_def completed_keys_def keyed_def workflow_inv_def InMemoryWorkflowStateStore_init_def
      LocalCalendarTool_init_def ReminderScheduler_init_def InMemoryOutbox_init_def)

theorem run_refines_booking_witness:
  "\<exists>D'. booking demo_env demo_principal demo_input {} D' \<and> books D' (wd_stores (snd (run_workflow demo_env demo_principal demo_input demo_world)))"
proof -
  have "books {} (wd_stores demo_world)" "we_unit_of_work demo_env"
    by (simp_all add: demo_world_def demo_env_def empty_books)
  from run_refines_booking [OF this prod.collapse [symmetric]] show ?thesis by blast
qed

theorem completed_run_is_final_witness:
  "wd_stores (snd (run_workflow demo_env demo_principal demo_input demo_later)) = wd_stores demo_later"
proof -
  obtain idem where i: "reminder_idempotency_of demo_principal demo_input = Inr idem" "idem_key (we_sha demo_env) idem = demo_key"
    using demo_idem by blast
  have x: "map_of (wk_states_by_key (st_states (wd_stores demo_later))) (pr_tenant_id demo_principal, idem_key (we_sha demo_env) idem)
      = Some demo_completed" "ws_status demo_completed = wf_completed"
    by (simp_all add: demo_later_def put_state_def i(2) demo_completed_def map_of_update)
  from completed_run_is_final [OF i(1) x prod.collapse [symmetric]] show ?thesis by simp
qed

end
