(* ===== verification/Commands.thy ===== *)
theory Commands
  imports Reminder_Workflow Approval_Store
begin

text \<open>
  The command router: \<^verbatim>\<open>application/use_cases/commands.py\<close>, with the classes of
  \<^verbatim>\<open>application/dto/commands.py\<close> and \<^verbatim>\<open>application/dto/channels.py\<close>. The state is the
  world of the reminder workflow and the approval store; \<open>cenv\<close> holds the workflow's
  environment and the fields of the service (\<open>cs_isoformat\<close> is the text of the caller's
  datetime in its own zone). Strings are compared and cut the way the code
  does, before and after \<open>strip\<close> and \<open>lower\<close>.
\<close>

section \<open>Messages, results and pending approvals\<close>

record normalized_message =
  nm_channel :: string
  nm_actor_id :: string
  nm_conversation_id :: string
  nm_message_id :: string
  nm_source_event_id :: string
  nm_text :: string
  nm_idempotency_key :: "string option"
  nm_command :: "string option"
  nm_command_args :: string
  nm_media_kind :: "string option"
  nm_media_file_id :: "string option"
  nm_media_mime_type :: "string option"
  nm_media_file_size :: "int option"
  nm_received_at :: instant

definition NormalizedMessage_validate :: "normalized_message \<Rightarrow> normalized_message result" where
  "NormalizedMessage_validate m =
     (if nm_channel m \<notin> {''telegram'', ''whatsapp''} \<or> nm_actor_id m = [] \<or> nm_conversation_id m = [] \<or> nm_message_id m = []
         \<or> nm_source_event_id m = [] \<or> nm_text m = [] \<or> nm_idempotency_key m = Some [] \<or> nm_command m = Some []
         \<or> nm_media_kind m = Some [] \<or> nm_media_file_id m = Some [] \<or> nm_media_mime_type m = Some []
         \<or> (case nm_media_file_size m of None \<Rightarrow> False | Some n \<Rightarrow> n < 0)
      then Inl (ValueError ''invalid normalized message'') else Inr m)"

datatype command_kind = ck_start | ck_help | ck_status | ck_reminder_create | ck_agenda | ck_pending_approvals | ck_approve
  | ck_cancel | ck_unsupported

fun command_kind_value :: "command_kind \<Rightarrow> string" where
  "command_kind_value ck_start = ''start''"
| "command_kind_value ck_help = ''help''"
| "command_kind_value ck_status = ''status''"
| "command_kind_value ck_reminder_create = ''reminder.create''"
| "command_kind_value ck_agenda = ''agenda''"
| "command_kind_value ck_pending_approvals = ''pending_approvals''"
| "command_kind_value ck_approve = ''approve''"
| "command_kind_value ck_cancel = ''cancel''"
| "command_kind_value ck_unsupported = ''unsupported''"

definition command_kinds :: "command_kind list" where
  "command_kinds = [ck_start, ck_help, ck_status, ck_reminder_create, ck_agenda, ck_pending_approvals, ck_approve, ck_cancel,
     ck_unsupported]"

datatype meta_value = MStr string | MBool bool | MNone

record command_result =
  cm_status :: agent_status
  cm_kind :: command_kind
  cm_reply :: string
  cm_approval_id :: "string option"
  cm_dispatch_required :: bool
  cm_metadata :: "(string, meta_value) dict"

fun strip_meta :: "meta_value \<Rightarrow> meta_value" where
  "strip_meta (MStr s) = MStr (py_strip s)"
| "strip_meta v = v"

definition CommandResult_make ::
    "agent_status \<Rightarrow> command_kind \<Rightarrow> string \<Rightarrow> string option \<Rightarrow> (string, meta_value) dict \<Rightarrow> command_result result" where
  "CommandResult_make status ckind reply approval_id metadata =
     (if py_strip reply = [] then Inl (ValueError ''invalid command result'')
      else Inr \<lparr>cm_status = status, cm_kind = ckind, cm_reply = py_strip reply, cm_approval_id = map_option py_strip approval_id,
                cm_dispatch_required = True, cm_metadata = map (\<lambda>(k, v). (py_strip k, strip_meta v)) metadata\<rparr>)"

definition strip_approval :: "pending_approval \<Rightarrow> pending_approval" where
  "strip_approval a = a\<lparr>pa_approval_id := py_strip (pa_approval_id a), pa_tenant_id := py_strip (pa_tenant_id a),
     pa_principal_id := py_strip (pa_principal_id a), pa_action := py_strip (pa_action a),
     pa_resource := py_strip (pa_resource a), pa_tier := py_strip (pa_tier a),
     pa_workflow_kind := py_strip (pa_workflow_kind a), pa_message_id := py_strip (pa_message_id a),
     pa_source_event_id := py_strip (pa_source_event_id a), pa_conversation_id := py_strip (pa_conversation_id a),
     pa_channel := py_strip (pa_channel a), pa_recipient := py_strip (pa_recipient a),
     pa_request_text := py_strip (pa_request_text a), pa_timezone := py_strip (pa_timezone a),
     pa_idempotency_key := py_strip (pa_idempotency_key a), pa_payload_fingerprint := py_strip (pa_payload_fingerprint a)\<rparr>"

definition PendingApproval_make :: "zones \<Rightarrow> pending_approval \<Rightarrow> py_datetime \<Rightarrow> pending_approval result" where
  "PendingApproval_make tz a0 request_now =
     (let a = strip_approval a0 in
      if pa_approval_id a = [] \<or> pa_tenant_id a = [] \<or> pa_principal_id a = [] \<or> pa_action a = [] \<or> pa_resource a = []
         \<or> length (pa_tier a) < 2 \<or> pa_workflow_kind a = [] \<or> pa_message_id a = [] \<or> pa_source_event_id a = []
         \<or> pa_conversation_id a = [] \<or> pa_channel a = [] \<or> pa_recipient a = [] \<or> pa_request_text a = []
         \<or> pa_idempotency_key a = [] \<or> \<not> is_hex64 (pa_payload_fingerprint a)
      then Inl (ValueError ''invalid pending approval'')
      else case tz (pa_timezone a) of
             None \<Rightarrow> Inl (ValueError ''timezone must be a valid IANA timezone'')
           | Some z \<Rightarrow>
               (case request_now of
                  Naive _ \<Rightarrow> Inl (ValueError ''request_now must be timezone-aware'')
                | Aware t \<Rightarrow> if in_datetime_range t then Inr (a\<lparr>pa_timezone := zn_key z, pa_request_now := t\<rparr>) else Inl OverflowError))"

record inferred_intent =
  ii_kind :: command_kind
  ii_confidence :: rat
  ii_reminder_text :: "string option"

text \<open>\<^verbatim>\<open>InferredCommandIntent.model_validate(result.data)\<close>; coercions are those of \<open>coercion\<close>.\<close>

definition InferredCommandIntent_validate :: "coercion \<Rightarrow> (string, pyval) dict \<Rightarrow> inferred_intent result" where
  "InferredCommandIntent_validate co data =
     (if \<not> list_all (\<lambda>(k, v). k \<in> {''kind'', ''confidence'', ''reminder_text''}) data
      then Inl (ValueError ''extra inputs are not permitted'')
      else case map_of data ''kind'' of
             Some (PStr s) \<Rightarrow>
               (case find (\<lambda>k. command_kind_value k = s) command_kinds of
                  None \<Rightarrow> Inl (ValueError ''invalid command kind'')
                | Some ckind \<Rightarrow>
                   (case map_of data ''confidence'' of
                      None \<Rightarrow> Inl (ValueError ''confidence is required'')
                    | Some c \<Rightarrow>
                       bindR (coerced (co_float co c)) (\<lambda>confidence.
                       if confidence < 0 \<or> confidence > 1 then Inl (ValueError ''confidence out of range'')
                       else
                         bindR (case map_of data ''reminder_text'' of
                                  None \<Rightarrow> Inr None
                                | Some PNone \<Rightarrow> Inr None
                                | Some v \<Rightarrow>
                                    bindR (coerced (co_str co v)) (\<lambda>t.
                                    if py_strip t = [] \<or> 500 < length (py_strip t) then Inl (ValueError ''invalid reminder_text'')
                                    else Inr (Some (py_strip t)))) (\<lambda>reminder_text.
                         Inr \<lparr>ii_kind = ckind, ii_confidence = confidence, ii_reminder_text = reminder_text\<rparr>))))
           | _ \<Rightarrow> Inl (ValueError ''invalid command kind''))"

section \<open>Text rules\<close>

definition LLM_INTENT_CONFIDENCE_THRESHOLD :: rat where "LLM_INTENT_CONFIDENCE_THRESHOLD = 65 / 100"

definition approval_id_of :: "(string \<Rightarrow> string) \<Rightarrow> string \<Rightarrow> string \<Rightarrow> string \<Rightarrow> string" where
  "approval_id_of sha tenant_id principal_id key =
     ''ap_'' @ take 10 (sha256_text sha (tenant_id @ '':'' @ principal_id @ '':'' @ key))"

definition reminder_openings :: "string list" where
  "reminder_openings =
     [''/recordar '', ''recu'' @ [CHR 0xE9] @ ''rdame '', ''recuerdame '', ''recordarme '', ''puedes recordarme '',
      ''podr'' @ [CHR 0xED] @ ''as recordarme '', ''necesito que me recuerdes '', ''quiero que me recuerdes '', ''me recuerdas '',
      ''me recuerdes '', ''ag'' @ [CHR 0xE9] @ ''ndame '', ''agendame '', ''agendarme '', ''agenda '', ''agendar '',
      ''av'' @ [CHR 0xED] @ ''same '', ''avisame '', ''me avisas '', ''me puedes avisar '']"

definition looks_like_reminder :: "string \<Rightarrow> bool" where
  "looks_like_reminder s =
     (let normalized = py_lower (py_strip s) in
      list_ex (\<lambda>p. starts_with p normalized) reminder_openings
      \<or> (contains ''cita'' normalized \<and> contains ''las '' normalized))"

text \<open>\<^verbatim>\<open>s.split(maxsplit=1)\<close>: the first word, and what follows it without leading blanks.\<close>

definition py_split1 :: "string \<Rightarrow> string list" where
  "py_split1 s =
     (let t = dropWhile py_isspace s;
          word = takeWhile (\<lambda>c. \<not> py_isspace c) t;
          rest = dropWhile py_isspace (dropWhile (\<lambda>c. \<not> py_isspace c) t) in
      if t = [] then [] else if rest = [] then [word] else [word, rest])"

definition extract_reminder_text :: "string \<Rightarrow> string" where
  "extract_reminder_text s =
     (let stripped = py_strip s; lowered = py_lower stripped in
      if starts_with ''/recordar '' lowered then py_strip (drop (length ''/recordar '') stripped)
      else if starts_with ''/'' lowered
      then (case py_split1 stripped of [_, rest] \<Rightarrow> py_strip rest | _ \<Rightarrow> [])
      else stripped)"

definition workflow_text_from_inferred_reminder :: "string \<Rightarrow> string \<Rightarrow> string" where
  "workflow_text_from_inferred_reminder original_text reminder_text =
     (if py_strip reminder_text = [] then original_text else ''recordatorio '' @ py_strip reminder_text)"

section \<open>The service\<close>

record cenv =
  cs_workflow :: wenv
  cs_fields_fp :: fields_fp
  cs_llm :: "(nat \<Rightarrow> string \<Rightarrow> llm_result result) option"
  cs_render :: "string \<Rightarrow> (string \<times> pyval) list \<Rightarrow> rendered_prompt result"
  cs_traces :: bool
  cs_catalog :: catalog
  cs_context_window :: int
  cs_isoformat :: "py_datetime \<Rightarrow> string"

record cworld =
  cw_approvals :: approval_store
  cw_world :: world

definition on_approvals :: "(approval_store, 'a) op \<Rightarrow> (cworld, 'a) op" where
  "on_approvals = on_field cw_approvals (\<lambda>x w. w\<lparr>cw_approvals := x\<rparr>)"

definition on_world :: "(world, 'a) op \<Rightarrow> (cworld, 'a) op" where
  "on_world = on_field cw_world (\<lambda>x w. w\<lparr>cw_world := x\<rparr>)"

definition c_draw :: "cenv \<Rightarrow> (cworld, string \<times> instant) op" where
  "c_draw c = on_world (draw (cs_workflow c))"

text \<open>A result with the reply read from the catalog.\<close>

definition replied :: "cenv \<Rightarrow> agent_status \<Rightarrow> command_kind \<Rightarrow> string result \<Rightarrow> (cworld, command_result) op" where
  "replied c status ckind reply = lift (bindR reply (\<lambda>t. CommandResult_make status ckind t None []))"

definition reminder_result_metadata :: "workflow_result \<Rightarrow> (string, meta_value) dict" where
  "reminder_result_metadata r =
     (let opt = (\<lambda>v. case v of None \<Rightarrow> MNone | Some s \<Rightarrow> MStr s) in
      [(''idempotency_key'', MStr (wr_idempotency_key r)), (''source_event_id'', MStr (wr_source_event_id r)),
       (''payload_fingerprint'', MStr (wr_payload_fingerprint r)), (''timezone'', MStr (wr_timezone r)),
       (''clarification_reason'', opt (map_option reason_value (wr_clarification_reason r))),
       (''clarification_reply_id'', opt (wr_clarification_reply_id r)),
       (''clarification_reply_version'', opt (wr_clarification_reply_version r))])"

definition command_status :: "cenv \<Rightarrow> principal \<Rightarrow> (cworld, command_result) op" where
  "command_status c p =
     bindS (on_approvals (approval_list_pending p)) (\<lambda>pending_approvals.
     bindS (on_world (w_states (workflows_list_for_tenant p))) (\<lambda>states.
     bindS (on_world (on_uow (on_events (events_list_for_tenant p)))) (\<lambda>events.
     bindS (on_world (on_uow (on_outbox (outbox_list_for_tenant p)))) (\<lambda>outbox_messages.
       replied c ag_completed ck_status (reply_status (cs_catalog c) (int (length pending_approvals)) (int (length states))
         (int (length events)) (int (length outbox_messages)))))))"

definition command_agenda :: "cenv \<Rightarrow> principal \<Rightarrow> (cworld, command_result) op" where
  "command_agenda c p =
     bindS (on_world (on_uow (on_calendar (list_events p)))) (\<lambda>listed.
     let events = sort_key ce_starts_at listed in
     if events = [] then replied c ag_completed ck_agenda (reply_text (cs_catalog c) ''agenda_empty'')
     else replied c ag_completed ck_agenda
       (reply_agenda (cs_catalog c) (map (\<lambda>e. (ce_starts_at e, ce_title e, ce_event_id e)) (take 10 events))))"

definition command_pending :: "cenv \<Rightarrow> principal \<Rightarrow> (cworld, command_result) op" where
  "command_pending c p =
     bindS (on_approvals (approval_list_pending p)) (\<lambda>pending_approvals.
     if pending_approvals = [] then replied c ag_completed ck_pending_approvals (reply_text (cs_catalog c) ''pending_empty'')
     else replied c ag_escalated ck_pending_approvals
       (reply_pending_approvals (cs_catalog c)
         (map (\<lambda>a. (pa_approval_id a, pa_action a, pa_request_text a)) pending_approvals)))"

section \<open>Creating a reminder\<close>

definition reminder_input ::
    "normalized_message \<Rightarrow> string \<Rightarrow> py_datetime \<Rightarrow> string \<Rightarrow> string \<Rightarrow> workflow_input result" where
  "reminder_input m text now timezone key =
     ReminderWorkflowInput_make
       \<lparr>wi_message_id = nm_message_id m, wi_source_event_id = nm_source_event_id m, wi_conversation_id = nm_conversation_id m,
        wi_text = text, wi_channel = nm_channel m, wi_recipient = nm_conversation_id m, wi_now = 0, wi_timezone = timezone,
        wi_idempotency_key = Some key, wi_approval = None\<rparr> now"

definition pending_reminder ::
    "cenv \<Rightarrow> principal \<Rightarrow> normalized_message \<Rightarrow> string \<Rightarrow> py_datetime \<Rightarrow> string \<Rightarrow> workflow_result \<Rightarrow> instant
       \<Rightarrow> pending_approval result" where
  "pending_reminder c p m text now key r created_at =
     PendingApproval_make (we_tz (cs_workflow c))
       \<lparr>pa_approval_id = approval_id_of (we_sha (cs_workflow c)) (pr_tenant_id p) (pr_principal_id p) key,
        pa_tenant_id = pr_tenant_id p, pa_principal_id = pr_principal_id p, pa_action = ''calendar.create_event'',
        pa_resource = key @ '':calendar'', pa_tier = tier_value P3, pa_workflow_kind = ''reminder.create'',
        pa_message_id = nm_message_id m, pa_source_event_id = wr_source_event_id r, pa_conversation_id = nm_conversation_id m,
        pa_channel = nm_channel m, pa_recipient = nm_conversation_id m, pa_request_text = text, pa_request_now = 0,
        pa_timezone = wr_timezone r, pa_idempotency_key = wr_idempotency_key r,
        pa_payload_fingerprint = wr_payload_fingerprint r, pa_status = pa_pending, pa_created_at = created_at,
        pa_updated_at = None\<rparr> now"

definition create_reminder ::
    "cenv \<Rightarrow> principal \<Rightarrow> normalized_message \<Rightarrow> string \<Rightarrow> py_datetime \<Rightarrow> string \<Rightarrow> (cworld, command_result) op" where
  "create_reminder c p m text now timezone =
     (if py_strip text = []
      then replied c ag_needs_clarification ck_reminder_create (reply_text (cs_catalog c) ''reminder_missing_text'')
      else
        bindS (lift (reminder_idempotency_key (we_sha (cs_workflow c)) (pr_tenant_id p) (nm_channel m) (pr_principal_id p)
                 (nm_conversation_id m) (nm_source_event_id m))) (\<lambda>key.
        bindS (lift (reminder_input m text now timezone key)) (\<lambda>request.
        bindS (on_world (run_workflow (cs_workflow c) p request)) (\<lambda>result.
        if wr_approval_required result
        then
          bindS (c_draw c) (\<lambda>d.
          bindS (lift (pending_reminder c p m text now key result (snd d))) (\<lambda>candidate.
          bindS (on_approvals (approval_create (cs_fields_fp c) p candidate)) (\<lambda>approval.
            lift (bindR (approval_command_hint (cs_catalog c) (pa_approval_id approval)) (\<lambda>hint.
              CommandResult_make ag_escalated ck_reminder_create (wr_reply result @ [CHR 0x0A] @ hint)
                (Some (pa_approval_id approval))
                (reminder_result_metadata result @ [(''approval_required'', MBool True)]))))))
        else
          lift (CommandResult_make (wr_status result) ck_reminder_create (wr_reply result) None
                 (reminder_result_metadata result))))))"

section \<open>Decisions\<close>

definition approved_input :: "pending_approval \<Rightarrow> approval_grant \<Rightarrow> workflow_input result" where
  "approved_input a grant =
     ReminderWorkflowInput_make
       \<lparr>wi_message_id = pa_message_id a, wi_source_event_id = pa_source_event_id a, wi_conversation_id = pa_conversation_id a,
        wi_text = pa_request_text a, wi_channel = pa_channel a, wi_recipient = pa_recipient a, wi_now = 0,
        wi_timezone = pa_timezone a, wi_idempotency_key = Some (pa_idempotency_key a), wi_approval = Some grant\<rparr>
       (Aware (pa_request_now a))"

text \<open>\<^verbatim>\<open>try: m except AssistantError: None\<close>.\<close>

definition try_assistant :: "(cworld, 'a) op \<Rightarrow> (cworld, 'a option) op" where
  "try_assistant m =
     catchS (bindS m (\<lambda>x. ret (Some x))) (\<lambda>e. case e of AssistantError _ _ _ _ \<Rightarrow> ret None | _ \<Rightarrow> raise e)"

definition command_approve :: "cenv \<Rightarrow> principal \<Rightarrow> string \<Rightarrow> (cworld, command_result) op" where
  "command_approve c p text =
     (case py_split1 text of
        [_, rest] \<Rightarrow>
          bindS (on_approvals (approval_get p (py_strip rest))) (\<lambda>found.
          case found of
            None \<Rightarrow> replied c ag_failed ck_approve (reply_text (cs_catalog c) ''approval_not_found'')
          | Some approval \<Rightarrow>
              if pa_workflow_kind approval \<noteq> ''reminder.create''
              then replied c ag_failed ck_approve (reply_text (cs_catalog c) ''approval_type_unsupported'')
              else
                bindS (c_draw c) (\<lambda>d.
                bindS (try_assistant (on_approvals (approval_approve (cs_fields_fp c) (snd d) p (pa_approval_id approval)))) (\<lambda>grant.
                case grant of
                  None \<Rightarrow> replied c ag_failed ck_approve (reply_text (cs_catalog c) ''approval_failed'')
                | Some g \<Rightarrow>
                    bindS (lift (approved_input approval g)) (\<lambda>request.
                    bindS (on_world (run_workflow (cs_workflow c) p request)) (\<lambda>result.
                      lift (CommandResult_make (wr_status result) ck_approve (wr_reply result) None
                             (reminder_result_metadata result)))))))
      | _ \<Rightarrow> replied c ag_needs_clarification ck_approve (reply_text (cs_catalog c) ''approve_missing_id''))"

definition command_cancel :: "cenv \<Rightarrow> principal \<Rightarrow> string \<Rightarrow> (cworld, command_result) op" where
  "command_cancel c p text =
     (case py_split1 text of
        [_, rest] \<Rightarrow>
          bindS (c_draw c) (\<lambda>d.
          bindS (try_assistant (on_approvals (approval_reject (snd d) p (py_strip rest)))) (\<lambda>rejected.
          case rejected of
            None \<Rightarrow> replied c ag_failed ck_cancel (reply_text (cs_catalog c) ''approval_cancel_failed'')
          | Some _ \<Rightarrow> replied c ag_completed ck_cancel (reply_text (cs_catalog c) ''approval_cancelled'')))
      | _ \<Rightarrow> replied c ag_needs_clarification ck_cancel (reply_text (cs_catalog c) ''cancel_missing_id''))"

section \<open>Free text\<close>

definition c_record_trace ::
    "cenv \<Rightarrow> string \<Rightarrow> trace_event_type \<Rightarrow> principal \<Rightarrow> (trace_event \<Rightarrow> trace_event) \<Rightarrow> (cworld, unit) op" where
  "c_record_trace c run_id ety p upd =
     bindS (on_world (make_trace (cs_workflow c) run_id ety (pr_tenant_id p) upd)) (\<lambda>e.
     if cs_traces c then on_world (write_trace (cs_workflow c) e) else ret ())"

definition allowed_free_text_intents :: "command_kind list" where
  "allowed_free_text_intents = [ck_reminder_create, ck_agenda, ck_pending_approvals, ck_status, ck_help, ck_unsupported]"

definition render_intent_prompt :: "cenv \<Rightarrow> string \<Rightarrow> py_datetime \<Rightarrow> string \<Rightarrow> rendered_prompt result" where
  "render_intent_prompt c text now timezone =
     cs_render c ''conversation_intent''
       [(''allowed_intents'', PList (map (\<lambda>k. PStr (command_kind_value k)) allowed_free_text_intents)),
        (''now'', PStr (cs_isoformat c now)), (''timezone'', PStr timezone),
        (''text'', PStr (we_repr (cs_workflow c) text))]"

definition intent_run_id :: "normalized_message \<Rightarrow> string" where
  "intent_run_id m = ''command:'' @ nm_channel m @ '':'' @ nm_conversation_id m @ '':'' @ nm_message_id m @ '':intent''"

definition ask_intent ::
    "cenv \<Rightarrow> (nat \<Rightarrow> string \<Rightarrow> llm_result result) \<Rightarrow> rendered_prompt \<Rightarrow> (cworld, llm_result \<times> inferred_intent) op" where
  "ask_intent c llm prompt =
     bindS (on_world (call_llm llm (pt_text prompt))) (\<lambda>r.
     bindS (lift (InferredCommandIntent_validate (we_co (cs_workflow c)) (lr_data r))) (\<lambda>i. ret (r, i)))"

definition infer_intent ::
    "cenv \<Rightarrow> principal \<Rightarrow> normalized_message \<Rightarrow> string \<Rightarrow> py_datetime \<Rightarrow> string \<Rightarrow> (cworld, inferred_intent option) op" where
  "infer_intent c p m text now timezone =
     (case cs_llm c of
        None \<Rightarrow> ret None
      | Some llm \<Rightarrow>
         (let input = (\<lambda>prompt. PMap ([(''text'', PStr (take 500 text)), (''source'', PStr (nm_channel m))]
                         @ prompt_trace_summary prompt));
              rendered = render_intent_prompt c text now timezone;
              prompt = (case rendered of Inl _ \<Rightarrow> None | Inr t \<Rightarrow> Some t) in
          bindS (catchS (bindS (lift rendered) (\<lambda>t. bindS (ask_intent c llm t) (\<lambda>a. ret (Inr a)))) (\<lambda>exc. ret (Inl exc))) (\<lambda>answer.
          case answer of
            Inl exc \<Rightarrow>
              bindS (c_record_trace c (intent_run_id m) agent_failed p (\<lambda>e.
                       e\<lparr>te_input_summary := input prompt,
                         te_error := PMap [(''type'', PStr (fst (we_exception (cs_workflow c) exc))),
                                           (''message'', PStr (take 500 (snd (we_exception (cs_workflow c) exc))))]\<rparr>))
                (\<lambda>_. ret None)
          | Inr (r, inferred) \<Rightarrow>
              (let accepted = ii_confidence inferred \<ge> LLM_INTENT_CONFIDENCE_THRESHOLD in
               bindS (c_record_trace c (intent_run_id m) llm_called p (\<lambda>e.
                        e\<lparr>te_input_summary := input prompt, te_model := Some (lr_model r),
                          te_output_summary := PMap ([(''kind'', PStr (command_kind_value (ii_kind inferred))),
                             (''confidence'', PFloat (ii_confidence inferred)),
                             (''reminder_text'', case ii_reminder_text inferred of None \<Rightarrow> PNone | Some t \<Rightarrow> PStr t),
                             (''accepted'', PBool accepted), (''threshold'', PFloat LLM_INTENT_CONFIDENCE_THRESHOLD)]
                             @ llm_usage_metrics ((cs_workflow c)\<lparr>we_context_window := cs_context_window c\<rparr>) r)\<rparr>))
                 (\<lambda>_. ret (if accepted then Some inferred else None))))))"

definition handle_inferred_intent ::
    "cenv \<Rightarrow> principal \<Rightarrow> normalized_message \<Rightarrow> inferred_intent \<Rightarrow> py_datetime \<Rightarrow> string \<Rightarrow> (cworld, command_result) op" where
  "handle_inferred_intent c p m inferred now timezone =
     (if ii_kind inferred = ck_reminder_create \<and> truthy_str (ii_reminder_text inferred)
      then create_reminder c p m (workflow_text_from_inferred_reminder (nm_text m) (the (ii_reminder_text inferred))) now timezone
      else if ii_kind inferred = ck_help then replied c ag_completed ck_help (reply_help (cs_catalog c))
      else if ii_kind inferred = ck_status then command_status c p
      else if ii_kind inferred = ck_agenda then command_agenda c p
      else if ii_kind inferred = ck_pending_approvals then command_pending c p
      else replied c ag_declined ck_unsupported (reply_text (cs_catalog c) ''unsupported''))"

section \<open>Routing\<close>

text \<open>The router, in the order of the code: commands first, then the language model, then the keyword rule.\<close>

definition command_handle ::
    "cenv \<Rightarrow> principal \<Rightarrow> normalized_message \<Rightarrow> py_datetime \<Rightarrow> string \<Rightarrow> (cworld, command_result) op" where
  "command_handle c p m now timezone =
     (let text = py_strip (nm_text m); lowered = py_lower text; command = nm_command m in
      if command = Some ''start'' \<or> lowered = ''/start''
      then replied c ag_completed ck_start (reply_text (cs_catalog c) ''start'')
      else if command = Some ''help'' \<or> lowered = ''/help'' then replied c ag_completed ck_help (reply_help (cs_catalog c))
      else if command = Some ''status'' \<or> lowered = ''/status'' then command_status c p
      else if command = Some ''agenda'' \<or> lowered = ''/agenda'' then command_agenda c p
      else if command = Some ''pendientes'' \<or> lowered = ''/pendientes'' then command_pending c p
      else if command = Some ''aprobar'' \<or> starts_with ''/aprobar'' lowered then command_approve c p text
      else if command = Some ''cancelar'' \<or> starts_with ''/cancelar'' lowered then command_cancel c p text
      else if command = Some ''recordar'' then create_reminder c p m (py_strip (nm_command_args m)) now timezone
      else
        bindS (if starts_with ''/'' lowered then ret None else infer_intent c p m text now timezone) (\<lambda>inferred.
        case inferred of
          Some i \<Rightarrow> handle_inferred_intent c p m i now timezone
        | None \<Rightarrow>
            if looks_like_reminder text then create_reminder c p m (extract_reminder_text text) now timezone
            else replied c ag_declined ck_unsupported (reply_text (cs_catalog c) ''unsupported'')))"

end
