(* ===== verification/Trace_Liveness.thy ===== *)
theory Trace_Liveness
  imports Tracing
begin

text \<open>
  Tracing does not stop its callers: an event that names its agent and its tenant and whose
  required field holds a key that the privacy boundary keeps is accepted by the constructor and
  stored by the recorder.
\<close>

lemma safe_identifier_nonempty:
  assumes "py_strip v \<noteq> []"
  shows "py_strip (safe_identifier sha v) \<noteq> []" "safe_identifier sha v \<noteq> []"
proof -
  have "py_strip (digest_of sha t) \<noteq> []" for t
    by (simp add: digest_of_def py_strip_def py_isspace_def dropWhile_eq_Nil_conv)
  then show "py_strip (safe_identifier sha v) \<noteq> []" using assms by (simp add: safe_identifier_def Let_def)
  then show "safe_identifier sha v \<noteq> []" by auto
qed

text \<open>Keys that the privacy boundary keeps, whatever their value is.\<close>

definition kept_key :: "string \<Rightarrow> bool" where
  "kept_key k \<longleftrightarrow> (let key = py_strip k; canonical = canonical_key key in
     key \<noteq> [] \<and> length key \<le> MAX_KEY_LENGTH \<and> re_fullmatch SAFE_KEY_RE key
     \<and> (canonical \<in> set IDENTIFIER_KEYS \<or> canonical \<in> set CATEGORY_KEYS))"

lemma update_nonempty [simp]: "AList.update k v xs \<noteq> []"
  by (cases xs) auto

lemma store_redacted_nonempty: "store_redacted sha key v out \<noteq> []"
  by (auto simp: store_redacted_def split: pyval.splits)

lemma sanitize_item_grows: "out \<noteq> [] \<Longrightarrow> sanitize_item sha rp cont sub item out \<noteq> []"
  by (cases item; cases "fst item") (auto simp: sanitize_item_def Let_def store_redacted_nonempty split: option.splits pyval.splits)

lemma sanitize_item_kept: "kept_key k \<Longrightarrow> sanitize_item sha rp cont sub (PStr k, v) out \<noteq> []"
  by (simp add: sanitize_item_def kept_key_def Let_def store_redacted_nonempty split: option.split) blast

lemma fold_grows: "out \<noteq> [] \<Longrightarrow> fold (sanitize_item sha rp cont sub) items out \<noteq> []"
  by (induction items arbitrary: out) (simp_all del: split_paired_All add: sanitize_item_grows)

lemma redaction_nonempty:
  assumes "kept_key k"
  shows "\<not> empty_map (redact_trace_mapping sha rp (PMap ((k, v) # rest)))"
proof -
  have "take MAX_ITEMS ((PStr k, v) # xs) = (PStr k, v) # take 99 xs" for xs :: "(pyval \<times> pyval) list"
    by (simp add: MAX_ITEMS_def take_Cons')
  then show ?thesis
    using fold_grows [OF sanitize_item_kept [OF assms]]
    by (auto simp: redact_trace_mapping_def PMap_def empty_map_def Let_def)
qed

lemma trace_keys: "kept_key ''message_id''" "kept_key ''status''" "kept_key ''name''" "kept_key ''reminder_id''" "kept_key ''channel''"
  by code_simp+

lemma context_refs_kept: "safe_context_refs [''agent_contract'', ''current_message'', ''principal''] \<noteq> []"
  by code_simp

lemma TraceEvent_make_ok:
  "py_strip (te_agent_id e) \<noteq> [] \<Longrightarrow> py_strip (te_tenant_id e) \<noteq> [] \<Longrightarrow> TraceEvent_make sha rp e = Inr (trace_fields sha rp e)"
  using safe_identifier_nonempty(2) by (simp add: TraceEvent_make_def trace_fields_def Let_def)

lemma trace_write_kept:
  assumes "py_strip (te_agent_id e) \<noteq> []" "py_strip (te_tenant_id e) \<noteq> []" "missing_field (trace_fields sha rp e) = None"
  shows "trace_write sha rp (trace_fields sha rp e) l =
    (Inr (), l @ [trace_fields sha rp (trace_fields sha rp (trace_fields sha rp e))])"
proof -
  have id: "py_strip (te_agent_id (trace_fields sha rp x)) \<noteq> []" "py_strip (te_tenant_id (trace_fields sha rp x)) \<noteq> []"
    if "py_strip (te_agent_id x) \<noteq> []" "py_strip (te_tenant_id x) \<noteq> []" for x
    using that safe_identifier_nonempty(1) by (simp_all add: trace_fields_def)
  note id1 = id [OF assms(1,2)]
  have "for_persistence sha rp (trace_fields sha rp e) = Inr (trace_fields sha rp (trace_fields sha rp (trace_fields sha rp e)))"
    unfolding for_persistence_def by (rule TraceEvent_make_ok) (use id [OF id1] in simp_all)
  then show ?thesis using assms(3) by (simp add: trace_write_def require_trace_completeness_def)
qed

end
