(* ===== verification/Workflow_Liveness.thy ===== *)
theory Workflow_Liveness
  imports Reminder_Workflow_Properties Trace_Liveness
begin

text \<open>
  The workflow reaches its next state. The traces that a run writes are always complete, so
  tracing never stops a run; a new, readable and safe request of a trusted principal then ends
  waiting for approval, with the draft of the parsed reminder stored.
\<close>

section \<open>Traces are always written\<close>

lemma agent_names: "py_strip ''personal_assistant'' \<noteq> []" "py_strip ''reminder_workflow'' \<noteq> []"
  by (simp_all add: py_strip_def py_isspace_def dropWhile_eq_Nil_conv)

text \<open>A trace event that names its tenant and has the field its type requires is recorded.\<close>

lemma record_trace_ok:
  assumes t: "py_strip tenant \<noteq> []"
    and upd: "\<And>u c. te_agent_id (upd (new_trace u c run ''personal_assistant'' ety tenant)) = ''personal_assistant''"
      "\<And>u c. te_tenant_id (upd (new_trace u c run ''personal_assistant'' ety tenant)) = tenant"
      "\<And>u c. missing_field (trace_fields (we_sha env) (we_rp env) (upd (new_trace u c run ''personal_assistant'' ety tenant))) = None"
  shows "\<exists>e w'. record_trace env run ety tenant upd w = (Inr e, w') \<and> wd_stores w' = wd_stores w \<and> wd_txn w' = wd_txn w"
proof -
  let ?e = "upd (new_trace (we_uuid env (wd_tick w)) (we_clock env (wd_tick w)) run ''personal_assistant'' ety tenant)"
  have ids: "py_strip (te_agent_id ?e) \<noteq> []" "py_strip (te_tenant_id ?e) \<noteq> []" using t agent_names by (simp_all add: upd)
  have "TraceEvent_make (we_sha env) (we_rp env) ?e = Inr (trace_fields (we_sha env) (we_rp env) ?e)"
    by (rule TraceEvent_make_ok [OF ids])
  then obtain w1 where m: "make_trace env run ety tenant upd w = (Inr (trace_fields (we_sha env) (we_rp env) ?e), w1)"
    by (simp add: make_trace_def bindS_def draw_def)
  obtain w2 where "write_trace env (trace_fields (we_sha env) (we_rp env) ?e) w1 = (Inr (), w2)"
    using trace_write_kept [OF ids upd(3)] by (simp add: write_trace_def on_traces_def on_field_def)
  with m have "record_trace env run ety tenant upd w = (Inr (trace_fields (we_sha env) (we_rp env) ?e), w2)"
    by (simp add: record_trace_def bindS_def)
  then show ?thesis using quiet_result [OF quiet_trace(3)] by blast
qed

lemma emit_scan_ok:
  assumes t: "py_strip (pr_tenant_id p) \<noteq> []"
  shows "\<exists>e w'. emit_scan env r p run w = (Inr e, w') \<and> wd_stores w' = wd_stores w \<and> wd_txn w' = wd_txn w"
proof -
  have "derive_guardrail_action r \<in> set GUARDRAIL_ACTIONS" by (simp add: derive_guardrail_action_def GUARDRAIL_ACTIONS_def)
  then obtain v rest where v: "build_guardrail_validation r (derive_guardrail_action r) = Inr (PMap ((''status'', v) # rest))"
    by (simp add: build_guardrail_validation_def Let_def)
  let ?e = "(new_trace (we_uuid env (wd_tick w)) (we_clock env (wd_tick w)) run ''reminder_workflow'' guardrail_checked (pr_tenant_id p))
      \<lparr>te_validation := PMap ((''status'', v) # rest)\<rparr>"
  let ?f = "trace_fields (we_sha env) (we_rp env)"
  have ids: "py_strip (te_agent_id ?e) \<noteq> []" "py_strip (te_tenant_id ?e) \<noteq> []" using t agent_names by (simp_all add: new_trace_def)
  have m: "missing_field (?f ?e) = None"
    using redaction_nonempty [OF trace_keys(2)] by (simp add: trace_fields_def new_trace_def)
  obtain l' where "emit_guardrail_scan (we_sha env) (we_rp env) (we_uuid env (wd_tick w)) (we_clock env (wd_tick w)) r
      ''reminder_workflow'' (pr_tenant_id p) run (wd_traces w) = (Inr (?f ?e), l')"
    using TraceEvent_make_ok [OF ids] trace_write_kept [OF ids m] m
    by (simp add: emit_guardrail_scan_def emit_guardrail_checked_def v bindS_def require_trace_completeness_def)
  then show ?thesis
    by (simp add: emit_scan_def bindS_def draw_def on_traces_def on_field_def)
qed

lemma guarded_ok:
  assumes t: "py_strip (pr_tenant_id p) \<noteq> []" and reply: "reply = Inr text" and scan: "scan_output text = Inr s" "\<not> blocked s"
  shows "\<exists>w'. guarded env p run reply w = (Inr text, w') \<and> wd_stores w' = wd_stores w \<and> wd_txn w' = wd_txn w"
proof -
  obtain e w' where "emit_scan env s p run w = (Inr e, w')" "wd_stores w' = wd_stores w \<and> wd_txn w' = wd_txn w"
    using emit_scan_ok [OF t] by blast
  then show ?thesis using scan by (simp add: guarded_def guarded_reply_def bindS_def reply enforce_output_scan_def)
qed

section \<open>A new request waits for approval\<close>

lemma admit_ok:
  assumes t: "py_strip (pr_tenant_id p) \<noteq> []" and ap: "wi_approval request = None"
    and scan: "scan_prompt (wi_text request) = Inr s" "\<not> blocked s"
    and key: "wi_idempotency_key request = None \<or> wi_idempotency_key request = Some (rn_key n)"
  shows "\<exists>e w'. admit_request env p request n w = (Inr e, w') \<and> wd_stores w' = wd_stores w"
proof -
  obtain e w' where e: "emit_scan env s p (rn_key n) w = (Inr e, w')" "wd_stores w' = wd_stores w"
    using emit_scan_ok [OF t] by blast
  then show ?thesis using scan key ap by (auto simp: admit_request_def bindS_def enforce_prompt_scan_def)
qed

text \<open>Registering a key that is free writes the new state.\<close>

lemma register_new:
  assumes p: "is_trusted p" and st: "ws_tenant_id st = pr_tenant_id p" "ws_payload_fingerprint st \<noteq> None"
    and free: "map_of (wk_states_by_key (st_states (wd_stores w))) (pr_tenant_id p, ws_idempotency_key st) = None"
      "map_of (wk_key_by_workflow_id (st_states (wd_stores w))) (pr_tenant_id p, ws_workflow_id st) = None"
  shows "\<exists>w'. register env p st resume w = (Inr \<lparr>reg_state = st, reg_replayed = False, reg_resumed = False\<rparr>, w')
    \<and> wd_stores w' = (wd_stores w)\<lparr>st_states := put_state p st (st_states (wd_stores w))\<rparr>"
  using assms
  by (simp add: register_def bindS_def draw_def w_states_def on_uow_def on_states_def on_field_def register_or_replay_def
      require_trusted_principal_cases require_matching_tenant_def)

lemma upsert_registered:
  assumes p: "is_trusted p" and x: "ws_tenant_id x = pr_tenant_id p" "ws_workflow_id x = ws_workflow_id st" "ws_workflow_type x = ws_workflow_type st"
      "ws_idempotency_key x = ws_idempotency_key st" "ws_payload_fingerprint x = ws_payload_fingerprint st" "ws_status st = wf_running"
    and w: "st_states (wd_stores w) = put_state p st s"
  shows "\<exists>w'. upsert env p x w = (Inr x, w') \<and> wd_stores w' = (wd_stores w)\<lparr>st_states := put_state p x (put_state p st s)\<rparr>"
proof -
  have "workflow_upsert (we_fp_state env) p x (put_state p st s) = (Inr x, put_state p x (put_state p st s))"
    using p x by (simp add: workflow_upsert_def require_trusted_principal_cases require_matching_tenant_def put_state_def map_of_update
        raise_if_payload_conflicts_def Let_def)
  then show ?thesis by (simp add: upsert_def w_states_def on_uow_def on_states_def on_field_def w)
qed

lemma approval_trace_ok:
  assumes t: "py_strip (pr_tenant_id p) \<noteq> []"
  shows "\<exists>a v. record_trace env run approval_requested (pr_tenant_id p) (\<lambda>t. t\<lparr>te_tool_call := PMap [(''name'', PStr ''calendar.create_event''),
      (''tier'', PStr (tier_value P3))], te_parent_event_id := Some tid\<rparr>) w = (Inr a, v) \<and> wd_stores v = wd_stores w"
proof -
  have "\<exists>a v. record_trace env run approval_requested (pr_tenant_id p) (\<lambda>t. t\<lparr>te_tool_call := PMap [(''name'', PStr ''calendar.create_event''),
      (''tier'', PStr (tier_value P3))], te_parent_event_id := Some tid\<rparr>) w = (Inr a, v) \<and> wd_stores v = wd_stores w \<and> wd_txn v = wd_txn w"
    by (rule record_trace_ok [OF t])
      (use redaction_nonempty [OF trace_keys(3)] in \<open>simp_all add: new_trace_def trace_fields_def\<close>)
  then show ?thesis by blast
qed

lemma waiting_result_ok:
  assumes "rn_source_event_id n \<noteq> []" "is_hex64 (rn_payload_fingerprint n)" "rn_timezone n \<noteq> []" "we_tz env (rn_timezone n) = Some z"
  shows "ReminderWorkflowResult_make (we_tz env) ((base_result n ag_escalated intent_create text ids)\<lparr>wr_approval_required := True\<rparr>)
    = Inr (((base_result n ag_escalated intent_create text ids)\<lparr>wr_approval_required := True\<rparr>)\<lparr>wr_timezone := zn_key z\<rparr>)"
  using assms by (simp add: ReminderWorkflowResult_make_def require_versioned_clarification_identity_def base_result_def opt_ok_def)

lemma run_before_approval_waits:
  assumes t: "py_strip (pr_tenant_id p) \<noteq> []" and p: "is_trusted p"
    and st: "ws_tenant_id st = pr_tenant_id p" "ws_payload_fingerprint st \<noteq> None" "ws_status st = wf_running"
    and free: "map_of (wk_states_by_key (st_states (wd_stores w))) (pr_tenant_id p, ws_idempotency_key st) = None"
      "map_of (wk_key_by_workflow_id (st_states (wd_stores w))) (pr_tenant_id p, ws_workflow_id st) = None"
    and parse: "extract_reminder (we_tz env) (wi_text request) (Aware (wi_now request)) (wi_timezone request) = Inr (ParsedReminder e)"
    and zones: "zone_keys (we_tz env)" "we_tz env (rn_timezone n) = Some z"
    and ids: "rn_source_event_id n \<noteq> []" "is_hex64 (rn_payload_fingerprint n)" "rn_timezone n \<noteq> []"
    and reply: "reminder_needs_approval (we_catalog env) (rx_title e) = Inr text" "scan_output text = Inr os" "\<not> blocked os"
  shows "\<exists>r w' x. run_before_approval env p request st n tid base w = (Inr r, w') \<and> wr_status r = ag_escalated
    \<and> wr_approval_required r \<and> wr_reply r = text \<and> \<not> wr_reused r
    \<and> map_of (wk_states_by_key (st_states (wd_stores w'))) (pr_tenant_id p, ws_idempotency_key st) = Some x
    \<and> ws_status x = wf_waiting_approval \<and> ws_step x = step_value step_approval_required
    \<and> ws_data x = dict_update (ws_data st) (to_workflow_data e)"
proof -
  obtain w1 where w1: "register env p st None w = (Inr \<lparr>reg_state = st, reg_replayed = False, reg_resumed = False\<rparr>, w1)"
    "wd_stores w1 = (wd_stores w)\<lparr>st_states := put_state p st (st_states (wd_stores w))\<rparr>"
    using register_new [OF p st(1,2) free] by blast
  have reg: "registration_result env \<lparr>reg_state = st, reg_replayed = False, reg_resumed = False\<rparr> p n base v = (Inr None, v)" for v
    by (simp add: registration_result_def)
  have ext: "resolve_extraction env p request (rn_key n) tid v = (Inr (Some e, None, None), v)" for v
    by (simp add: resolve_extraction_def bindS_def parse)
  let ?upd = "\<lambda>t. t\<lparr>te_tool_call := PMap [(''name'', PStr ''calendar.create_event''), (''tier'', PStr (tier_value P3))],
                    te_parent_event_id := Some tid\<rparr>"
  obtain a w2 where w2: "record_trace env (rn_key n) approval_requested (pr_tenant_id p) ?upd w1 = (Inr a, w2)" "wd_stores w2 = wd_stores w1"
    using approval_trace_ok [OF t] by blast
  have draft: "from_extraction (we_tz env) e = Inr e"
    using remake_extraction [OF parsed_extraction_valid [OF zones(1) parse]] by (simp add: from_extraction_def ReminderDraft_make_def)
  define x where "x = workflow_transition (we_clock env (wd_tick w2)) st (Some wf_waiting_approval)
    (Some (step_value step_approval_required)) (Some (to_workflow_data e))"
  obtain w3 where w3: "transition_state env st wf_waiting_approval (step_value step_approval_required) (to_workflow_data e) w2 = (Inr x, w3)"
    "wd_stores w3 = wd_stores w2"
    by (simp add: transition_state_def bindS_def draw_def x_def)
  have x: "ws_tenant_id x = pr_tenant_id p" "ws_workflow_id x = ws_workflow_id st" "ws_workflow_type x = ws_workflow_type st"
    "ws_idempotency_key x = ws_idempotency_key st" "ws_payload_fingerprint x = ws_payload_fingerprint st"
    "ws_status x = wf_waiting_approval" "ws_step x = step_value step_approval_required" "ws_data x = dict_update (ws_data st) (to_workflow_data e)"
    using st(1) by (simp_all add: x_def workflow_transition_def truthy_str_def)
  have "st_states (wd_stores w3) = put_state p st (st_states (wd_stores w))" using w1(2) w2(2) w3(2) by simp
  then obtain w4 where w4: "upsert env p x w3 = (Inr x, w4)"
    "wd_stores w4 = (wd_stores w3)\<lparr>st_states := put_state p x (put_state p st (st_states (wd_stores w)))\<rparr>"
    using upsert_registered [OF p x(1-5) st(3)] by blast
  obtain w5 where w5: "guarded env p (rn_key n) (reminder_needs_approval (we_catalog env) (rx_title e)) w4 = (Inr text, w5)"
    "wd_stores w5 = wd_stores w4"
    using guarded_ok [OF t reply] by blast
  define r where "r = ((base_result n ag_escalated intent_create text (base @ [te_trace_id a]))\<lparr>wr_approval_required := True\<rparr>)
    \<lparr>wr_timezone := zn_key z\<rparr>"
  have mk: "ReminderWorkflowResult_make (we_tz env)
      ((base_result n ag_escalated intent_create text (base @ [te_trace_id a]))\<lparr>wr_approval_required := True\<rparr>) = Inr r"
    using waiting_result_ok [OF ids zones(2), of "text" "base @ [te_trace_id a]"] by (simp add: r_def)
  have "run_before_approval env p request st n tid base w = (Inr r, w5)"
    by (simp add: run_before_approval_def bindS_cases w1(1) reg ext w2(1) [simplified] draft w3(1) [simplified] w4(1) w5(1) mk)
  moreover have "map_of (wk_states_by_key (st_states (wd_stores w5))) (pr_tenant_id p, ws_idempotency_key st) = Some x"
    using w5(2) w4(2) x(4) by (simp add: put_state_def map_of_update)
  ultimately show ?thesis using x by (intro exI [of _ r] exI [of _ w5] exI [of _ x]) (simp add: r_def base_result_def)
qed

lemma request_waits:
  assumes p: "is_trusted p" "py_strip (pr_tenant_id p) \<noteq> []" and ap: "wi_approval request = None"
    and idem: "reminder_idempotency_of p request = Inr idem"
    and key: "wi_idempotency_key request = None \<or> wi_idempotency_key request = Some (idem_key (we_sha env) idem)"
    and scan: "scan_prompt (wi_text request) = Inr s" "\<not> blocked s"
    and free: "map_of (wk_states_by_key (st_states (wd_stores w))) (pr_tenant_id p, idem_key (we_sha env) idem) = None"
      "\<And>i. map_of (wk_key_by_workflow_id (st_states (wd_stores w))) (pr_tenant_id p, ''wf_'' @ we_uuid env i) = None"
    and parse: "extract_reminder (we_tz env) (wi_text request) (Aware (wi_now request)) (wi_timezone request) = Inr (ParsedReminder e)"
    and zones: "zone_keys (we_tz env)" "we_tz env (rp_timezone (idem_payload idem)) \<noteq> None"
    and sha: "\<And>b. is_hex64 (we_sha env b)"
    and reply: "reminder_needs_approval (we_catalog env) (rx_title e) = Inr text" "scan_output text = Inr os" "\<not> blocked os"
  shows "\<exists>r w' x. run_workflow env p request w = (Inr r, w') \<and> wr_status r = ag_escalated \<and> wr_approval_required r
    \<and> wr_reply r = text \<and> \<not> wr_reused r
    \<and> map_of (wk_states_by_key (st_states (wd_stores w'))) (pr_tenant_id p, idem_key (we_sha env) idem) = Some x
    \<and> ws_status x = wf_waiting_approval \<and> ws_step x = step_value step_approval_required
    \<and> (\<exists>data. ws_data x = dict_update data (to_workflow_data e))"
proof -
  let ?n = "ids_of_run env idem"
  have n: "rn_key ?n = idem_key (we_sha env) idem" by (simp add: ids_of_run_def)
  have ids: "rn_source_event_id ?n \<noteq> []" "is_hex64 (rn_payload_fingerprint ?n)" "rn_timezone ?n \<noteq> []"
    using idem sha by (auto simp: ids_of_run_def idem_payload_fingerprint_def reminder_payload_fingerprint_def sha256_text_def
        reminder_idempotency_of_def bindR_eq_Inr ReminderIdempotencyIdentity_make_def ReminderPayload_make_def normalize_text_Inr)
  obtain z where z: "we_tz env (rn_timezone ?n) = Some z" using zones(2) by (auto simp: ids_of_run_def)
  have "wi_idempotency_key request = None \<or> wi_idempotency_key request = Some (rn_key ?n)" using key by (simp add: n)
  from admit_ok [OF p(2) ap scan this] obtain g w0 where
    w0: "admit_request env p request ?n w = (Inr g, w0)" "wd_stores w0 = wd_stores w" by blast
  have started: "\<exists>e w'. record_trace env (rn_key ?n) agent_started (pr_tenant_id p) (\<lambda>t.
      t\<lparr>te_input_summary := PMap ((''message_id'', v) # rest)\<rparr>) w0 = (Inr e, w') \<and> wd_stores w' = wd_stores w0 \<and> wd_txn w' = wd_txn w0" for v rest
    by (rule record_trace_ok [OF p(2)]) (use redaction_nonempty [OF trace_keys(1)] in \<open>simp_all add: new_trace_def trace_fields_def\<close>)
  obtain started w1 where w1: "record_trace env (rn_key ?n) agent_started (pr_tenant_id p) (\<lambda>t.
      t\<lparr>te_input_summary := PMap [(''message_id'', PStr (wi_message_id request)), (''source_event_id'', PStr (rn_source_event_id ?n)),
        (''channel'', PStr (wi_channel request))]\<rparr>) w0 = (Inr started, w1)" "wd_stores w1 = wd_stores w0"
    using started by blast
  have ctx: "\<exists>e w'. record_trace env (rn_key ?n) context_selected (pr_tenant_id p) (\<lambda>t.
      t\<lparr>te_context_refs := [''agent_contract'', ''current_message'', ''principal''], te_input_summary := v, te_parent_event_id := q\<rparr>) w1
        = (Inr e, w') \<and> wd_stores w' = wd_stores w1 \<and> wd_txn w' = wd_txn w1" for v q
    by (rule record_trace_ok [OF p(2)]) (use context_refs_kept in \<open>simp_all add: new_trace_def trace_fields_def\<close>)
  let ?size = "PMap [(''text_length'', PInt (int (length (wi_text request)))), (''estimated_tokens'', PInt (max (int (length (wi_text request)) div 4) 1))]"
  obtain context_trace w2 where w2: "record_trace env (rn_key ?n) context_selected (pr_tenant_id p) (\<lambda>t.
      t\<lparr>te_context_refs := [''agent_contract'', ''current_message'', ''principal''], te_input_summary := ?size,
        te_parent_event_id := Some (te_trace_id g)\<rparr>) w1 = (Inr context_trace, w2)" "wd_stores w2 = wd_stores w1"
    using ctx by blast
  obtain st w3 where w3: "initial_state env p request ?n w2 = (Inr st, w3)" "wd_stores w3 = wd_stores w2"
    "\<exists>i. ws_workflow_id st = ''wf_'' @ we_uuid env i"
    by (simp add: initial_state_def bindS_def draw_def) blast
  have st: "ws_tenant_id st = pr_tenant_id p" "ws_payload_fingerprint st \<noteq> None" "ws_status st = wf_running" "ws_idempotency_key st = rn_key ?n"
    using initial_state_shape [OF w3(1)] by simp_all
  have stores: "wd_stores w3 = wd_stores w" using w0(2) w1(2) w2(2) w3(2) by simp
  have fr: "map_of (wk_states_by_key (st_states (wd_stores w3))) (pr_tenant_id p, ws_idempotency_key st) = None"
    "map_of (wk_key_by_workflow_id (st_states (wd_stores w3))) (pr_tenant_id p, ws_workflow_id st) = None"
    using free w3(3) stores st(4) n by auto
  have "run_workflow env p request w = run_before_approval env p request st ?n (te_trace_id context_trace)
      [te_trace_id started, te_trace_id g, te_trace_id context_trace] w3"
    by (simp add: run_workflow_def Let_def bindS_cases idem w0(1) w1(1) [simplified] w2(1) [simplified] w3(1) ap)
  then show ?thesis
    using run_before_approval_waits [OF p(2,1) st(1-3) fr parse zones(1) z ids reply] st(4) n by metis
qed

text \<open>C12: a new request waits for approval.
  A request without a grant, from a trusted principal, whose text passes the guardrails and is
  parsed as a reminder, under a key that is not yet registered, does not raise: the run
  returns the approval reply, asks for approval, and stores the workflow as waiting for
  approval with the draft of exactly the parsed reminder. No trace, redaction or validation on
  the way can stop it.\<close>

theorem new_request_waits:
  assumes p: "is_trusted p" "py_strip (pr_tenant_id p) \<noteq> []" and ap: "wi_approval request = None"
    and idem: "reminder_idempotency_of p request = Inr idem"
    and key: "wi_idempotency_key request = None \<or> wi_idempotency_key request = Some (idem_key (we_sha env) idem)"
    and scan: "scan_prompt (wi_text request) = Inr s" "\<not> blocked s"
    and free: "map_of (wk_states_by_key (st_states (wd_stores w))) (pr_tenant_id p, idem_key (we_sha env) idem) = None"
      "\<And>i. map_of (wk_key_by_workflow_id (st_states (wd_stores w))) (pr_tenant_id p, ''wf_'' @ we_uuid env i) = None"
    and parse: "extract_reminder (we_tz env) (wi_text request) (Aware (wi_now request)) (wi_timezone request) = Inr (ParsedReminder e)"
    and zones: "zone_keys (we_tz env)" "we_tz env (rp_timezone (idem_payload idem)) \<noteq> None"
    and sha: "\<And>b. is_hex64 (we_sha env b)"
    and reply: "reminder_needs_approval (we_catalog env) (rx_title e) = Inr text" "scan_output text = Inr os" "\<not> blocked os"
  shows "\<exists>r w' x. run_workflow env p request w = (Inr r, w') \<and> wr_status r = ag_escalated \<and> wr_approval_required r
    \<and> wr_reply r = text \<and> \<not> wr_reused r
    \<and> map_of (wk_states_by_key (st_states (wd_stores w'))) (pr_tenant_id p, idem_key (we_sha env) idem) = Some x
    \<and> ws_status x = wf_waiting_approval \<and> ws_step x = step_value step_approval_required
    \<and> (\<exists>data. ws_data x = dict_update data (to_workflow_data e))"
  using request_waits [OF assms] .

section \<open>A concrete request\<close>

definition lv_env :: wenv where
  "lv_env = demo_env\<lparr>we_catalog := [(''reminder_needs_approval'', CatText ''Apruebas {title}?'')]\<rparr>"

definition lv_input :: workflow_input where
  "lv_input = demo_input\<lparr>wi_approval := None\<rparr>"

lemma lv_sha: "is_hex64 (we_sha lv_env b)"
  using demo_hex64 by (simp add: lv_env_def demo_env_def)

lemma lv_zones: "zone_keys (we_tz lv_env)" "we_tz lv_env ''America/Bogota'' \<noteq> None"
  by (simp_all add: lv_env_def demo_env_def zone_keys_def rw_zones_def fixed_zone_def)

lemma lv_idem: "\<exists>idem. reminder_idempotency_of demo_principal lv_input = Inr idem \<and> rp_timezone (idem_payload idem) = ''America/Bogota''"
proof -
  have "case reminder_idempotency_of demo_principal lv_input of Inl e \<Rightarrow> False | Inr i \<Rightarrow> rp_timezone (idem_payload i) = ''America/Bogota''"
    by code_simp
  then show ?thesis by (simp split: sum.splits)
qed

lemma lv_scan: "scan_prompt ''cita manana a las 15'' = Inr []" "scan_output ''Apruebas cita?'' = Inr []"
  "reminder_needs_approval (we_catalog lv_env) ''cita'' = Inr ''Apruebas cita?''"
  by code_simp+

theorem new_request_waits_witness:
  "\<exists>r w' x k. run_workflow lv_env demo_principal lv_input demo_world = (Inr r, w') \<and> wr_approval_required r
    \<and> map_of (wk_states_by_key (st_states (wd_stores w'))) (''t1'', k) = Some x \<and> ws_status x = wf_waiting_approval"
proof -
  obtain idem where idem: "reminder_idempotency_of demo_principal lv_input = Inr idem" "rp_timezone (idem_payload idem) = ''America/Bogota''"
    using lv_idem by blast
  have p: "py_strip (pr_tenant_id demo_principal) \<noteq> []" by (simp add: py_strip_def py_isspace_def)
  have i: "wi_approval lv_input = None" "wi_idempotency_key lv_input = None \<or> wi_idempotency_key lv_input = Some (idem_key (we_sha lv_env) idem)"
    by (simp_all add: lv_input_def demo_input_def)
  have scan: "scan_prompt (wi_text lv_input) = Inr []" "\<not> blocked []" using lv_scan by (simp_all add: lv_input_def demo_input_def blocked_def)
  have parse: "extract_reminder (we_tz lv_env) (wi_text lv_input) (Aware (wi_now lv_input)) (wi_timezone lv_input) = Inr (ParsedReminder rw_extraction)"
    using rw_parsed by (simp add: lv_env_def demo_env_def lv_input_def demo_input_def)
  have reply: "reminder_needs_approval (we_catalog lv_env) (rx_title rw_extraction) = Inr ''Apruebas cita?''"
    using lv_scan by (simp add: rw_extraction_def)
  have free: "map_of (wk_states_by_key (st_states (wd_stores demo_world))) k = None" "map_of (wk_key_by_workflow_id (st_states (wd_stores demo_world))) q = None" for k q
    by (simp_all add: demo_world_def empty_stores_def InMemoryWorkflowStateStore_init_def)
  have tz: "we_tz lv_env (rp_timezone (idem_payload idem)) \<noteq> None" using lv_zones(2) idem(2) by simp
  from new_request_waits [where env = lv_env, OF demo_principal_facts(1) p i(1) idem(1) i(2) scan free(1) free(2) parse lv_zones(1) tz lv_sha
      reply lv_scan(2) scan(2)]
  show ?thesis by auto
qed

end
