(* ===== verification/Command_Properties.thy ===== *)
theory Command_Properties
  imports Commands Workflow_Liveness
begin

text \<open>
  What a message can do. Only the approve command has effects; it books at most the reminder
  of a stored approval of the caller that was not cancelled. And the pending approval that is
  created for a waiting reminder carries exactly the request that was parsed: approving it
  runs the workflow under the same idempotency key and payload fingerprint.
\<close>

section \<open>Lifting to the command state\<close>

lemma on_world_keeps: "keeps P m \<Longrightarrow> keeps (\<lambda>w. P (cw_world w)) (on_world m)"
  unfolding on_world_def by (rule keeps_on_field) auto

lemma on_approvals_keeps [step_intros]: "keeps (\<lambda>w. P (cw_world w)) (on_approvals m)"
  unfolding on_approvals_def by (rule keeps_on_field [where Q = "\<lambda>_. True"]) (auto simp: keeps_def)

text \<open>Operations on the command state that touch only traces, counter and approvals.\<close>

definition c_quiet :: "(cworld, 'a) op \<Rightarrow> bool" where
  "c_quiet m \<longleftrightarrow> (\<forall>P. keeps (\<lambda>w. P (wd_stores (cw_world w))) m)"

lemma c_quietI: "(\<And>P. keeps (\<lambda>w. P (wd_stores (cw_world w))) m) \<Longrightarrow> c_quiet m"
  by (simp add: c_quiet_def)

lemma c_quiet_keeps: "c_quiet m \<Longrightarrow> keeps (\<lambda>w. P (wd_stores (cw_world w))) m"
  by (simp add: c_quiet_def)

lemma c_quiet_result:
  assumes "c_quiet m" and "m w = (r, w')"
  shows "wd_stores (cw_world w') = wd_stores (cw_world w)"
  using keepsD [OF c_quiet_keeps [OF assms(1)], of "\<lambda>s. s = wd_stores (cw_world w)" w] assms(2) by simp

lemma c_quiet_basic [quiet_intros]: "c_quiet (ret x)" "c_quiet (raise e)" "c_quiet (lift r)" "c_quiet (on_approvals a)"
  by (auto intro!: c_quietI step_intros on_approvals_keeps [where P = "\<lambda>v. P (wd_stores v)" for P])

lemma c_quiet_world [quiet_intros]: "quiet m \<Longrightarrow> c_quiet (on_world m)"
  by (rule c_quietI) (rule on_world_keeps [where P = "\<lambda>v. P (wd_stores v)" for P], rule quiet_keeps [of m "\<lambda>s t. P s" for P])

lemma c_quiet_bindS [quiet_intros]: "c_quiet m \<Longrightarrow> (\<And>x. c_quiet (f x)) \<Longrightarrow> c_quiet (bindS m f)"
  unfolding c_quiet_def by (blast intro: keeps_bindS)

lemma c_quiet_catchS [quiet_intros]: "c_quiet m \<Longrightarrow> (\<And>e. c_quiet (h e)) \<Longrightarrow> c_quiet (catchS m h)"
  unfolding c_quiet_def by (blast intro: keeps_catchS)

lemma c_quiet_cases [quiet_intros]:
  "(x = None \<Longrightarrow> c_quiet m) \<Longrightarrow> (\<And>y. x = Some y \<Longrightarrow> c_quiet (f y)) \<Longrightarrow> c_quiet (case x of None \<Rightarrow> m | Some y \<Rightarrow> f y)"
  "(\<And>a. s = Inl a \<Longrightarrow> c_quiet (g a)) \<Longrightarrow> (\<And>b. s = Inr b \<Longrightarrow> c_quiet (h b)) \<Longrightarrow> c_quiet (case s of Inl a \<Rightarrow> g a | Inr b \<Rightarrow> h b)"
  "(\<And>a b. q = (a, b) \<Longrightarrow> c_quiet (k a b)) \<Longrightarrow> c_quiet (case q of (a, b) \<Rightarrow> k a b)"
  "(c \<Longrightarrow> c_quiet u) \<Longrightarrow> (\<not> c \<Longrightarrow> c_quiet v) \<Longrightarrow> c_quiet (if c then u else v)"
  by (simp_all split: option.split sum.split prod.split)

lemma quiet_reads [quiet_intros]:
  "quiet (w_states (workflows_list_for_tenant p))" "quiet (on_uow (on_events (events_list_for_tenant p)))"
  "quiet (on_uow (on_outbox (outbox_list_for_tenant p)))" "quiet (on_uow (on_calendar (list_events p)))"
  by (auto intro!: quietI simp: w_states_def on_uow_def on_states_def on_events_def on_outbox_def on_calendar_def on_field_def
      workflows_list_for_tenant_def events_list_for_tenant_def outbox_list_for_tenant_def list_events_def split: sum.splits)

lemma c_quiet_commands [quiet_intros]: "c_quiet (c_draw c)" "c_quiet (replied c st k reply)" "c_quiet (command_status c p)"
  "c_quiet (command_agenda c p)" "c_quiet (command_pending c p)" "c_quiet (c_record_trace c run_id ety p upd)"
  unfolding c_draw_def replied_def command_status_def command_agenda_def command_pending_def c_record_trace_def Let_def
  by (intro quiet_intros)+

lemma c_quiet_try [quiet_intros]: "c_quiet m \<Longrightarrow> c_quiet (try_assistant m)"
  unfolding try_assistant_def by (intro quiet_intros; simp split: py_error.split; intro conjI allI impI quiet_intros)

lemma c_quiet_cancel [quiet_intros]: "c_quiet (command_cancel c p text)"
  unfolding command_cancel_def by (auto intro!: quiet_intros split: list.split)

lemma c_quiet_infer [quiet_intros]: "c_quiet (infer_intent c p m text now tz)"
  unfolding infer_intent_def ask_intent_def Let_def by (intro quiet_intros)

section \<open>Only an approval has effects\<close>

abbreviation c_effects :: "cworld \<Rightarrow> calendar \<times> scheduler \<times> event_store \<times> outbox" where
  "c_effects w \<equiv> effects (cw_world w)"

lemma c_quiet_effects: "c_quiet m \<Longrightarrow> keeps (\<lambda>w. c_effects w = x) m"
  unfolding effects_def
  by (rule c_quiet_keeps [of m "\<lambda>s. (st_calendar s, st_scheduler s, st_events s, st_outbox s) = x"])

lemma reminder_input_unapproved: "reminder_input m text now tz key = Inr request \<Longrightarrow> wi_approval request = None"
  by (auto simp: reminder_input_def ReminderWorkflowInput_make_def Let_def split: if_splits py_datetime.splits)

lemma create_reminder_effects: "keeps (\<lambda>w. c_effects w = x) (create_reminder c p m text now tz)"
proof -
  have run: "keeps (\<lambda>w. c_effects w = x) (bindS (lift (reminder_input m text now tz key)) (\<lambda>request.
      bindS (on_world (run_workflow (cs_workflow c) p request)) k))"
    if "\<And>r. keeps (\<lambda>w. c_effects w = x) (k r)" for key k
  proof (cases "reminder_input m text now tz key")
    case (Inr request)
    then show ?thesis
      using that on_world_keeps [OF run_without_approval_effects [OF reminder_input_unapproved [OF Inr]]]
      by (simp add: bindS_lift_Inr keeps_bindS)
  qed (simp add: keeps_def bindS_def)
  show ?thesis
    unfolding create_reminder_def
    by (intro step_intros run c_quiet_effects quiet_intros)
qed

lemma inferred_effects: "keeps (\<lambda>w. c_effects w = x) (handle_inferred_intent c p m i now tz)"
  unfolding handle_inferred_intent_def by (intro step_intros create_reminder_effects c_quiet_effects quiet_intros)

text \<open>C10: only the approve command has effects.
  Whatever a message says, whatever the language model infers from it and whatever the state
  is: unless the message is the approve command, handling it leaves calendar, scheduler, event
  log and outbox exactly as they were. In particular free text and model output can ask for an
  approval but never book anything.\<close>

theorem only_approve_has_effects:
  assumes "nm_command m \<noteq> Some ''aprobar''" and "\<not> starts_with ''/aprobar'' (py_lower (py_strip (nm_text m)))"
  shows "effects (cw_world (snd (command_handle c p m now tz w))) = effects (cw_world w)"
proof -
  have "keeps (\<lambda>v. c_effects v = c_effects w) (command_handle c p m now tz)"
    unfolding command_handle_def Let_def using assms
    by (intro step_intros create_reminder_effects inferred_effects c_quiet_effects quiet_intros; simp)
  then show ?thesis by (rule keepsD) simp
qed

section \<open>What an approval books\<close>

lemma grant_of_approval:
  assumes g: "approval_approve fp clock p i s = (Inr g, s')"
    and d: "require_approval now p P3 (Some g) act res None = Inr d"
  shows "\<exists>a. map_of (as_approvals_by_id s) (pr_tenant_id p, i) = Some a \<and> pa_principal_id a = pr_principal_id p
     \<and> pa_status a \<noteq> pa_cancelled \<and> py_strip (pa_action a) = act \<and> py_strip (pa_resource a) = res"
proof -
  obtain a tier where a: "map_of (as_approvals_by_id s) (pr_tenant_id p, i) = Some a" "pa_principal_id a = pr_principal_id p"
      "pa_status a \<noteq> pa_cancelled"
    and g: "ApprovalGrant_issue p (pa_action a) tier (pa_resource a) (pa_approval_id a) None (Some (approval_hash fp a)) = Inr g"
    by (rule approve_Inr [OF g])
  have "ap_action g = py_strip (pa_action a)" "ap_resource g = py_strip (pa_resource a)"
    using g by (auto simp: ApprovalGrant_issue_def split: if_splits)
  moreover have "approval_errors now p P3 g act res None = []"
    using d by (auto simp: require_approval_Inr less_permission_tier_def)
  ultimately show ?thesis using a by (auto simp: approval_errors_Nil)
qed

text \<open>The approvals under which a principal may have the reminder with this key booked.\<close>

definition approval_for :: "principal \<Rightarrow> string \<Rightarrow> approval_store \<Rightarrow> bool" where
  "approval_for p key s \<longleftrightarrow> (\<exists>i a. map_of (as_approvals_by_id s) (pr_tenant_id p, i) = Some a
     \<and> pa_principal_id a = pr_principal_id p \<and> pa_status a \<noteq> pa_cancelled
     \<and> py_strip (pa_action a) = ''calendar.create_event'' \<and> py_strip (pa_resource a) = key @ '':calendar'')"

abbreviation c_books :: "(string \<times> string) set \<Rightarrow> cworld \<Rightarrow> bool" where
  "c_books D w \<equiv> books D (wd_stores (cw_world w))"

lemma c_quiet_books: "c_quiet m \<Longrightarrow> keeps (c_books D) m"
  by (rule c_quiet_keeps [of m "books D"])

lemma run_without_approval_books:
  assumes "wi_approval request = None" and "we_unit_of_work env"
  shows "keeps (w_books D) (run_workflow env p request)"
proof (rule keepsI)
  fix w assume "w_books D w"
  from run_books [OF this assms(2) prod.collapse [symmetric]] obtain D' where
    "booking env p request D D'" "w_books D' (snd (run_workflow env p request w))" by blast
  then show "w_books D (snd (run_workflow env p request w))" using assms(1) by (auto elim: booking.cases)
qed

lemma create_reminder_books:
  assumes "we_unit_of_work (cs_workflow c)"
  shows "keeps (c_books D) (create_reminder c p m text now tz)"
proof -
  have run: "keeps (c_books D) (bindS (lift (reminder_input m text now tz key)) (\<lambda>request.
      bindS (on_world (run_workflow (cs_workflow c) p request)) k))"
    if "\<And>r. keeps (c_books D) (k r)" for key k
  proof (cases "reminder_input m text now tz key")
    case (Inr request)
    then show ?thesis
      using that on_world_keeps [OF run_without_approval_books [OF reminder_input_unapproved [OF Inr] assms]]
      by (simp add: bindS_lift_Inr keeps_bindS)
  qed (simp add: keeps_def bindS_def)
  show ?thesis
    unfolding create_reminder_def by (intro step_intros run c_quiet_books quiet_intros)
qed

lemma inferred_books:
  "we_unit_of_work (cs_workflow c) \<Longrightarrow> keeps (c_books D) (handle_inferred_intent c p m i now tz)"
  unfolding handle_inferred_intent_def by (intro step_intros create_reminder_books c_quiet_books quiet_intros)

text \<open>The two outcomes of a message on the booked reminders.\<close>

definition approved_growth :: "principal \<Rightarrow> approval_store \<Rightarrow> (string \<times> string) set \<Rightarrow> (string \<times> string) set \<Rightarrow> bool" where
  "approved_growth p s D D' \<longleftrightarrow> D' = D \<or> (\<exists>key. approval_for p key s \<and> (pr_tenant_id p, key) \<notin> D
     \<and> D' = insert (pr_tenant_id p, key) D)"

lemma approved_run_books:
  assumes b: "c_books D w" and uow: "we_unit_of_work (cs_workflow c)"
    and g: "approval_approve fp clock p i s = (Inr g, s')" and request: "approved_input a g = Inr request"
    and run: "on_world (run_workflow (cs_workflow c) p request) w = (r, w')"
  shows "\<exists>D'. approved_growth p s D D' \<and> c_books D' w'"
proof -
  obtain v where v: "run_workflow (cs_workflow c) p request (cw_world w) = (r, v)" and w': "w' = w\<lparr>cw_world := v\<rparr>"
    using run by (auto simp: on_world_def on_field_def split: prod.splits)
  have ap: "wi_approval request = Some g"
    using request by (auto simp: approved_input_def ReminderWorkflowInput_make_def Let_def split: if_splits)
  from run_books [OF b uow v] obtain D' where D': "booking (cs_workflow c) p request D D'" "w_books D' v" by blast
  have "approved_growth p s D D'"
    using D'(1)
  proof (cases rule: booking.cases)
    case (booked idem h t d)
    with ap have "approval_for p (idem_key (we_sha (cs_workflow c)) idem) s"
      using grant_of_approval [OF g] unfolding approval_for_def by fastforce
    with booked show ?thesis unfolding approved_growth_def by blast
  qed (simp add: approved_growth_def)
  then show ?thesis using D'(2) w' by auto
qed

text \<open>An approve command changes no store, or it runs the workflow with a grant from the approval store.\<close>

definition approve_with :: "cenv \<Rightarrow> principal \<Rightarrow> pending_approval \<Rightarrow> (cworld, command_result) op" where
  "approve_with c p approval =
     bindS (c_draw c) (\<lambda>d.
     bindS (try_assistant (on_approvals (approval_approve (cs_fields_fp c) (snd d) p (pa_approval_id approval)))) (\<lambda>grant.
     case grant of
       None \<Rightarrow> replied c ag_failed ck_approve (reply_text (cs_catalog c) ''approval_failed'')
     | Some g \<Rightarrow>
         bindS (lift (approved_input approval g)) (\<lambda>request.
         bindS (on_world (run_workflow (cs_workflow c) p request)) (\<lambda>result.
           lift (CommandResult_make (wr_status result) ck_approve (wr_reply result) None (reminder_result_metadata result))))))"

lemma try_approve:
  assumes "try_assistant (on_approvals (approval_approve fp clock p i)) v = (q, w)"
  shows "cw_world w = cw_world v \<and> (\<forall>g. q = Inr (Some g) \<longrightarrow> (\<exists>s'. approval_approve fp clock p i (cw_approvals v) = (Inr g, s')))"
  using assms by (auto simp: try_assistant_def catchS_def bindS_def on_approvals_def on_field_def split: prod.splits sum.splits py_error.splits)

lemma approve_with_books:
  assumes b: "c_books D w" and uow: "we_unit_of_work (cs_workflow c)" and run: "approve_with c p a w = (r, w')"
  shows "\<exists>D'. approved_growth p (cw_approvals w) D D' \<and> c_books D' w'"
proof -
  obtain d w1 where d: "c_draw c w = (Inr d, w1)" "cw_approvals w1 = cw_approvals w"
    by (simp add: c_draw_def on_world_def on_field_def draw_def)
  obtain q w2 where q: "try_assistant (on_approvals (approval_approve (cs_fields_fp c) (snd d) p (pa_approval_id a))) w1 = (q, w2)"
    by force
  note t = try_approve [OF q]
  have stores: "wd_stores (cw_world w2) = wd_stores (cw_world w)" using t c_quiet_result [OF c_quiet_commands(1) d(1)] by simp
  have same: "?thesis" if "wd_stores (cw_world w') = wd_stores (cw_world w)"
    using that b by (auto simp: approved_growth_def)
  note rest = run [unfolded approve_with_def bindS_cases d(1) prod.case sum.case q]
  show ?thesis
  proof (cases q)
    case (Inl e)
    with rest same stores show ?thesis by simp
  next
    case (Inr g)
    show ?thesis
    proof (cases g)
      case None
      with rest Inr have "replied c ag_failed ck_approve (reply_text (cs_catalog c) ''approval_failed'') w2 = (r, w')" by simp
      from c_quiet_result [OF c_quiet_commands(2) this] same stores show ?thesis by simp
    next
      case (Some h)
      show ?thesis
      proof (cases "approved_input a h")
        case (Inl e)
        with rest Inr Some same stores show ?thesis by simp
      next
        case (Inr request)
        obtain v w3 where v: "on_world (run_workflow (cs_workflow c) p request) w2 = (v, w3)" by force
        have "w' = w3" using rest \<open>q = Inr g\<close> Some Inr v by (cases v) auto
        moreover obtain s' where "approval_approve (cs_fields_fp c) (snd d) p (pa_approval_id a) (cw_approvals w) = (Inr h, s')"
          using t \<open>q = Inr g\<close> Some d(2) by auto
        ultimately show ?thesis using approved_run_books [OF _ uow _ Inr v] b stores by metis
      qed
    qed
  qed
qed

lemma approval_read: "on_approvals (approval_get p i) w = (fst (approval_get p i (cw_approvals w)), w)"
  unfolding on_approvals_def on_field_def by (subst approval_get_eq) simp

lemma command_approve_books:
  assumes b: "c_books D w" and uow: "we_unit_of_work (cs_workflow c)" and run: "command_approve c p text w = (r, w')"
  shows "\<exists>D'. approved_growth p (cw_approvals w) D D' \<and> c_books D' w'"
proof -
  have quiet: "?thesis" if "c_quiet m" "m w = (r, w')" for m
    using c_quiet_result [OF that] b by (auto simp: approved_growth_def)
  note replies = quiet [OF c_quiet_commands(2)]
  show ?thesis
  proof (cases "\<exists>x rest. py_split1 text = [x, rest]")
    case True
    then obtain x rest where s: "py_split1 text = [x, rest]" by blast
    obtain q where q: "on_approvals (approval_get p (py_strip rest)) w = (q, w)" using approval_read by metis
    show ?thesis
    proof (cases q)
      case (Inl e)
      with run q b show ?thesis by (auto simp: command_approve_def s bindS_def approved_growth_def)
    next
      case (Inr found)
      show ?thesis
      proof (cases found)
        case None
        with run q Inr show ?thesis by (intro replies) (auto simp: command_approve_def s bindS_def)
      next
        case (Some a)
        with run q Inr have "(if pa_workflow_kind a \<noteq> ''reminder.create''
            then replied c ag_failed ck_approve (reply_text (cs_catalog c) ''approval_type_unsupported'')
            else approve_with c p a) w = (r, w')"
          by (simp add: command_approve_def approve_with_def s bindS_def [of "on_approvals m" for m] split: if_splits)
        then show ?thesis using replies approve_with_books [OF b uow] by (simp split: if_splits)
      qed
    qed
  next
    case False
    then have "replied c ag_needs_clarification ck_approve (reply_text (cs_catalog c) ''approve_missing_id'') w = (r, w')"
      using run by (auto simp: command_approve_def split: list.splits)
    then show ?thesis by (rule replies)
  qed
qed

lemma handle_books:
  assumes "c_books D w" and "we_unit_of_work (cs_workflow c)"
    and run: "command_handle c p m now tz w = (r, w')"
  shows "\<exists>D'. approved_growth p (cw_approvals w) D D' \<and> books D' (wd_stores (cw_world w'))"
proof -
  let ?text = "py_strip (nm_text m)"
  have keep: "?thesis" if "keeps (c_books D) op" "op w = (r, w')" for op
    using keepsD [OF that(1) assms(1)] that(2) by (auto simp: approved_growth_def)
  show ?thesis
  proof (cases "nm_command m = Some ''aprobar'' \<or> starts_with ''/aprobar'' (py_lower ?text)")
    case True
    then show ?thesis
      using run keep [OF c_quiet_books [OF c_quiet_commands(2)]] keep [OF c_quiet_books [OF c_quiet_commands(3)]]
        keep [OF c_quiet_books [OF c_quiet_commands(4)]] keep [OF c_quiet_books [OF c_quiet_commands(5)]]
        command_approve_books [OF assms(1,2), of p ?text r w']
      unfolding command_handle_def Let_def by (simp split: if_splits)
  next
    case False
    then have "keeps (c_books D) (command_handle c p m now tz)"
      unfolding command_handle_def Let_def using assms(2)
      by (intro step_intros create_reminder_books inferred_books c_quiet_books quiet_intros; simp)
    then show ?thesis using run by (rule keep)
  qed
qed

text \<open>C6: a message books at most an approved reminder.
  On stores that represent a set of booked reminders, handling any message, whether it returns
  or raises, leaves stores that represent the same set, or the set grown by one reminder of
  the caller's tenant for which the approval store held an approval of the caller that was not
  cancelled and whose resource is the calendar event of exactly that reminder.\<close>

theorem message_books_only_approved:
  assumes "books D (wd_stores (cw_world w))" and "we_unit_of_work (cs_workflow c)"
    and "command_handle c p m now tz w = (r, w')"
  shows "\<exists>D'. approved_growth p (cw_approvals w) D D' \<and> books D' (wd_stores (cw_world w'))"
  by (rule handle_books [OF assms])

section \<open>What a result says of its run\<close>

definition returns :: "('a \<Rightarrow> bool) \<Rightarrow> ('s, 'a) op \<Rightarrow> bool" where
  "returns P m \<longleftrightarrow> (\<forall>w r w'. m w = (Inr r, w') \<longrightarrow> P r)"

named_theorems returns_intros \<open>what the result of an operation satisfies\<close>

lemma returns_bindS [returns_intros]: "(\<And>x. returns P (f x)) \<Longrightarrow> returns P (bindS m f)"
  by (auto simp: returns_def bindS_eq_Inr)

lemma returns_basic [returns_intros]: "P x \<Longrightarrow> returns P (ret x)" "returns P (raise e)" "(\<And>x. r = Inr x \<Longrightarrow> P x) \<Longrightarrow> returns P (lift r)"
  by (auto simp: returns_def)

lemma returns_cases [returns_intros]:
  "(x = None \<Longrightarrow> returns P m) \<Longrightarrow> (\<And>y. x = Some y \<Longrightarrow> returns P (f y)) \<Longrightarrow> returns P (case x of None \<Rightarrow> m | Some y \<Rightarrow> f y)"
  "(\<And>a b. q = (a, b) \<Longrightarrow> returns P (k a b)) \<Longrightarrow> returns P (case q of (a, b) \<Rightarrow> k a b)"
  "(c \<Longrightarrow> returns P u) \<Longrightarrow> (\<not> c \<Longrightarrow> returns P v) \<Longrightarrow> returns P (if c then u else v)"
  by (simp_all split: option.split prod.split)

definition of_run :: "wenv \<Rightarrow> run_ids \<Rightarrow> workflow_result \<Rightarrow> bool" where
  "of_run env n r \<longleftrightarrow> wr_idempotency_key r = rn_key n \<and> wr_source_event_id r = rn_source_event_id n
     \<and> wr_payload_fingerprint r = rn_payload_fingerprint n \<and> is_hex64 (rn_payload_fingerprint n)
     \<and> (wr_approval_required r \<longrightarrow> map_option zn_key (we_tz env (rn_timezone n)) = Some (wr_timezone r))"

lemma make_result_of_run:
  assumes "ReminderWorkflowResult_make (we_tz env) x = Inr r" and "wr_idempotency_key x = rn_key n"
    and "wr_source_event_id x = rn_source_event_id n" and "wr_payload_fingerprint x = rn_payload_fingerprint n"
    and "wr_timezone x = rn_timezone n" and "wr_approval_required x \<Longrightarrow> wr_clarification_reason x = None"
  shows "of_run env n r"
  using assms by (auto simp: ReminderWorkflowResult_make_def require_versioned_clarification_identity_def bindR_def of_run_def
      split: if_splits option.splits)

lemma returns_make_result [returns_intros]:
  "wr_idempotency_key x = rn_key n \<Longrightarrow> wr_source_event_id x = rn_source_event_id n \<Longrightarrow>
   wr_payload_fingerprint x = rn_payload_fingerprint n \<Longrightarrow> wr_timezone x = rn_timezone n \<Longrightarrow>
   (wr_approval_required x \<Longrightarrow> wr_clarification_reason x = None) \<Longrightarrow> returns (of_run env n) (make_result env x)"
  by (auto simp: returns_def dest: make_result_of_run)

lemma returns_registration: "returns (pred_option (of_run env n)) (registration_result env g p n base)"
proof -
  have fin: "returns (pred_option (of_run env n)) (bindS (make_result env x) (\<lambda>r. ret (Some r)))"
    if "returns (of_run env n) (make_result env x)" for x :: workflow_result
    using that by (auto simp: returns_def bindS_eq_Inr)
  show ?thesis
    unfolding registration_result_def Let_def
    by (cases "ws_status (reg_state g)") (auto intro!: returns_intros fin elim!: make_result_of_run simp: base_result_def clarified_def)
qed

lemma returns_ask_clarification: "returns (of_run env n) (ask_clarification env p n st c ids finish)"
  unfolding ask_clarification_def Let_def
  by (auto intro!: returns_intros elim!: make_result_of_run simp: base_result_def clarified_def)

lemma returns_bind_strong: "returns Q m \<Longrightarrow> (\<And>x. Q x \<Longrightarrow> returns P (f x)) \<Longrightarrow> returns P (bindS m f)"
  unfolding returns_def bindS_eq_Inr by blast

lemma returns_before_approval: "returns (of_run env n) (run_before_approval env p request st n tid base)"
  unfolding run_before_approval_def Let_def
  by (intro returns_bindS [where m = "register env p st None"] returns_bind_strong [OF returns_registration])
    (auto intro!: returns_intros returns_ask_clarification elim!: make_result_of_run simp: base_result_def split: option.splits)

lemma returns_exit_block: "returns P body \<Longrightarrow> returns P (exit_block body)"
  by (auto simp: returns_def exit_block_def split: prod.splits sum.splits)

lemma returns_transaction: "returns P body \<Longrightarrow> returns P (with_reminder_transaction env p body)"
  unfolding with_reminder_transaction_def by (auto intro!: returns_intros returns_exit_block)

lemma returns_approved_block:
  "returns (\<lambda>out. case out of Inl r \<Rightarrow> of_run env n r | Inr _ \<Rightarrow> True) (approved_block env p request st n ids base ext cl lids)"
  unfolding approved_block_def Let_def
  by (intro returns_bindS [where m = "register env p st x" for x] returns_bind_strong [OF returns_registration])
    (auto intro!: returns_intros returns_bind_strong [OF returns_ask_clarification] split: option.splits)

lemma returns_approved: "returns (of_run env n) (run_approved env p request st n ids tid base)"
  unfolding run_approved_def Let_def
  by (intro returns_intros returns_bind_strong [OF returns_transaction [OF returns_approved_block]])
    (auto intro!: returns_intros elim!: make_result_of_run simp: base_result_def split: sum.splits prod.splits)

lemma run_workflow_of_run:
  assumes "run_workflow env p request w = (Inr r, w')" and "reminder_idempotency_of p request = Inr idem"
  shows "of_run env (ids_of_run env idem) r"
proof -
  have "returns (of_run env (ids_of_run env idem)) (run_workflow env p request)"
    unfolding run_workflow_def Let_def bindS_lift_Inr [OF assms(2)]
    by (intro returns_intros returns_before_approval returns_approved)
  with assms(1) show ?thesis unfolding returns_def by blast
qed

section \<open>The approval carries the request\<close>

lemma key_strip:
  assumes "\<And>b. is_hex64 (sha b)"
  shows "py_strip (identity_key sha i) = identity_key sha i" "py_strip (identity_key sha i @ '':calendar'') = identity_key sha i @ '':calendar''"
proof -
  let ?h = "sha256_text sha (canonical_json (identity_document i))"
  have h: "length ?h = 64" "list_all (\<lambda>c. c \<in> set ''0123456789abcdef'') ?h"
    using assms by (simp_all add: is_hex64_def sha256_text_def)
  from h(1) have ne: "?h \<noteq> []" by force
  have "last ?h \<in> set ''0123456789abcdef''" using h(2) last_in_set [OF ne] unfolding list_all_iff by (rule bspec)
  then have last: "\<not> py_isspace (last ?h)" using hex_no_space by blast
  have r: "\<not> py_isspace (CHR ''r'')" by (simp add: py_isspace_def)
  show "py_strip (identity_key sha i) = identity_key sha i"
    using ne last r by (intro py_strip_no_space) (simp add: identity_key_def REMINDER_IDEMPOTENCY_KEY_PREFIX_def)
  show "py_strip (identity_key sha i @ '':calendar'') = identity_key sha i @ '':calendar''"
    using r by (intro py_strip_no_space) (simp add: identity_key_def REMINDER_IDEMPOTENCY_KEY_PREFIX_def)
qed

lemma reminder_input_fields:
  assumes "reminder_input m text now tz key = Inr request"
  shows "wi_text request = py_strip text" "wi_timezone request = py_strip tz" "wi_conversation_id request = py_strip (nm_conversation_id m)"
    "wi_source_event_id request = py_strip (nm_source_event_id m)" "wi_recipient request = py_strip (nm_conversation_id m)"
    "wi_channel request = nm_channel m" "nm_channel m \<in> {''telegram'', ''whatsapp''}"
    "wi_message_id request = py_strip (nm_message_id m)" "now = Aware (wi_now request)" "in_datetime_range (wi_now request)"
  using assms by (auto simp: reminder_input_def ReminderWorkflowInput_make_def Let_def split: if_splits py_datetime.splits)

lemma pending_reminder_fields:
  assumes "pending_reminder c p m text now key r t = Inr a"
  shows "pa_message_id a = py_strip (nm_message_id m)" "pa_source_event_id a = py_strip (wr_source_event_id r)"
    "pa_conversation_id a = py_strip (nm_conversation_id m)" "pa_channel a = py_strip (nm_channel m)"
    "pa_recipient a = py_strip (nm_conversation_id m)" "pa_request_text a = py_strip text" "now = Aware (pa_request_now a)"
    "pa_idempotency_key a = py_strip (wr_idempotency_key r)" "pa_resource a = py_strip (key @ '':calendar'')"
    "map_option zn_key (we_tz (cs_workflow c) (py_strip (wr_timezone r))) = Some (pa_timezone a)"
    "pa_message_id a \<noteq> []" "pa_source_event_id a \<noteq> []" "pa_conversation_id a \<noteq> []" "pa_request_text a \<noteq> []" "pa_recipient a \<noteq> []"
  using assms by (auto simp: pending_reminder_def PendingApproval_make_def strip_approval_def Let_def
      split: if_splits py_datetime.splits option.splits)

lemma idempotency_of_input:
  assumes "wi_channel r' = wi_channel r" and "py_strip (wi_conversation_id r') = py_strip (wi_conversation_id r)"
    and "py_strip (wi_source_event_id r') = py_strip (wi_source_event_id r)" and "py_strip (wi_text r') = py_strip (wi_text r)"
    and "py_strip (wi_recipient r') = py_strip (wi_recipient r)" and "py_strip (wi_timezone r') = py_strip (wi_timezone r)"
  shows "reminder_idempotency_of p r' = reminder_idempotency_of p r"
  using assms by (simp add: reminder_idempotency_of_def ReminderIdempotencyIdentity_make_def ReminderPayload_make_def normalize_text_def)

text \<open>C11: the pending approval carries the request.
  When a run asks for approval, the approval that is stored for it names the calendar event of
  the run's idempotency key, and approving it builds a request with the grant and the text,
  time, zone and key of the first run, whose idempotency key and payload fingerprint are those
  of the first run; so the approved run cannot conflict with the waiting one.\<close>

theorem approval_carries_request:
  assumes tz: "zone_keys (we_tz (cs_workflow c))" and sha: "\<And>b. is_hex64 (we_sha (cs_workflow c) b)"
    and key: "reminder_idempotency_key (we_sha (cs_workflow c)) (pr_tenant_id p) (nm_channel m) (pr_principal_id p)
      (nm_conversation_id m) (nm_source_event_id m) = Inr key"
    and req: "reminder_input m text now timezone key = Inr request"
    and run: "run_workflow (cs_workflow c) p request w = (Inr result, w')" and "wr_approval_required result"
    and pend: "pending_reminder c p m text now key result t = Inr a"
  shows "\<exists>request'. approved_input a g = Inr request' \<and> wi_approval request' = Some g
     \<and> reminder_idempotency_of p request' = reminder_idempotency_of p request \<and> wi_text request' = wi_text request
     \<and> wi_now request' = wi_now request \<and> wi_timezone request' = wi_timezone request
     \<and> wi_idempotency_key request' = Some key \<and> pa_resource a = key @ '':calendar''"
proof -
  let ?env = "cs_workflow c"
  note rf = reminder_input_fields [OF req] and pf = pending_reminder_fields [OF pend]
  obtain idem where idem: "reminder_idempotency_of p request = Inr idem"
    using run by (auto simp: run_workflow_def bindS_def split: sum.splits)
  from key obtain i where i: "ReminderIdempotencyIdentity_make (pr_tenant_id p) (nm_channel m) (pr_principal_id p)
      (nm_conversation_id m) (nm_source_event_id m) = Inr i" and keyi: "key = identity_key (we_sha ?env) i"
    by (auto simp: reminder_idempotency_key_def bindR_eq_Inr)
  have "idem_identity idem = i"
    using idem i rf by (auto simp: reminder_idempotency_of_def bindR_eq_Inr ReminderIdempotencyIdentity_make_def normalize_text_Inr)
  then have k: "idem_key (we_sha ?env) idem = key" by (simp add: idem_key_def keyi)
  have n: "ri_source_event_id (idem_identity idem) = py_strip (nm_source_event_id m)" "rp_timezone (idem_payload idem) = py_strip timezone"
    using idem rf by (auto simp: reminder_idempotency_of_def bindR_eq_Inr ReminderIdempotencyIdentity_make_def
        ReminderPayload_make_def normalize_text_Inr)
  from run_workflow_of_run [OF run idem] \<open>wr_approval_required result\<close> tz
  have r: "wr_idempotency_key result = key" "wr_source_event_id result = py_strip (nm_source_event_id m)" "wr_timezone result = py_strip timezone"
    by (auto simp: of_run_def ids_of_run_def k n zone_keys_def)
  have a: "pa_timezone a = py_strip timezone" "pa_idempotency_key a = key" "pa_resource a = key @ '':calendar''"
    using pf(8,9,10) r tz key_strip [where sha = "we_sha ?env" and i = i, OF sha] by (auto simp: zone_keys_def keyi)
  have ch: "py_strip (nm_channel m) = nm_channel m"
    using rf(7) by (intro py_strip_no_space) (auto simp: py_isspace_def)
  have z: "py_strip timezone \<noteq> []" using req by (auto simp: reminder_input_def ReminderWorkflowInput_make_def Let_def split: if_splits)
  have now: "pa_request_now a = wi_now request" using pf(7) rf(9) by simp
  have key_s: "py_strip key = key" using key_strip(1) [where sha = "we_sha ?env" and i = i, OF sha] keyi by simp
  obtain request' where r': "approved_input a g = Inr request'" "wi_approval request' = Some g" "wi_channel request' = nm_channel m"
    "wi_conversation_id request' = py_strip (nm_conversation_id m)" "wi_source_event_id request' = py_strip (nm_source_event_id m)"
    "wi_text request' = py_strip text" "wi_recipient request' = py_strip (nm_conversation_id m)" "wi_timezone request' = py_strip timezone"
    "wi_now request' = wi_now request" "wi_idempotency_key request' = Some key"
    using pf(1-6,11-15) r a ch z now rf(7,10) key_s by (auto simp: approved_input_def ReminderWorkflowInput_make_def Let_def)
  moreover have "reminder_idempotency_of p request' = reminder_idempotency_of p request"
    by (rule idempotency_of_input) (simp_all add: r' rf)
  ultimately show ?thesis using rf a by auto
qed

section \<open>Concrete messages\<close>

definition cd_env :: cenv where
  "cd_env = \<lparr>cs_workflow = lv_env, cs_fields_fp = (\<lambda>_. ''h''), cs_llm = None, cs_render = (\<lambda>_ _. Inl KeyError), cs_traces = True,
     cs_catalog = [(''unsupported'', CatText ''?'')], cs_context_window = 1000, cs_isoformat = (\<lambda>_. [])\<rparr>"

definition cd_message :: "string \<Rightarrow> normalized_message" where
  "cd_message t = \<lparr>nm_channel = ''telegram'', nm_actor_id = ''a1'', nm_conversation_id = ''c1'', nm_message_id = ''m1'',
     nm_source_event_id = ''e1'', nm_text = t, nm_idempotency_key = None, nm_command = None, nm_command_args = [],
     nm_media_kind = None, nm_media_file_id = None, nm_media_mime_type = None, nm_media_file_size = None, nm_received_at = 0\<rparr>"

definition cd_world :: cworld where
  "cd_world = \<lparr>cw_approvals = InMemoryApprovalStore_init, cw_world = demo_world\<rparr>"

theorem only_approve_has_effects_witness:
  "effects (cw_world (snd (command_handle cd_env demo_principal (cd_message ''agendar cita a las 5'') (Aware 0) ''UTC'' cd_world)))
     = effects demo_world"
proof -
  have "nm_command (cd_message ''agendar cita a las 5'') \<noteq> Some ''aprobar''"
    "\<not> starts_with ''/aprobar'' (py_lower (py_strip (nm_text (cd_message ''agendar cita a las 5''))))"
    by code_simp+
  from only_approve_has_effects [OF this, of cd_env demo_principal "Aware 0" "''UTC''" cd_world] show ?thesis
    by (simp add: cd_world_def)
qed

theorem message_books_only_approved_witness:
  "\<exists>D'. approved_growth demo_principal InMemoryApprovalStore_init {} D'
     \<and> books D' (wd_stores (cw_world (snd (command_handle cd_env demo_principal (cd_message ''/aprobar ap_1'') (Aware 0) ''UTC'' cd_world))))"
proof -
  have "books {} (wd_stores (cw_world cd_world))" "we_unit_of_work (cs_workflow cd_env)"
    by (simp_all add: cd_world_def demo_world_def empty_books cd_env_def lv_env_def demo_env_def)
  from message_books_only_approved [OF this prod.collapse [symmetric]] show ?thesis by (simp add: cd_world_def)
qed

definition cd_text :: string where "cd_text = ''cita manana a las 15''"

definition cd_input :: workflow_input where
  "cd_input = lv_input\<lparr>wi_recipient := ''c1'', wi_idempotency_key := Some demo_key\<rparr>"

lemma cd_steps:
  "reminder_idempotency_key (we_sha (cs_workflow cd_env)) (pr_tenant_id demo_principal) (nm_channel (cd_message cd_text))
     (pr_principal_id demo_principal) (nm_conversation_id (cd_message cd_text)) (nm_source_event_id (cd_message cd_text)) = Inr demo_key"
  "reminder_input (cd_message cd_text) cd_text (Aware 1700000000000000) ''America/Bogota'' demo_key = Inr cd_input"
  by code_simp+

lemma cd_idem: "\<exists>idem. reminder_idempotency_of demo_principal cd_input = Inr idem \<and> rp_timezone (idem_payload idem) = ''America/Bogota''
    \<and> idem_key (we_sha lv_env) idem = demo_key \<and> ri_source_event_id (idem_identity idem) = ''e1''"
proof -
  have "case reminder_idempotency_of demo_principal cd_input of Inl e \<Rightarrow> False | Inr i \<Rightarrow> rp_timezone (idem_payload i) = ''America/Bogota''
    \<and> idem_key (we_sha lv_env) i = demo_key \<and> ri_source_event_id (idem_identity i) = ''e1''"
    by code_simp
  then show ?thesis by (simp split: sum.splits)
qed

lemma cd_run: "\<exists>r w'. run_workflow lv_env demo_principal cd_input demo_world = (Inr r, w') \<and> wr_approval_required r"
proof -
  obtain idem where idem: "reminder_idempotency_of demo_principal cd_input = Inr idem" "rp_timezone (idem_payload idem) = ''America/Bogota''"
    "idem_key (we_sha lv_env) idem = demo_key"
    using cd_idem by blast
  have p: "py_strip (pr_tenant_id demo_principal) \<noteq> []" by (simp add: py_strip_def py_isspace_def)
  have i: "wi_approval cd_input = None" "wi_idempotency_key cd_input = None \<or> wi_idempotency_key cd_input = Some (idem_key (we_sha lv_env) idem)"
    by (simp_all add: cd_input_def lv_input_def idem)
  have scan: "scan_prompt (wi_text cd_input) = Inr []" "\<not> blocked []"
    using lv_scan by (simp_all add: cd_input_def lv_input_def demo_input_def blocked_def)
  have parse: "extract_reminder (we_tz lv_env) (wi_text cd_input) (Aware (wi_now cd_input)) (wi_timezone cd_input) = Inr (ParsedReminder rw_extraction)"
    using rw_parsed by (simp add: lv_env_def demo_env_def cd_input_def lv_input_def demo_input_def)
  have reply: "reminder_needs_approval (we_catalog lv_env) (rx_title rw_extraction) = Inr ''Apruebas cita?''"
    using lv_scan by (simp add: rw_extraction_def)
  have free: "map_of (wk_states_by_key (st_states (wd_stores demo_world))) k = None" "map_of (wk_key_by_workflow_id (st_states (wd_stores demo_world))) q = None" for k q
    by (simp_all add: demo_world_def empty_stores_def InMemoryWorkflowStateStore_init_def)
  have tz: "we_tz lv_env (rp_timezone (idem_payload idem)) \<noteq> None" using lv_zones(2) idem(2) by simp
  from request_waits [where env = lv_env, OF demo_principal_facts(1) p i(1) idem(1) i(2) scan free(1) free(2) parse lv_zones(1) tz lv_sha
      reply lv_scan(2) scan(2)]
  show ?thesis by blast
qed

definition cd_result :: workflow_result where
  "cd_result = base_result \<lparr>rn_key = demo_key, rn_source_event_id = ''e1'', rn_payload_fingerprint = replicate 64 (CHR ''a''),
     rn_timezone = ''America/Bogota''\<rparr> ag_escalated intent_create [] []"

lemma cd_pending: "\<exists>a. pending_reminder cd_env demo_principal (cd_message cd_text) cd_text (Aware 1700000000000000) demo_key cd_result 0 = Inr a"
proof -
  have "case pending_reminder cd_env demo_principal (cd_message cd_text) cd_text (Aware 1700000000000000) demo_key cd_result 0 of
      Inl e \<Rightarrow> False | Inr a \<Rightarrow> True" by code_simp
  then show ?thesis by (simp split: sum.splits)
qed

lemma pending_reminder_of_ids:
  "wr_source_event_id r = wr_source_event_id r' \<Longrightarrow> wr_timezone r = wr_timezone r' \<Longrightarrow> wr_idempotency_key r = wr_idempotency_key r' \<Longrightarrow>
   wr_payload_fingerprint r = wr_payload_fingerprint r' \<Longrightarrow> pending_reminder c p m text now key r t = pending_reminder c p m text now key r' t"
  by (simp add: pending_reminder_def)

theorem approval_carries_request_witness:
  "\<exists>a request. pending_reminder cd_env demo_principal (cd_message cd_text) cd_text (Aware 1700000000000000) demo_key cd_result 0 = Inr a
     \<and> approved_input a demo_grant = Inr request \<and> wi_idempotency_key request = Some demo_key
     \<and> reminder_idempotency_of demo_principal request = reminder_idempotency_of demo_principal cd_input"
proof -
  obtain r w' where run: "run_workflow (cs_workflow cd_env) demo_principal cd_input demo_world = (Inr r, w')" and ap: "wr_approval_required r"
    using cd_run by (auto simp: cd_env_def)
  obtain idem where idem: "reminder_idempotency_of demo_principal cd_input = Inr idem" "rp_timezone (idem_payload idem) = ''America/Bogota''"
    "idem_key (we_sha lv_env) idem = demo_key" "ri_source_event_id (idem_identity idem) = ''e1''"
    using cd_idem by blast
  have r: "wr_source_event_id r = wr_source_event_id cd_result" "wr_timezone r = wr_timezone cd_result"
    "wr_idempotency_key r = wr_idempotency_key cd_result" "wr_payload_fingerprint r = wr_payload_fingerprint cd_result"
    using run_workflow_of_run [OF run idem(1)] ap idem(2-4)
    by (auto simp: of_run_def ids_of_run_def cd_env_def cd_result_def base_result_def idem_payload_fingerprint_def
        reminder_payload_fingerprint_def sha256_text_def lv_env_def demo_env_def rw_zones_def fixed_zone_def)
  obtain a where a: "pending_reminder cd_env demo_principal (cd_message cd_text) cd_text (Aware 1700000000000000) demo_key r 0 = Inr a"
    using cd_pending pending_reminder_of_ids [OF r] by metis
  have env: "zone_keys (we_tz (cs_workflow cd_env))" "is_hex64 (we_sha (cs_workflow cd_env) b)" for b
    using lv_zones lv_sha by (simp_all add: cd_env_def)
  from approval_carries_request [where c = cd_env and g = demo_grant, OF env cd_steps run ap a] a pending_reminder_of_ids [OF r] show ?thesis by auto
qed

end
