(* ===== verification/Documents.thy ===== *)
theory Documents
  imports Runtime
begin

text \<open>
  Citations \<^verbatim>\<open>domain/common/citations.py\<close> and the document service
  \<^verbatim>\<open>application/use_cases/documents.py\<close> with \<^verbatim>\<open>application/dto/documents.py\<close>. The text of a
  document is what \<^verbatim>\<open>bytes.decode("utf-8", errors="replace")\<close> yields, a parameter of the
  model. \<open>py_splitlines\<close> is \<^verbatim>\<open>str.splitlines\<close> on the characters of the model.
\<close>

section \<open>Lines\<close>

definition is_linebreak :: "char \<Rightarrow> bool" where
  "is_linebreak c \<longleftrightarrow> c \<in> {CHR 0x0A, CHR 0x0B, CHR 0x0C, CHR 0x0D, CHR 0x1C, CHR 0x1D, CHR 0x1E, CHR 0x85}"

definition after_break :: "char \<Rightarrow> string \<Rightarrow> string" where
  "after_break c r = (if c = CHR 0x0D \<and> r \<noteq> [] \<and> hd r = CHR 0x0A then tl r else r)"

function py_splitlines :: "string \<Rightarrow> string list" where
  "py_splitlines s =
     (if s = [] then []
      else takeWhile (\<lambda>c. \<not> is_linebreak c) s #
           (case dropWhile (\<lambda>c. \<not> is_linebreak c) s of [] \<Rightarrow> [] | c # r \<Rightarrow> py_splitlines (after_break c r)))"
  by pat_completeness auto
termination
proof (relation "measure length")
  fix s :: string and c r
  assume "dropWhile (\<lambda>c. \<not> is_linebreak c) s = c # r"
  then have "length (c # r) \<le> length s" using length_dropWhile_le by metis
  then show "(after_break c r, s) \<in> measure length" by (auto simp: after_break_def)
qed simp

declare py_splitlines.simps [simp del]

section \<open>Citations\<close>

record citation =
  ct_filename :: string
  ct_line :: int
  ct_excerpt :: "string option"

definition Citation_make :: "string \<Rightarrow> int \<Rightarrow> string option \<Rightarrow> citation result" where
  "Citation_make filename line ex =
     (let f = py_strip filename; x = map_option py_strip ex in
      if f = [] \<or> length f > 260 \<or> line < 1 \<or> (case x of None \<Rightarrow> False | Some t \<Rightarrow> length t > 160)
      then Inl (ValueError ''invalid citation'')
      else Inr \<lparr>ct_filename = f, ct_line = line, ct_excerpt = x\<rparr>)"

definition canonical :: "citation \<Rightarrow> string" where
  "canonical c = ct_filename c @ CHR '':'' # str_of_int (ct_line c)"

text \<open>
  The groups of \<^verbatim>\<open>^(?P<filename>.+):(?P<line>\d+)$\<close> on a stripped string: the digits at its end, the
  colon before them, and a file name without a line feed. No other split is possible, as digits
  contain no colon. \<open>MAX_STR_DIGITS\<close> is the interpreter's bound on \<^verbatim>\<open>int(str)\<close>.
\<close>

definition citation_split :: "string \<Rightarrow> (string \<times> string) option" where
  "citation_split s =
     (let digits = rev (takeWhile is_digit (rev s)); front = rev (dropWhile is_digit (rev s)) in
      if digits = [] \<or> front = [] \<or> last front \<noteq> CHR '':'' \<or> butlast front = [] \<or> CHR 0x0A \<in> set (butlast front) then None
      else Some (butlast front, digits))"

definition MAX_STR_DIGITS :: nat where "MAX_STR_DIGITS = 4300"

definition parse_citation :: "string \<Rightarrow> citation result" where
  "parse_citation raw =
     (case citation_split (py_strip raw) of
        None \<Rightarrow> Inl (AssistantError VALIDATION_FAILED
          ''invalid citation format; expected 'filename:line' with a positive integer line'' None [])
      | Some (filename, digits) \<Rightarrow>
          if length digits > MAX_STR_DIGITS then Inl (ValueError ''Exceeds the limit for integer string conversion'')
          else (case Citation_make filename (int (digits_value digits)) None of
                  Inl _ \<Rightarrow> Inl (AssistantError VALIDATION_FAILED
                    ''invalid citation; filename must be non-empty and line must be a positive integer'' None [])
                | Inr c \<Rightarrow> Inr c))"

definition CITATION_GUARDRAIL :: string where "CITATION_GUARDRAIL = ''citation_grounding''"

definition verify_grounding :: "string \<Rightarrow> citation \<Rightarrow> citation result" where
  "verify_grounding source_text c =
     (let lines = py_splitlines source_text in
      if ct_line c > int (length lines)
      then Inl (GuardrailViolation ''citation references a line that does not exist in the source document''
             [(''guardrail'', CStr CITATION_GUARDRAIL), (''filename'', CStr (ct_filename c)), (''line'', CInt (ct_line c)),
              (''line_count'', CInt (int (length lines)))])
      else case ct_excerpt c of
             Some x \<Rightarrow>
               if \<not> contains x (lines ! nat (ct_line c - 1))
               then Inl (GuardrailViolation ''citation excerpt does not appear in the referenced source line''
                      [(''guardrail'', CStr CITATION_GUARDRAIL), (''filename'', CStr (ct_filename c)), (''line'', CInt (ct_line c))])
               else Inr c
           | None \<Rightarrow> Inr c)"

section \<open>The document service\<close>

definition SUMMARY_WORD_LIMIT :: nat where "SUMMARY_WORD_LIMIT = 60"

definition max_bytes :: nat where "max_bytes = 512000"

record document_input =
  di_filename :: string
  di_content :: string
  di_content_type :: string

definition DocumentInput_make :: "string \<Rightarrow> string \<Rightarrow> string \<Rightarrow> document_input result" where
  "DocumentInput_make filename content content_type =
     (if py_strip filename = [] \<or> content = [] then Inl (ValueError ''invalid document input'')
      else Inr \<lparr>di_filename = py_strip filename, di_content = content, di_content_type = py_strip content_type\<rparr>)"

record document_summary =
  ds_document_id :: string
  ds_tenant_id :: string
  ds_filename :: string
  ds_summary :: string
  ds_citations :: "string list"
  ds_blocked :: bool
  ds_warnings :: "string list"

definition DocumentSummary_make :: "document_summary \<Rightarrow> document_summary" where
  "DocumentSummary_make d =
     d\<lparr>ds_document_id := py_strip (ds_document_id d), ds_tenant_id := py_strip (ds_tenant_id d),
       ds_filename := py_strip (ds_filename d), ds_summary := py_strip (ds_summary d),
       ds_citations := map py_strip (ds_citations d), ds_warnings := map py_strip (ds_warnings d)\<rparr>"

definition join_words :: "string list \<Rightarrow> string" where
  "join_words ws = (case ws of [] \<Rightarrow> [] | w # r \<Rightarrow> w @ concat (map ((#) (CHR '' '')) r))"

definition summary_text :: "string \<Rightarrow> string" where
  "summary_text text =
     (let ws = py_split text; summary = join_words (take SUMMARY_WORD_LIMIT ws) in
      if length ws > SUMMARY_WORD_LIMIT then summary @ ''...'' else summary)"

text \<open>The loop of \<^verbatim>\<open>_grounded_citations\<close> over the numbered lines that remain.\<close>

fun cite_lines :: "string \<Rightarrow> string \<Rightarrow> int \<Rightarrow> int \<Rightarrow> string list \<Rightarrow> string list result" where
  "cite_lines filename text line_number remaining_words [] = Inr []"
| "cite_lines filename text line_number remaining_words (line_text # rest) =
     (if remaining_words \<le> 0 then Inr []
      else if py_split line_text = [] then cite_lines filename text (line_number + 1) remaining_words rest
      else
        bindR (Citation_make filename line_number (Some (take 160 (py_strip line_text)))) (\<lambda>c.
        bindR (verify_grounding text c) (\<lambda>_.
        bindR (parse_citation (canonical c)) (\<lambda>validated.
        bindR (verify_grounding text validated) (\<lambda>_.
        bindR (cite_lines filename text (line_number + 1) (remaining_words - int (length (py_split line_text))) rest) (\<lambda>cs.
          Inr (canonical validated # cs)))))))"

definition grounded_citations :: "string \<Rightarrow> string \<Rightarrow> string list result" where
  "grounded_citations filename text =
     bindR (cite_lines filename text 1 (int SUMMARY_WORD_LIMIT) (py_splitlines text)) (\<lambda>citations.
     if citations = [] then Inl (AssistantError VALIDATION_FAILED ''document summary has no groundable source lines'' None [])
     else Inr citations)"

definition uuid_hex :: "string \<Rightarrow> string" where
  "uuid_hex u = filter (\<lambda>c. c \<noteq> CHR ''-'') u"

definition summarize :: "renv \<Rightarrow> (string \<Rightarrow> string) \<Rightarrow> principal \<Rightarrow> document_input \<Rightarrow> (rstate, document_summary) op" where
  "summarize env decode p doc =
     (if length (di_content doc) > max_bytes then raise (ValueError ''document exceeds small-document limit'')
      else
        let text = decode (di_content doc) in
        bindS (r_draw env) (\<lambda>d.
        bindS (lift (scan_prompt text)) (\<lambda>input_scan.
        bindS (r_emit_scan env input_scan ''document_service'' (pr_tenant_id p) (fst d)) (\<lambda>_.
        let warnings = (if blocked input_scan then [''document_contains_untrusted_instructions''] else []);
            summary = summary_text text in
        if summary = [] then raise (AssistantError VALIDATION_FAILED ''document has no extractable text'' None [])
        else
          bindS (lift (scan_output summary)) (\<lambda>output_scan.
          bindS (r_emit_scan env output_scan ''document_service'' (pr_tenant_id p) (fst d)) (\<lambda>_.
          bindS (lift (enforce_output_scan output_scan)) (\<lambda>_.
          bindS (lift (grounded_citations (di_filename doc) text)) (\<lambda>citations.
          bindS (r_draw env) (\<lambda>d2.
            ret (DocumentSummary_make
              \<lparr>ds_document_id = ''doc_'' @ uuid_hex (fst d2), ds_tenant_id = pr_tenant_id p, ds_filename = di_filename doc,
               ds_summary = summary, ds_citations = citations, ds_blocked = False, ds_warnings = warnings\<rparr>))))))))))"

end
