(* ===== verification/Document_Properties.thy ===== *)
theory Document_Properties
  imports Documents
begin

text \<open>
  What a summary rests on: citations read back, every cited line exists, and every word of the
  summary stands in a cited line; a clean document with a word in it is always summarised.
\<close>

section \<open>Lines and words\<close>

lemma linebreak_space: "is_linebreak c \<Longrightarrow> py_isspace c"
  by (auto simp: is_linebreak_def py_isspace_def)

lemma py_split_Nil [simp]: "py_split [] = []"
  by (simp add: py_split_def)

lemma py_split_space [simp]: "py_isspace c \<Longrightarrow> py_split (c # s) = py_split s"
  by (simp add: py_split_def)

lemma py_split_acc_append: "py_isspace c \<Longrightarrow> py_split_acc w (a @ c # b) = py_split_acc w a @ py_split_acc [] b"
  by (induction w a rule: py_split_acc.induct) auto

lemma py_split_append: "py_isspace c \<Longrightarrow> py_split (a @ c # b) = py_split a @ py_split b"
  by (simp add: py_split_def py_split_acc_append)

lemma py_split_acc_Nil: "py_split_acc w s = [] \<longleftrightarrow> w = [] \<and> list_all py_isspace s"
  by (induction w s rule: py_split_acc.induct) auto

lemma py_strip_eq_Nil: "py_strip s = [] \<longleftrightarrow> list_all py_isspace s"
proof (cases "dropWhile py_isspace s = []")
  case True
  then have "py_strip s = []" by (simp only: py_strip_def rev.simps dropWhile.simps)
  then show ?thesis using True by (simp add: list_all_iff)
next
  case False
  then have "\<exists>c\<in>set (dropWhile py_isspace s). \<not> py_isspace c" using hd_dropWhile [OF False] hd_in_set [OF False] by blast
  moreover from this have "\<exists>c\<in>set s. \<not> py_isspace c" using set_dropWhileD by fast
  ultimately show ?thesis by (auto simp: py_strip_def dropWhile_eq_Nil_conv list_all_iff)
qed

lemma py_split_eq_Nil: "py_split s = [] \<longleftrightarrow> py_strip s = []"
  by (simp add: py_split_def py_split_acc_Nil py_strip_eq_Nil)

text \<open>The words of a text are those of its lines, in order.\<close>

lemma words_of_lines: "concat (map py_split (py_splitlines s)) = py_split s"
proof (induction s rule: py_splitlines.induct)
  case (1 s)
  let ?nb = "\<lambda>c. \<not> is_linebreak c"
  show ?case
  proof (cases "s = [] \<or> dropWhile ?nb s = []")
    case True
    then have "takeWhile ?nb s = s \<and> dropWhile ?nb s = []"
      by (metis append_Nil2 takeWhile_dropWhile_id dropWhile.simps(1) takeWhile.simps(1))
    then have "takeWhile ?nb s = s" "dropWhile ?nb s = []" by simp_all
    then show ?thesis by (subst py_splitlines.simps) (simp del: takeWhile_eq_all_conv dropWhile_eq_Nil_conv)
  next
    case False
    then obtain c r where d: "dropWhile ?nb s = c # r" by (meson neq_Nil_conv)
    then have c: "py_isspace c" using hd_dropWhile [of ?nb s] linebreak_space by auto
    have "py_split (after_break c r) = py_split r"
      by (cases r) (auto simp: after_break_def py_isspace_def)
    moreover have "py_split s = py_split (takeWhile ?nb s) @ py_split r"
      using py_split_append [OF c, of "takeWhile ?nb s" r] d takeWhile_dropWhile_id [of ?nb s] by simp
    ultimately show ?thesis
      using 1 [OF _ d] False d by (simp add: py_splitlines.simps [of s])
  qed
qed

section \<open>Citations read back\<close>

lemma digit_not_space: "is_digit c \<Longrightarrow> \<not> py_isspace c"
  by (auto simp: is_digit_def py_isspace_def)

lemma colon_not_digit: "\<not> is_digit (CHR '':'')"
  by (simp add: is_digit_def)

lemma line_text: "0 \<le> n \<Longrightarrow> str_of_int n = nat_digits (nat n)"
  by (simp add: str_of_int_def)

lemma takeWhile_rev_digits:
  "\<forall>c\<in>set d. is_digit c \<Longrightarrow> takeWhile is_digit (rev (f @ CHR '':'' # d)) = rev d \<and> dropWhile is_digit (rev (f @ CHR '':'' # d)) = CHR '':'' # rev f"
  using colon_not_digit takeWhile_append2 [of "rev d" is_digit "CHR '':'' # rev f"] dropWhile_append2 [of "rev d" is_digit "CHR '':'' # rev f"]
  by simp

lemma citation_split_canonical:
  assumes "\<forall>c\<in>set d. is_digit c" "d \<noteq> []"
  shows "citation_split (f @ CHR '':'' # d) = (if f = [] \<or> CHR 0x0A \<in> set f then None else Some (f, d))"
  using takeWhile_rev_digits [OF assms(1), of f] assms(2) by (simp add: citation_split_def Let_def)

lemma canonical_strip:
  assumes "py_strip f = f" "f \<noteq> []" "0 \<le> n"
  shows "py_strip (f @ CHR '':'' # str_of_int n) = f @ CHR '':'' # str_of_int n"
proof (rule py_strip_no_space, intro disjI2 conjI)
  show "\<not> py_isspace (hd (f @ CHR '':'' # str_of_int n))" using py_strip_ends [OF assms(1,2)] assms(2) by simp
  have "last (f @ CHR '':'' # str_of_int n) \<in> set (nat_digits (nat n))" using line_text [OF assms(3)] by simp
  then show "\<not> py_isspace (last (f @ CHR '':'' # str_of_int n))" using nat_digits_all digit_not_space by blast
qed

lemma Citation_make_Inr:
  assumes "Citation_make f n x = Inr c"
  shows "ct_filename c = py_strip f" "py_strip f \<noteq> []" "length (py_strip f) \<le> 260" "ct_line c = n" "1 \<le> n"
    "ct_excerpt c = map_option py_strip x"
  using assms by (auto simp: Citation_make_def Let_def split: if_splits)

text \<open>Reading the canonical form of a citation back.\<close>

lemma parse_canonical:
  assumes "Citation_make f n x = Inr c" "length (str_of_int n) \<le> MAX_STR_DIGITS"
  shows "parse_citation (canonical c) = (if CHR 0x0A \<in> set (py_strip f)
      then Inl (AssistantError VALIDATION_FAILED ''invalid citation format; expected 'filename:line' with a positive integer line'' None [])
      else Inr (c\<lparr>ct_excerpt := None\<rparr>))"
proof -
  note c = Citation_make_Inr [OF assms(1)]
  have n: "str_of_int n = nat_digits (nat n)" "int (digits_value (nat_digits (nat n))) = n"
    using line_text [of n] nat_digits_value [of "nat n"] c(5) by simp_all
  have "citation_split (py_strip f @ CHR '':'' # nat_digits (nat n)) =
      (if CHR 0x0A \<in> set (py_strip f) then None else Some (py_strip f, nat_digits (nat n)))"
    using citation_split_canonical [of "nat_digits (nat n)" "py_strip f"] nat_digits_all c(2) by simp
  moreover have "Citation_make (py_strip f) n None = Inr (c\<lparr>ct_excerpt := None\<rparr>)"
    using c by (simp add: Citation_make_def)
  moreover have "py_strip (canonical c) = py_strip f @ CHR '':'' # nat_digits (nat n)"
    using canonical_strip [OF py_strip_idem c(2), of n] c n(1) by (simp add: canonical_def)
  ultimately show ?thesis using n assms(2) by (simp add: parse_citation_def)
qed

lemma parse_long_line:
  assumes "Citation_make f n x = Inr c" "length (str_of_int n) > MAX_STR_DIGITS"
  shows "\<exists>e. parse_citation (canonical c) = Inl e"
proof -
  note c = Citation_make_Inr [OF assms(1)]
  have n: "str_of_int n = nat_digits (nat n)" using line_text [of n] c(5) by simp
  have "py_strip (canonical c) = py_strip f @ CHR '':'' # nat_digits (nat n)"
    using canonical_strip [OF py_strip_idem c(2), of n] c n by (simp add: canonical_def)
  then show ?thesis
    using citation_split_canonical [of "nat_digits (nat n)" "py_strip f"] nat_digits_all assms(2) n by (simp add: parse_citation_def)
qed

section \<open>What the citations cover\<close>

lemma verify_grounding_Inr: "verify_grounding text c = Inr c' \<Longrightarrow> c' = c \<and> ct_line c \<le> int (length (py_splitlines text))"
  by (auto simp: verify_grounding_def Let_def split: if_splits option.splits)

text \<open>The line of a citation, by its number from 1.\<close>

definition line_at :: "string \<Rightarrow> int \<Rightarrow> string" where
  "line_at text n = py_splitlines text ! nat (n - 1)"

lemma cite_step:
  assumes "cite_lines f text n k (l # ls) = Inr cs" "0 < k" "py_split l \<noteq> []"
  obtains c rest where "Citation_make f n (Some (take 160 (py_strip l))) = Inr c" "cs = canonical c # rest"
    "n \<le> int (length (py_splitlines text))" "cite_lines f text (n + 1) (k - int (length (py_split l))) ls = Inr rest"
proof -
  obtain c v rest where c: "Citation_make f n (Some (take 160 (py_strip l))) = Inr c" "verify_grounding text c = Inr c"
      "parse_citation (canonical c) = Inr v" "cs = canonical v # rest"
      "cite_lines f text (n + 1) (k - int (length (py_split l))) ls = Inr rest"
    using assms verify_grounding_Inr by (fastforce simp: bindR_eq_Inr)
  have "v = c\<lparr>ct_excerpt := None\<rparr>"
    using parse_canonical [OF c(1)] parse_long_line [OF c(1)] c(3)
    by (cases "length (str_of_int n) \<le> MAX_STR_DIGITS") (auto split: if_splits)
  then have "canonical v = canonical c" by (simp add: canonical_def)
  then show ?thesis using that c verify_grounding_Inr [OF c(2)] Citation_make_Inr(4) [OF c(1)] by metis
qed

lemma cite_lines_cover:
  assumes "cite_lines f text (int n + 1) k ls = Inr cs" "py_splitlines text = pre @ ls" "length pre = n"
  shows "\<exists>ks. cs = map (\<lambda>i. py_strip f @ CHR '':'' # str_of_int i) ks \<and> sorted_wrt (<) ks
    \<and> (\<forall>i\<in>set ks. int n < i \<and> i \<le> int (length (py_splitlines text)) \<and> py_split (line_at text i) \<noteq> [])
    \<and> take (nat k) (concat (map (\<lambda>i. py_split (line_at text i)) ks)) = take (nat k) (concat (map py_split ls))"
  using assms
proof (induction ls arbitrary: n k cs pre)
  case (Cons l ls)
  have here: "line_at text (int n + 1) = l" using Cons.prems(2,3) by (simp add: line_at_def nth_append)
  have rest: "py_splitlines text = (pre @ [l]) @ ls" "length (pre @ [l]) = Suc n" using Cons.prems(2,3) by simp_all
  show ?case
  proof (cases "k \<le> 0")
    case True
    then show ?thesis using Cons.prems(1) by simp
  next
    case False
    show ?thesis
    proof (cases "py_split l = []")
      case True
      then have "cite_lines f text (int (Suc n) + 1) k ls = Inr cs" using Cons.prems(1) False by (simp add: add.commute)
      from Cons.IH [OF this rest] obtain ks where "cs = map (\<lambda>i. py_strip f @ CHR '':'' # str_of_int i) ks" "sorted_wrt (<) ks"
        "\<forall>i\<in>set ks. int (Suc n) < i \<and> i \<le> int (length (py_splitlines text)) \<and> py_split (line_at text i) \<noteq> []"
        "take (nat k) (concat (map (\<lambda>i. py_split (line_at text i)) ks)) = take (nat k) (concat (map py_split ls))"
        by blast
      then show ?thesis using True by (intro exI [of _ ks]) auto
    next
      case words: False
      obtain c cs' where c: "Citation_make f (int n + 1) (Some (take 160 (py_strip l))) = Inr c" "cs = canonical c # cs'"
          "int n + 1 \<le> int (length (py_splitlines text))"
          "cite_lines f text (int n + 1 + 1) (k - int (length (py_split l))) ls = Inr cs'"
        using cite_step [OF Cons.prems(1) _ words] False by auto
      have "cite_lines f text (int (Suc n) + 1) (k - int (length (py_split l))) ls = Inr cs'" using c(4) by (simp add: add.commute)
      from Cons.IH [OF this rest] obtain ks where ks: "cs' = map (\<lambda>i. py_strip f @ CHR '':'' # str_of_int i) ks" "sorted_wrt (<) ks"
        "\<forall>i\<in>set ks. int (Suc n) < i \<and> i \<le> int (length (py_splitlines text)) \<and> py_split (line_at text i) \<noteq> []"
        "take (nat (k - int (length (py_split l)))) (concat (map (\<lambda>i. py_split (line_at text i)) ks))
           = take (nat (k - int (length (py_split l)))) (concat (map py_split ls))"
        by blast
      have "nat (k - int (length (py_split l))) = nat k - length (py_split l)" by simp
      then have "take (nat k) (py_split l @ concat (map (\<lambda>i. py_split (line_at text i)) ks)) = take (nat k) (py_split l @ concat (map py_split ls))"
        using ks(4) by simp
      moreover have "canonical c = py_strip f @ CHR '':'' # str_of_int (int n + 1)"
        using Citation_make_Inr [OF c(1)] by (simp add: canonical_def)
      ultimately show ?thesis
        using c(2,3) ks(1,2,3) here words by (intro exI [of _ "(int n + 1) # ks"]) (auto simp: less_imp_le)
    qed
  qed
qed (auto intro: exI [of _ "[]"])

lemma grounded_cover:
  assumes "grounded_citations f text = Inr cs"
  shows "\<exists>ks. cs = map (\<lambda>i. py_strip f @ CHR '':'' # str_of_int i) ks \<and> ks \<noteq> [] \<and> sorted_wrt (<) ks
    \<and> (\<forall>i\<in>set ks. 1 \<le> i \<and> i \<le> int (length (py_splitlines text)) \<and> py_split (line_at text i) \<noteq> [])
    \<and> take SUMMARY_WORD_LIMIT (py_split text) = take SUMMARY_WORD_LIMIT (concat (map (\<lambda>i. py_split (line_at text i)) ks))"
proof -
  have run: "cite_lines f text (int 0 + 1) (int SUMMARY_WORD_LIMIT) (py_splitlines text) = Inr cs" and ne: "cs \<noteq> []"
    using assms by (auto simp: grounded_citations_def bindR_eq_Inr split: if_splits)
  obtain ks where ks: "cs = map (\<lambda>i. py_strip f @ CHR '':'' # str_of_int i) ks" "sorted_wrt (<) ks"
    "\<forall>i\<in>set ks. int 0 < i \<and> i \<le> int (length (py_splitlines text)) \<and> py_split (line_at text i) \<noteq> []"
    "take (nat (int SUMMARY_WORD_LIMIT)) (concat (map (\<lambda>i. py_split (line_at text i)) ks))
       = take (nat (int SUMMARY_WORD_LIMIT)) (concat (map py_split (py_splitlines text)))"
    using cite_lines_cover [OF run, of "[]"] by auto
  moreover have "\<forall>i\<in>set ks. 1 \<le> i \<and> i \<le> int (length (py_splitlines text)) \<and> py_split (line_at text i) \<noteq> []"
    using ks(3) by auto
  ultimately show ?thesis using ne by (intro exI [of _ ks]) (simp add: words_of_lines)
qed

lemma cite_filename: "grounded_citations f text = Inr cs \<Longrightarrow> py_strip f \<noteq> []"
proof -
  assume g: "grounded_citations f text = Inr cs"
  have "cite_lines f text n k ls = Inr cs' \<Longrightarrow> cs' \<noteq> [] \<Longrightarrow> py_strip f \<noteq> []" for n k ls cs'
    by (induction ls arbitrary: n k cs') (auto simp: bindR_eq_Inr Citation_make_Inr(2) split: if_splits)
  then show ?thesis using g by (fastforce simp: grounded_citations_def bindR_eq_Inr split: if_splits)
qed

lemma py_split_acc_words: "w \<in> set (py_split_acc u s) \<Longrightarrow> w \<noteq> []"
  by (induction u s rule: py_split_acc.induct) (auto split: if_splits)

lemma summary_nonempty: "py_split text \<noteq> [] \<Longrightarrow> summary_text text \<noteq> []"
  using py_split_acc_words [of "hd (py_split text)" "[]" "text"]
  by (cases "py_split text") (auto simp: summary_text_def Let_def SUMMARY_WORD_LIMIT_def join_words_def py_split_def)

section \<open>Citing never fails\<close>

lemma strip_infix: "\<exists>a b. s = a @ py_strip s @ b"
proof -
  have "rev (dropWhile py_isspace s) = takeWhile py_isspace (rev (dropWhile py_isspace s)) @ dropWhile py_isspace (rev (dropWhile py_isspace s))"
    by simp
  then have "dropWhile py_isspace s = py_strip s @ rev (takeWhile py_isspace (rev (dropWhile py_isspace s)))"
    unfolding py_strip_def by (metis rev_append rev_rev_ident)
  then show ?thesis using takeWhile_dropWhile_id [of py_isspace s] by metis
qed

text \<open>The excerpt of a line stands in the line.\<close>

lemma excerpt_grounded: "contains (py_strip (take n (py_strip l))) l"
proof -
  obtain a b where l: "l = a @ py_strip l @ b" using strip_infix by blast
  obtain a' b' where t: "take n (py_strip l) = a' @ py_strip (take n (py_strip l)) @ b'" using strip_infix by blast
  have "l = (a @ a') @ py_strip (take n (py_strip l)) @ b' @ drop n (py_strip l) @ b"
    using l t append_take_drop_id [of n "py_strip l"] by (metis append_assoc)
  then show ?thesis unfolding contains_iff by blast
qed

lemma py_strip_le: "length (py_strip s) \<le> length s"
  using strip_infix [of s] by (metis length_append le_add1 le_add2 le_trans)

lemma nat_digits_length: "n < 10 ^ Suc k \<Longrightarrow> length (nat_digits n) \<le> Suc k"
proof (induction k arbitrary: n)
  case (Suc k)
  have "n div 10 < 10 ^ Suc k" using Suc.prems by (simp add: less_mult_imp_div_less)
  from Suc.IH [OF this] show ?case by (simp add: nat_digits.simps [of n])
qed (simp add: nat_digits.simps)

lemma splitlines_length: "length (py_splitlines s) \<le> length s"
proof (induction s rule: py_splitlines.induct)
  case (1 s)
  let ?nb = "\<lambda>c. \<not> is_linebreak c"
  show ?case
  proof (cases "s = [] \<or> dropWhile ?nb s = []")
    case True
    then show ?thesis by (cases s) (auto simp: py_splitlines.simps split: list.splits)
  next
    case False
    then obtain c r where d: "dropWhile ?nb s = c # r" by (meson neq_Nil_conv)
    have "length (py_splitlines s) = Suc (length (py_splitlines (after_break c r)))" using False d by (simp add: py_splitlines.simps [of s])
    moreover have "length (after_break c r) \<le> length r" by (simp add: after_break_def)
    moreover have "Suc (length r) \<le> length s" using d length_dropWhile_le [of ?nb s] by simp
    moreover have "length (py_splitlines (after_break c r)) \<le> length (after_break c r)" using 1 [OF _ d] False by simp
    ultimately show ?thesis by linarith
  qed
qed

lemma cite_lines_ok:
  assumes f: "py_strip f \<noteq> []" "length (py_strip f) \<le> 260" "CHR 0x0A \<notin> set (py_strip f)" and len: "length (py_splitlines text) < 10 ^ 7"
  assumes "py_splitlines text = pre @ ls" "length pre = n"
  shows "\<exists>cs. cite_lines f text (int n + 1) k ls = Inr cs \<and> (0 < k \<longrightarrow> concat (map py_split ls) \<noteq> [] \<longrightarrow> cs \<noteq> [])"
  using assms(5,6)
proof (induction ls arbitrary: n k pre)
  case (Cons l ls)
  have rest: "py_splitlines text = (pre @ [l]) @ ls" "length (pre @ [l]) = Suc n" using Cons.prems by simp_all
  have succ: "int n + 1 + 1 = int (Suc n) + 1" by simp
  show ?case
  proof (cases "0 < k \<and> py_split l \<noteq> []")
    case False
    then show ?thesis using Cons.IH [OF rest, of k] by (auto simp: succ simp del: of_nat_Suc)
  next
    case True
    let ?x = "take 160 (py_strip l)"
    have "length (py_strip ?x) \<le> 160" using py_strip_le [of ?x] by simp
    then obtain c where c: "Citation_make f (int n + 1) (Some ?x) = Inr c" using f by (auto simp: Citation_make_def Let_def)
    note cf = Citation_make_Inr [OF c]
    have n: "int n + 1 \<le> int (length (py_splitlines text))" "py_splitlines text ! n = l" using Cons.prems by (simp_all add: nth_append)
    have v: "verify_grounding text c = Inr c" "verify_grounding text (c\<lparr>ct_excerpt := None\<rparr>) = Inr (c\<lparr>ct_excerpt := None\<rparr>)"
      using n cf excerpt_grounded [of 160 l] by (simp_all add: verify_grounding_def Let_def)
    have "n + 1 < 10 ^ Suc 6" using n(1) len by simp
    then have "length (str_of_int (int n + 1)) \<le> MAX_STR_DIGITS"
      using nat_digits_length [of "n + 1" 6] by (simp add: str_of_int_def nat_add_distrib MAX_STR_DIGITS_def)
    then have "parse_citation (canonical c) = Inr (c\<lparr>ct_excerpt := None\<rparr>)" using parse_canonical [OF c] f(3) by simp
    then show ?thesis
      using True c v Cons.IH [OF rest, of "k - int (length (py_split l))"] by (auto simp: succ simp del: of_nat_Suc)
  qed
qed simp

lemma grounded_citations_ok:
  assumes "py_strip f \<noteq> []" "length (py_strip f) \<le> 260" "CHR 0x0A \<notin> set (py_strip f)" "length text < 10 ^ 7" "py_split text \<noteq> []"
  shows "\<exists>cs. grounded_citations f text = Inr cs"
proof -
  have len: "length (py_splitlines text) < 10 ^ 7" using splitlines_length [of "text"] assms(4) by linarith
  obtain cs where cs: "cite_lines f text (int 0 + 1) (int SUMMARY_WORD_LIMIT) (py_splitlines text) = Inr cs"
    "0 < int SUMMARY_WORD_LIMIT \<longrightarrow> concat (map py_split (py_splitlines text)) \<noteq> [] \<longrightarrow> cs \<noteq> []"
    using cite_lines_ok [OF assms(1-3) len, of "[]" "py_splitlines text" 0 "int SUMMARY_WORD_LIMIT"] by auto
  then have "cs \<noteq> []" using assms(5) by (simp add: words_of_lines SUMMARY_WORD_LIMIT_def)
  then show ?thesis using cs(1) by (simp add: grounded_citations_def bindR_def)
qed

section \<open>Summaries\<close>

lemma summarize_Inr:
  assumes "summarize env decode p doc s = (Inr d, s')"
  obtains cs where "grounded_citations (di_filename doc) (decode (di_content doc)) = Inr cs" "ds_citations d = map py_strip cs"
    "ds_summary d = py_strip (summary_text (decode (di_content doc)))"
  using assms unfolding summarize_def Let_def
  by (auto simp: DocumentSummary_make_def bindS_eq_Inr op_apply split: if_splits)


lemma summary_returned:
  assumes "length (di_content doc) \<le> max_bytes" "length (decode (di_content doc)) \<le> length (di_content doc)"
    and f: "py_strip (di_filename doc) \<noteq> []" "length (py_strip (di_filename doc)) \<le> 260" "CHR 0x0A \<notin> set (py_strip (di_filename doc))"
    and w: "py_split (decode (di_content doc)) \<noteq> []"
    and scan: "scan_prompt (decode (di_content doc)) = Inr input_scan" "scan_output (summary_text (decode (di_content doc))) = Inr output_scan"
      "\<not> blocked output_scan"
    and t: "py_strip (pr_tenant_id p) \<noteq> []" and l: "rs_recorder s = LocalRecorder l"
  shows "\<exists>d s'. summarize env decode p doc s = (Inr d, s') \<and> \<not> ds_blocked d \<and> ds_tenant_id d = py_strip (pr_tenant_id p)
    \<and> (ds_warnings d = [] \<longleftrightarrow> \<not> blocked input_scan)"
proof -
  let ?text = "decode (di_content doc)" and ?s0 = "s\<lparr>rs_tick := Suc (rs_tick s)\<rparr>" and ?run = "rv_uuid env (rs_tick s)"
  have a: "py_strip ''document_service'' \<noteq> []" by (simp add: py_strip_eq_Nil py_isspace_def)
  have l0: "rs_recorder ?s0 = LocalRecorder l" using l by simp
  obtain e1 x1 s1 where 1: "r_emit_scan env input_scan ''document_service'' (pr_tenant_id p) ?run ?s0 = (Inr e1, s1)"
    "rs_recorder s1 = LocalRecorder (l @ [x1])"
    using r_emit_scan_ok [OF a t l0] by metis
  obtain e2 x2 s2 where 2: "r_emit_scan env output_scan ''document_service'' (pr_tenant_id p) ?run s1 = (Inr e2, s2)"
    using r_emit_scan_ok [OF a t 1(2)] by metis
  have "length ?text < 10 ^ 7" using assms(1,2) by (simp add: max_bytes_def)
  then obtain cs where cs: "grounded_citations (di_filename doc) ?text = Inr cs" using grounded_citations_ok [OF f _ w] by blast
  have "summary_text ?text \<noteq> []" using w summary_nonempty by blast
  with 1(1) 2 cs show ?thesis
    using assms(1) scan by (auto simp: summarize_def Let_def bindS_def r_draw_def enforce_output_scan_def DocumentSummary_make_def
        py_strip_eq_Nil py_isspace_def)
qed



text \<open>A line number of more digits than the interpreter converts raises a plain \<^verbatim>\<open>ValueError\<close>, although
  the parser documents a validation error for every malformed input.\<close>

lemma parse_citation_digit_limit:
  assumes "\<forall>c\<in>set d. is_digit c" "length d > MAX_STR_DIGITS"
  shows "parse_citation (''a:'' @ d) = Inl (ValueError ''Exceeds the limit for integer string conversion'')"
proof -
  have d: "d \<noteq> []" using assms(2) by auto
  then have "py_strip (''a:'' @ d) = ''a:'' @ d"
    using assms(1) digit_not_space by (intro py_strip_no_space) (simp add: py_isspace_def)
  then show ?thesis using citation_split_canonical [OF assms(1) d, of "''a''"] assms(2) by (simp add: parse_citation_def)
qed

section \<open>A concrete document\<close>

definition doc_demo :: document_input where
  "doc_demo = \<lparr>di_filename = ''notas.txt'', di_content = ''hola mundo'' @ [CHR 0x0A, CHR 0x0A] @ ''adios'', di_content_type = ''text/plain''\<rparr>"

definition doc_scan :: bool where
  "doc_scan = (scan_prompt (di_content doc_demo) = Inr [] \<and> scan_output (summary_text (di_content doc_demo)) = Inr [])"

lemma doc_facts: "doc_scan" "\<not> blocked []" "py_strip (di_filename doc_demo) \<noteq> []"
  "length (py_strip (di_filename doc_demo)) \<le> 260" "CHR 0x0A \<notin> set (py_strip (di_filename doc_demo))" "py_split (di_content doc_demo) \<noteq> []"
  by code_simp+

lemma doc_returned:
  "scan_prompt (id (di_content doc_demo)) = Inr []" "scan_output (summary_text (id (di_content doc_demo))) = Inr []"
  "py_strip (pr_tenant_id demo_principal) \<noteq> []" "rs_recorder rt_state = LocalRecorder []" "length (di_content doc_demo) \<le> max_bytes"
  "length (id (di_content doc_demo)) \<le> length (di_content doc_demo)" "py_split (id (di_content doc_demo)) \<noteq> []"
  using doc_facts(1,6) by (simp_all add: doc_scan_def py_strip_eq_Nil py_isspace_def rt_state_def doc_demo_def max_bytes_def)




end
