(* ===== verification/Admin_Auth.thy ===== *)
theory Admin_Auth
  imports Access_Control Py_Value Json
begin

text \<open>
  Inbound authentication: \<^verbatim>\<open>adapters/inbound/auth_peer.py\<close>, \<^verbatim>\<open>auth_local.py\<close> and
  \<^verbatim>\<open>auth_claims.py\<close>. \<open>ip_address\<close> follows \<^verbatim>\<open>ipaddress.ip_address\<close> on strings: dotted IPv4
  octets, or IPv6 groups with one compressed run, an embedded IPv4 tail and a zone. SHA-256 is a
  parameter; headers and cookies are association lists of strings.
\<close>

section \<open>Addresses\<close>

fun split_char :: "char \<Rightarrow> string \<Rightarrow> string list" where
  "split_char d [] = [[]]"
| "split_char d (c # cs) =
     (if c = d then [] # split_char d cs else (c # hd (split_char d cs)) # tl (split_char d cs))"

fun all_some :: "'a option list \<Rightarrow> 'a list option" where
  "all_some [] = Some []"
| "all_some (x # xs) = (case x of None \<Rightarrow> None | Some v \<Rightarrow> map_option ((#) v) (all_some xs))"

definition ipv4_octet :: "string \<Rightarrow> int option" where
  "ipv4_octet s =
     (if s = [] \<or> \<not> list_all is_digit s \<or> length s > 3 \<or> (s \<noteq> ''0'' \<and> hd s = CHR ''0'') \<or> digits_value s > 255 then None
      else Some (int (digits_value s)))"

definition ipv4_address :: "string \<Rightarrow> int option" where
  "ipv4_address s =
     (if CHR ''/'' \<in> set s \<or> length (split_char (CHR ''.'') s) \<noteq> 4 then None
      else map_option (foldl (\<lambda>a v. a * 256 + v) 0) (all_some (map ipv4_octet (split_char (CHR ''.'') s))))"

definition hex_digit_value :: "char \<Rightarrow> int option" where
  "hex_digit_value c =
     (let n = (of_char c :: int) in
      if 48 \<le> n \<and> n \<le> 57 then Some (n - 48) else if 97 \<le> n \<and> n \<le> 102 then Some (n - 87)
      else if 65 \<le> n \<and> n \<le> 70 then Some (n - 55) else None)"

definition parse_hextet :: "string \<Rightarrow> int option" where
  "parse_hextet s =
     (if s = [] \<or> length s > 4 then None
      else map_option (foldl (\<lambda>a v. a * 16 + v) 0) (all_some (map hex_digit_value s)))"

text \<open>A group of an IPv6 text: still text, or a value that came from an embedded IPv4 address.\<close>

type_synonym group = "string + int"

definition group_value :: "group \<Rightarrow> int option" where
  "group_value g = (case g of Inl s \<Rightarrow> parse_hextet s | Inr v \<Rightarrow> Some v)"

definition ipv6_groups :: "string \<Rightarrow> group list option" where
  "ipv6_groups s =
     (let parts = split_char (CHR '':'') s in
      if s = [] \<or> length parts < 3 then None
      else if CHR ''.'' \<in> set (last parts)
      then map_option (\<lambda>v. map Inl (butlast parts) @ [Inr (v div 65536), Inr (v mod 65536)]) (ipv4_address (last parts))
      else Some (map Inl parts))"

definition ipv6_int :: "string \<Rightarrow> int option" where
  "ipv6_int s =
     (case ipv6_groups s of
        None \<Rightarrow> None
      | Some parts \<Rightarrow>
         (let n = length parts; empty = (\<lambda>i. parts ! i = Inl []);
              skips = filter empty [1 ..< n - 1];
              number = (\<lambda>gs. map_option (foldl (\<lambda>a v. a * 65536 + v) 0) (all_some (map group_value gs))) in
          if n > 9 \<or> length skips > 1 then None
          else if skips = []
          then (if n \<noteq> 8 \<or> empty 0 \<or> empty (n - 1) then None else number parts)
          else
            (let hi0 = hd skips; lo0 = n - hd skips - 1;
                 hi = (if empty 0 then hi0 - 1 else hi0); lo = (if empty (n - 1) then lo0 - 1 else lo0) in
             if (empty 0 \<and> hi \<noteq> 0) \<or> (empty (n - 1) \<and> lo \<noteq> 0) \<or> hi + lo > 7 then None
             else number (take hi parts @ replicate (8 - (hi + lo)) (Inr 0) @ drop (n - lo) parts))))"

definition ipv6_address :: "string \<Rightarrow> int option" where
  "ipv6_address s =
     (let address = takeWhile (\<lambda>c. c \<noteq> CHR ''%'') s; rest = dropWhile (\<lambda>c. c \<noteq> CHR ''%'') s in
      if CHR ''/'' \<in> set s \<or> (rest \<noteq> [] \<and> (tl rest = [] \<or> CHR ''%'' \<in> set (tl rest))) then None else ipv6_int address)"

definition ipv4_loopback :: "int \<Rightarrow> bool" where
  "ipv4_loopback v \<longleftrightarrow> v div 2 ^ 24 = 127"

definition ipv6_loopback :: "int \<Rightarrow> bool" where
  "ipv6_loopback v \<longleftrightarrow> v = 1 \<or> (v div 2 ^ 32 = 65535 \<and> ipv4_loopback (v mod 2 ^ 32))"

definition is_loopback_peer :: "string option \<Rightarrow> bool" where
  "is_loopback_peer peer =
     (case peer of
        None \<Rightarrow> False
      | Some host \<Rightarrow>
          host \<noteq> [] \<and> host = py_strip host
          \<and> (case ipv4_address host of
               Some v \<Rightarrow> ipv4_loopback v
             | None \<Rightarrow> (case ipv6_address host of Some v \<Rightarrow> ipv6_loopback v | None \<Rightarrow> False)))"

section \<open>Bearer tokens\<close>

text \<open>\<^verbatim>\<open>[A-Za-z0-9._~+/\-]+=*\<close>, and the whole header \<^verbatim>\<open>Bearer <token>\<close> in any case.\<close>

definition token68_char :: "char \<Rightarrow> bool" where
  "token68_char c \<longleftrightarrow> (let n = (of_char c :: int) in (48 \<le> n \<and> n \<le> 57) \<or> (65 \<le> n \<and> n \<le> 90) \<or> (97 \<le> n \<and> n \<le> 122))
     \<or> c \<in> set ''._~+/-''"

definition is_token68 :: "string \<Rightarrow> bool" where
  "is_token68 t \<longleftrightarrow> (let body = dropWhile (\<lambda>c. c = CHR ''='') (rev t) in body \<noteq> [] \<and> list_all token68_char body)"

definition bearer_authorization :: "string \<Rightarrow> string option" where
  "bearer_authorization s =
     (if py_lower (take 7 s) = ''bearer '' \<and> is_token68 (drop 7 s) then Some (drop 7 s) else None)"

definition strict_bearer_token :: "(string, string) dict \<Rightarrow> string option" where
  "strict_bearer_token headers =
     (case map snd (filter (\<lambda>(name, value). py_lower name = ''authorization'') headers) of
        [authorization] \<Rightarrow> bearer_authorization authorization
      | _ \<Rightarrow> None)"

definition validate_configured_token :: "string option \<Rightarrow> unit result" where
  "validate_configured_token token =
     (case token of
        None \<Rightarrow> Inl (ValueError ''ADMIN_TOKEN must be configured for local authentication'')
      | Some t \<Rightarrow> if bearer_authorization (''Bearer '' @ t) = None
                  then Inl (ValueError ''ADMIN_TOKEN must be a non-empty bearer token'') else Inr ())"

definition py_isprintable :: "char \<Rightarrow> bool" where
  "py_isprintable c \<longleftrightarrow> (let n = (of_char c :: int) in (32 \<le> n \<and> n \<le> 126) \<or> (161 \<le> n \<and> n \<noteq> 173))"

definition validate_identity_setting :: "string \<Rightarrow> string \<Rightarrow> nat \<Rightarrow> unit result" where
  "validate_identity_setting name value max_length =
     (if value = [] \<or> value \<noteq> py_strip value
      then Inl (ValueError (name @ '' must be a non-blank string without outer whitespace''))
      else if length value > max_length \<or> \<not> list_all py_isprintable value
      then Inl (ValueError (name @ '' contains invalid identity text'')) else Inr ())"

definition invalid_local_credentials :: py_error where
  "invalid_local_credentials = AssistantError AUTHENTICATION_REQUIRED ''valid local bearer credentials are required'' None []"

section \<open>The local provider\<close>

record local_config =
  lc_token :: "string option"
  lc_tenant_id :: string
  lc_principal_id :: string
  lc_permission_tier :: permission_tier
  lc_allow_remote :: bool

definition LocalPrincipalConfig_validate :: "local_config \<Rightarrow> local_config result" where
  "LocalPrincipalConfig_validate c =
     bindR (validate_configured_token (lc_token c)) (\<lambda>_.
     bindR (validate_identity_setting ''ASSISTANT_TENANT_ID'' (lc_tenant_id c) 120) (\<lambda>_.
     bindR (validate_identity_setting ''LOCAL_AUTH_PRINCIPAL_ID'' (lc_principal_id c) 200) (\<lambda>_. Inr c)))"

record local_provider =
  lp_expected_token_digest :: string
  lp_tenant_id :: string
  lp_principal_id :: string
  lp_permission_tier :: permission_tier
  lp_allow_remote :: bool

definition LocalPrincipalProvider_init :: "(string \<Rightarrow> string) \<Rightarrow> local_config \<Rightarrow> local_provider result" where
  "LocalPrincipalProvider_init sha c =
     (case lc_token c of
        None \<Rightarrow> Inl (ValueError ''ADMIN_TOKEN must be configured for local authentication'')
      | Some token \<Rightarrow> Inr \<lparr>lp_expected_token_digest = sha token, lp_tenant_id = lc_tenant_id c,
          lp_principal_id = lc_principal_id c, lp_permission_tier = lc_permission_tier c, lp_allow_remote = lc_allow_remote c\<rparr>)"

definition provider_from_settings :: "(string \<Rightarrow> string) \<Rightarrow> local_config \<Rightarrow> local_provider result" where
  "provider_from_settings sha c = bindR (LocalPrincipalConfig_validate c) (LocalPrincipalProvider_init sha)"

definition verify_token :: "(string \<Rightarrow> string) \<Rightarrow> local_provider \<Rightarrow> string \<Rightarrow> bool" where
  "verify_token sha lp token \<longleftrightarrow>
     token \<noteq> [] \<and> bearer_authorization (''Bearer '' @ token) \<noteq> None \<and> sha token = lp_expected_token_digest lp"

text \<open>The constructor of \<open>Principal\<close> on explicit fields, followed by \<open>mark_trusted\<close>.\<close>

definition trusted_principal ::
    "string \<Rightarrow> string \<Rightarrow> string \<Rightarrow> string option \<Rightarrow> permission_tier \<Rightarrow> grant_item list \<Rightarrow> string set \<Rightarrow> string \<Rightarrow> principal result" where
  "trusted_principal pid tenant auth_sub provider tier permissions scopes source =
     (if \<not> (valid_identity 200 pid \<and> valid_identity 120 tenant \<and> valid_identity 200 auth_sub
             \<and> (case provider of None \<Rightarrow> True | Some v \<Rightarrow> valid_identity 120 v))
      then Inl (ValueError ''identity field'')
      else if py_strip source = [] then Inl (ValueError ''trusted source cannot be blank'')
      else Inr \<lparr>pr_principal_id = py_strip pid, pr_tenant_id = py_strip tenant, pr_auth_subject = py_strip auth_sub,
                pr_auth_provider = map_option py_strip provider, pr_permission_tier = tier, pr_permissions = permissions,
                pr_scopes = scopes, pr_trusted_source = Some source\<rparr>)"

definition supplied_token :: "(string, string) dict \<Rightarrow> (string, string) dict option \<Rightarrow> string option" where
  "supplied_token headers cookies =
     (case strict_bearer_token headers of
        Some t \<Rightarrow> Some t
      | None \<Rightarrow>
          (case cookies of
             None \<Rightarrow> None
           | Some cs \<Rightarrow> (case map_of cs ''admin_token'' of Some t \<Rightarrow> if t = [] then None else Some t | None \<Rightarrow> None)))"

definition authenticate ::
    "(string \<Rightarrow> string) \<Rightarrow> local_provider \<Rightarrow> string option \<Rightarrow> (string, string) dict \<Rightarrow> (string, string) dict option
       \<Rightarrow> principal result" where
  "authenticate sha lp peer_host headers cookies =
     (if \<not> lp_allow_remote lp \<and> \<not> is_loopback_peer peer_host
      then Inl (AssistantError PERMISSION_DENIED ''local authentication requires a loopback peer'' None [])
      else case supplied_token headers cookies of
             None \<Rightarrow> Inl invalid_local_credentials
           | Some t \<Rightarrow>
               if \<not> verify_token sha lp t then Inl invalid_local_credentials
               else trusted_principal (lp_principal_id lp) (lp_tenant_id lp) (lp_principal_id lp) (Some ''local-bearer'')
                      (lp_permission_tier lp) [] {} ''local-bearer'')"

section \<open>Claims of an identity provider\<close>

record auth_claims =
  ac_subject :: string
  ac_tenant_id :: string
  ac_issuer :: "string option"
  ac_audience :: "string option"
  ac_scopes :: "string set"

definition claim_or :: "(string, pyval) dict \<Rightarrow> string list \<Rightarrow> pyval option" where
  "claim_or claims keys = find truthy (List.map_filter (\<lambda>k. map_of claims k) keys)"

definition claim_text :: "pyval option \<Rightarrow> string option result" where
  "claim_text v =
     (case v of
        None \<Rightarrow> Inr None
      | Some PNone \<Rightarrow> Inr None
      | Some (PStr s) \<Rightarrow> Inr (Some s)
      | _ \<Rightarrow> Inl (ValueError ''value must be a string''))"

definition optional_claim :: "nat \<Rightarrow> string option \<Rightarrow> bool" where
  "optional_claim n v \<longleftrightarrow> (case v of None \<Rightarrow> True | Some s \<Rightarrow> valid_identity n s)"

definition claim_scopes :: "(pyval \<Rightarrow> string) \<Rightarrow> pyval option \<Rightarrow> string set result" where
  "claim_scopes rp v =
     (let texts = (\<lambda>xs. Inr (normalize_scopes (ScopesItems (map (py_str rp) xs)))) in
      case v of
        None \<Rightarrow> Inr {}
      | Some (PStr s) \<Rightarrow> Inr (normalize_scopes (ScopesText s))
      | Some (PList xs) \<Rightarrow> texts xs
      | Some (PDict kvs) \<Rightarrow> texts (map fst kvs)
      | _ \<Rightarrow> Inl (TypeError ''object is not iterable''))"

definition AuthClaims_from_mapping :: "(pyval \<Rightarrow> string) \<Rightarrow> (string, pyval) dict \<Rightarrow> auth_claims result" where
  "AuthClaims_from_mapping rp claims =
     (let text = (\<lambda>v. case v of None \<Rightarrow> [] | Some x \<Rightarrow> py_str rp x);
          tenant_id = text (claim_or claims [''tenant_id'', ''tid'', ''tenant'', ''https://personal-assistant/tenant_id'']);
          sub = text (claim_or claims [''sub'', ''subject'', ''user_id'']) in
      bindR (claim_text (map_of claims ''iss'')) (\<lambda>issuer.
      bindR (claim_text (map_of claims ''aud'')) (\<lambda>audience.
      bindR (claim_scopes rp (claim_or claims [''scope'', ''scp'', ''scopes''])) (\<lambda>scopes.
        if valid_identity 200 sub \<and> valid_identity 120 tenant_id \<and> optional_claim 300 issuer \<and> optional_claim 300 audience
        then Inr \<lparr>ac_subject = py_strip sub, ac_tenant_id = py_strip tenant_id, ac_issuer = map_option py_strip issuer,
                  ac_audience = map_option py_strip audience, ac_scopes = scopes\<rparr>
        else Inl (ValueError ''value cannot be blank'')))))"

definition principal_from_auth_claims ::
    "auth_claims \<Rightarrow> string option \<Rightarrow> string option \<Rightarrow> permission_tier \<Rightarrow> grant_item list \<Rightarrow> principal result" where
  "principal_from_auth_claims claims pid provider tier permissions =
     trusted_principal (if truthy_str pid then the pid else ac_subject claims) (ac_tenant_id claims) (ac_subject claims)
       (if truthy_str provider then provider else ac_issuer claims) tier permissions (ac_scopes claims) ''verified_auth''"

section \<open>Who is let in\<close>

lemma bearer_roundtrip: "bearer_authorization (''Bearer '' @ t) = (if is_token68 t then Some t else None)"
proof -
  have "py_lower ''Bearer '' = ''bearer ''" by code_simp
  then show ?thesis by (simp add: bearer_authorization_def)
qed

lemma token68_nonempty: "is_token68 t \<Longrightarrow> t \<noteq> []"
  by (auto simp: is_token68_def)

text \<open>C15: who the local provider lets in, exactly. A validated provider answers with a principal
  when, and only when, the socket peer is a loopback address or remote peers are allowed, and the one authorization header or
  else the cookie presents the configured token; the principal is then the configured one, whatever else the request
  carries, and trusted.\<close>

theorem authenticate_exact:
  assumes "provider_from_settings sha c = Inr lp" and "lc_token c = Some token"
    and collision_free: "\<And>t. sha t = sha token \<Longrightarrow> t = token"
  shows "authenticate sha lp peer headers cookies = Inr p \<longleftrightarrow>
    (lc_allow_remote c \<or> is_loopback_peer peer) \<and> supplied_token headers cookies = Some token
    \<and> p = \<lparr>pr_principal_id = lc_principal_id c, pr_tenant_id = lc_tenant_id c, pr_auth_subject = lc_principal_id c,
           pr_auth_provider = Some ''local-bearer'', pr_permission_tier = lc_permission_tier c, pr_permissions = [], pr_scopes = {},
           pr_trusted_source = Some ''local-bearer''\<rparr>"
proof -
  have tok: "is_token68 token" and ids: "lc_tenant_id c \<noteq> []" "py_strip (lc_tenant_id c) = lc_tenant_id c" "length (lc_tenant_id c) \<le> 120"
      "lc_principal_id c \<noteq> []" "py_strip (lc_principal_id c) = lc_principal_id c" "length (lc_principal_id c) \<le> 200"
    and lp: "lp = \<lparr>lp_expected_token_digest = sha token, lp_tenant_id = lc_tenant_id c, lp_principal_id = lc_principal_id c,
      lp_permission_tier = lc_permission_tier c, lp_allow_remote = lc_allow_remote c\<rparr>"
    using assms(1,2) by (auto simp: provider_from_settings_def LocalPrincipalConfig_validate_def validate_configured_token_def
        validate_identity_setting_def LocalPrincipalProvider_init_def bindR_eq_Inr bearer_roundtrip [simplified] split: if_splits)
  have v: "verify_token sha lp t \<longleftrightarrow> t = token" for t
    using tok token68_nonempty collision_free by (auto simp: verify_token_def lp bearer_roundtrip [simplified])
  let ?p = "\<lparr>pr_principal_id = lc_principal_id c, pr_tenant_id = lc_tenant_id c, pr_auth_subject = lc_principal_id c,
       pr_auth_provider = Some ''local-bearer'', pr_permission_tier = lc_permission_tier c, pr_permissions = [], pr_scopes = {},
       pr_trusted_source = Some ''local-bearer''\<rparr>"
  have "valid_identity 200 (lc_principal_id c)" "valid_identity 120 (lc_tenant_id c)"
    using ids by (simp_all add: valid_identity_def Suc_le_eq)
  moreover have "valid_identity 120 ''local-bearer''" "py_strip ''local-bearer'' = ''local-bearer''" by code_simp+
  ultimately have made: "trusted_principal (lc_principal_id c) (lc_tenant_id c) (lc_principal_id c) (Some ''local-bearer'')
      (lc_permission_tier c) [] {} ''local-bearer'' = Inr ?p"
    by (simp add: trusted_principal_def ids)
  have f: "lp_allow_remote lp = lc_allow_remote c" "lp_tenant_id lp = lc_tenant_id c" "lp_principal_id lp = lc_principal_id c"
    "lp_permission_tier lp = lc_permission_tier c"
    by (simp_all add: lp)
  have auth: "authenticate sha lp peer headers cookies =
      (if \<not> (lc_allow_remote c \<or> is_loopback_peer peer)
       then Inl (AssistantError PERMISSION_DENIED ''local authentication requires a loopback peer'' None [])
       else if supplied_token headers cookies = Some token then Inr ?p else Inl invalid_local_credentials)"
    unfolding authenticate_def f made by (simp add: v split: option.split)
  show ?thesis unfolding auth by auto
qed

definition auth_config :: local_config where
  "auth_config = \<lparr>lc_token = Some ''s3cret=='', lc_tenant_id = ''t1'', lc_principal_id = ''admin'', lc_permission_tier = P3, lc_allow_remote = False\<rparr>"

definition auth_provider_demo :: local_provider where
  "auth_provider_demo = \<lparr>lp_expected_token_digest = ''s3cret=='', lp_tenant_id = ''t1'', lp_principal_id = ''admin'',
     lp_permission_tier = P3, lp_allow_remote = False\<rparr>"

lemma loopback_examples:
  "is_loopback_peer (Some ''127.0.0.1'')" "is_loopback_peer (Some ''::1'')" "is_loopback_peer (Some ''::ffff:127.0.0.5'')"
  "is_loopback_peer (Some ''0:0:0:0:0:0:0:1'')" "\<not> is_loopback_peer (Some ''127.0.0.01'')" "\<not> is_loopback_peer (Some ''localhost'')"
  "\<not> is_loopback_peer (Some ''::2'')" "\<not> is_loopback_peer (Some '' ::1'')" "\<not> is_loopback_peer (Some ''10.0.0.1'')"
  by code_simp+

theorem authenticate_exact_witness:
  "\<exists>p. authenticate id auth_provider_demo (Some ''::1'') [(''AUTHORIZATION'', ''bearer s3cret==''), (''X-Tenant'', ''t2'')] None = Inr p
     \<and> pr_tenant_id p = ''t1''"
proof -
  have "provider_from_settings id auth_config = Inr auth_provider_demo" "lc_token auth_config = Some ''s3cret==''"
    "supplied_token [(''AUTHORIZATION'', ''bearer s3cret==''), (''X-Tenant'', ''t2'')] None = Some ''s3cret==''"
    by code_simp+
  from authenticate_exact [where sha = id, OF this(1,2)] this(3) loopback_examples(2) show ?thesis
    by (auto simp: auth_config_def)
qed

end
