(* ===== verification/Migrations.thy ===== *)
theory Migrations
  imports Py_Regex Py_Value Idempotency Delivery
begin

text \<open>
  Schema migrations: \<^verbatim>\<open>infrastructure/migrations/runner.py\<close> and \<^verbatim>\<open>infrastructure/validation.py\<close>.
  The scanner works on what is left of the text, as the code does with a position. The
  database is a state of its own: the history table of the runner, the name of the advisory lock that
  is held, and the rest of the database, which the SQL of a migration changes through the parameter
  \<open>run_sql\<close>, an operation that may fail halfway; a transaction keeps the state of its start when its body raises. Subclasses
  of \<^verbatim>\<open>MigrationError\<close> are \<open>RuntimeError\<close> values that carry their class name;
  their messages leave out the quotes that \<^verbatim>\<open>repr\<close> puts around a name, the directory, and the lists of values at their end.
\<close>

section \<open>Identifiers\<close>

definition ident_start :: "char \<Rightarrow> bool" where
  "ident_start c \<longleftrightarrow> lower_az c \<or> upper_az c \<or> c = CHR ''_''"

definition ident_part :: "char \<Rightarrow> bool" where
  "ident_part c \<longleftrightarrow> alnum_az c \<or> c = CHR ''_''"

definition validate_identifier :: "string \<Rightarrow> string \<Rightarrow> string result" where
  "validate_identifier field value =
     (if value = [] \<or> \<not> ident_start (hd value) \<or> \<not> list_all ident_part value
      then Inl (ValueError (''invalid PostgreSQL '' @ field))
      else if length value > 63 then Inl (ValueError (''invalid PostgreSQL '' @ field @ '': identifiers are limited to 63 bytes''))
      else Inr value)"

definition quote_identifier :: "string \<Rightarrow> string \<Rightarrow> string result" where
  "quote_identifier field value = bindR (validate_identifier field value) (\<lambda>v. Inr ([CHR 0x22] @ v @ [CHR 0x22]))"

section \<open>Scanning SQL\<close>

definition TRANSACTION_COMMANDS :: "string list" where
  "TRANSACTION_COMMANDS = [''ABORT'', ''BEGIN'', ''COMMIT'', ''END'', ''ROLLBACK'', ''SAVEPOINT'']"

definition after_line_comment :: "string \<Rightarrow> string" where
  "after_line_comment s = tl (dropWhile (\<lambda>c. c \<noteq> CHR 0x0A) s)"

fun after_quoted_value :: "char \<Rightarrow> string \<Rightarrow> string" where
  "after_quoted_value d [] = []"
| "after_quoted_value d (c # cs) =
     (if c \<noteq> d then after_quoted_value d cs
      else case cs of [] \<Rightarrow> [] | e # es \<Rightarrow> if e = d then after_quoted_value d es else cs)"

function after_block_comment :: "nat \<Rightarrow> string \<Rightarrow> string" where
  "after_block_comment depth s =
     (if depth = 0 \<or> s = [] then s
      else if starts_with ''/*'' s then after_block_comment (depth + 1) (drop 2 s)
      else if starts_with ''*/'' s then after_block_comment (depth - 1) (drop 2 s)
      else after_block_comment depth (tl s))"
  by pat_completeness auto
termination
  by (relation "measure (\<lambda>(depth, s). length s)") auto

declare after_block_comment.simps [simp del]

text \<open>\<^verbatim>\<open>\$(?:[A-Za-z_][A-Za-z0-9_]*)?\$\<close> at the start of the text, and the text after the first occurrence of a delimiter.\<close>

definition dollar_delimiter :: "string \<Rightarrow> string option" where
  "dollar_delimiter s =
     (let tag = takeWhile ident_part (tl s); rest = drop (Suc (length tag)) s in
      if s = [] \<or> hd s \<noteq> CHR ''$'' \<or> (tag \<noteq> [] \<and> \<not> ident_start (hd tag)) \<or> rest = [] \<or> hd rest \<noteq> CHR ''$'' then None
      else Some ([CHR ''$''] @ tag @ [CHR ''$'']))"

fun after_first :: "string \<Rightarrow> string \<Rightarrow> string" where
  "after_first d [] = []"
| "after_first d (c # cs) = (if starts_with d (c # cs) then drop (length d) (c # cs) else after_first d cs)"

text \<open>Where the scan goes on when the text starts with something that it skips.\<close>

definition skip_piece :: "string \<Rightarrow> string option" where
  "skip_piece s =
     (if starts_with ''--'' s then Some (after_line_comment (drop 2 s))
      else if starts_with ''/*'' s then Some (after_block_comment 1 (drop 2 s))
      else if hd s = CHR 0x27 then Some (after_quoted_value (CHR 0x27) (tl s))
      else if hd s = CHR 0x22 then Some (after_quoted_value (CHR 0x22) (tl s))
      else case dollar_delimiter s of
             Some d \<Rightarrow> Some (after_first d (drop (length d) s))
           | None \<Rightarrow> None)"

lemma tl_dropWhile_length: "length (tl (dropWhile p s)) \<le> length s"
  by (induction s) auto

lemma after_line_comment_length: "length (after_line_comment s) \<le> length s"
  unfolding after_line_comment_def by (rule tl_dropWhile_length)

lemma after_quoted_value_length: "length (after_quoted_value d s) \<le> length s"
proof (induction d s rule: after_quoted_value.induct)
  case (2 d c cs)
  then show ?case by (cases cs) (auto intro: le_SucI)
qed simp

lemma after_block_comment_length: "length (after_block_comment n s) \<le> length s"
proof (induction n s rule: after_block_comment.induct)
  case (1 n s)
  show ?case by (subst after_block_comment.simps) (use 1 in \<open>auto intro: le_trans\<close>)
qed

lemma after_first_length: "length (after_first d s) \<le> length s"
  by (induction s) (auto intro: le_trans)

lemma dollar_delimiter_nonempty: "dollar_delimiter s = Some d \<Longrightarrow> d \<noteq> []"
  by (auto simp: dollar_delimiter_def Let_def split: if_splits)

lemma skip_piece_shorter:
  assumes "s \<noteq> []" "skip_piece s = Some r"
  shows "length r < length s"
proof -
  have "length (after_first d (drop (length d) s)) < length s" if "dollar_delimiter s = Some d" for d
    using after_first_length [of d "drop (length d) s"] dollar_delimiter_nonempty [OF that] assms(1) by (cases d; cases s) auto
  moreover have "length (after_line_comment (drop 2 s)) < length s" "length (after_block_comment 1 (drop 2 s)) < length s"
    "length (after_quoted_value c (tl s)) < length s" for c
    using after_line_comment_length [of "drop 2 s"] after_block_comment_length [of 1 "drop 2 s"] after_quoted_value_length [of c "tl s"] assms(1)
    by (cases s; simp)+
  ultimately show ?thesis using assms(2) by (auto simp: skip_piece_def split: if_splits option.splits)
qed

function statement_prefixes :: "string list \<Rightarrow> string \<Rightarrow> string list list" where
  "statement_prefixes p s =
     (if s = [] then (if p = [] then [] else [p])
      else case skip_piece s of
        Some r \<Rightarrow> statement_prefixes p r
      | None \<Rightarrow>
          if hd s = CHR '';'' then (if p = [] then [] else [p]) @ statement_prefixes [] (tl s)
          else if ident_start (hd s)
          then statement_prefixes (if length p < 2 then p @ [map py_upper_char (takeWhile ident_part s)] else p) (dropWhile ident_part s)
          else statement_prefixes p (tl s))"
  by pat_completeness auto
termination
proof (relation "measure (\<lambda>(p, s). length s)")
  fix p :: "string list" and s r :: string
  assume "s \<noteq> []" "skip_piece s = Some r"
  then show "((p, r), (p, s)) \<in> measure (\<lambda>(p, s). length s)" using skip_piece_shorter by simp
next
  fix p :: "string list" and s :: string
  assume "s \<noteq> []" "ident_start (hd s)"
  then have "length (dropWhile ident_part s) < length s"
    using length_dropWhile_le [of ident_part "tl s"] by (cases s) (auto simp: ident_start_def ident_part_def alnum_az_def less_Suc_eq_le)
  then show "((if length p < 2 then p @ [map py_upper_char (takeWhile ident_part s)] else p, dropWhile ident_part s), (p, s))
      \<in> measure (\<lambda>(p, s). length s)"
    by simp
qed auto

declare statement_prefixes.simps [simp del]

definition controls_transaction :: "string list \<Rightarrow> bool" where
  "controls_transaction p \<longleftrightarrow>
     hd p \<in> set TRANSACTION_COMMANDS
     \<or> (length p \<ge> 2 \<and> take 2 p \<in> set [[''PREPARE'', ''TRANSACTION''], [''RELEASE'', ''SAVEPOINT''], [''START'', ''TRANSACTION'']])"

definition contains_transaction_control :: "string \<Rightarrow> bool" where
  "contains_transaction_control sql = list_ex controls_transaction (statement_prefixes [] sql)"

section \<open>Migration files\<close>

definition MigrationDefinitionError :: "string \<Rightarrow> py_error" where
  "MigrationDefinitionError m = RuntimeError (''MigrationDefinitionError: '' @ m)"

definition MigrationHistoryError :: "string \<Rightarrow> py_error" where
  "MigrationHistoryError m = RuntimeError (''MigrationHistoryError: '' @ m)"

definition MigrationChecksumError :: "string \<Rightarrow> py_error" where
  "MigrationChecksumError m = RuntimeError (''MigrationChecksumError: '' @ m)"

definition MigrationExecutionError :: "string \<Rightarrow> py_error" where
  "MigrationExecutionError m = RuntimeError (''MigrationExecutionError: '' @ m)"

record migration =
  mg_version :: int
  mg_name :: string
  mg_checksum :: string
  mg_sql :: string
  mg_filename :: string

record applied_migration =
  am_version :: int
  am_name :: string
  am_checksum :: string
  am_applied_at :: instant

record migration_status_result =
  ms_schema :: string
  ms_history_exists :: bool
  ms_applied :: "applied_migration list"
  ms_pending :: "migration list"

definition ready :: "migration_status_result \<Rightarrow> bool" where
  "ready s \<longleftrightarrow> ms_pending s = []"

text \<open>\<^verbatim>\<open>f"{version:04d}"\<close> and the label of a migration.\<close>

definition pad4 :: "int \<Rightarrow> string" where
  "pad4 v = (let d = str_of_int v in replicate (4 - length d) (CHR ''0'') @ d)"

definition label :: "migration \<Rightarrow> string" where
  "label m = pad4 (mg_version m) @ ''_'' @ mg_name m"

text \<open>\<^verbatim>\<open>^(?P<version>[0-9]{4})_(?P<name>[a-z][a-z0-9_]*)\.sql$\<close>.\<close>

definition split_filename :: "string \<Rightarrow> (string \<times> string) option" where
  "split_filename f =
     (let version = take 4 f; name = take (length f - 9) (drop 5 f) in
      if length f > 9 \<and> list_all is_digit version \<and> f = version @ ''_'' @ name @ ''.sql'' \<and> lower_az (hd name)
         \<and> list_all (\<lambda>c. lower_az c \<or> digit c \<or> c = CHR ''_'') name
      then Some (version, name) else None)"

definition load_migration :: "(string \<Rightarrow> string) \<Rightarrow> (string \<Rightarrow> string option) \<Rightarrow> string \<times> string \<Rightarrow> migration result" where
  "load_migration sha decode file =
     (case split_filename (fst file) of
        None \<Rightarrow> Inl (MigrationDefinitionError (''invalid migration filename '' @ fst file))
      | Some (version, name) \<Rightarrow>
          bindR (validate_identifier ''migration name'' name) (\<lambda>_.
          case decode (snd file) of
            None \<Rightarrow> Inl (MigrationDefinitionError (''migration '' @ fst file @ '' must be UTF-8''))
          | Some sql \<Rightarrow>
              if py_strip sql = [] then Inl (MigrationDefinitionError (''migration '' @ fst file @ '' is empty''))
              else if contains_transaction_control sql
              then Inl (MigrationDefinitionError (''migration '' @ fst file @ '' contains transaction control; transactions are owned by the runner''))
              else Inr \<lparr>mg_version = int (digits_value version), mg_name = name, mg_checksum = sha (snd file), mg_sql = sql,
                        mg_filename = fst file\<rparr>))"

text \<open>The directory is the list of its \<^verbatim>\<open>*.sql\<close> files, or \<open>None\<close> when it does not exist.\<close>

definition discover_migrations ::
    "(string \<Rightarrow> string) \<Rightarrow> (string \<Rightarrow> string option) \<Rightarrow> (string \<times> string) list option \<Rightarrow> migration list result" where
  "discover_migrations sha decode directory =
     (case directory of
        None \<Rightarrow> Inl (MigrationDefinitionError ''migration directory does not exist'')
      | Some files \<Rightarrow>
          bindR (mapR (load_migration sha decode) (sort_key fst files)) (\<lambda>migrations.
          if migrations = [] then Inl (MigrationDefinitionError ''no migration files found'')
          else if map mg_version migrations \<noteq> map int [1 ..< Suc (length migrations)]
          then Inl (MigrationDefinitionError ''migration versions must be contiguous from 0001'')
          else Inr migrations))"

section \<open>The status of a history\<close>

fun check_applied :: "migration list \<Rightarrow> (int, applied_migration) dict \<Rightarrow> applied_migration list \<Rightarrow> (int, applied_migration) dict result" where
  "check_applied migrations seen [] = Inr seen"
| "check_applied migrations seen (r # rs) =
     (if map_of seen (am_version r) \<noteq> None
      then Inl (MigrationHistoryError (''migration history contains duplicate version '' @ pad4 (am_version r)))
      else case map_of (map (\<lambda>m. (mg_version m, m)) (rev migrations)) (am_version r) of
             None \<Rightarrow> Inl (MigrationHistoryError (''database has unknown applied migration '' @ pad4 (am_version r) @ ''_'' @ am_name r))
           | Some m \<Rightarrow>
               if am_name r \<noteq> mg_name m
               then Inl (MigrationHistoryError (''applied migration '' @ pad4 (am_version r) @ '' name changed''))
               else if am_checksum r \<noteq> mg_checksum m
               then Inl (MigrationChecksumError (''checksum mismatch for applied migration '' @ label m @ '': database='' @ am_checksum r
                        @ '', local='' @ mg_checksum m))
               else check_applied migrations ((am_version r, r) # seen) rs)"

fun find_pending :: "(int, applied_migration) dict \<Rightarrow> bool \<Rightarrow> migration list \<Rightarrow> migration list result" where
  "find_pending seen found_gap [] = Inr []"
| "find_pending seen found_gap (m # rest) =
     (if map_of seen (mg_version m) \<noteq> None
      then (if found_gap then Inl (MigrationHistoryError (''migration history has a gap before '' @ label m))
            else find_pending seen found_gap rest)
      else bindR (find_pending seen True rest) (\<lambda>ps. Inr (m # ps)))"

definition build_status :: "string \<Rightarrow> bool \<Rightarrow> migration list \<Rightarrow> applied_migration list \<Rightarrow> migration_status_result result" where
  "build_status schema history_exists migrations applied =
     bindR (check_applied migrations [] applied) (\<lambda>seen.
     bindR (find_pending seen False migrations) (\<lambda>ps.
       Inr \<lparr>ms_schema = schema, ms_history_exists = history_exists,
            ms_applied = List.map_filter (\<lambda>m. map_of seen (mg_version m)) migrations, ms_pending = ps\<rparr>))"

section \<open>The runner\<close>

record 'd database =
  db_history :: "applied_migration list option"
  db_data :: 'd
  db_lock :: "string option"
  db_now :: instant

definition migration_lock_name :: "string \<Rightarrow> string result" where
  "migration_lock_name schema =
     bindR (validate_identifier ''schema'' schema) (\<lambda>v. Inr (''personal_assistant:schema_migrations:'' @ v))"

text \<open>\<^verbatim>\<open>with connection.transaction()\<close>: the state of the start comes back when the body raises.\<close>

definition db_transaction :: "('d database, 'a) op \<Rightarrow> ('d database, 'a) op" where
  "db_transaction body db = (case body db of (Inl e, _) \<Rightarrow> (Inl e, db) | (Inr x, db') \<Rightarrow> (Inr x, db'))"

definition history_exists :: "('d database, bool) op" where
  "history_exists db = (Inr (db_history db \<noteq> None), db)"

text \<open>\<^verbatim>\<open>SELECT ... ORDER BY version\<close>; reading a table that is not there is an error of the driver.\<close>

definition read_applied :: "('d database, applied_migration list) op" where
  "read_applied db =
     (case db_history db of
        None \<Rightarrow> (Inl (RuntimeError ''UndefinedTable''), db)
      | Some rows \<Rightarrow> (Inr (sort_key am_version rows), db))"

definition ensure_history :: "('d database, unit) op" where
  "ensure_history = db_transaction (\<lambda>db. (Inr (), if db_history db = None then db\<lparr>db_history := Some []\<rparr> else db))"

text \<open>\<^verbatim>\<open>INSERT INTO history\<close> under the constraints of the table.\<close>

definition insert_history :: "migration \<Rightarrow> ('d database, unit) op" where
  "insert_history m db =
     (case db_history db of
        None \<Rightarrow> (Inl (RuntimeError ''UndefinedTable''), db)
      | Some rows \<Rightarrow>
          if mg_version m \<in> am_version ` set rows then (Inl (RuntimeError ''UniqueViolation''), db)
          else if mg_version m \<le> 0 \<or> length (mg_name m) > 63 \<or> \<not> is_hex64 (mg_checksum m) then (Inl (RuntimeError ''CheckViolation''), db)
          else (Inr (), db\<lparr>db_history := Some (rows @ [\<lparr>am_version = mg_version m, am_name = mg_name m, am_checksum = mg_checksum m,
                  am_applied_at = db_now db\<rparr>])\<rparr>))"

definition run_migration_sql :: "(string \<Rightarrow> ('d, unit) op) \<Rightarrow> string \<Rightarrow> ('d database, unit) op" where
  "run_migration_sql run_sql sql db =
     (case run_sql sql (db_data db) of (r, d) \<Rightarrow> (r, db\<lparr>db_data := d\<rparr>))"

definition apply_one :: "(string \<Rightarrow> ('d, unit) op) \<Rightarrow> migration \<Rightarrow> ('d database, unit) op" where
  "apply_one run_sql m =
     catchS (db_transaction (bindS (run_migration_sql run_sql (mg_sql m)) (\<lambda>_. insert_history m)))
       (\<lambda>_. raise (MigrationExecutionError (''migration '' @ label m @ '' failed; its transaction was rolled back'')))"

fun apply_each :: "(string \<Rightarrow> ('d, unit) op) \<Rightarrow> migration list \<Rightarrow> ('d database, unit) op" where
  "apply_each run_sql [] = ret ()"
| "apply_each run_sql (m # rest) = bindS (apply_one run_sql m) (\<lambda>_. apply_each run_sql rest)"

definition acquire_lock :: "string \<Rightarrow> ('d database, unit) op" where
  "acquire_lock name db = (Inr (), db\<lparr>db_lock := Some name\<rparr>)"

definition release_lock :: "string \<Rightarrow> ('d database, bool) op" where
  "release_lock name db = (Inr (db_lock db = Some name), db\<lparr>db_lock := None\<rparr>)"

text \<open>\<^verbatim>\<open>_advisory_lock\<close>: the lock is released after the block, also when it raises.\<close>

definition with_advisory_lock :: "string \<Rightarrow> ('d database, 'a) op \<Rightarrow> ('d database, 'a) op" where
  "with_advisory_lock schema body =
     bindS (lift (migration_lock_name schema)) (\<lambda>name.
     bindS (acquire_lock name) (\<lambda>_.
     \<lambda>db. case body db of
            (r, db') \<Rightarrow>
              bindS (release_lock name) (\<lambda>held.
                if \<not> held then raise (RuntimeError ''MigrationError: migration advisory lock was not held at release'') else lift r) db'))"

record migration_apply_result =
  mr_schema :: string
  mr_applied :: "migration list"
  mr_status :: migration_status_result

definition migration_status ::
    "(string \<Rightarrow> string) \<Rightarrow> (string \<Rightarrow> string option) \<Rightarrow> (string \<times> string) list option \<Rightarrow> string
       \<Rightarrow> ('d database, migration_status_result) op" where
  "migration_status sha decode directory schema =
     bindS (lift (validate_identifier ''schema'' schema)) (\<lambda>schema.
     bindS (lift (discover_migrations sha decode directory)) (\<lambda>migrations.
     bindS history_exists (\<lambda>exists.
     bindS (if exists then read_applied else ret []) (\<lambda>applied.
       lift (build_status schema exists migrations applied)))))"

definition apply_migrations ::
    "(string \<Rightarrow> string) \<Rightarrow> (string \<Rightarrow> string option) \<Rightarrow> (string \<Rightarrow> ('d, unit) op) \<Rightarrow> (string \<times> string) list option \<Rightarrow> string
       \<Rightarrow> ('d database, migration_apply_result) op" where
  "apply_migrations sha decode run_sql directory schema =
     bindS (lift (validate_identifier ''schema'' schema)) (\<lambda>schema.
     bindS (lift (discover_migrations sha decode directory)) (\<lambda>migrations.
       with_advisory_lock schema
         (bindS ensure_history (\<lambda>_.
          bindS read_applied (\<lambda>applied0.
          bindS (lift (build_status schema True migrations applied0)) (\<lambda>before.
          bindS (apply_each run_sql (ms_pending before)) (\<lambda>_.
          bindS read_applied (\<lambda>applied1.
          bindS (lift (build_status schema True migrations applied1)) (\<lambda>after.
            ret \<lparr>mr_schema = schema, mr_applied = ms_pending before, mr_status = after\<rparr>)))))))))"

end
