(* ===== verification/Migration_Properties.thy ===== *)
theory Migration_Properties
  imports Migrations
begin

text \<open>
  What the migration runner guarantees. The scanner is exact on scripts built from words, blanks,
  comments and quoted texts; a history is accepted exactly when it is a prefix of the local migrations; applying
  runs what is missing in order, each migration with its history row or not at all.
\<close>

section \<open>Structured scripts\<close>

datatype sql_token =
    Word string
  | Blank char
  | LineComment string
  | BlockComment string
  | Quoted char string
  | Dollar string string

fun escape_quotes :: "char \<Rightarrow> string \<Rightarrow> string" where
  "escape_quotes d [] = []"
| "escape_quotes d (c # cs) = (if c = d then d # d # escape_quotes d cs else c # escape_quotes d cs)"

fun render_token :: "sql_token \<Rightarrow> string" where
  "render_token (Word w) = w @ '' ''"
| "render_token (Blank c) = [c]"
| "render_token (LineComment t) = ''--'' @ t @ [CHR 0x0A]"
| "render_token (BlockComment t) = ''/*'' @ t @ ''*/''"
| "render_token (Quoted d t) = [d] @ escape_quotes d t @ [d] @ '' ''"
| "render_token (Dollar tag t) = [CHR ''$''] @ tag @ [CHR ''$''] @ t @ [CHR ''$''] @ tag @ [CHR ''$'']"

text \<open>
  A word is an identifier; a blank is any other single character that opens nothing; a quoted text may hold
  anything, comments and dollar-quoted texts anything but what could end them early.
\<close>

fun wf_token :: "sql_token \<Rightarrow> bool" where
  "wf_token (Word w) \<longleftrightarrow> w \<noteq> [] \<and> ident_start (hd w) \<and> list_all ident_part w"
| "wf_token (Blank c) \<longleftrightarrow> \<not> ident_start c \<and> c \<notin> {CHR 0x27, CHR 0x22, CHR ''$'', CHR '';'', CHR ''-'', CHR ''/''}"
| "wf_token (LineComment t) \<longleftrightarrow> CHR 0x0A \<notin> set t"
| "wf_token (BlockComment t) \<longleftrightarrow> CHR ''*'' \<notin> set t \<and> (t = [] \<or> last t \<noteq> CHR ''/'')"
| "wf_token (Quoted d t) \<longleftrightarrow> d = CHR 0x27 \<or> d = CHR 0x22"
| "wf_token (Dollar tag t) \<longleftrightarrow> list_all ident_part tag \<and> (tag = [] \<or> ident_start (hd tag)) \<and> CHR ''$'' \<notin> set t"

fun token_words :: "sql_token \<Rightarrow> string list" where
  "token_words (Word w) = [map py_upper_char w]"
| "token_words _ = []"

definition statement_words :: "sql_token list \<Rightarrow> string list" where
  "statement_words st = concat (map token_words st)"

definition render_script :: "sql_token list list \<Rightarrow> string" where
  "render_script sts = concat (map (\<lambda>st. concat (map render_token st) @ '';'') sts)"

section \<open>The scanner on rendered tokens\<close>

lemma starts_with_Cons: "starts_with (a # as) (c # cs) \<longleftrightarrow> a = c \<and> starts_with as cs"
  by (auto simp: starts_with_def)

lemma starts_with_Nil: "starts_with [] s" "starts_with (a # as) [] \<longleftrightarrow> False"
  by (auto simp: starts_with_def)

lemmas starts_simps = starts_with_Cons starts_with_Nil

lemma after_quoted_escape: "r = [] \<or> hd r \<noteq> d \<Longrightarrow> after_quoted_value d (escape_quotes d t @ d # r) = r"
proof (induction t)
  case Nil
  then show ?case by (cases r) auto
qed auto

lemma after_line_comment_text: "CHR 0x0A \<notin> set t \<Longrightarrow> after_line_comment (t @ CHR 0x0A # r) = r"
  by (induction t) (auto simp: after_line_comment_def)

lemma after_block_comment_text:
  "CHR ''*'' \<notin> set t \<Longrightarrow> t = [] \<or> last t \<noteq> CHR ''/'' \<Longrightarrow> after_block_comment (Suc 0) (t @ CHR ''*'' # CHR ''/'' # r) = r"
proof (induction t)
  case Nil
  show ?case by (subst after_block_comment.simps) (simp add: starts_simps after_block_comment.simps [of 0])
next
  case (Cons c t)
  have "\<not> starts_with ''/*'' (c # t @ CHR ''*'' # CHR ''/'' # r)" "\<not> starts_with ''*/'' (c # t @ CHR ''*'' # CHR ''/'' # r)"
    using Cons.prems by (cases t; auto simp: starts_simps)+
  moreover have "t = [] \<or> last t \<noteq> CHR ''/''" using Cons.prems(2) by auto
  ultimately show ?case using Cons.IH Cons.prems(1) by (subst after_block_comment.simps) simp
qed

lemma ident_start_part: "ident_start c \<Longrightarrow> ident_part c"
  by (auto simp: ident_start_def ident_part_def alnum_az_def)

lemma ident_part_chars:
  "\<not> ident_part (CHR ''$'')" "\<not> ident_part (CHR '' '')" "\<not> ident_start (CHR ''-'')" "\<not> ident_start (CHR '';'')"
  "\<not> ident_start (CHR 0x27)" "\<not> ident_start (CHR 0x22)" "\<not> ident_start (CHR ''$'')" "\<not> ident_start (CHR ''/'')"
  by code_simp+

lemma ident_start_not: "ident_start c \<Longrightarrow> c \<noteq> CHR ''-'' \<and> c \<noteq> CHR ''/'' \<and> c \<noteq> CHR 0x27 \<and> c \<noteq> CHR 0x22 \<and> c \<noteq> CHR ''$'' \<and> c \<noteq> CHR '';''"
  using ident_part_chars by blast

lemma takeWhile_word: "list_all ident_part w \<Longrightarrow> \<not> ident_part c \<Longrightarrow> takeWhile ident_part (w @ c # r) = w \<and> dropWhile ident_part (w @ c # r) = c # r"
  by (induction w) auto

lemma dollar_delimiter_text:
  assumes "list_all ident_part tag" "tag = [] \<or> ident_start (hd tag)"
  shows "dollar_delimiter (CHR ''$'' # tag @ CHR ''$'' # r) = Some (CHR ''$'' # tag @ [CHR ''$''])"
  using takeWhile_word [OF assms(1) ident_part_chars(1), of r] assms(2) by (simp add: dollar_delimiter_def)

lemma after_first_text: "CHR ''$'' \<notin> set t \<Longrightarrow> after_first (CHR ''$'' # d) (t @ CHR ''$'' # d @ r) = r"
proof (induction t)
  case Nil
  have "starts_with (CHR ''$'' # d) (CHR ''$'' # d @ r)" by (simp add: starts_with_iff)
  then show ?case by simp
qed (auto simp: starts_simps)

lemma skip_piece_plain:
  "c \<notin> {CHR 0x27, CHR 0x22, CHR ''$'', CHR ''-'', CHR ''/''} \<Longrightarrow> skip_piece (c # r) = None"
  by (auto simp: skip_piece_def starts_simps dollar_delimiter_def)

lemma skip_piece_token:
  assumes "wf_token t" "\<nexists>w. t = Word w" "\<nexists>c. t = Blank c"
  shows "skip_piece (render_token t @ r) = Some ((case t of Quoted d u \<Rightarrow> '' '' | _ \<Rightarrow> []) @ r)"
proof (cases t)
  case (LineComment u)
  then show ?thesis using assms(1) after_line_comment_text by (simp add: skip_piece_def starts_simps)
next
  case (BlockComment u)
  then show ?thesis using assms(1) after_block_comment_text [of u r] by (simp add: skip_piece_def starts_simps)
next
  case (Quoted d u)
  then show ?thesis using assms(1) after_quoted_escape [of "CHR '' '' # r" d u] by (auto simp: skip_piece_def starts_simps)
next
  case (Dollar tag u)
  have "drop (length (CHR ''$'' # tag @ [CHR ''$''])) (CHR ''$'' # tag @ CHR ''$'' # x) = x" for x by simp
  then show ?thesis
    using Dollar assms(1) dollar_delimiter_text [of tag] after_first_text [of u "tag @ [CHR ''$'']" r]
    by (simp add: skip_piece_def starts_simps)
qed (use assms in auto)

lemma scan_blank: "wf_token (Blank c) \<Longrightarrow> statement_prefixes p (c # r) = statement_prefixes p r"
  by (subst statement_prefixes.simps) (simp add: skip_piece_plain)

lemma blank_space: "wf_token (Blank (CHR '' ''))"
  by code_simp

definition push_words :: "string list \<Rightarrow> string list \<Rightarrow> string list" where
  "push_words p ws = take 2 (p @ ws)"

lemma scan_token:
  assumes "wf_token t" "length p \<le> 2"
  shows "statement_prefixes p (render_token t @ r) = statement_prefixes (push_words p (token_words t)) r"
proof (cases t)
  case (Word w)
  then obtain c v where w: "w = c # v" "ident_start c" "list_all ident_part v" using assms(1) by (cases w) auto
  have "skip_piece (c # x) = None" "c \<noteq> CHR '';''" for x using skip_piece_plain ident_start_not [OF w(2)] by auto
  moreover have "takeWhile ident_part (c # v @ CHR '' '' # r) = w" "dropWhile ident_part (c # v @ CHR '' '' # r) = CHR '' '' # r"
    using takeWhile_word [OF w(3) ident_part_chars(2), of r] w(1,2) ident_start_part by simp_all
  ultimately have "statement_prefixes p (render_token t @ r)
      = statement_prefixes (if length p < 2 then p @ [map py_upper_char w] else p) (CHR '' '' # r)"
    using Word w by (subst statement_prefixes.simps) simp
  moreover have "(if length p < 2 then p @ [map py_upper_char w] else p) = push_words p (token_words t)"
    using assms(2) Word by (simp add: push_words_def)
  ultimately show ?thesis using scan_blank [OF blank_space] by simp
next
  case (Blank c)
  then show ?thesis using scan_blank assms by (simp add: push_words_def)
next
  case (Quoted d u)
  then have "skip_piece (render_token t @ r) = Some (CHR '' '' # r)" using skip_piece_token [OF assms(1)] by simp
  then have "statement_prefixes p (render_token t @ r) = statement_prefixes p (CHR '' '' # r)"
    using Quoted by (subst statement_prefixes.simps) simp
  then show ?thesis using scan_blank [OF blank_space] Quoted assms(2) by (simp add: push_words_def)
qed (use skip_piece_token [OF assms(1), of r] assms(2) in \<open>subst statement_prefixes.simps, simp add: push_words_def\<close>)+

lemma scan_tokens:
  "list_all wf_token st \<Longrightarrow> length p \<le> 2 \<Longrightarrow> statement_prefixes p (concat (map render_token st) @ r) = statement_prefixes (push_words p (statement_words st)) r"
proof (induction st arbitrary: p)
  case (Cons t st)
  have "length (push_words p (token_words t)) \<le> 2" by (simp add: push_words_def)
  moreover have "push_words (push_words p (token_words t)) (statement_words st) = push_words p (statement_words (t # st))"
    by (simp add: push_words_def statement_words_def take_Cons' min_def)
  ultimately show ?case using Cons scan_token [of t p] by simp
qed (simp add: push_words_def statement_words_def)

lemma scan_end: "statement_prefixes p (CHR '';'' # r) = (if p = [] then [] else [p]) @ statement_prefixes [] r"
  by (subst statement_prefixes.simps) (simp add: skip_piece_plain)

lemma scan_script:
  "list_all (list_all wf_token) sts \<Longrightarrow>
     statement_prefixes [] (render_script sts) = map (take 2) (filter (\<lambda>ws. ws \<noteq> []) (map statement_words sts))"
proof (induction sts)
  case Nil
  show ?case by (simp add: render_script_def statement_prefixes.simps)
next
  case (Cons st sts)
  have "statement_prefixes [] (render_script (st # sts)) = statement_prefixes (take 2 (statement_words st)) (CHR '';'' # render_script sts)"
    using scan_tokens [of st "[]" "CHR '';'' # render_script sts"] Cons.prems by (simp add: render_script_def push_words_def)
  then show ?case using Cons by (simp add: scan_end)
qed

lemma controls_take: "ws \<noteq> [] \<Longrightarrow> controls_transaction (take 2 ws) \<longleftrightarrow> controls_transaction ws"
  by (cases ws) (auto simp: controls_transaction_def)


definition script_demo :: "sql_token list list" where
  "script_demo =
     [[Word ''SELECT'', Quoted (CHR 0x27) (''a'' @ [CHR 0x27] @ ''; COMMIT''), LineComment '' ROLLBACK;''],
      [Blank (CHR 0x0A), BlockComment '' x '', Word ''start'', Dollar ''q'' ''COMMIT;'', Word ''Transaction'']]"


text \<open>Escape strings of PostgreSQL are not known to the scanner: after the backslash-escaped quote
  below the server sees the end of the value and a commit, the scanner a value that goes on.\<close>

lemma escape_string_hides_commit:
  "\<not> contains_transaction_control (''SELECT E'' @ [CHR 0x27, CHR 0x5C, CHR 0x27, CHR 0x27] @ ''; COMMIT; -- '' @ [CHR 0x27])"
  by code_simp

section \<open>Histories\<close>

definition migration_key :: "migration \<Rightarrow> int \<times> string \<times> string" where
  "migration_key m = (mg_version m, mg_name m, mg_checksum m)"

definition applied_key :: "applied_migration \<Rightarrow> int \<times> string \<times> string" where
  "applied_key r = (am_version r, am_name r, am_checksum r)"

lemma local_lookup:
  assumes "distinct (map mg_version migrations)"
  shows "map_of (map (\<lambda>m. (mg_version m, m)) (rev migrations)) v = Some m \<longleftrightarrow> m \<in> set migrations \<and> mg_version m = v"
proof -
  have d: "distinct (map fst (map (\<lambda>m. (mg_version m, m)) (rev migrations)))"
    using assms by (simp add: rev_map [symmetric] comp_def)
  show ?thesis using map_of_eq_Some_iff [OF d, of v m] by auto
qed

lemma check_applied_Inr:
  assumes "distinct (map mg_version migrations)"
  shows "check_applied migrations seen rs = Inr seen' \<longleftrightarrow>
    seen' = rev (map (\<lambda>r. (am_version r, r)) rs) @ seen \<and> distinct (map am_version rs)
    \<and> (\<forall>r\<in>set rs. map_of seen (am_version r) = None \<and> applied_key r \<in> migration_key ` set migrations)"
proof (induction rs arbitrary: seen)
  case (Cons r rs)
  have step: "check_applied migrations seen (r # rs) = Inr seen' \<longleftrightarrow>
    map_of seen (am_version r) = None \<and> applied_key r \<in> migration_key ` set migrations
    \<and> check_applied migrations ((am_version r, r) # seen) rs = Inr seen'"
  proof (cases "map_of (map (\<lambda>m. (mg_version m, m)) (rev migrations)) (am_version r)")
    case None
    then have "\<nexists>m. m \<in> set migrations \<and> mg_version m = am_version r" using local_lookup [OF assms] by (metis option.distinct(1))
    then show ?thesis using None by (auto simp: applied_key_def migration_key_def)
  next
    case (Some m)
    note m = Some [unfolded local_lookup [OF assms]]
    have "applied_key r \<in> migration_key ` set migrations \<longleftrightarrow> am_name r = mg_name m \<and> am_checksum r = mg_checksum m"
    proof
      assume "applied_key r \<in> migration_key ` set migrations"
      then obtain m' where m': "m' \<in> set migrations" "applied_key r = migration_key m'" by auto
      then have "m' = m" using m assms by (auto simp: applied_key_def migration_key_def distinct_map inj_on_def)
      then show "am_name r = mg_name m \<and> am_checksum r = mg_checksum m" using m'(2) by (simp add: applied_key_def migration_key_def)
    qed (use m in \<open>auto simp: applied_key_def migration_key_def intro!: image_eqI [of _ _ m]\<close>)
    then show ?thesis using Some by auto
  qed
  have "map_of ((am_version r, r) # seen) v = None \<longleftrightarrow> v \<noteq> am_version r \<and> map_of seen v = None" for v by auto
  moreover have "am_version r \<notin> am_version ` set rs \<longleftrightarrow> (\<forall>q\<in>set rs. am_version q \<noteq> am_version r)" by (metis imageE imageI)
  ultimately show ?case unfolding step Cons.IH by (auto simp del: map_of.simps)
qed auto

lemma find_pending_gap:
  "find_pending seen True migs = Inr ps \<longleftrightarrow> ps = migs \<and> (\<forall>m\<in>set migs. map_of seen (mg_version m) = None)"
  by (induction migs arbitrary: ps) (auto simp: bindR_eq_Inr)

lemma find_pending_Inr:
  "find_pending seen False migs = Inr ps \<longleftrightarrow> ps = dropWhile (\<lambda>m. map_of seen (mg_version m) \<noteq> None) migs
     \<and> (\<forall>m\<in>set ps. map_of seen (mg_version m) = None)"
  by (induction migs arbitrary: ps) (auto simp: bindR_eq_Inr find_pending_gap)

lemma map_of_records:
  assumes "distinct (map am_version applied)"
  shows "map_of (rev (map (\<lambda>r. (am_version r, r)) applied)) v = Some r \<longleftrightarrow> r \<in> set applied \<and> am_version r = v"
proof -
  have "distinct (map fst (rev (map (\<lambda>r. (am_version r, r)) applied)))" using assms by (simp add: rev_map [symmetric] comp_def)
  from map_of_eq_Some_iff [OF this, of v r] show ?thesis by auto
qed

lemma map_of_records_None:
  "map_of (rev (map (\<lambda>r. (am_version r, r)) applied)) v = None \<longleftrightarrow> v \<notin> am_version ` set applied"
  by (auto simp: map_of_eq_None_iff image_image)

text \<open>A history whose rows are the first \<open>k\<close> local migrations.\<close>

definition history_prefix :: "migration list \<Rightarrow> nat \<Rightarrow> applied_migration list \<Rightarrow> bool" where
  "history_prefix migrations k applied \<longleftrightarrow> k \<le> length migrations \<and> distinct (map am_version applied)
     \<and> applied_key ` set applied = migration_key ` set (take k migrations)"

lemma prefix_seen:
  assumes d: "distinct (map mg_version migrations)" and h: "history_prefix migrations k applied"
  shows "m \<in> set (take k migrations) \<Longrightarrow> mg_version m \<in> am_version ` set applied"
    "m \<in> set (drop k migrations) \<Longrightarrow> mg_version m \<notin> am_version ` set applied"
proof -
  have v: "am_version ` set applied = mg_version ` set (take k migrations)"
  proof -
    have "fst ` applied_key ` set applied = fst ` migration_key ` set (take k migrations)" using h by (simp add: history_prefix_def)
    then show ?thesis by (simp add: image_image applied_key_def migration_key_def)
  qed
  then show "m \<in> set (take k migrations) \<Longrightarrow> mg_version m \<in> am_version ` set applied" by simp
  have "distinct (map mg_version (take k migrations) @ map mg_version (drop k migrations))"
    using d by (simp flip: map_append)
  then show "m \<in> set (drop k migrations) \<Longrightarrow> mg_version m \<notin> am_version ` set applied" by (auto simp: v)
qed

lemma status_of_prefix:
  assumes d: "distinct (map mg_version migrations)" and h: "history_prefix migrations k applied"
  shows "build_status schema e migrations applied = Inr \<lparr>ms_schema = schema, ms_history_exists = e,
    ms_applied = List.map_filter (\<lambda>m. map_of (rev (map (\<lambda>r. (am_version r, r)) applied)) (mg_version m)) migrations,
    ms_pending = drop k migrations\<rparr>"
proof -
  let ?seen = "rev (map (\<lambda>r. (am_version r, r)) applied)"
  have da: "distinct (map am_version applied)" using h by (simp add: history_prefix_def)
  have "applied_key ` set applied \<subseteq> migration_key ` set migrations"
    using h set_take_subset [of k migrations] by (simp add: history_prefix_def image_mono)
  then have "\<forall>r\<in>set applied. applied_key r \<in> migration_key ` set migrations" by blast
  then have "check_applied migrations [] applied = Inr ?seen" using da by (simp add: check_applied_Inr [OF d])
  moreover have "dropWhile (\<lambda>m. map_of ?seen (mg_version m) \<noteq> None) (take k migrations @ drop k migrations) = drop k migrations"
    using prefix_seen [OF d h] map_of_records_None [of applied] by (subst dropWhile_append2) (auto simp: dropWhile_eq_self_iff)
  then have "find_pending ?seen False migrations = Inr (drop k migrations)"
    using prefix_seen(2) [OF d h] map_of_records_None [of applied] by (simp add: find_pending_Inr)
  ultimately show ?thesis by (simp add: build_status_def)
qed

lemma status_prefix:
  assumes d: "distinct (map mg_version migrations)" and b: "build_status schema e migrations applied = Inr st"
  shows "\<exists>k. history_prefix migrations k applied"
proof -
  obtain seen ps where s: "check_applied migrations [] applied = Inr seen" "find_pending seen False migrations = Inr ps"
    using b by (auto simp: build_status_def bindR_eq_Inr)
  have seen: "seen = rev (map (\<lambda>r. (am_version r, r)) applied)" and da: "distinct (map am_version applied)"
    and k: "\<forall>r\<in>set applied. applied_key r \<in> migration_key ` set migrations"
    using s(1) by (simp_all add: check_applied_Inr [OF d])
  let ?in = "\<lambda>m. map_of seen (mg_version m) \<noteq> None"
  have in_iff: "?in m \<longleftrightarrow> mg_version m \<in> am_version ` set applied" for m
    using map_of_records_None [of applied] by (simp add: seen)
  have ps: "ps = dropWhile ?in migrations" "\<forall>m\<in>set ps. map_of seen (mg_version m) = None"
    using s(2) unfolding find_pending_Inr by blast+
  have rest: "\<forall>m\<in>set (dropWhile ?in migrations). \<not> ?in m" using ps(2) unfolding ps(1) not_not .
  have key: "migration_key m = applied_key r" if "m \<in> set migrations" "r \<in> set applied" "mg_version m = am_version r" for m r
  proof -
    obtain m' where "m' \<in> set migrations" "applied_key r = migration_key m'" using k \<open>r \<in> set applied\<close> by auto
    moreover from this have "m' = m" using that d by (auto simp: applied_key_def migration_key_def distinct_map inj_on_def)
    ultimately show ?thesis by simp
  qed
  have taken: "m \<in> set (takeWhile ?in migrations) \<longleftrightarrow> m \<in> set migrations \<and> ?in m" for m
  proof -
    have "set migrations = set (takeWhile ?in migrations) \<union> set (dropWhile ?in migrations)"
      using set_append [of "takeWhile ?in migrations" "dropWhile ?in migrations"] by simp
    then show ?thesis using rest set_takeWhileD [of m ?in migrations] by blast
  qed
  have "applied_key ` set applied = migration_key ` set (takeWhile ?in migrations)"
  proof (intro equalityI subsetI)
    fix x assume "x \<in> applied_key ` set applied"
    then obtain r m where r: "x = applied_key r" "r \<in> set applied" "m \<in> set migrations" "applied_key r = migration_key m" using k by auto
    then have "mg_version m = am_version r" by (simp add: applied_key_def migration_key_def)
    then have "?in m" unfolding in_iff using r(2) by simp
    then show "x \<in> migration_key ` set (takeWhile ?in migrations)" using r taken by auto
  next
    fix x assume "x \<in> migration_key ` set (takeWhile ?in migrations)"
    then obtain m where m: "x = migration_key m" "m \<in> set migrations" "?in m" using taken by auto
    then obtain r where "r \<in> set applied" "mg_version m = am_version r" using in_iff by blast
    then show "x \<in> applied_key ` set applied" using key [OF m(2)] m(1) by simp
  qed
  then have "history_prefix migrations (length (takeWhile ?in migrations)) applied"
    using da length_takeWhile_le by (simp add: history_prefix_def takeWhile_eq_take [symmetric])
  then show ?thesis ..
qed

text \<open>When a history is accepted. With local migrations of distinct versions, the status is built exactly when
  the rows of the history are the first migrations, without a gap, a duplicate, an unknown version, a changed name or a changed
  checksum; the pending migrations are then exactly the remaining ones, in order.\<close>

theorem status_exact:
  assumes "distinct (map mg_version migrations)"
  shows "build_status schema e migrations applied = Inr st \<longleftrightarrow>
    (\<exists>k. history_prefix migrations k applied \<and> ms_schema st = schema \<and> ms_history_exists st = e \<and> ms_pending st = drop k migrations
      \<and> ms_applied st = List.map_filter (\<lambda>m. map_of (rev (map (\<lambda>r. (am_version r, r)) applied)) (mg_version m)) migrations)"
proof
  assume b: "build_status schema e migrations applied = Inr st"
  then obtain k where "history_prefix migrations k applied" using status_prefix [OF assms] by blast
  with b status_of_prefix [OF assms this, of schema e] show "\<exists>k. history_prefix migrations k applied \<and> ms_schema st = schema
      \<and> ms_history_exists st = e \<and> ms_pending st = drop k migrations
      \<and> ms_applied st = List.map_filter (\<lambda>m. map_of (rev (map (\<lambda>r. (am_version r, r)) applied)) (mg_version m)) migrations"
    by auto
next
  assume "\<exists>k. history_prefix migrations k applied \<and> ms_schema st = schema \<and> ms_history_exists st = e \<and> ms_pending st = drop k migrations
      \<and> ms_applied st = List.map_filter (\<lambda>m. map_of (rev (map (\<lambda>r. (am_version r, r)) applied)) (mg_version m)) migrations"
  then show "build_status schema e migrations applied = Inr st" using status_of_prefix [OF assms] by (cases st) auto
qed

section \<open>Applying\<close>

text \<open>How many of the migrations run before one fails, and the data they leave.\<close>

fun run_all :: "(string \<Rightarrow> ('d, unit) op) \<Rightarrow> migration list \<Rightarrow> 'd \<Rightarrow> nat \<times> 'd" where
  "run_all run_sql [] d = (0, d)"
| "run_all run_sql (m # rest) d =
     (case run_sql (mg_sql m) d of (Inl e, _) \<Rightarrow> (0, d) | (Inr _, d') \<Rightarrow> (case run_all run_sql rest d' of (j, d'') \<Rightarrow> (Suc j, d'')))"

definition history_row :: "instant \<Rightarrow> migration \<Rightarrow> applied_migration" where
  "history_row t m = \<lparr>am_version = mg_version m, am_name = mg_name m, am_checksum = mg_checksum m, am_applied_at = t\<rparr>"

definition insertable :: "migration \<Rightarrow> bool" where
  "insertable m \<longleftrightarrow> mg_version m > 0 \<and> length (mg_name m) \<le> 63 \<and> is_hex64 (mg_checksum m)"

definition failure :: "migration \<Rightarrow> py_error" where
  "failure m = MigrationExecutionError (''migration '' @ label m @ '' failed; its transaction was rolled back'')"

lemma apply_one_result:
  assumes "db_history db = Some rows" "mg_version m \<notin> am_version ` set rows" "insertable m"
  shows "apply_one run_sql m db =
    (case run_sql (mg_sql m) (db_data db) of
       (Inl e, _) \<Rightarrow> (Inl (failure m), db)
     | (Inr _, d) \<Rightarrow> (Inr (), db\<lparr>db_history := Some (rows @ [history_row (db_now db) m]), db_data := d\<rparr>))"
  using assms
  by (cases "run_sql (mg_sql m) (db_data db)"; cases "fst (run_sql (mg_sql m) (db_data db))")
    (auto simp: apply_one_def catchS_def db_transaction_def bindS_def run_migration_sql_def insert_history_def insertable_def
      history_row_def failure_def raise_def)

lemma apply_each_result:
  assumes "db_history db = Some rows" "distinct (map mg_version migs)" "\<forall>m\<in>set migs. mg_version m \<notin> am_version ` set rows \<and> insertable m"
    and "run_all run_sql migs (db_data db) = (j, d)"
  shows "j \<le> length migs \<and> apply_each run_sql migs db = ((if j = length migs then Inr () else Inl (failure (migs ! j))),
    db\<lparr>db_history := Some (rows @ map (history_row (db_now db)) (take j migs)), db_data := d\<rparr>)"
  using assms
proof (induction migs arbitrary: db rows j d)
  case Nil
  then show ?case by (cases db) (simp add: ret_def)
next
  case (Cons m migs)
  note one = apply_one_result [OF Cons.prems(1), of m run_sql]
  show ?case
  proof (cases "fst (run_sql (mg_sql m) (db_data db))")
    case (Inl e)
    then obtain x where "run_sql (mg_sql m) (db_data db) = (Inl e, x)" by (metis prod.collapse)
    then show ?thesis using Cons.prems one by (cases db) (auto simp: bindS_def)
  next
    case (Inr u)
    then obtain d' where Inr: "run_sql (mg_sql m) (db_data db) = (Inr u, d')" by (metis prod.collapse)
    let ?db = "db\<lparr>db_history := Some (rows @ [history_row (db_now db) m]), db_data := d'\<rparr>"
    obtain i where i: "run_all run_sql migs (db_data ?db) = (i, d)" "j = Suc i" using Cons.prems(4) Inr by (auto split: prod.splits)
    have rows: "db_history ?db = Some (rows @ [history_row (db_now db) m])" by simp
    have ok: "\<forall>x\<in>set migs. mg_version x \<notin> am_version ` set (rows @ [history_row (db_now db) m]) \<and> insertable x"
      using Cons.prems(2,3) by (simp add: history_row_def) (metis image_eqI)
    have "distinct (map mg_version migs)" using Cons.prems(2) by simp
    from Cons.IH [OF rows this ok i(1)] one Cons.prems(3) Inr i(2) show ?thesis by (auto simp: bindS_def)
  qed
qed

lemma discover_facts:
  assumes "discover_migrations sha decode directory = Inr migs" and sha: "\<And>b. is_hex64 (sha b)"
  shows "map mg_version migs = map int [1 ..< Suc (length migs)]" "\<forall>m\<in>set migs. insertable m \<and> \<not> contains_transaction_control (mg_sql m)"
proof -
  obtain files where f: "mapR (load_migration sha decode) files = Inr migs" and v: "map mg_version migs = map int [1 ..< Suc (length migs)]"
    using assms(1) by (auto simp: discover_migrations_def bindR_eq_Inr split: option.splits if_splits)
  show "map mg_version migs = map int [1 ..< Suc (length migs)]" by (rule v)
  have "\<forall>m\<in>set migs. length (mg_name m) \<le> 63 \<and> is_hex64 (mg_checksum m) \<and> \<not> contains_transaction_control (mg_sql m)"
    using f
  proof (induction files arbitrary: migs)
    case (Cons x files)
    then show ?case
      by (auto simp: bindR_eq_Inr load_migration_def validate_identifier_def sha split: option.splits if_splits)
  qed simp
  moreover have "mg_version m > 0" if "m \<in> set migs" for m
  proof -
    have "mg_version m \<in> set (map int [1 ..< Suc (length migs)])" using that v by (metis image_eqI list.set_map)
    then show ?thesis by auto
  qed
  ultimately show "\<forall>m\<in>set migs. insertable m \<and> \<not> contains_transaction_control (mg_sql m)" by (auto simp: insertable_def)
qed

lemma history_prefix_sort: "history_prefix migs k (sort_key am_version rows) \<longleftrightarrow> history_prefix migs k rows"
  by (simp add: history_prefix_def distinct_map)

lemma history_prefix_extend:
  assumes h: "history_prefix migs k rows" and d: "distinct (map mg_version migs)" and j: "j \<le> length migs - k"
  shows "history_prefix migs (k + j) (rows @ map (history_row t) (take j (drop k migs)))"
proof -
  have "distinct (map mg_version (take j (drop k migs)))" using d by (metis distinct_drop distinct_take drop_map take_map)
  moreover have "am_version ` set rows \<inter> mg_version ` set (take j (drop k migs)) = {}"
  proof -
    have "x \<notin> am_version ` set rows" if x: "x \<in> mg_version ` set (take j (drop k migs))" for x
    proof -
      obtain m where "m \<in> set (drop k migs)" "x = mg_version m" using x in_set_takeD by fast
      then show ?thesis using prefix_seen(2) [OF d h] by simp
    qed
    then show ?thesis by blast
  qed
  moreover have "applied_key (history_row t m) = migration_key m" for m by (simp add: applied_key_def migration_key_def history_row_def)
  then have "applied_key ` set (map (history_row t) (take j (drop k migs))) = migration_key ` set (take j (drop k migs))"
    by (simp add: image_image)
  moreover have "am_version \<circ> history_row t = mg_version" by (auto simp: history_row_def)
  moreover have "k \<le> length migs" using h by (simp add: history_prefix_def)
  then have "k + j \<le> length migs" using j by linarith
  ultimately show ?thesis
    using h by (simp add: history_prefix_def take_add image_Un)
qed

text \<open>C14: applying migrations. From a database whose history is the first \<open>k\<close> local migrations, the
  runner runs the pending migrations in order up to the first that fails: exactly those that ran have their history
  row and their effect, the failed one has neither, the lock is free again, and the call returns a ready status if none
  failed and otherwise raises the error of the failed one.\<close>

theorem apply_migrations_exact:
  assumes "validate_identifier ''schema'' schema = Inr schema" and disc: "discover_migrations sha decode directory = Inr migs"
    and sha: "\<And>b. is_hex64 (sha b)"
    and h: "history_prefix migs k (case db_history db of None \<Rightarrow> [] | Some rows \<Rightarrow> rows)"
    and run: "run_all run_sql (drop k migs) (db_data db) = (j, d)"
  shows "\<exists>r. apply_migrations sha decode run_sql directory schema db =
      (r, db\<lparr>db_history := Some ((case db_history db of None \<Rightarrow> [] | Some rows \<Rightarrow> rows) @ map (history_row (db_now db)) (take j (drop k migs))),
             db_data := d, db_lock := None\<rparr>)
    \<and> (if j = length migs - k then \<exists>x. r = Inr x \<and> ready (mr_status x) \<and> mr_applied x = drop k migs
       else r = Inl (failure (migs ! (k + j))))"
proof -
  let ?rows = "case db_history db of None \<Rightarrow> [] | Some rows \<Rightarrow> rows"
  obtain name where name: "migration_lock_name schema = Inr name" using assms(1) by (simp add: migration_lock_name_def)
  let ?db1 = "db\<lparr>db_history := Some ?rows, db_lock := Some name\<rparr>"
  have v: "distinct (map mg_version migs)" using discover_facts(1) [OF disc sha] by (simp add: distinct_map)
  have ens: "ensure_history (db\<lparr>db_lock := Some name\<rparr>) = (Inr (), ?db1)"
    by (cases db; cases "db_history db") (auto simp: ensure_history_def db_transaction_def)
  have st: "\<exists>a. build_status schema True migs (sort_key am_version rows) = Inr \<lparr>ms_schema = schema, ms_history_exists = True, ms_applied = a,
      ms_pending = drop i migs\<rparr>" if "history_prefix migs i rows" for i rows
    using status_of_prefix [OF v, of i "sort_key am_version rows"] that by (simp add: history_prefix_sort)
  obtain a where a: "build_status schema True migs (sort_key am_version ?rows) = Inr \<lparr>ms_schema = schema, ms_history_exists = True, ms_applied = a,
      ms_pending = drop k migs\<rparr>" using st [OF h] by blast
  have dv: "distinct (map mg_version (drop k migs))" using v by (metis distinct_drop drop_map)
  have pend: "\<forall>m\<in>set (drop k migs). mg_version m \<notin> am_version ` set ?rows \<and> insertable m"
    using prefix_seen(2) [OF v h] discover_facts(2) [OF disc sha] by (auto dest: in_set_dropD)
  let ?db2 = "db\<lparr>db_history := Some (?rows @ map (history_row (db_now db)) (take j (drop k migs))), db_data := d, db_lock := Some name\<rparr>"
  have each: "j \<le> length migs - k" "apply_each run_sql (drop k migs) ?db1 =
      ((if j = length migs - k then Inr () else Inl (failure (drop k migs ! j))), ?db2)"
    using apply_each_result [of ?db1 ?rows "drop k migs" run_sql j d] dv pend run by simp_all
  have k: "k \<le> length migs" using h by (simp add: history_prefix_def)
  note defs = apply_migrations_def bindS_def lift_def with_advisory_lock_def acquire_lock_def release_lock_def read_applied_def ret_def raise_def
  show ?thesis
  proof (cases "j = length migs - k")
    case True
    have "history_prefix migs (length migs) (?rows @ map (history_row (db_now db)) (take j (drop k migs)))"
      using history_prefix_extend [OF h v each(1)] True k by simp
    from st [OF this] obtain b where b: "build_status schema True migs (sort_key am_version (?rows @ map (history_row (db_now db)) (take j (drop k migs))))
        = Inr \<lparr>ms_schema = schema, ms_history_exists = True, ms_applied = b, ms_pending = []\<rparr>"
      by auto
    show ?thesis using True assms(1) disc name ens a each(2) b by (simp add: defs ready_def)
  next
    case False
    then have "drop k migs ! j = migs ! (k + j)" using k by simp
    then show ?thesis using False assms(1) disc name ens a each(2) by (simp add: defs)
  qed
qed

section \<open>A concrete directory\<close>

definition mg_dir :: "(string \<times> string) list option" where
  "mg_dir = Some [(''0002_more.sql'', ''ALTER TABLE t''), (''0001_init.sql'', ''CREATE TABLE t'')]"

definition mg_sha :: "string \<Rightarrow> string" where "mg_sha b = replicate 64 (CHR ''0'')"

definition mg_list :: "migration list" where
  "mg_list =
     [\<lparr>mg_version = 1, mg_name = ''init'', mg_checksum = mg_sha [], mg_sql = ''CREATE TABLE t'', mg_filename = ''0001_init.sql''\<rparr>,
      \<lparr>mg_version = 2, mg_name = ''more'', mg_checksum = mg_sha [], mg_sql = ''ALTER TABLE t'', mg_filename = ''0002_more.sql''\<rparr>]"

text \<open>The second script fails after it has changed the data.\<close>

definition mg_run :: "string \<Rightarrow> (nat, unit) op" where
  "mg_run sql d = (if sql = ''CREATE TABLE t'' then (Inr (), Suc d) else (Inl (RuntimeError ''UndefinedColumn''), d + 10))"

definition mg_db :: "nat database" where
  "mg_db = \<lparr>db_history = None, db_data = 0, db_lock = None, db_now = 0\<rparr>"

lemma mg_facts: "discover_migrations mg_sha Some mg_dir = Inr mg_list" "validate_identifier ''schema'' ''public'' = Inr ''public''"
  "run_all mg_run (drop 0 mg_list) (db_data mg_db) = (1, 1)"
  by code_simp+

lemma mg_hex: "is_hex64 (mg_sha b)"
  by (simp add: mg_sha_def is_hex64_def list_all_iff)

lemma mg_empty: "history_prefix mg_list 0 (case db_history mg_db of None \<Rightarrow> [] | Some rows \<Rightarrow> rows)"
  by (simp add: history_prefix_def mg_db_def)

theorem apply_migrations_exact_witness:
  "\<exists>r db. apply_migrations mg_sha Some mg_run mg_dir ''public'' mg_db = (r, db) \<and> r = Inl (failure (mg_list ! 1)) \<and> db_data db = 1
     \<and> db_history db = Some [history_row 0 (mg_list ! 0)]"
proof -
  have "take 1 mg_list = [mg_list ! 0]" "length mg_list = 2" by (simp_all add: mg_list_def)
  with apply_migrations_exact [OF mg_facts(2,1) mg_hex mg_empty mg_facts(3)] show ?thesis by (auto simp: mg_db_def)
qed

theorem status_exact_witness:
  "\<exists>st. build_status ''public'' True mg_list [history_row 0 (mg_list ! 0)] = Inr st \<and> ms_pending st = [mg_list ! 1]"
proof -
  let ?rows = "[history_row 0 (mg_list ! 0)]"
  let ?st = "\<lparr>ms_schema = ''public'', ms_history_exists = True,
    ms_applied = List.map_filter (\<lambda>m. map_of (rev (map (\<lambda>r. (am_version r, r)) ?rows)) (mg_version m)) mg_list, ms_pending = drop 1 mg_list\<rparr>"
  have "distinct (map mg_version mg_list)" "history_prefix mg_list 1 ?rows" "drop 1 mg_list = [mg_list ! 1]"
    by (simp_all add: mg_list_def history_prefix_def history_row_def applied_key_def migration_key_def)
  with status_exact [of mg_list "''public''" True ?rows ?st] show ?thesis by auto
qed

end
