(* ===== verification/Egress.thy ===== *)
theory Egress
  imports Admin_Auth
begin

text \<open>
  The outbound allowlist: \<^verbatim>\<open>adapters/outbound/egress.py\<close>, and the start-up check of
  \<^verbatim>\<open>infrastructure/config_validation.py\<close> that uses it. \<open>urlsplit\<close> is
  \<^verbatim>\<open>urllib.parse.urlsplit\<close> as far as scheme and host need it; the check of a bracketed host,
  which differs between interpreter versions, is the parameter \<open>brackets_ok\<close>. The
  characters of the model are those whose compatibility forms hold no separator, so the check
  of the normalised authority never applies. The frozen sets of entries are lists here, of which only membership matters,
  and the messages of refused entries leave out the quoted entry.
\<close>

section \<open>Splitting a URL\<close>

definition ascii_alpha :: "char \<Rightarrow> bool" where
  "ascii_alpha c \<longleftrightarrow> (let n = (of_char c :: int) in (65 \<le> n \<and> n \<le> 90) \<or> (97 \<le> n \<and> n \<le> 122))"

definition scheme_char :: "char \<Rightarrow> bool" where
  "scheme_char c \<longleftrightarrow> ascii_alpha c \<or> is_digit c \<or> c \<in> set ''+-.''"

text \<open>Leading control characters and blanks, and every tab and line end, are removed first.\<close>

definition clean_url :: "string \<Rightarrow> string" where
  "clean_url u = filter (\<lambda>c. c \<notin> {CHR 0x09, CHR 0x0D, CHR 0x0A}) (dropWhile (\<lambda>c. (of_char c :: int) \<le> 32) u)"

definition split_scheme :: "string \<Rightarrow> string \<times> string" where
  "split_scheme u =
     (let s = takeWhile (\<lambda>c. c \<noteq> CHR '':'') u in
      if CHR '':'' \<in> set u \<and> s \<noteq> [] \<and> ascii_alpha (hd s) \<and> list_all scheme_char s then (py_lower s, drop (Suc (length s)) u)
      else ([], u))"

definition url_netloc :: "string \<Rightarrow> string" where
  "url_netloc rest = (if starts_with ''//'' rest then takeWhile (\<lambda>c. c \<notin> set ''/?#'') (drop 2 rest) else [])"

definition urlsplit :: "(string \<Rightarrow> bool) \<Rightarrow> string \<Rightarrow> (string \<times> string) result" where
  "urlsplit brackets_ok u =
     (let sr = split_scheme (clean_url u); netloc = url_netloc (snd sr);
          opens = CHR ''['' \<in> set netloc; closes = CHR '']'' \<in> set netloc in
      if opens \<noteq> closes \<or> (opens \<and> closes \<and> \<not> brackets_ok netloc) then Inl (ValueError ''Invalid IPv6 URL'')
      else Inr (fst sr, netloc))"

text \<open>The \<^verbatim>\<open>hostname\<close> of the result; an absent host is the empty string.\<close>

definition url_hostname :: "string \<Rightarrow> string" where
  "url_hostname netloc =
     (let hostinfo = rev (takeWhile (\<lambda>c. c \<noteq> CHR ''@'') (rev netloc));
          name = (if CHR ''['' \<in> set hostinfo
                  then takeWhile (\<lambda>c. c \<noteq> CHR '']'') (tl (dropWhile (\<lambda>c. c \<noteq> CHR ''['') hostinfo))
                  else takeWhile (\<lambda>c. c \<noteq> CHR '':'') hostinfo) in
      py_lower (takeWhile (\<lambda>c. c \<noteq> CHR ''%'') name) @ dropWhile (\<lambda>c. c \<noteq> CHR ''%'') name)"

definition url_authority :: "(string \<Rightarrow> bool) \<Rightarrow> string \<Rightarrow> (string \<times> string) option" where
  "url_authority brackets_ok url =
     (case urlsplit brackets_ok (py_strip url) of
        Inl _ \<Rightarrow> None
      | Inr (s, netloc) \<Rightarrow>
          (let scheme = py_lower (py_strip s); host = py_lower (py_strip (url_hostname netloc)) in
           if scheme = [] \<or> host = [] then None else Some (scheme, host)))"

section \<open>The allowlist\<close>

fun before_text :: "string \<Rightarrow> string \<Rightarrow> string" where
  "before_text p [] = []"
| "before_text p (c # cs) = (if starts_with p (c # cs) then [] else c # before_text p cs)"

definition py_isalpha :: "char \<Rightarrow> bool" where
  "py_isalpha c \<longleftrightarrow> (let n = (of_char c :: int) in
     ascii_alpha c \<or> n = 170 \<or> n = 181 \<or> n = 186 \<or> (192 \<le> n \<and> n \<noteq> 215 \<and> n \<noteq> 247))"

definition parse_entry :: "string \<Rightarrow> (string \<times> string) result" where
  "parse_entry value =
     (let candidate = py_strip value;
          scheme0 = (if contains ''://'' candidate then before_text ''://'' candidate else ''https'');
          host0 = (if contains ''://'' candidate then drop (length (before_text ''://'' candidate) + 3) candidate else candidate);
          scheme = py_lower (py_strip scheme0); host = py_lower (py_strip host0) in
      if candidate = [] then Inl (ValueError ''egress allowlist entries must be non-empty'')
      else if scheme = [] \<or> \<not> list_all py_isalpha scheme then Inl (ValueError ''invalid egress allowlist entry scheme'')
      else if host = [] \<or> CHR ''*'' \<in> set host \<or> CHR ''/'' \<in> set host \<or> CHR '':'' \<in> set host \<or> CHR ''@'' \<in> set host
              \<or> \<not> list_all py_isprintable host
      then Inl (ValueError ''invalid egress allowlist entry host'')
      else Inr (scheme, host))"

type_synonym allowlist = "(string \<times> string) list"

definition from_entries :: "string list \<Rightarrow> allowlist result" where
  "from_entries raw_entries = mapR parse_entry raw_entries"

definition egress_allows :: "(string \<Rightarrow> bool) \<Rightarrow> allowlist \<Rightarrow> string \<Rightarrow> bool" where
  "egress_allows brackets_ok entries url \<longleftrightarrow> (case url_authority brackets_ok url of None \<Rightarrow> False | Some a \<Rightarrow> a \<in> set entries)"

definition EgressNotAllowedError :: "string \<Rightarrow> py_error" where
  "EgressNotAllowedError host = AssistantError GUARDRAIL_BLOCKED
     (''egress target host is not allowlisted: '' @ (if host = [] then ''unknown'' else host)) None []"

definition egress_require :: "(string \<Rightarrow> bool) \<Rightarrow> allowlist \<Rightarrow> string \<Rightarrow> unit result" where
  "egress_require brackets_ok entries url =
     (if egress_allows brackets_ok entries url then Inr ()
      else Inl (EgressNotAllowedError (case url_authority brackets_ok url of None \<Rightarrow> [] | Some a \<Rightarrow> snd a)))"

definition audit_hosts :: "allowlist \<Rightarrow> string list" where
  "audit_hosts entries = sort (remdups (map snd entries))"

definition DEFAULT_TELEGRAM_API_URL :: string where "DEFAULT_TELEGRAM_API_URL = ''https://api.telegram.org''"
definition DEFAULT_WHATSAPP_API_URL :: string where "DEFAULT_WHATSAPP_API_URL = ''https://graph.facebook.com''"
definition DEFAULT_WHATSAPP_MEDIA_URL :: string where "DEFAULT_WHATSAPP_MEDIA_URL = ''https://lookaside.fbsbx.com''"

definition base_entry :: "(string \<Rightarrow> bool) \<Rightarrow> string option \<Rightarrow> string list" where
  "base_entry brackets_ok base =
     (case base of
        None \<Rightarrow> []
      | Some url \<Rightarrow> if py_strip url = [] then []
                    else (case url_authority brackets_ok url of None \<Rightarrow> [] | Some a \<Rightarrow> [fst a @ ''://'' @ snd a]))"

definition derive_egress_entries ::
    "(string \<Rightarrow> bool) \<Rightarrow> string option \<Rightarrow> string option \<Rightarrow> string option \<Rightarrow> bool \<Rightarrow> bool \<Rightarrow> string list" where
  "derive_egress_entries brackets_ok llm transcription tts telegram whatsapp =
     concat (map (base_entry brackets_ok) [llm, transcription, tts])
     @ (if telegram then [DEFAULT_TELEGRAM_API_URL] else [])
     @ (if whatsapp then [DEFAULT_WHATSAPP_API_URL, DEFAULT_WHATSAPP_MEDIA_URL] else [])"

fun require_startup_coverage :: "(string \<Rightarrow> bool) \<Rightarrow> allowlist \<Rightarrow> (string \<times> string) list \<Rightarrow> unit result" where
  "require_startup_coverage brackets_ok entries [] = Inr ()"
| "require_startup_coverage brackets_ok entries ((name, url) # required) =
     (if egress_allows brackets_ok entries url then require_startup_coverage brackets_ok entries required
      else Inl (ValueError (''EGRESS_ALLOWED_HOSTS does not cover the '' @ name @ '' target host: ''
             @ (case url_authority brackets_ok url of None \<Rightarrow> ''unknown'' | Some a \<Rightarrow> snd a))))"

section \<open>The start-up check\<close>

record egress_settings =
  es_llm_provider :: string
  es_llm_base_url :: "string option"
  es_transcription_provider :: string
  es_transcription_base_url :: "string option"
  es_tts_provider :: string
  es_tts_base_url :: "string option"
  es_telegram_bot_token :: "string option"
  es_whatsapp_access_token :: "string option"
  es_egress_allowed_hosts :: "string list"

definition DISABLED_PROVIDERS :: "string list" where
  "DISABLED_PROVIDERS = [[], ''disabled'', ''none'']"

definition required_egress :: "egress_settings \<Rightarrow> (string \<times> string) list" where
  "required_egress s =
     (let target = (\<lambda>name provider url. if provider \<notin> set DISABLED_PROVIDERS \<and> truthy_str url then [(name, the url)] else []) in
      target ''LLM_PROVIDER'' (es_llm_provider s) (es_llm_base_url s)
      @ target ''TRANSCRIPTION_PROVIDER'' (es_transcription_provider s) (es_transcription_base_url s)
      @ target ''TTS_PROVIDER'' (es_tts_provider s) (es_tts_base_url s)
      @ (if truthy_str (es_telegram_bot_token s) then [(''TELEGRAM_BOT_TOKEN'', DEFAULT_TELEGRAM_API_URL)] else [])
      @ (if truthy_str (es_whatsapp_access_token s) then [(''WHATSAPP_ACCESS_TOKEN'', DEFAULT_WHATSAPP_API_URL)] else []))"

definition effective_egress :: "(string \<Rightarrow> bool) \<Rightarrow> egress_settings \<Rightarrow> string list" where
  "effective_egress brackets_ok s =
     (let explicit = filter (\<lambda>e. e \<noteq> []) (map py_strip (es_egress_allowed_hosts s)) in
      if explicit \<noteq> [] then explicit
      else derive_egress_entries brackets_ok (es_llm_base_url s) (es_transcription_base_url s) (es_tts_base_url s)
             (truthy_str (es_telegram_bot_token s)) (truthy_str (es_whatsapp_access_token s)))"

definition validate_egress :: "(string \<Rightarrow> bool) \<Rightarrow> egress_settings \<Rightarrow> egress_settings result" where
  "validate_egress brackets_ok s =
     bindR (from_entries (effective_egress brackets_ok s)) (\<lambda>entries.
     bindR (require_startup_coverage brackets_ok entries (required_egress s)) (\<lambda>_.
       Inr (s\<lparr>es_egress_allowed_hosts := effective_egress brackets_ok s\<rparr>)))"

end
