(* ===== verification/Notifications.thy ===== *)
theory Notifications
  imports Dispatch Egress Documents
begin

text \<open>
  The notification tools: \<^verbatim>\<open>adapters/outbound/notifications/{telegram,router}.py\<close> and
  \<^verbatim>\<open>whatsapp_{models,parsing,client,tool}.py\<close>. What an HTTP exchange gives is a value of \<open>http_reply\<close>: an answer, an HTTP
  error with its body, a failure of the connection, or an exception that the client does not handle. \<open>loads\<close> stands for
  decoding a body as UTF-8 and parsing it as JSON, where \<open>None\<close> is one of the two errors the code catches; \<open>dumps\<close> is the JSON
  text of a document with sorted keys. The record of a tool has a third field that the code does not have: the calls
  of its client with what came of them.
\<close>

section \<open>Requests, replies and payloads\<close>

record notification_media =
  md_kind :: string
  md_filename :: string
  md_content_type :: string
  md_data :: string

record media_request = notification_request +
  mq_send_at :: "instant option"
  mq_media :: "notification_media option"

datatype http_reply =
    HttpAnswer "int option" string "string option"
  | HttpFailure int string "string option"
  | ConnectionFailure
  | HttpRaises py_error

definition payload_get :: "pyval \<Rightarrow> string \<Rightarrow> pyval" where
  "payload_get v k = (case v of PDict d \<Rightarrow> (case map_of d (PStr k) of Some x \<Rightarrow> x | None \<Rightarrow> PNone) | _ \<Rightarrow> PNone)"

definition is_mapping :: "pyval \<Rightarrow> bool" where
  "is_mapping v = (case v of PDict _ \<Rightarrow> True | _ \<Rightarrow> False)"

definition decode_payload :: "(string \<Rightarrow> pyval option) \<Rightarrow> string \<Rightarrow> pyval option" where
  "decode_payload loads raw = (case loads raw of None \<Rightarrow> None | Some v \<Rightarrow> if is_mapping v then Some v else None)"

definition positive_int :: "pyval \<Rightarrow> int option" where
  "positive_int v = (case v of PInt n \<Rightarrow> if n > 0 then Some n else None | _ \<Rightarrow> None)"

definition http_status :: "pyval \<Rightarrow> int option" where
  "http_status v = (case positive_int v of None \<Rightarrow> None | Some n \<Rightarrow> if 100 \<le> n \<and> n \<le> 599 then Some n else None)"

text \<open>\<^verbatim>\<open>int(text)\<close> of ASCII digits.\<close>

definition int_of_digits :: "string \<Rightarrow> int result" where
  "int_of_digits s =
     (if length s > MAX_STR_DIGITS then Inl (ValueError ''Exceeds the limit for integer string conversion'')
      else Inr (int (digits_value s)))"

definition digit_seconds :: "string \<Rightarrow> int option result" where
  "digit_seconds s =
     (let stripped = py_strip s in
      if stripped \<noteq> [] \<and> list_all is_digit stripped
      then bindR (int_of_digits stripped) (\<lambda>n. Inr (if n > 0 then Some n else None))
      else Inr None)"

definition retry_after_seconds :: "pyval \<Rightarrow> int option result" where
  "retry_after_seconds v =
     (case positive_int v of
        Some n \<Rightarrow> Inr (Some n)
      | None \<Rightarrow> (case v of PStr s \<Rightarrow> digit_seconds s | _ \<Rightarrow> Inr None))"

text \<open>The header of the reply, a text or absent.\<close>

definition retry_after_header :: "string option \<Rightarrow> int option result" where
  "retry_after_header h = (case h of None \<Rightarrow> Inr None | Some s \<Rightarrow> retry_after_seconds (PStr s))"

definition failure_outcome :: "int option \<Rightarrow> notification_outcome" where
  "failure_outcome code =
     (case code of
        None \<Rightarrow> unknown_outcome
      | Some c \<Rightarrow> if c = 429 \<or> c \<ge> 500 then known_transient else if 400 \<le> c \<and> c < 500 then permanent else unknown_outcome)"

section \<open>Telegram\<close>

record telegram_result =
  tr_outcome :: notification_outcome
  tr_provider_code :: "int option"
  tr_retry_after :: "int option"
  tr_provider_message_id :: "int option"

definition in_range :: "(int \<Rightarrow> bool) \<Rightarrow> int option \<Rightarrow> bool" where
  "in_range ok x = (case x of None \<Rightarrow> True | Some n \<Rightarrow> ok n)"

definition TelegramProviderResult_make ::
    "notification_outcome \<Rightarrow> int option \<Rightarrow> int option \<Rightarrow> int option \<Rightarrow> telegram_result result" where
  "TelegramProviderResult_make outcome code retry message_id =
     (let r = \<lparr>tr_outcome = outcome, tr_provider_code = code, tr_retry_after = retry, tr_provider_message_id = message_id\<rparr> in
      if \<not> in_range (\<lambda>n. 100 \<le> n \<and> n \<le> 599) code \<or> \<not> in_range (\<lambda>n. n > 0) retry \<or> \<not> in_range (\<lambda>n. n > 0) message_id
      then Inl (ValueError ''TelegramProviderResult'')
      else if outcome = success
      then (if message_id = None then Inl (ValueError ''Telegram success requires a confirmed message id'')
            else if code \<noteq> None \<or> retry \<noteq> None then Inl (ValueError ''Telegram success cannot carry failure metadata'')
            else Inr r)
      else if message_id \<noteq> None then Inl (ValueError ''Telegram failure cannot carry a confirmed message id'')
      else if retry \<noteq> None \<and> outcome \<noteq> known_transient
      then Inl (ValueError ''retry_after is only valid for known-transient outcomes'')
      else Inr r)"

definition payload_error_code :: "pyval option \<Rightarrow> int option" where
  "payload_error_code payload = (case payload of None \<Rightarrow> None | Some v \<Rightarrow> http_status (payload_get v ''error_code''))"

definition payload_retry_after :: "pyval option \<Rightarrow> int option result" where
  "payload_retry_after payload =
     (case payload of
        None \<Rightarrow> Inr None
      | Some v \<Rightarrow> if is_mapping (payload_get v ''parameters'')
                  then retry_after_seconds (payload_get (payload_get v ''parameters'') ''retry_after'') else Inr None)"

definition larger :: "int option \<Rightarrow> int option \<Rightarrow> int option" where
  "larger a b = (case a of None \<Rightarrow> b | Some m \<Rightarrow> (case b of None \<Rightarrow> a | Some n \<Rightarrow> Some (max m n)))"

definition telegram_classify_failure :: "(string \<Rightarrow> pyval option) \<Rightarrow> int option \<Rightarrow> string \<Rightarrow> int option \<Rightarrow> telegram_result result" where
  "telegram_classify_failure loads provider_code raw from_header =
     (let payload = decode_payload loads raw;
          code = (if provider_code = None \<or> provider_code = Some 0 then payload_error_code payload else provider_code);
          outcome = failure_outcome code in
      bindR (payload_retry_after payload) (\<lambda>retry.
        TelegramProviderResult_make outcome code (if outcome = known_transient then larger retry from_header else None) None))"

definition telegram_classify_response :: "(string \<Rightarrow> pyval option) \<Rightarrow> string \<Rightarrow> telegram_result result" where
  "telegram_classify_response loads raw =
     (case decode_payload loads raw of
        None \<Rightarrow> TelegramProviderResult_make unknown_outcome None None None
      | Some payload \<Rightarrow>
          if payload_get payload ''ok'' \<noteq> PBool True then telegram_classify_failure loads None raw None
          else if \<not> is_mapping (payload_get payload ''result'') then TelegramProviderResult_make unknown_outcome None None None
          else (case positive_int (payload_get (payload_get payload ''result'') ''message_id'') of
                  None \<Rightarrow> TelegramProviderResult_make unknown_outcome None None None
                | Some n \<Rightarrow> TelegramProviderResult_make success None None (Some n)))"

definition telegram_send :: "(string \<Rightarrow> pyval option) \<Rightarrow> http_reply \<Rightarrow> telegram_result result" where
  "telegram_send loads reply =
     (case reply of
        HttpFailure code raw header \<Rightarrow>
          bindR (retry_after_header header) (\<lambda>h. telegram_classify_failure loads (http_status (PInt code)) raw h)
      | ConnectionFailure \<Rightarrow> TelegramProviderResult_make unknown_outcome None None None
      | HttpRaises e \<Rightarrow> Inl e
      | HttpAnswer status raw header \<Rightarrow>
          (case status of
             Some n \<Rightarrow> if n \<ge> 400
                       then bindR (retry_after_header header) (\<lambda>h. telegram_classify_failure loads (Some n) raw h)
                       else telegram_classify_response loads raw
           | None \<Rightarrow> telegram_classify_response loads raw))"

section \<open>WhatsApp\<close>

record whatsapp_result =
  wr_outcome :: notification_outcome
  wr_provider_code :: "int option"
  wr_retry_after :: "int option"
  wr_notification_id :: "string option"

definition WhatsAppProviderResult_make ::
    "notification_outcome \<Rightarrow> int option \<Rightarrow> int option \<Rightarrow> string option \<Rightarrow> whatsapp_result result" where
  "WhatsAppProviderResult_make outcome code retry nid =
     (let r = \<lparr>wr_outcome = outcome, wr_provider_code = code, wr_retry_after = retry, wr_notification_id = nid\<rparr> in
      if \<not> in_range (\<lambda>n. 100 \<le> n \<and> n \<le> 599) code \<or> \<not> in_range (\<lambda>n. n > 0) retry
      then Inl (ValueError ''WhatsAppProviderResult'')
      else if outcome = success
      then (if \<not> truthy_str nid then Inl (ValueError ''WhatsApp success requires a confirmed notification id'')
            else if code \<noteq> None \<or> retry \<noteq> None then Inl (ValueError ''WhatsApp success cannot carry failure metadata'')
            else Inr r)
      else if nid \<noteq> None then Inl (ValueError ''WhatsApp failure cannot carry a confirmed notification id'')
      else if retry \<noteq> None \<and> outcome \<noteq> known_transient
      then Inl (ValueError ''retry_after is only valid for known-transient outcomes'')
      else Inr r)"

text \<open>\<^verbatim>\<open>isinstance(value, int)\<close>, which holds of booleans too.\<close>

definition any_int :: "pyval \<Rightarrow> int option" where
  "any_int v = (case v of PInt n \<Rightarrow> Some n | PBool b \<Rightarrow> Some (if b then 1 else 0) | _ \<Rightarrow> None)"

definition whatsapp_retry_after_header :: "string option \<Rightarrow> int option result" where
  "whatsapp_retry_after_header h = (case h of None \<Rightarrow> Inr None | Some s \<Rightarrow> digit_seconds s)"

text \<open>A boolean as error code fails the strict check of the result, as a number out of range does.\<close>

definition whatsapp_classify_failure :: "(string \<Rightarrow> pyval option) \<Rightarrow> int option \<Rightarrow> string \<Rightarrow> int option \<Rightarrow> whatsapp_result result" where
  "whatsapp_classify_failure loads provider_code raw from_header =
     (let code = (case provider_code of
                    Some n \<Rightarrow> Some n
                  | None \<Rightarrow> (case decode_payload loads raw of
                               None \<Rightarrow> None
                             | Some payload \<Rightarrow> if is_mapping (payload_get payload ''error'')
                                               then any_int (payload_get (payload_get payload ''error'') ''code'') else None));
          outcome = failure_outcome code in
      WhatsAppProviderResult_make outcome code (if outcome = known_transient then from_header else None) None)"

definition whatsapp_classify_response :: "(string \<Rightarrow> pyval option) \<Rightarrow> string \<Rightarrow> whatsapp_result result" where
  "whatsapp_classify_response loads raw =
     (case decode_payload loads raw of
        None \<Rightarrow> WhatsAppProviderResult_make unknown_outcome None None None
      | Some payload \<Rightarrow>
          (case payload_get payload ''messages'' of
             PList (first # _) \<Rightarrow>
               if \<not> is_mapping first then WhatsAppProviderResult_make unknown_outcome None None None
               else (case payload_get first ''id'' of
                       PStr i \<Rightarrow> if py_strip i = [] then WhatsAppProviderResult_make unknown_outcome None None None
                                 else WhatsAppProviderResult_make success None None (Some (py_strip i))
                     | _ \<Rightarrow> WhatsAppProviderResult_make unknown_outcome None None None)
           | _ \<Rightarrow> WhatsAppProviderResult_make unknown_outcome None None None))"

definition whatsapp_send :: "(string \<Rightarrow> pyval option) \<Rightarrow> http_reply \<Rightarrow> whatsapp_result result" where
  "whatsapp_send loads reply =
     (case reply of
        HttpFailure code raw header \<Rightarrow>
          bindR (whatsapp_retry_after_header header) (\<lambda>h. whatsapp_classify_failure loads (Some code) raw h)
      | ConnectionFailure \<Rightarrow> WhatsAppProviderResult_make unknown_outcome None None None
      | HttpRaises e \<Rightarrow> Inl e
      | HttpAnswer status raw header \<Rightarrow>
          (case status of
             Some n \<Rightarrow> if n \<ge> 400
                       then bindR (whatsapp_retry_after_header header) (\<lambda>h. whatsapp_classify_failure loads (Some n) raw h)
                       else whatsapp_classify_response loads raw
           | None \<Rightarrow> whatsapp_classify_response loads raw))"

section \<open>The tools\<close>

record notification_env =
  ne_sha :: "string \<Rightarrow> string"
  ne_dumps :: "json \<Rightarrow> string"
  ne_loads :: "string \<Rightarrow> pyval option"

text \<open>\<^verbatim>\<open>str(datetime)\<close> of a UTC instant.\<close>

definition str_datetime :: "instant \<Rightarrow> string" where
  "str_datetime t = map (\<lambda>c. if c = CHR ''T'' then CHR '' '' else c) (isoformat t)"

definition request_document :: "(string \<Rightarrow> string) \<Rightarrow> media_request \<Rightarrow> json" where
  "request_document sha r =
     JDict [(''channel'', JStr (nr_channel r)), (''recipient'', JStr (nr_recipient r)), (''body'', JStr (nr_body r)),
            (''send_at'', (case mq_send_at r of None \<Rightarrow> JNull | Some t \<Rightarrow> JStr (str_datetime t))),
            (''idempotency_key'', JStr (nr_idempotency_key r)),
            (''media'', (case mq_media r of
                           None \<Rightarrow> JNull
                         | Some m \<Rightarrow> JDict [(''kind'', JStr (md_kind m)), (''filename'', JStr (md_filename m)),
                                           (''content_type'', JStr (md_content_type m)), (''sha256'', JStr (sha (md_data m)))]))]"

definition request_fingerprint :: "notification_env \<Rightarrow> media_request \<Rightarrow> string" where
  "request_fingerprint env r = ne_sha env (ne_dumps env (request_document (ne_sha env) r))"

record call_entry =
  cl_principal :: principal
  cl_time :: instant
  cl_approval :: "approval_grant option"
  cl_request :: media_request
  cl_result :: "notification_result result"

record tool_state =
  tl_terminal_by_key :: "(string \<times> string, notification_result) dict"
  tl_fingerprints :: "(string \<times> string, string) dict"
  tl_calls :: "call_entry list"

definition tool_init :: tool_state where
  "tool_init = \<lparr>tl_terminal_by_key = [], tl_fingerprints = [], tl_calls = []\<rparr>"

text \<open>
  The body that the two tools share. \<open>ask n request\<close> is the part in which they differ: whether the client is called, as
  call number \<open>n\<close>, and the notification result made from its answer.
\<close>

definition tool_send ::
    "notification_env \<Rightarrow> string \<Rightarrow> string \<Rightarrow> (nat \<Rightarrow> media_request \<Rightarrow> bool \<times> notification_result result) \<Rightarrow> instant \<Rightarrow> principal
       \<Rightarrow> media_request \<Rightarrow> approval_grant option \<Rightarrow> (tool_state, notification_result) op" where
  "tool_send env tool channel ask now p request approval s =
     (if nr_channel request \<noteq> channel
      then (Inl (AssistantError VALIDATION_FAILED (tool @ '' only dispatches '' @ channel @ '' notifications'') (Some (pr_tenant_id p)) []), s)
      else case require_approval now p P5 approval ''notification.send'' (nr_idempotency_key request) None of
        Inl e \<Rightarrow> (Inl e, s)
      | Inr _ \<Rightarrow>
        (let key = (pr_tenant_id p, nr_idempotency_key request); fingerprint = request_fingerprint env request;
             stored = map_of (tl_fingerprints s) key in
         if stored \<noteq> None \<and> stored \<noteq> Some fingerprint
         then (Inl (AssistantError CONFLICT (channel @ '' notification idempotency conflict'') (Some (pr_tenant_id p)) []), s)
         else case map_of (tl_terminal_by_key s) key of
           Some existing \<Rightarrow> (Inr (existing\<lparr>nt_reused := True\<rparr>), s)
         | None \<Rightarrow>
           (case ask (length (tl_calls s)) request of (called, res) \<Rightarrow>
             (let s' = s\<lparr>tl_fingerprints := AList.update key fingerprint (tl_fingerprints s),
                         tl_calls := tl_calls s @ (if called then [\<lparr>cl_principal = p, cl_time = now, cl_approval = approval,
                                                                   cl_request = request, cl_result = res\<rparr>] else [])\<rparr> in
              case res of
                Inl e \<Rightarrow> (Inl e, s')
              | Inr r \<Rightarrow> (Inr r, if nt_outcome r \<noteq> known_transient
                                then s'\<lparr>tl_terminal_by_key := AList.update key r (tl_terminal_by_key s')\<rparr> else s')))))"

text \<open>What a client gives back: its typed result, another value, or an exception.\<close>

datatype 'r client_answer = Typed 'r | Untyped pyval | Raised py_error

definition telegram_coerce :: "telegram_result client_answer \<Rightarrow> telegram_result result" where
  "telegram_coerce a =
     (case a of
        Raised e \<Rightarrow> Inl e
      | Typed r \<Rightarrow> Inr r
      | Untyped v \<Rightarrow> (case (if is_mapping v then positive_int (payload_get v ''message_id'') else None) of
                       Some n \<Rightarrow> TelegramProviderResult_make success None None (Some n)
                     | None \<Rightarrow> TelegramProviderResult_make unknown_outcome None None None))"

type_synonym telegram_client = "nat \<Rightarrow> string \<Rightarrow> string \<Rightarrow> notification_media option \<Rightarrow> telegram_result client_answer"
type_synonym whatsapp_client = "nat \<Rightarrow> string \<Rightarrow> string \<Rightarrow> whatsapp_result client_answer"

definition telegram_ask :: "telegram_client \<Rightarrow> string \<Rightarrow> nat \<Rightarrow> media_request \<Rightarrow> bool \<times> notification_result result" where
  "telegram_ask client tenant n r =
     (if mq_media r \<noteq> None \<and> md_kind (the (mq_media r)) \<noteq> ''audio''
      then (False, Inl (AssistantError VALIDATION_FAILED ''unsupported telegram notification media'' (Some tenant) []))
      else (True,
        bindR (telegram_coerce (client n (nr_recipient r) (nr_body r) (mq_media r))) (\<lambda>x.
          NotificationResult_validate
            \<lparr>nt_notification_id = map_option (\<lambda>i. ''telegram:'' @ str_of_int i) (tr_provider_message_id x), nt_channel = nr_channel r,
             nt_idempotency_key = nr_idempotency_key r, nt_outcome = tr_outcome x, nt_provider_code = tr_provider_code x,
             nt_retry_after = tr_retry_after x, nt_provider_message_id = tr_provider_message_id x, nt_reused = False\<rparr>)))"

definition telegram_tool_send ::
    "notification_env \<Rightarrow> telegram_client \<Rightarrow> instant \<Rightarrow> principal \<Rightarrow> media_request \<Rightarrow> approval_grant option
       \<Rightarrow> (tool_state, notification_result) op" where
  "telegram_tool_send env client now p = tool_send env ''TelegramNotificationTool'' ''telegram'' (telegram_ask client (pr_tenant_id p)) now p"

definition whatsapp_coerce :: "whatsapp_result client_answer \<Rightarrow> whatsapp_result result" where
  "whatsapp_coerce a =
     (case a of
        Raised e \<Rightarrow> Inl e
      | Typed r \<Rightarrow> Inr r
      | Untyped v \<Rightarrow>
          (let msg_id = (if truthy (payload_get v ''notification_id'') then payload_get v ''notification_id'' else payload_get v ''message_id'') in
           case msg_id of
             PStr i \<Rightarrow> if is_mapping v \<and> py_strip i \<noteq> [] then WhatsAppProviderResult_make success None None (Some (py_strip i))
                       else WhatsAppProviderResult_make unknown_outcome None None None
           | _ \<Rightarrow> WhatsAppProviderResult_make unknown_outcome None None None))"

definition whatsapp_ask :: "whatsapp_client \<Rightarrow> nat \<Rightarrow> media_request \<Rightarrow> bool \<times> notification_result result" where
  "whatsapp_ask client n r =
     (True,
      bindR (whatsapp_coerce (client n (nr_recipient r) (nr_body r))) (\<lambda>x.
        NotificationResult_validate
          \<lparr>nt_notification_id = (if wr_outcome x = success \<and> truthy_str (wr_notification_id x)
             then Some (if starts_with ''whatsapp:'' (the (wr_notification_id x)) then the (wr_notification_id x)
                        else ''whatsapp:'' @ the (wr_notification_id x))
             else None), nt_channel = nr_channel r, nt_idempotency_key = nr_idempotency_key r, nt_outcome = wr_outcome x,
           nt_provider_code = wr_provider_code x, nt_retry_after = wr_retry_after x, nt_provider_message_id = None, nt_reused = False\<rparr>))"

definition whatsapp_tool_send ::
    "notification_env \<Rightarrow> whatsapp_client \<Rightarrow> instant \<Rightarrow> principal \<Rightarrow> media_request \<Rightarrow> approval_grant option
       \<Rightarrow> (tool_state, notification_result) op" where
  "whatsapp_tool_send env client now p = tool_send env ''WhatsAppNotificationTool'' ''whatsapp'' (whatsapp_ask client) now p"

definition tool_list_sent :: "principal \<Rightarrow> tool_state \<Rightarrow> notification_result list result" where
  "tool_list_sent p s =
     bindR (require_trusted_principal p) (\<lambda>_.
       Inr (map snd (filter (\<lambda>((tenant, _), r). tenant = pr_tenant_id p \<and> nt_outcome r = success) (tl_terminal_by_key s))))"

text \<open>The clients that speak to the providers: one HTTP exchange for each call.\<close>

definition TelegramBotApiClient ::
    "notification_env \<Rightarrow> (nat \<Rightarrow> string \<Rightarrow> string \<Rightarrow> notification_media option \<Rightarrow> http_reply) \<Rightarrow> telegram_client" where
  "TelegramBotApiClient env http n chat_id body media =
     (case telegram_send (ne_loads env) (http n chat_id body media) of Inl e \<Rightarrow> Raised e | Inr r \<Rightarrow> Typed r)"

definition WhatsAppGraphApiClient :: "notification_env \<Rightarrow> (nat \<Rightarrow> string \<Rightarrow> string \<Rightarrow> http_reply) \<Rightarrow> whatsapp_client" where
  "WhatsAppGraphApiClient env http n recipient body =
     (case whatsapp_send (ne_loads env) (http n recipient body) of Inl e \<Rightarrow> Raised e | Inr r \<Rightarrow> Typed r)"

section \<open>The router\<close>

text \<open>A channel that is not configured has no tool.\<close>

record router_state =
  ch_telegram :: "tool_state option"
  ch_whatsapp :: "tool_state option"

definition router_send ::
    "notification_env \<Rightarrow> telegram_client \<Rightarrow> whatsapp_client \<Rightarrow> instant \<Rightarrow> principal \<Rightarrow> media_request \<Rightarrow> approval_grant option
       \<Rightarrow> (router_state, notification_result) op" where
  "router_send env tg wa now p request approval s =
     (let absent = (NotificationResult_validate
            \<lparr>nt_notification_id = None, nt_channel = nr_channel request, nt_idempotency_key = nr_idempotency_key request,
             nt_outcome = permanent, nt_provider_code = Some 400, nt_retry_after = None, nt_provider_message_id = None, nt_reused = False\<rparr>, s) in
      if nr_channel request = ''telegram''
      then (case ch_telegram s of
              None \<Rightarrow> absent
            | Some t \<Rightarrow> (case telegram_tool_send env tg now p request approval t of (r, t') \<Rightarrow> (r, s\<lparr>ch_telegram := Some t'\<rparr>)))
      else if nr_channel request = ''whatsapp''
      then (case ch_whatsapp s of
              None \<Rightarrow> absent
            | Some t \<Rightarrow> (case whatsapp_tool_send env wa now p request approval t of (r, t') \<Rightarrow> (r, s\<lparr>ch_whatsapp := Some t'\<rparr>)))
      else absent)"

definition router_list_sent :: "principal \<Rightarrow> router_state \<Rightarrow> notification_result list result" where
  "router_list_sent p s =
     bindR (require_trusted_principal p) (\<lambda>_.
     bindR (mapR (tool_list_sent p) (List.map_filter id [ch_telegram s, ch_whatsapp s])) (\<lambda>rs. Inr (concat rs)))"

section \<open>Files of Telegram\<close>

text \<open>An HTTP error, or a connection that fails, reaches the caller here.\<close>

definition reply_body :: "http_reply \<Rightarrow> string result" where
  "reply_body reply =
     (case reply of
        HttpAnswer _ raw _ \<Rightarrow> Inr raw
      | HttpFailure _ _ _ \<Rightarrow> Inl (RuntimeError ''HTTPError'')
      | ConnectionFailure \<Rightarrow> Inl (RuntimeError ''URLError'')
      | HttpRaises e \<Rightarrow> Inl e)"

definition loads_or_raise :: "(string \<Rightarrow> pyval option) \<Rightarrow> string \<Rightarrow> pyval result" where
  "loads_or_raise loads raw = (case loads raw of None \<Rightarrow> Inl (ValueError ''invalid JSON'') | Some v \<Rightarrow> Inr v)"

definition telegram_get_file :: "(string \<Rightarrow> pyval option) \<Rightarrow> http_reply \<Rightarrow> pyval result" where
  "telegram_get_file loads reply =
     bindR (reply_body reply) (\<lambda>raw.
     bindR (loads_or_raise loads raw) (\<lambda>decoded.
     let res = payload_get decoded ''result'' in
     if \<not> is_mapping decoded \<or> \<not> truthy (payload_get decoded ''ok'') then Inl (RuntimeError ''Telegram getFile failed'')
     else if truthy res \<and> \<not> is_mapping res then Inl (RuntimeError ''Telegram getFile returned invalid result'')
     else Inr (if truthy res then res else PDict [])))"

section \<open>Media of WhatsApp\<close>

datatype media_reply = MediaBody string | MediaStatus int "string option" | MediaConnectionFailure

definition allowlist_require :: "(string \<Rightarrow> bool) \<Rightarrow> allowlist option \<Rightarrow> string \<Rightarrow> unit result" where
  "allowlist_require brackets_ok allowlist url = (case allowlist of None \<Rightarrow> Inr () | Some entries \<Rightarrow> egress_require brackets_ok entries url)"

definition MAX_REDIRECTS :: nat where "MAX_REDIRECTS = 5"

text \<open>The state is the list of the URLs that were requested, each with the access token; \<open>fetch n url\<close> is the answer to request number \<open>n\<close>.\<close>

fun follow :: "(string \<Rightarrow> bool) \<Rightarrow> allowlist option \<Rightarrow> (string \<Rightarrow> string \<Rightarrow> string) \<Rightarrow> (nat \<Rightarrow> string \<Rightarrow> media_reply) \<Rightarrow> nat \<Rightarrow> string
    \<Rightarrow> (string list, string) op" where
  "follow brackets_ok allowlist urljoin fetch 0 current = raise (RuntimeError ''Too many redirects downloading media'')"
| "follow brackets_ok allowlist urljoin fetch (Suc n) current =
     bindS (lift (allowlist_require brackets_ok allowlist current)) (\<lambda>_ requested.
       (let requested' = requested @ [current] in
        case fetch (length requested) current of
          MediaBody b \<Rightarrow> (Inr b, requested')
        | MediaConnectionFailure \<Rightarrow> (Inl (RuntimeError ''WhatsApp download_media network error''), requested')
        | MediaStatus code location \<Rightarrow>
            if code \<in> {301, 302, 303, 307, 308}
            then (if \<not> truthy_str location then (Inl (RuntimeError ''Redirect without Location header''), requested')
                  else follow brackets_ok allowlist urljoin fetch n (urljoin current (the location)) requested')
            else (Inl (RuntimeError (''WhatsApp download_media failed with status '' @ str_of_int code)), requested')))"

definition download_media ::
    "(string \<Rightarrow> bool) \<Rightarrow> allowlist option \<Rightarrow> (string \<Rightarrow> string \<Rightarrow> string) \<Rightarrow> (nat \<Rightarrow> string \<Rightarrow> media_reply) \<Rightarrow> string
       \<Rightarrow> (string list, string) op" where
  "download_media brackets_ok allowlist urljoin fetch url = follow brackets_ok allowlist urljoin fetch MAX_REDIRECTS url"

definition DEFAULT_API_VERSION :: string where "DEFAULT_API_VERSION = ''v21.0''"

definition get_media_url ::
    "(string \<Rightarrow> bool) \<Rightarrow> allowlist option \<Rightarrow> (string \<Rightarrow> pyval option) \<Rightarrow> (pyval \<Rightarrow> string) \<Rightarrow> (string \<Rightarrow> http_reply) \<Rightarrow> string \<Rightarrow> string result" where
  "get_media_url brackets_ok allowlist loads rp http media_id =
     (let clean_id = py_strip media_id; url = ''https://graph.facebook.com/'' @ DEFAULT_API_VERSION @ ''/'' @ clean_id in
      if clean_id = [] then Inl (ValueError ''media_id is required'')
      else
        bindR (allowlist_require brackets_ok allowlist url) (\<lambda>_.
        case http url of
          HttpFailure code _ _ \<Rightarrow> Inl (RuntimeError (''WhatsApp get_media_url failed with status '' @ str_of_int code))
        | ConnectionFailure \<Rightarrow> Inl (RuntimeError ''WhatsApp get_media_url network error'')
        | HttpRaises e \<Rightarrow> Inl e
        | HttpAnswer _ raw _ \<Rightarrow>
            bindR (loads_or_raise loads raw) (\<lambda>decoded.
            if \<not> is_mapping decoded \<or> \<not> truthy (payload_get decoded ''url'')
            then Inl (RuntimeError ''WhatsApp get_media_url returned invalid response'')
            else Inr (py_str rp (payload_get decoded ''url'')))))"

end
