(* ===== verification/Webhooks.thy ===== *)
theory Webhooks
  imports Commands Notifications
begin

text \<open>
  The inbound webhooks: the adapters \<^verbatim>\<open>adapters/inbound/channels/{telegram,whatsapp}.py\<close>, the checks of
  \<^verbatim>\<open>infrastructure/http_auth.py\<close> and \<^verbatim>\<open>http_auth_whatsapp.py\<close>, the transcription of voice messages, the replies, and the routes
  \<^verbatim>\<open>http_routes_{telegram,whatsapp}.py\<close> as functions of the parsed request. The state is the state of the commands with the
  notification tools. Parameters: \<open>hmac\<close>, the JSON parser, the files of Telegram and WhatsApp, transcription and speech synthesis. A
  missing attribute is a \<open>TypeError\<close>.
\<close>

section \<open>Values of a payload\<close>

definition as_mapping :: "pyval \<Rightarrow> pyval" where
  "as_mapping v = (if is_mapping v then v else PDict [])"

text \<open>\<^verbatim>\<open>a or b or ... or z\<close>, and \<^verbatim>\<open>str(v or "")\<close>.\<close>

fun first_truthy :: "pyval list \<Rightarrow> pyval" where
  "first_truthy [] = PNone"
| "first_truthy [v] = v"
| "first_truthy (v # vs) = (if truthy v then v else first_truthy vs)"

definition text_or_empty :: "(pyval \<Rightarrow> string) \<Rightarrow> pyval \<Rightarrow> string" where
  "text_or_empty rp v = (if truthy v then py_str rp v else [])"

text \<open>\<^verbatim>\<open>int(text)\<close>: an optional sign, and digits with single underscores between them.\<close>

definition int_literal :: "string \<Rightarrow> int result" where
  "int_literal s =
     (let t = py_strip s; signed = t \<noteq> [] \<and> hd t \<in> {CHR ''+'', CHR ''-''}; body = (if signed then tl t else t);
          digits = filter is_digit body in
      if body = [] \<or> \<not> list_all (\<lambda>c. is_digit c \<or> c = CHR ''_'') body \<or> hd body = CHR ''_'' \<or> last body = CHR ''_'' \<or> contains ''__'' body
      then Inl (ValueError ''invalid literal for int()'')
      else bindR (int_of_digits digits) (\<lambda>n. Inr (if signed \<and> hd t = CHR ''-'' then - n else n)))"

definition py_int :: "pyval \<Rightarrow> int result" where
  "py_int v =
     (case v of
        PInt n \<Rightarrow> Inr n
      | PBool b \<Rightarrow> Inr (if b then 1 else 0)
      | PFloat q \<Rightarrow> Inr (if q \<ge> 0 then \<lfloor>q\<rfloor> else \<lceil>q\<rceil>)
      | PNonFinite x \<Rightarrow> Inl (if x = NaN then ValueError ''cannot convert float NaN to integer'' else OverflowError)
      | PStr s \<Rightarrow> int_literal s
      | PBytes s \<Rightarrow> int_literal s
      | _ \<Rightarrow> Inl (TypeError ''int() argument''))"

definition optional_int :: "pyval \<Rightarrow> int option result" where
  "optional_int v = (if v = PNone then Inr None else bindR (py_int v) (\<lambda>n. Inr (Some n)))"

definition non_empty :: "string \<Rightarrow> string option" where
  "non_empty s = (if s = [] then None else Some s)"

section \<open>Telegram updates\<close>

definition command_char :: "char \<Rightarrow> bool" where
  "command_char c \<longleftrightarrow> ascii_alpha c \<or> is_digit c \<or> c = CHR ''_''"

definition parse_command :: "string \<Rightarrow> string option \<times> string" where
  "parse_command s =
     (let stripped = py_strip s;
          token = takeWhile (\<lambda>c. c \<noteq> CHR '' '') stripped;
          args = drop (Suc (length token)) stripped;
          command = py_lower (py_strip (takeWhile (\<lambda>c. c \<noteq> CHR ''@'') (tl token))) in
      if \<not> starts_with ''/'' stripped then (None, [])
      else if command = [] \<or> \<not> list_all command_char command then (None, [])
      else (Some command, py_strip args))"

definition TelegramActorNotVerifiableError :: py_error where
  "TelegramActorNotVerifiableError = ValueError ''telegram update has no verifiable actor''"

text \<open>The parts of an update: the callback query, the message it is about, the sender, and the attached audio.\<close>

definition update_callback :: "pyval \<Rightarrow> pyval" where
  "update_callback payload = as_mapping (payload_get payload ''callback_query'')"

definition update_message :: "pyval \<Rightarrow> pyval" where
  "update_message payload =
     first_truthy [as_mapping (payload_get payload ''message''), as_mapping (payload_get payload ''edited_message''),
       as_mapping (payload_get (update_callback payload) ''message''), PDict []]"

definition update_actor :: "(pyval \<Rightarrow> string) \<Rightarrow> pyval \<Rightarrow> string" where
  "update_actor rp payload =
     (let callback_query = update_callback payload;
          user = as_mapping (if truthy callback_query then payload_get callback_query ''from'' else payload_get (update_message payload) ''from'') in
      py_strip (text_or_empty rp (payload_get user ''id'')))"

definition update_media :: "pyval \<Rightarrow> pyval" where
  "update_media payload =
     first_truthy [as_mapping (payload_get (update_message payload) ''voice''), as_mapping (payload_get (update_message payload) ''audio'')]"

definition update_media_kind :: "pyval \<Rightarrow> string option" where
  "update_media_kind payload =
     (if truthy (as_mapping (payload_get (update_message payload) ''voice'')) then Some ''voice''
      else if truthy (as_mapping (payload_get (update_message payload) ''audio'')) then Some ''audio'' else None)"

definition update_fields :: "(pyval \<Rightarrow> string) \<Rightarrow> instant \<Rightarrow> pyval \<Rightarrow> int option \<Rightarrow> normalized_message" where
  "update_fields rp received_at payload file_size =
     (let callback_query = update_callback payload;
          msg = update_message payload;
          chat = as_mapping (payload_get msg ''chat'');
          media = update_media payload;
          media_kind = update_media_kind payload;
          media_file_id = (if truthy media then Some (text_or_empty rp (payload_get media ''file_id'')) else None);
          media_mime_type = (if truthy media
            then Some (py_str rp (first_truthy [payload_get media ''mime_type'', PStr ''audio/ogg''])) else None);
          said = first_truthy [payload_get callback_query ''data'', payload_get msg ''text'', payload_get msg ''caption'', PStr []];
          body = (if \<not> truthy said \<and> truthy_str media_file_id then PStr (''['' @ the media_kind @ '' message]'') else said);
          callback_event_id = text_or_empty rp (payload_get callback_query ''id'');
          message_id = py_str rp (first_truthy [payload_get msg ''message_id'', PStr callback_event_id, payload_get payload ''update_id'', PStr []]);
          conversation_id = text_or_empty rp (payload_get chat ''id'');
          update_id = payload_get payload ''update_id'';
          source_event_id = (if update_id \<noteq> PNone then py_str rp update_id
            else if callback_event_id \<noteq> [] then callback_event_id else ''message:'' @ conversation_id @ '':'' @ message_id);
          command = parse_command (py_str rp body) in
      \<lparr>nm_channel = ''telegram'', nm_actor_id = update_actor rp payload, nm_conversation_id = conversation_id, nm_message_id = message_id,
       nm_source_event_id = source_event_id, nm_text = py_str rp body, nm_idempotency_key = Some (''telegram:'' @ source_event_id),
       nm_command = fst command, nm_command_args = snd command, nm_media_kind = media_kind,
       nm_media_file_id = (case media_file_id of None \<Rightarrow> None | Some i \<Rightarrow> non_empty i), nm_media_mime_type = media_mime_type,
       nm_media_file_size = file_size, nm_received_at = received_at\<rparr>)"

definition telegram_normalize :: "(pyval \<Rightarrow> string) \<Rightarrow> instant \<Rightarrow> pyval \<Rightarrow> string \<Rightarrow> normalized_message result" where
  "telegram_normalize rp received_at payload tenant_id =
     (if update_actor rp payload = [] then Inl TelegramActorNotVerifiableError
      else if tenant_id = [] then Inl (ValueError ''tenant_id is required from authenticated channel config'')
      else
        bindR (optional_int (if truthy (update_media payload) then payload_get (update_media payload) ''file_size'' else PNone)) (\<lambda>file_size.
          NormalizedMessage_validate (update_fields rp received_at payload file_size)))"

section \<open>WhatsApp callbacks\<close>

definition SUPPORTED_MEDIA_TYPES :: "string list" where
  "SUPPORTED_MEDIA_TYPES = [''audio'', ''voice'', ''image'', ''document'', ''video'']"

text \<open>\<^verbatim>\<open>_mapping(values[0]) if values else {}\<close>\<close>

definition first_mapping :: "pyval \<Rightarrow> pyval result" where
  "first_mapping v =
     (if \<not> truthy v then Inr (PDict [])
      else case v of
        PList (x # _) \<Rightarrow> Inr (as_mapping x)
      | PStr _ \<Rightarrow> Inr (PDict [])
      | PBytes _ \<Rightarrow> Inr (PDict [])
      | PDict d \<Rightarrow> (case map_of d (PInt 0) of Some x \<Rightarrow> Inr (as_mapping x) | None \<Rightarrow> Inl KeyError)
      | _ \<Rightarrow> Inl (TypeError ''object is not subscriptable''))"

definition whatsapp_media_kind :: "string \<Rightarrow> pyval \<Rightarrow> pyval \<Rightarrow> string option" where
  "whatsapp_media_kind raw_type media msg =
     (if raw_type \<in> set SUPPORTED_MEDIA_TYPES then Some raw_type
      else if truthy media
      then find (\<lambda>k. truthy (payload_get msg k)) [''voice'', ''audio'', ''image'', ''document'', ''video'']
      else None)"

definition whatsapp_normalize :: "(pyval \<Rightarrow> string) \<Rightarrow> instant \<Rightarrow> pyval \<Rightarrow> string \<Rightarrow> normalized_message result" where
  "whatsapp_normalize rp received_at payload tenant_id =
     (if tenant_id = [] then Inl (ValueError ''tenant_id is required from authenticated channel config'')
      else
        bindR (first_mapping (payload_get payload ''entry'')) (\<lambda>entry.
        bindR (first_mapping (payload_get entry ''changes'')) (\<lambda>change.
        let value = as_mapping (payload_get change ''value'') in
        bindR (first_mapping (payload_get value ''messages'')) (\<lambda>msg.
        bindR (first_mapping (payload_get value ''contacts'')) (\<lambda>contact.
        let raw_type = py_lower (py_strip (text_or_empty rp (payload_get msg ''type'')));
            media = (if raw_type \<in> set SUPPORTED_MEDIA_TYPES then as_mapping (payload_get msg raw_type)
                     else first_truthy (map (\<lambda>k. as_mapping (payload_get msg k)) [''voice'', ''audio'', ''image'', ''document'', ''video'']));
            media_kind = whatsapp_media_kind raw_type media msg in
        bindR (optional_int (payload_get media ''file_size'')) (\<lambda>file_size.
        let caption = text_or_empty rp (payload_get media ''caption'');
            said = text_or_empty rp (first_truthy [payload_get (as_mapping (payload_get msg ''text'')) ''body'', PStr caption]);
            body = (if said = [] \<and> media_kind \<noteq> None then ''['' @ the media_kind @ '' message]'' else said);
            actor_id = text_or_empty rp (first_truthy [payload_get contact ''wa_id'', payload_get msg ''from'']);
            message_id = text_or_empty rp (payload_get msg ''id'') in
        NormalizedMessage_validate
          \<lparr>nm_channel = ''whatsapp'', nm_actor_id = actor_id, nm_conversation_id = actor_id, nm_message_id = message_id,
           nm_source_event_id = message_id, nm_text = body,
           nm_idempotency_key = (if message_id = [] then None else Some (''whatsapp:'' @ message_id)), nm_command = None, nm_command_args = [],
           nm_media_kind = media_kind, nm_media_file_id = non_empty (py_strip (text_or_empty rp (payload_get media ''id''))),
           nm_media_mime_type = non_empty (py_strip (text_or_empty rp (payload_get media ''mime_type''))),
           nm_media_file_size = file_size, nm_received_at = received_at\<rparr>))))))"

text \<open>\<^verbatim>\<open>for x in v or []\<close> and \<^verbatim>\<open>x.get(key)\<close> on any value.\<close>

definition iterated :: "pyval \<Rightarrow> pyval list result" where
  "iterated v =
     (if \<not> truthy v then Inr []
      else case v of
        PList xs \<Rightarrow> Inr xs
      | PDict d \<Rightarrow> Inr (map fst d)
      | PStr s \<Rightarrow> Inr (map (\<lambda>c. PStr [c]) s)
      | PBytes s \<Rightarrow> Inr (map (\<lambda>c. PInt (of_char c)) s)
      | _ \<Rightarrow> Inl (TypeError ''object is not iterable''))"

definition get_from :: "pyval \<Rightarrow> string \<Rightarrow> pyval result" where
  "get_from v k = (if is_mapping v then Inr (payload_get v k) else Inl (TypeError ''object has no attribute get''))"

fun change_has_messages :: "pyval list \<Rightarrow> bool result" where
  "change_has_messages [] = Inr False"
| "change_has_messages (change # rest) =
     bindR (get_from change ''value'') (\<lambda>v.
     bindR (get_from (if truthy v then v else PDict []) ''messages'') (\<lambda>m.
       if truthy m then Inr True else change_has_messages rest))"

fun entry_has_messages :: "pyval list \<Rightarrow> bool result" where
  "entry_has_messages [] = Inr False"
| "entry_has_messages (entry # rest) =
     bindR (get_from entry ''changes'') (\<lambda>cs.
     bindR (iterated cs) (\<lambda>changes.
     bindR (change_has_messages changes) (\<lambda>found. if found then Inr True else entry_has_messages rest)))"

definition is_status_only_or_empty_callback :: "pyval \<Rightarrow> bool result" where
  "is_status_only_or_empty_callback payload =
     bindR (iterated (payload_get payload ''entry'')) (\<lambda>entries. bindR (entry_has_messages entries) (\<lambda>found. Inr (\<not> found)))"

section \<open>Who may send\<close>

record webhook_settings =
  ws_tenant_id :: string
  ws_timezone :: string
  ws_telegram_webhook_secret :: string
  ws_telegram_bot_token :: "string option"
  ws_telegram_allowed_user_ids :: "string list"
  ws_whatsapp_enabled :: bool
  ws_whatsapp_app_secret :: string
  ws_whatsapp_verify_token :: string
  ws_whatsapp_allowed_user_ids :: "string list"
  ws_whatsapp_access_token :: "string option"
  ws_whatsapp_phone_number_id :: string
  ws_egress_allowed_hosts :: "string list"
  ws_telegram_audio_reply_mode :: string
  ws_tts_max_reply_characters :: int

definition require_telegram_webhook_secret :: "webhook_settings \<Rightarrow> string option \<Rightarrow> unit result" where
  "require_telegram_webhook_secret st supplied =
     (if ws_telegram_webhook_secret st = [] \<or> \<not> truthy_str supplied \<or> the supplied \<noteq> ws_telegram_webhook_secret st
      then Inl (AssistantError PERMISSION_DENIED ''telegram webhook authentication failed'' (Some (ws_tenant_id st)) [])
      else Inr ())"

definition channel_principal :: "(pyval \<Rightarrow> string) \<Rightarrow> string \<Rightarrow> string \<Rightarrow> string \<Rightarrow> principal result" where
  "channel_principal rp actor tenant provider =
     bindR (AuthClaims_from_mapping rp [(''sub'', PStr actor), (''tenant_id'', PStr tenant)]) (\<lambda>claims.
       principal_from_auth_claims claims None (Some provider) P5 [])"

definition telegram_principal :: "(pyval \<Rightarrow> string) \<Rightarrow> webhook_settings \<Rightarrow> string \<Rightarrow> principal result" where
  "telegram_principal rp st actor =
     (if actor = [] \<or> actor \<notin> set (ws_telegram_allowed_user_ids st)
      then Inl (AssistantError PERMISSION_DENIED ''telegram user is not allowed'' (Some (ws_tenant_id st)) [])
      else channel_principal rp actor (ws_tenant_id st) ''telegram'')"

definition whatsapp_principal :: "(pyval \<Rightarrow> string) \<Rightarrow> webhook_settings \<Rightarrow> string \<Rightarrow> principal result" where
  "whatsapp_principal rp st actor =
     (let clean_actor = py_strip actor in
      if clean_actor = [] \<or> clean_actor \<notin> set (ws_whatsapp_allowed_user_ids st)
      then Inl (AssistantError PERMISSION_DENIED ''whatsapp sender is not allowed'' (Some (ws_tenant_id st)) [])
      else channel_principal rp clean_actor (ws_tenant_id st) ''whatsapp'')"

text \<open>\<^verbatim>\<open>secrets.compare_digest\<close> on texts, which takes ASCII only.\<close>

definition compare_digest :: "string \<Rightarrow> string \<Rightarrow> bool result" where
  "compare_digest a b =
     (if list_all (\<lambda>c. (of_char c :: int) < 128) (a @ b) then Inr (a = b)
      else Inl (TypeError ''comparing strings with non-ASCII characters is not supported''))"

definition verify_whatsapp_signature :: "(string \<Rightarrow> string \<Rightarrow> string) \<Rightarrow> webhook_settings \<Rightarrow> string \<Rightarrow> string option \<Rightarrow> bool result" where
  "verify_whatsapp_signature hmac st body header =
     (if \<not> truthy_str header \<or> ws_whatsapp_app_secret st = [] then Inr False
      else if \<not> starts_with ''sha256='' (the header) then Inr False
      else compare_digest (hmac (ws_whatsapp_app_secret st) body) (py_strip (drop 7 (the header))))"

definition whatsapp_verify_webhook :: "webhook_settings \<Rightarrow> string option \<Rightarrow> string option \<Rightarrow> string option \<Rightarrow> string result" where
  "whatsapp_verify_webhook st hub_mode hub_verify_token hub_challenge =
     bindR (if hub_mode = Some ''subscribe'' \<and> truthy_str hub_verify_token \<and> ws_whatsapp_verify_token st \<noteq> []
            then compare_digest (the hub_verify_token) (ws_whatsapp_verify_token st) else Inr False) (\<lambda>ok.
       if ok then Inr (case hub_challenge of None \<Rightarrow> [] | Some c \<Rightarrow> c)
       else Inl (AssistantError PERMISSION_DENIED ''verification token mismatch'' (Some (ws_tenant_id st)) []))"

section \<open>The state and what lies outside\<close>

record webhook_state =
  ww_commands :: cworld
  ww_notifications :: router_state

record transcript =
  tp_provider :: string
  tp_model :: string
  tp_text :: string

record synthesis =
  sy_filename_extension :: string
  sy_content_type :: string
  sy_audio :: string

record webhook_env =
  wb_settings :: webhook_settings
  wb_commands :: cenv
  wb_notes :: notification_env
  wb_telegram :: telegram_client
  wb_whatsapp :: whatsapp_client
  wb_brackets_ok :: "string \<Rightarrow> bool"
  wb_hmac :: "string \<Rightarrow> string \<Rightarrow> string"
  wb_loads :: "string \<Rightarrow> pyval option"
  wb_file_http :: "string \<Rightarrow> http_reply"
  wb_download_file :: "string \<Rightarrow> string result"
  wb_media_http :: "string \<Rightarrow> http_reply"
  wb_urljoin :: "string \<Rightarrow> string \<Rightarrow> string"
  wb_fetch :: "nat \<Rightarrow> string \<Rightarrow> media_reply"
  wb_prompt :: "string result"
  wb_transcription :: "(string \<Rightarrow> string \<Rightarrow> string \<Rightarrow> string \<Rightarrow> transcript result) option"
  wb_tts :: "(string \<Rightarrow> synthesis result) option"

abbreviation wb_rp :: "webhook_env \<Rightarrow> pyval \<Rightarrow> string" where
  "wb_rp env \<equiv> we_rp (cs_workflow (wb_commands env))"

abbreviation wb_reply :: "webhook_env \<Rightarrow> string \<Rightarrow> string result" where
  "wb_reply env k \<equiv> reply_text (cs_catalog (wb_commands env)) k"

definition on_commands :: "(cworld, 'a) op \<Rightarrow> (webhook_state, 'a) op" where
  "on_commands = on_field ww_commands (\<lambda>x w. w\<lparr>ww_commands := x\<rparr>)"

definition on_notifications :: "(router_state, 'a) op \<Rightarrow> (webhook_state, 'a) op" where
  "on_notifications = on_field ww_notifications (\<lambda>x w. w\<lparr>ww_notifications := x\<rparr>)"

definition webhook_trace :: "webhook_env \<Rightarrow> string \<Rightarrow> trace_event_type \<Rightarrow> string \<Rightarrow> (trace_event \<Rightarrow> trace_event) \<Rightarrow> (webhook_state, unit) op" where
  "webhook_trace env run_id ety tenant upd =
     bindS (on_commands (on_world (record_trace (cs_workflow (wb_commands env)) run_id ety tenant upd))) (\<lambda>_. ret ())"

definition exception_summary :: "webhook_env \<Rightarrow> py_error \<Rightarrow> (string \<times> pyval) list" where
  "exception_summary env e =
     (case we_exception (cs_workflow (wb_commands env)) e of
        (name, text) \<Rightarrow> [(''type'', PStr name), (''message'', PStr (take 500 text))])"

section \<open>Replies\<close>

definition NotificationRequest_make :: "string \<Rightarrow> string \<Rightarrow> string \<Rightarrow> string \<Rightarrow> notification_media option \<Rightarrow> media_request result" where
  "NotificationRequest_make channel recipient body key media =
     (if channel = [] \<or> recipient = [] \<or> body = [] \<or> key = []
         \<or> (case media of None \<Rightarrow> False | Some m \<Rightarrow> md_filename m = [] \<or> md_content_type m = [] \<or> md_data m = [])
      then Inl (ValueError ''invalid notification request'')
      else Inr \<lparr>nr_channel = channel, nr_recipient = recipient, nr_body = body, nr_idempotency_key = key, mq_send_at = None, mq_media = media\<rparr>)"

definition webhook_send :: "webhook_env \<Rightarrow> principal \<Rightarrow> media_request \<Rightarrow> approval_grant \<Rightarrow> (webhook_state, notification_result) op" where
  "webhook_send env p request grant =
     bindS (on_commands (c_draw (wb_commands env))) (\<lambda>d.
       on_notifications (router_send (wb_notes env) (wb_telegram env) (wb_whatsapp env) (snd d) p request (Some grant)))"

definition send_telegram_reply :: "webhook_env \<Rightarrow> principal \<Rightarrow> string \<Rightarrow> string \<Rightarrow> string \<Rightarrow> (webhook_state, bool) op" where
  "send_telegram_reply env p chat_id text key =
     bindS (lift (NotificationRequest_make ''telegram'' chat_id text (key @ '':reply'') None)) (\<lambda>request.
     bindS (lift (ApprovalGrant_issue p ''notification.send'' P5 (nr_idempotency_key request) (key @ '':reply'') None None)) (\<lambda>grant.
       catchS (bindS (webhook_send env p request grant) (\<lambda>_. ret True)) (\<lambda>_. ret False)))"

definition send_whatsapp_reply :: "webhook_env \<Rightarrow> principal \<Rightarrow> string \<Rightarrow> string \<Rightarrow> string \<Rightarrow> (webhook_state, bool) op" where
  "send_whatsapp_reply env p recipient text key =
     (if \<not> truthy_str (ws_whatsapp_access_token (wb_settings env)) \<or> py_strip text = [] then ret False
      else
        bindS (lift (NotificationRequest_make ''whatsapp'' recipient text (key @ '':reply'') None)) (\<lambda>request.
        bindS (lift (ApprovalGrant_issue p ''notification.send'' P5 (nr_idempotency_key request) (key @ '':reply'') None None)) (\<lambda>grant.
          catchS (bindS (webhook_send env p request grant) (\<lambda>r. ret (nt_outcome r = success))) (\<lambda>_. ret False))))"

definition should_send_audio_reply :: "webhook_settings \<Rightarrow> normalized_message \<Rightarrow> string \<Rightarrow> bool" where
  "should_send_audio_reply st m text \<longleftrightarrow>
     ws_telegram_audio_reply_mode st \<notin> {[], ''disabled'', ''none''} \<and> int (length text) \<le> ws_tts_max_reply_characters st
     \<and> (ws_telegram_audio_reply_mode st = ''always''
        \<or> (ws_telegram_audio_reply_mode st \<in> {''voice_only'', ''voice-only'', ''audio_only'', ''audio-only''}
           \<and> nm_media_kind m \<in> {Some ''voice'', Some ''audio''}))"

definition trace_audio_reply_failure :: "webhook_env \<Rightarrow> principal \<Rightarrow> string \<Rightarrow> string \<Rightarrow> string \<Rightarrow> string \<Rightarrow> string \<Rightarrow> py_error \<Rightarrow> (webhook_state, unit) op" where
  "trace_audio_reply_failure env p chat_id text key stage tool_name e =
     webhook_trace env (''telegram:'' @ chat_id @ '':'' @ key @ '':audio-reply'') agent_failed (pr_tenant_id p)
       (\<lambda>t. t\<lparr>te_input_summary := PMap [(''operation'', PStr ''telegram.audio_reply''), (''stage'', PStr stage), (''text_length'', PInt (int (length text)))],
              te_tool_call := PMap [(''name'', PStr tool_name), (''idempotency_key'', PStr (key @ '':reply-audio''))],
              te_error := PMap (exception_summary env e @ [(''category'', PStr ''audio'')])\<rparr>)"

definition send_telegram_audio_reply :: "webhook_env \<Rightarrow> principal \<Rightarrow> string \<Rightarrow> string \<Rightarrow> string \<Rightarrow> (webhook_state, bool) op" where
  "send_telegram_audio_reply env p chat_id text key =
     (case wb_tts env of
        None \<Rightarrow> ret False
      | Some synthesize \<Rightarrow>
          if int (length text) > ws_tts_max_reply_characters (wb_settings env) then ret False
          else case bindR (TokenBudget_make (ws_tts_max_reply_characters (wb_settings env)) 0 0) (\<lambda>_. synthesize text) of
            Inl e \<Rightarrow> bindS (trace_audio_reply_failure env p chat_id text key ''synthesize'' ''audio.synthesize'' e) (\<lambda>_. ret False)
          | Inr x \<Rightarrow>
              catchS
                (bindS (lift (NotificationRequest_make ''telegram'' chat_id text (key @ '':reply-audio'')
                    (Some \<lparr>md_kind = ''audio'', md_filename = ''assistant-reply.'' @ sy_filename_extension x,
                           md_content_type = sy_content_type x, md_data = sy_audio x\<rparr>))) (\<lambda>request.
                 bindS (lift (ApprovalGrant_issue p ''notification.send'' P5 (nr_idempotency_key request) (key @ '':reply-audio'') None None)) (\<lambda>grant.
                 bindS (webhook_send env p request grant) (\<lambda>_. ret True))))
                (\<lambda>e. bindS (trace_audio_reply_failure env p chat_id text key ''send'' ''notification.send'' e) (\<lambda>_. ret False)))"

section \<open>Voice messages\<close>

definition MAX_AUDIO_BYTES :: int where "MAX_AUDIO_BYTES = 20 * 1024 * 1024"

definition SUPPORTED_TRANSCRIPTION_EXTENSIONS :: "string list" where
  "SUPPORTED_TRANSCRIPTION_EXTENSIONS =
     [''flac'', ''mp3'', ''mp4'', ''mpeg'', ''mpga'', ''m4a'', ''ogg'', ''opus'', ''wav'', ''webm'']"

definition file_extension :: "string \<Rightarrow> string option" where
  "file_extension path =
     (if CHR ''.'' \<in> set path then Some (py_lower (rev (takeWhile (\<lambda>c. c \<noteq> CHR ''.'') (rev path)))) else None)"

definition telegram_filename :: "normalized_message \<Rightarrow> string \<Rightarrow> string" where
  "telegram_filename m path =
     (let ext = (case file_extension path of None \<Rightarrow> [] | Some e \<Rightarrow> e);
          ext' = (if ext = ''oga'' then ''ogg''
                  else if ext \<in> set SUPPORTED_TRANSCRIPTION_EXTENSIONS then ext
                  else if nm_media_mime_type m = Some ''audio/ogg'' then ''ogg''
                  else if nm_media_mime_type m = Some ''audio/opus'' then ''opus'' else ''ogg'') in
      ''telegram-'' @ nm_message_id m @ ''.'' @ ext')"

definition whatsapp_filename :: "normalized_message \<Rightarrow> string \<Rightarrow> string" where
  "whatsapp_filename m url =
     (let ext = (case file_extension (takeWhile (\<lambda>c. c \<noteq> CHR ''?'') url) of None \<Rightarrow> [] | Some e \<Rightarrow> e);
          mime = (case nm_media_mime_type m of None \<Rightarrow> [] | Some t \<Rightarrow> t);
          ext' = (if ext = ''oga'' then ''ogg''
                  else if ext \<in> set SUPPORTED_TRANSCRIPTION_EXTENSIONS then ext
                  else (case find (\<lambda>x. contains x mime) [''ogg'', ''opus'', ''mp3'', ''mp4'', ''wav''] of Some x \<Rightarrow> x | None \<Rightarrow> ''ogg'')) in
      ''whatsapp-'' @ nm_message_id m @ ''.'' @ ext')"

definition transcribe_audio :: "webhook_env \<Rightarrow> normalized_message \<Rightarrow> string \<Rightarrow> string \<Rightarrow> transcript result" where
  "transcribe_audio env m filename audio =
     (case wb_transcription env of
        None \<Rightarrow> Inl (TypeError ''transcription is not configured'')
      | Some transcribe \<Rightarrow>
          bindR (wb_prompt env) (\<lambda>prompt.
          let content_type = (if truthy_str (nm_media_mime_type m) then the (nm_media_mime_type m) else ''audio/ogg'') in
          if py_strip filename = [] \<or> py_strip content_type = [] \<or> audio = [] \<or> py_strip prompt = [] \<or> length (py_strip prompt) > 500
          then Inl (ValueError ''invalid transcription request'')
          else transcribe (py_strip filename) (py_strip content_type) audio (py_strip prompt)))"

definition media_summary :: "normalized_message \<Rightarrow> (string \<times> pyval) list" where
  "media_summary m =
     (let opt = (\<lambda>v. case v of None \<Rightarrow> PNone | Some s \<Rightarrow> PStr s) in
      [(''media_kind'', opt (nm_media_kind m)), (''media_mime_type'', opt (nm_media_mime_type m)),
       (''media_file_size'', (case nm_media_file_size m of None \<Rightarrow> PNone | Some n \<Rightarrow> PInt n))])"

text \<open>
  What both pipelines do with the file: \<open>audio\<close> is the downloaded file with the further entries of the trace, among them the name
  of the file, or an early reply, or the exception that was raised.
\<close>

definition transcribe_with ::
    "webhook_env \<Rightarrow> normalized_message \<Rightarrow> string \<Rightarrow> (string + (string \<times> string \<times> (string \<times> pyval) list)) result \<Rightarrow> (string \<times> pyval) list
       \<Rightarrow> string \<Rightarrow> (webhook_state, normalized_message option \<times> string option) op" where
  "transcribe_with env m channel audio nothing failed_reply =
     (let run_id = channel @ '':'' @ nm_conversation_id m @ '':'' @ nm_message_id m @ '':transcription'';
          tenant = ws_tenant_id (wb_settings env);
          extra = (case audio of Inr (Inr (_, _, x)) \<Rightarrow> x | _ \<Rightarrow> nothing) in
      catchS
        (bindS (lift audio) (\<lambda>a. case a of
           Inl early \<Rightarrow> bindS (lift (wb_reply env early)) (\<lambda>r. ret (None, Some r))
         | Inr (filename, bytes, _) \<Rightarrow>
             bindS (lift (transcribe_audio env m filename bytes)) (\<lambda>t.
             bindS (webhook_trace env run_id tool_called tenant
               (\<lambda>e. e\<lparr>te_input_summary := PMap (media_summary m @ extra),
                      te_tool_call := PMap [(''name'', PStr ''audio.transcribe''), (''provider'', PStr (tp_provider t))],
                      te_model := Some (tp_model t),
                      te_output_summary := PMap [(''transcript'', PStr (take 500 (tp_text t))), (''text_length'', PInt (int (length (tp_text t))))]\<rparr>)) (\<lambda>_.
               ret (Some (m\<lparr>nm_text := tp_text t, nm_command := None, nm_command_args := []\<rparr>), None)))))
        (\<lambda>e. bindS (webhook_trace env run_id agent_failed tenant
               (\<lambda>t. t\<lparr>te_input_summary := PMap (media_summary m @ extra), te_error := PMap (exception_summary env e)\<rparr>)) (\<lambda>_.
             bindS (lift (wb_reply env failed_reply)) (\<lambda>r. ret (None, Some r)))))"

definition early_reply :: "webhook_env \<Rightarrow> string \<Rightarrow> (webhook_state, normalized_message option \<times> string option) op" where
  "early_reply env k = bindS (lift (wb_reply env k)) (\<lambda>r. ret (None, Some r))"

definition telegram_audio ::
    "webhook_env \<Rightarrow> normalized_message \<Rightarrow> (string + (string \<times> string \<times> (string \<times> pyval) list)) result" where
  "telegram_audio env m =
     bindR (from_entries (ws_egress_allowed_hosts (wb_settings env))) (\<lambda>entries.
     if py_strip (the (ws_telegram_bot_token (wb_settings env))) = [] then Inl (ValueError ''telegram bot token is required'')
     else
       bindR (egress_require (wb_brackets_ok env) entries DEFAULT_TELEGRAM_API_URL) (\<lambda>_.
       bindR (telegram_get_file (wb_loads env) (wb_file_http env (the (nm_media_file_id m)))) (\<lambda>file_info.
       let file_path = text_or_empty (wb_rp env) (payload_get file_info ''file_path'') in
       if file_path = [] then Inr (Inl ''telegram_file_path_missing'')
       else
         bindR (wb_download_file env file_path) (\<lambda>audio.
         if int (length audio) > MAX_AUDIO_BYTES then Inr (Inl ''telegram_audio_download_too_large'')
         else Inr (Inr (telegram_filename m file_path, audio,
                [(''telegram_file_extension'', (case file_extension file_path of None \<Rightarrow> PNone | Some e \<Rightarrow> PStr e)),
                 (''transcription_filename'', PStr (telegram_filename m file_path))]))))))"

definition transcribe_telegram_media :: "webhook_env \<Rightarrow> normalized_message \<Rightarrow> (webhook_state, normalized_message option \<times> string option) op" where
  "transcribe_telegram_media env m =
     (if \<not> truthy_str (nm_media_file_id m) then early_reply env ''telegram_audio_missing_file_id''
      else if wb_transcription env = None then early_reply env ''telegram_transcription_not_configured''
      else if \<not> truthy_str (ws_telegram_bot_token (wb_settings env)) then early_reply env ''telegram_token_missing_for_audio''
      else if (case nm_media_file_size m of None \<Rightarrow> False | Some n \<Rightarrow> n > MAX_AUDIO_BYTES) then early_reply env ''telegram_audio_too_large''
      else transcribe_with env m ''telegram'' (telegram_audio env m)
             [(''telegram_file_extension'', PNone), (''transcription_filename'', PNone)] ''telegram_transcription_failed'')"

definition whatsapp_audio ::
    "webhook_env \<Rightarrow> normalized_message \<Rightarrow> (string + (string \<times> string \<times> (string \<times> pyval) list)) result" where
  "whatsapp_audio env m =
     bindR (from_entries (ws_egress_allowed_hosts (wb_settings env))) (\<lambda>entries.
     if py_strip (the (ws_whatsapp_access_token (wb_settings env))) = [] then Inl (ValueError ''whatsapp access token is required'')
     else if py_strip (ws_whatsapp_phone_number_id (wb_settings env)) = [] then Inl (ValueError ''whatsapp phone number id is required'')
     else
       bindR (egress_require (wb_brackets_ok env) entries DEFAULT_WHATSAPP_API_URL) (\<lambda>_.
       bindR (get_media_url (wb_brackets_ok env) (Some entries) (wb_loads env) (wb_rp env) (wb_media_http env) (the (nm_media_file_id m))) (\<lambda>media_url.
       bindR (fst (download_media (wb_brackets_ok env) (Some entries) (wb_urljoin env) (wb_fetch env) media_url [])) (\<lambda>audio.
         if int (length audio) > MAX_AUDIO_BYTES then Inr (Inl ''whatsapp_audio_download_too_large'')
         else Inr (Inr (whatsapp_filename m media_url, audio, [(''transcription_filename'', PStr (whatsapp_filename m media_url))]))))))"

definition transcribe_whatsapp_media :: "webhook_env \<Rightarrow> normalized_message \<Rightarrow> (webhook_state, normalized_message option \<times> string option) op" where
  "transcribe_whatsapp_media env m =
     (if \<not> truthy_str (nm_media_file_id m) then early_reply env ''whatsapp_audio_missing_file_id''
      else if wb_transcription env = None then early_reply env ''whatsapp_transcription_not_configured''
      else if \<not> truthy_str (ws_whatsapp_access_token (wb_settings env)) then early_reply env ''whatsapp_media_download_failed''
      else if (case nm_media_file_size m of None \<Rightarrow> False | Some n \<Rightarrow> n > MAX_AUDIO_BYTES) then early_reply env ''whatsapp_audio_too_large''
      else transcribe_with env m ''whatsapp'' (whatsapp_audio env m) [(''transcription_filename'', PNone)] ''whatsapp_transcription_failed'')"

section \<open>The routes\<close>

record webhook_response =
  wk_status :: agent_status
  wk_reply :: "string option"
  wk_sent :: bool
  wk_audio_sent :: bool
  wk_approval_id :: "string option"
  wk_command :: "string option"

definition reply_key :: "string \<Rightarrow> string \<Rightarrow> normalized_message \<Rightarrow> string" where
  "reply_key channel peer m =
     (if truthy_str (nm_idempotency_key m) then the (nm_idempotency_key m) else channel @ '':'' @ peer @ '':'' @ nm_message_id m)"

definition is_replay_conflict :: "py_error \<Rightarrow> bool" where
  "is_replay_conflict e =
     (case e of AssistantError code text _ _ \<Rightarrow> code = CONFLICT \<and> text = ''reminder replay payload conflicts with the registered event'' | _ \<Rightarrow> False)"

text \<open>\<^verbatim>\<open>container.commands.handle\<close> with the handler for a replay conflict.\<close>

definition handle_or_conflict ::
    "webhook_env \<Rightarrow> principal \<Rightarrow> normalized_message \<Rightarrow> (webhook_state, command_result option) op" where
  "handle_or_conflict env p m =
     bindS (on_commands (c_draw (wb_commands env))) (\<lambda>d.
       catchS (bindS (on_commands (command_handle (wb_commands env) p m (Aware (snd d)) (ws_timezone (wb_settings env)))) (\<lambda>r. ret (Some r)))
         (\<lambda>e. if is_replay_conflict e then ret None else raise e))"

definition conflict_response :: "webhook_env \<Rightarrow> normalized_message \<Rightarrow> (webhook_state, webhook_response) op" where
  "conflict_response env m =
     bindS (lift (wb_reply env ''reminder_replay_conflict'')) (\<lambda>t.
       ret \<lparr>wk_status = ag_failed, wk_reply = Some t, wk_sent = False, wk_audio_sent = False, wk_approval_id = None, wk_command = nm_command m\<rparr>)"

definition telegram_admit :: "webhook_env \<Rightarrow> pyval \<Rightarrow> string option \<Rightarrow> instant \<Rightarrow> (principal \<times> normalized_message) result" where
  "telegram_admit env payload secret received_at =
     bindR (require_telegram_webhook_secret (wb_settings env) secret) (\<lambda>_.
     bindR (case telegram_normalize (wb_rp env) received_at payload (ws_tenant_id (wb_settings env)) of
              Inl e \<Rightarrow> Inl (if e = TelegramActorNotVerifiableError
                           then AssistantError PERMISSION_DENIED ''telegram update has no verifiable actor'' (Some (ws_tenant_id (wb_settings env))) []
                           else e)
            | Inr m \<Rightarrow> Inr m) (\<lambda>m.
     bindR (telegram_principal (wb_rp env) (wb_settings env) (nm_actor_id m)) (\<lambda>p. Inr (p, m))))"

text \<open>The route after the admission.\<close>

definition telegram_respond :: "webhook_env \<Rightarrow> principal \<Rightarrow> normalized_message \<Rightarrow> (webhook_state, webhook_response) op" where
  "telegram_respond env p m0 =
     (let chat = nm_conversation_id m0; key = reply_key ''telegram'' chat m0; token = truthy_str (ws_telegram_bot_token (wb_settings env)) in
     bindS (if nm_media_kind m0 \<in> {Some ''voice'', Some ''audio''} then transcribe_telegram_media env m0 else ret (None, None)) (\<lambda>(transcribed, problem).
     case problem of
       Some t \<Rightarrow>
         bindS (if token then send_telegram_reply env p chat t key else ret False) (\<lambda>sent.
           ret \<lparr>wk_status = ag_needs_clarification, wk_reply = Some t, wk_sent = sent, wk_audio_sent = False, wk_approval_id = None,
                wk_command = nm_command m0\<rparr>)
     | None \<Rightarrow>
         (let m = (case transcribed of Some x \<Rightarrow> x | None \<Rightarrow> m0) in
          bindS (handle_or_conflict env p m) (\<lambda>handled.
          case handled of
            None \<Rightarrow> conflict_response env m
          | Some r \<Rightarrow>
              bindS (if token then send_telegram_reply env p chat (cm_reply r) key else ret False) (\<lambda>sent.
              bindS (if token \<and> sent \<and> should_send_audio_reply (wb_settings env) m (cm_reply r)
                     then send_telegram_audio_reply env p chat (cm_reply r) key else ret False) (\<lambda>audio_sent.
                ret \<lparr>wk_status = cm_status r, wk_reply = Some (cm_reply r), wk_sent = sent, wk_audio_sent = audio_sent,
                     wk_approval_id = cm_approval_id r, wk_command = nm_command m\<rparr>))))))"

definition telegram_webhook :: "webhook_env \<Rightarrow> pyval \<Rightarrow> string option \<Rightarrow> (webhook_state, webhook_response) op" where
  "telegram_webhook env payload secret =
     bindS (on_commands (c_draw (wb_commands env))) (\<lambda>d.
     bindS (lift (telegram_admit env payload secret (snd d))) (\<lambda>(p, m). telegram_respond env p m))"

text \<open>What the WhatsApp route decides before it answers: nothing to do, or a message with its principal.\<close>

definition whatsapp_admit :: "webhook_env \<Rightarrow> string \<Rightarrow> string option \<Rightarrow> instant \<Rightarrow> (principal \<times> normalized_message) option result" where
  "whatsapp_admit env raw_body header received_at =
     (let st = wb_settings env in
      if \<not> ws_whatsapp_enabled st
      then Inl (AssistantError PERMISSION_DENIED ''whatsapp channel is disabled'' (Some (ws_tenant_id st)) [])
      else
        bindR (verify_whatsapp_signature (wb_hmac env) st raw_body header) (\<lambda>ok.
        if \<not> ok then Inl (AssistantError AUTHENTICATION_REQUIRED ''invalid signature'' (Some (ws_tenant_id st)) [])
        else case wb_loads env raw_body of
          None \<Rightarrow> Inl (AssistantError VALIDATION_FAILED ''invalid json payload'' (Some (ws_tenant_id st)) [])
        | Some payload \<Rightarrow>
            if \<not> is_mapping payload then Inr None
            else bindR (is_status_only_or_empty_callback payload) (\<lambda>empty.
              if empty then Inr None
              else bindR (whatsapp_normalize (wb_rp env) received_at payload (ws_tenant_id st)) (\<lambda>m.
                if nm_actor_id m = [] \<or> nm_text m = [] then Inr None
                else bindR (whatsapp_principal (wb_rp env) st (nm_actor_id m)) (\<lambda>p. Inr (Some (p, m)))))))"

definition whatsapp_answer :: "agent_status \<Rightarrow> string option \<Rightarrow> bool \<Rightarrow> string option \<Rightarrow> string option \<Rightarrow> (webhook_state, webhook_response) op" where
  "whatsapp_answer status reply sent approval_id command =
     ret \<lparr>wk_status = status, wk_reply = reply, wk_sent = sent, wk_audio_sent = False, wk_approval_id = approval_id, wk_command = command\<rparr>"

definition whatsapp_respond :: "webhook_env \<Rightarrow> principal \<Rightarrow> normalized_message \<Rightarrow> (webhook_state, webhook_response) op" where
  "whatsapp_respond env p m0 =
     (let peer = nm_actor_id m0; key = reply_key ''whatsapp'' peer m0; token = truthy_str (ws_whatsapp_access_token (wb_settings env)) in
         if nm_media_kind m0 \<in> {Some ''image'', Some ''document'', Some ''video''}
         then bindS (lift (wb_reply env ''whatsapp_media_unsupported'')) (\<lambda>t.
              bindS (if token then send_whatsapp_reply env p peer t key else ret False) (\<lambda>sent.
                whatsapp_answer ag_needs_clarification (Some t) sent None (nm_command m0)))
         else
           bindS (if nm_media_kind m0 \<in> {Some ''voice'', Some ''audio''} then transcribe_whatsapp_media env m0 else ret (None, None)) (\<lambda>(transcribed, problem).
           case problem of
             Some t \<Rightarrow>
               bindS (if token then send_whatsapp_reply env p peer t key else ret False) (\<lambda>sent.
                 whatsapp_answer ag_needs_clarification (Some t) sent None (nm_command m0))
           | None \<Rightarrow>
               (let m = (case transcribed of Some x \<Rightarrow> x | None \<Rightarrow> m0) in
                bindS (handle_or_conflict env p m) (\<lambda>handled.
                case handled of
                  None \<Rightarrow> conflict_response env m
                | Some r \<Rightarrow>
                    bindS (if token \<and> cm_reply r \<noteq> [] then send_whatsapp_reply env p peer (cm_reply r) key else ret False) (\<lambda>sent.
                      whatsapp_answer (cm_status r) (Some (cm_reply r)) sent (cm_approval_id r) (nm_command m))))))"

definition whatsapp_webhook :: "webhook_env \<Rightarrow> string \<Rightarrow> string option \<Rightarrow> (webhook_state, webhook_response) op" where
  "whatsapp_webhook env raw_body header =
     bindS (on_commands (c_draw (wb_commands env))) (\<lambda>d.
     bindS (lift (whatsapp_admit env raw_body header (snd d))) (\<lambda>admitted.
     case admitted of
       None \<Rightarrow> whatsapp_answer ag_completed None False None None
     | Some (p, m) \<Rightarrow> whatsapp_respond env p m))"

end
