(* ===== verification/Notification_Properties.thy ===== *)
theory Notification_Properties
  imports Notifications
begin

text \<open>
  What the notification tools guarantee. Under one idempotency key of a tenant the client is called again only while its
  answers are known to be transient or it raised, always with the same request and an approval for the key; a settled
  answer is repeated without a call. Media are requested only from allowed hosts, over at most five redirects.
\<close>

section \<open>The call log of a tool\<close>

definition call_key :: "call_entry \<Rightarrow> string \<times> string" where
  "call_key c = (pr_tenant_id (cl_principal c), nr_idempotency_key (cl_request c))"

definition settled :: "notification_result result \<Rightarrow> bool" where
  "settled res = (case res of Inl _ \<Rightarrow> False | Inr r \<Rightarrow> nt_outcome r \<noteq> known_transient)"

definition approved_call :: "call_entry \<Rightarrow> bool" where
  "approved_call c \<longleftrightarrow>
     (\<exists>d. require_approval (cl_time c) (cl_principal c) P5 (cl_approval c) ''notification.send'' (snd (call_key c)) None = Inr d)"

definition tool_inv :: "notification_env \<Rightarrow> tool_state \<Rightarrow> bool" where
  "tool_inv env s \<longleftrightarrow>
     (\<forall>c\<in>set (tl_calls s). map_of (tl_fingerprints s) (call_key c) = Some (request_fingerprint env (cl_request c)) \<and> approved_call c
        \<and> (\<forall>r. cl_result c = Inr r \<longrightarrow> settled (cl_result c) \<longrightarrow> map_of (tl_terminal_by_key s) (call_key c) = Some r))
     \<and> sorted_wrt (\<lambda>c d. call_key c = call_key d \<longrightarrow> \<not> settled (cl_result c)) (tl_calls s)"

text \<open>What one call of \<^verbatim>\<open>send\<close> does to a tool.\<close>

definition asked ::
    "notification_env \<Rightarrow> instant \<Rightarrow> principal \<Rightarrow> media_request \<Rightarrow> approval_grant option \<Rightarrow> bool \<Rightarrow> notification_result result
       \<Rightarrow> tool_state \<Rightarrow> tool_state" where
  "asked env now p request approval called res s =
     (let key = (pr_tenant_id p, nr_idempotency_key request) in
      s\<lparr>tl_fingerprints := AList.update key (request_fingerprint env request) (tl_fingerprints s),
        tl_calls := tl_calls s @ (if called then [\<lparr>cl_principal = p, cl_time = now, cl_approval = approval, cl_request = request,
                                                   cl_result = res\<rparr>] else []),
        tl_terminal_by_key := (if settled res then AList.update key (projr res) (tl_terminal_by_key s) else tl_terminal_by_key s)\<rparr>)"

lemma tool_send_effect:
  assumes "tool_send env tool channel ask now p request approval s = (r, s')"
  shows "s' = s \<or> (\<exists>d called. require_approval now p P5 approval ''notification.send'' (nr_idempotency_key request) None = Inr d
      \<and> map_of (tl_terminal_by_key s) (pr_tenant_id p, nr_idempotency_key request) = None
      \<and> (map_of (tl_fingerprints s) (pr_tenant_id p, nr_idempotency_key request) = None
         \<or> map_of (tl_fingerprints s) (pr_tenant_id p, nr_idempotency_key request) = Some (request_fingerprint env request))
      \<and> s' = asked env now p request approval called r s)"
  using assms
  by (auto simp: tool_send_def asked_def settled_def Let_def split: if_splits sum.splits option.splits prod.splits)

lemma asked_inv:
  assumes inv: "tool_inv env s"
    and ok: "require_approval now p P5 approval ''notification.send'' (nr_idempotency_key request) None = Inr d"
    and new: "map_of (tl_terminal_by_key s) (pr_tenant_id p, nr_idempotency_key request) = None"
    and fp: "map_of (tl_fingerprints s) (pr_tenant_id p, nr_idempotency_key request) = None
      \<or> map_of (tl_fingerprints s) (pr_tenant_id p, nr_idempotency_key request) = Some (request_fingerprint env request)"
  shows "tool_inv env (asked env now p request approval called res s)"
proof -
  let ?key = "(pr_tenant_id p, nr_idempotency_key request)"
  let ?c = "\<lparr>cl_principal = p, cl_time = now, cl_approval = approval, cl_request = request, cl_result = res\<rparr>"
  let ?s = "asked env now p request approval called res s"
  have k: "call_key ?c = ?key" by (simp add: call_key_def)
  have old: "\<not> settled (cl_result c)" if "c \<in> set (tl_calls s)" "call_key c = ?key" for c
    using inv new that by (cases "cl_result c") (auto simp: tool_inv_def settled_def)
  have "approved_call ?c" using ok by (auto simp: approved_call_def k)
  then have 1: "map_of (tl_fingerprints ?s) (call_key c) = Some (request_fingerprint env (cl_request c)) \<and> approved_call c
        \<and> (\<forall>r. cl_result c = Inr r \<longrightarrow> settled (cl_result c) \<longrightarrow> map_of (tl_terminal_by_key ?s) (call_key c) = Some r)"
    if "c \<in> set (tl_calls ?s)" for c
    using that inv fp old [of c] k
    by (auto simp: tool_inv_def asked_def Let_def map_of_update split: if_splits)
  have "sorted_wrt (\<lambda>c d. call_key c = call_key d \<longrightarrow> \<not> settled (cl_result c)) (tl_calls ?s)"
    using inv old k by (auto simp: tool_inv_def asked_def Let_def sorted_wrt_append)
  with 1 show ?thesis unfolding tool_inv_def by blast
qed

lemma tool_send_inv:
  "tool_send env tool channel ask now p request approval s = (r, s') \<Longrightarrow> tool_inv env s \<Longrightarrow> tool_inv env s'"
  using tool_send_effect asked_inv by blast

text \<open>What a tenant has in a tool.\<close>

definition tool_view :: "string \<Rightarrow> tool_state \<Rightarrow>
    ((string \<times> string) \<times> notification_result) list \<times> ((string \<times> string) \<times> string) list \<times> call_entry list" where
  "tool_view t s = (tenant_part t (tl_terminal_by_key s), tenant_part t (tl_fingerprints s), filter (\<lambda>c. fst (call_key c) = t) (tl_calls s))"

lemma tool_send_tenants:
  assumes "tool_send env tool channel ask now p request approval s = (r, s')" "t \<noteq> pr_tenant_id p"
  shows "tool_view t s' = tool_view t s"
  using tool_send_effect [OF assms(1)] assms(2)
  by (auto simp: tool_view_def asked_def Let_def call_key_def)

section \<open>The router as a machine\<close>

definition router_init :: "bool \<Rightarrow> bool \<Rightarrow> router_state" where
  "router_init telegram whatsapp =
     \<lparr>ch_telegram = (if telegram then Some tool_init else None), ch_whatsapp = (if whatsapp then Some tool_init else None)\<rparr>"

definition router_step :: "notification_env \<Rightarrow> telegram_client \<Rightarrow> whatsapp_client \<Rightarrow> principal \<Rightarrow> router_state \<Rightarrow> router_state \<Rightarrow> bool" where
  "router_step env tg wa p s s' \<longleftrightarrow> (\<exists>now request approval r. router_send env tg wa now p request approval s = (r, s'))"

definition router_inv :: "notification_env \<Rightarrow> router_state \<Rightarrow> bool" where
  "router_inv env s \<longleftrightarrow> (\<forall>t. ch_telegram s = Some t \<or> ch_whatsapp s = Some t \<longrightarrow> tool_inv env t)"

lemma router_send_cases:
  assumes "router_send env tg wa now p request approval s = (r, s')"
  obtains "s' = s"
  | t t' where "ch_telegram s = Some t" "s' = s\<lparr>ch_telegram := Some t'\<rparr>" "telegram_tool_send env tg now p request approval t = (r, t')"
  | t t' where "ch_whatsapp s = Some t" "s' = s\<lparr>ch_whatsapp := Some t'\<rparr>" "whatsapp_tool_send env wa now p request approval t = (r, t')"
proof -
  consider (tg) t where "nr_channel request = ''telegram''" "ch_telegram s = Some t"
    | (wa) t where "nr_channel request \<noteq> ''telegram''" "nr_channel request = ''whatsapp''" "ch_whatsapp s = Some t"
    | (none) "nr_channel request = ''telegram'' \<and> ch_telegram s = None \<or> nr_channel request \<noteq> ''telegram'' \<and>
        (nr_channel request = ''whatsapp'' \<longrightarrow> ch_whatsapp s = None)"
    by (cases "ch_telegram s"; cases "ch_whatsapp s") blast+
  then show ?thesis
  proof cases
    case tg
    obtain x t' where "telegram_tool_send env tg now p request approval t = (x, t')" by fastforce
    moreover from this have "x = r" "s' = s\<lparr>ch_telegram := Some t'\<rparr>" using assms tg by (auto simp: router_send_def Let_def)
    ultimately show ?thesis using that(2) tg by blast
  next
    case wa
    obtain x t' where "whatsapp_tool_send env wa now p request approval t = (x, t')" by fastforce
    moreover from this have "x = r" "s' = s\<lparr>ch_whatsapp := Some t'\<rparr>" using assms wa by (auto simp: router_send_def Let_def)
    ultimately show ?thesis using that(3) wa by blast
  next
    case none
    then have "s' = s" using assms by (auto simp: router_send_def Let_def split: if_splits)
    then show ?thesis by (rule that(1))
  qed
qed

lemma router_step_inv: "router_step env tg wa p s s' \<Longrightarrow> router_inv env s \<Longrightarrow> router_inv env s'"
  unfolding router_step_def
  by (force elim!: router_send_cases simp: router_inv_def telegram_tool_send_def whatsapp_tool_send_def intro: tool_send_inv)

lemma router_step_tenants:
  assumes "router_step env tg wa p s s'" "t \<noteq> pr_tenant_id p"
  shows "map_option (tool_view t) (ch_telegram s') = map_option (tool_view t) (ch_telegram s)
    \<and> map_option (tool_view t) (ch_whatsapp s') = map_option (tool_view t) (ch_whatsapp s)"
  using assms unfolding router_step_def
  by (auto elim!: router_send_cases simp: telegram_tool_send_def whatsapp_tool_send_def dest: tool_send_tenants)

interpretation nr: tenant_machine "router_step env tg wa" "router_inv env" "router_init telegram whatsapp" pr_tenant_id
    "\<lambda>t s. (map_option (tool_view t) (ch_telegram s), map_option (tool_view t) (ch_whatsapp s))"
  for env tg wa telegram whatsapp
  by unfold_locales
    (auto simp: router_inv_def router_init_def tool_inv_def tool_init_def dest: router_step_inv router_step_tenants split: if_splits)

text \<open>A settled answer is repeated: the same request under the same key gets it again, and the client is not called.\<close>

lemma settled_answer_repeats:
  assumes "tool_inv env s" "c \<in> set (tl_calls s)" "cl_result c = Inr x" "nt_outcome x \<noteq> known_transient"
    and "nr_channel request = channel" "(pr_tenant_id p, nr_idempotency_key request) = call_key c"
    and "request_fingerprint env request = request_fingerprint env (cl_request c)"
    and "require_approval now p P5 approval ''notification.send'' (nr_idempotency_key request) None = Inr d"
  shows "tool_send env tool channel ask now p request approval s = (Inr (x\<lparr>nt_reused := True\<rparr>), s)"
  using assms by (auto simp: tool_send_def tool_inv_def settled_def Let_def)


definition note_principal :: principal where
  "note_principal = \<lparr>pr_principal_id = ''worker'', pr_tenant_id = ''t'', pr_auth_subject = ''worker'', pr_auth_provider = None,
     pr_permission_tier = P5, pr_permissions = [], pr_scopes = {}, pr_trusted_source = Some ''worker-runtime''\<rparr>"

definition note_grant :: approval_grant where
  "note_grant = demo_grant\<lparr>ap_tier := P5, ap_tenant_id := ''t'', ap_principal_id := ''worker'', ap_action := ''notification.send'',
     ap_resource := ''m:attempt:1''\<rparr>"

definition note_request :: media_request where
  "note_request = \<lparr>nr_channel = ''telegram'', nr_recipient = ''7'', nr_body = ''hi'', nr_idempotency_key = ''m:attempt:1'',
     mq_send_at = None, mq_media = None\<rparr>"

definition note_env :: notification_env where
  "note_env = \<lparr>ne_sha = (\<lambda>s. s), ne_dumps = render, ne_loads = (\<lambda>_. None)\<rparr>"

text \<open>The first exchange is refused with status 503, the second one is lost.\<close>

definition note_http :: "nat \<Rightarrow> string \<Rightarrow> string \<Rightarrow> notification_media option \<Rightarrow> http_reply" where
  "note_http n _ _ _ = (if n = 0 then HttpFailure 503 [] (Some ''7'') else ConnectionFailure)"

definition note_send :: "router_state \<Rightarrow> router_state" where
  "note_send s = snd (router_send note_env (TelegramBotApiClient note_env note_http) (\<lambda>_ _ _. Untyped PNone) 0 note_principal note_request
     (Some note_grant) s)"

definition note_final :: router_state where
  "note_final = note_send (note_send (note_send (router_init True False)))"

definition note_calls :: "call_entry list" where
  "note_calls = (case ch_telegram note_final of None \<Rightarrow> [] | Some t \<Rightarrow> tl_calls t)"


section \<open>Downloads\<close>

lemma allowlist_ok: "allowlist_require b (Some entries) url = Inr () \<longleftrightarrow> egress_allows b entries url"
  by (simp add: allowlist_require_def egress_require_def)

lemma follow_confined:
  assumes "follow b (Some entries) urljoin fetch n current requested = (r, requested')"
  shows "\<exists>urls. requested' = requested @ urls \<and> length urls \<le> n \<and> list_all (egress_allows b entries) urls
    \<and> (urls \<noteq> [] \<longrightarrow> hd urls = current)
    \<and> (\<forall>body. r = Inr body \<longrightarrow> urls \<noteq> [] \<and> fetch (length requested + length urls - 1) (last urls) = MediaBody body)"
  using assms
proof (induction n arbitrary: current requested)
  case 0
  then show ?case by (auto simp: op_apply)
next
  case (Suc n)
  show ?case
  proof (cases "egress_allows b entries current")
    case False
    with Suc.prems show ?thesis by (auto simp: bindS_def allowlist_require_def egress_require_def op_apply)
  next
    case True
    then have ok: "allowlist_require b (Some entries) current = Inr ()" by (simp add: allowlist_ok)
    show ?thesis
    proof (cases "\<exists>code location. fetch (length requested) current = MediaStatus code location
        \<and> code \<in> {301, 302, 303, 307, 308} \<and> truthy_str location")
      case True
      then obtain code location where "fetch (length requested) current = MediaStatus code location"
        "code \<in> {301, 302, 303, 307, 308}" "truthy_str location" by blast
      with Suc.prems ok have "follow b (Some entries) urljoin fetch n (urljoin current (the location)) (requested @ [current]) = (r, requested')"
        by (simp add: bindS_def op_apply Let_def)
      from Suc.IH [OF this] obtain urls where u: "requested' = requested @ [current] @ urls" "length urls \<le> n"
        "list_all (egress_allows b entries) urls"
        "\<forall>body. r = Inr body \<longrightarrow> urls \<noteq> [] \<and> fetch (length requested + length urls) (last urls) = MediaBody body"
        by auto
      then show ?thesis using \<open>egress_allows b entries current\<close> by (intro exI [of _ "current # urls"]) auto
    next
      case False
      with Suc.prems ok have "requested' = requested @ [current] \<and> (\<forall>body. r = Inr body \<longrightarrow> fetch (length requested) current = MediaBody body)"
        by (auto simp: bindS_def op_apply Let_def split: media_reply.splits if_splits)
      then show ?thesis using \<open>egress_allows b entries current\<close> by (intro exI [of _ "[current]"]) auto
    qed
  qed
qed

text \<open>C9: a download ends and stays within the allowlist. Whatever the servers answer, and wherever they redirect to, the client
  makes at most five requests with the access token, each to a URL that the allowlist admits; a returned body is the
  answer to the last of them.\<close>

theorem download_confined:
  assumes "download_media b (Some entries) urljoin fetch url [] = (r, urls)"
  shows "length urls \<le> 5 \<and> list_all (egress_allows b entries) urls
    \<and> (\<forall>body. r = Inr body \<longrightarrow> urls \<noteq> [] \<and> fetch (length urls - 1) (last urls) = MediaBody body)"
  using follow_confined [OF assms [unfolded download_media_def]] by (auto simp: MAX_REDIRECTS_def)

text \<open>The provider redirects from the graph host to its media host and from there to a host that nobody allowed.\<close>

definition hop_fetch :: "nat \<Rightarrow> string \<Rightarrow> media_reply" where
  "hop_fetch n _ = MediaStatus 302 (Some (if n = 0 then ''https://lookaside.fbsbx.com/m'' else ''https://evil.example/m''))"

definition hop_entries :: allowlist where
  "hop_entries = [(''https'', ''graph.facebook.com''), (''https'', ''lookaside.fbsbx.com'')]"

theorem download_confined_witness:
  "\<exists>r. download_media (\<lambda>_. True) (Some hop_entries) (\<lambda>_ l. l) hop_fetch ''https://graph.facebook.com/x'' []
         = (r, [''https://graph.facebook.com/x'', ''https://lookaside.fbsbx.com/m''])
     \<and> list_all (egress_allows (\<lambda>_. True) hop_entries) [''https://graph.facebook.com/x'', ''https://lookaside.fbsbx.com/m'']"
proof -
  have "snd (download_media (\<lambda>_. True) (Some hop_entries) (\<lambda>_ l. l) hop_fetch ''https://graph.facebook.com/x'' [])
      = [''https://graph.facebook.com/x'', ''https://lookaside.fbsbx.com/m'']"
    by code_simp
  then obtain r where r: "download_media (\<lambda>_. True) (Some hop_entries) (\<lambda>_ l. l) hop_fetch ''https://graph.facebook.com/x'' []
      = (r, [''https://graph.facebook.com/x'', ''https://lookaside.fbsbx.com/m''])" by (metis prod.collapse)
  with download_confined [OF r] show ?thesis by blast
qed

end
