(* ===== verification/Webhook_Properties.thy ===== *)
theory Webhook_Properties
  imports Webhooks Command_Properties Notification_Properties
begin

text \<open>
  From the webhook to the stores. Whatever an inbound request carries, the booked reminders grow only when the request
  presents the channel's credentials and names an allowed sender, and then by at most the one reminder for which that sender's
  own principal holds an approval. Transcription, replies and their traces touch no store.
\<close>

section \<open>Silent operations\<close>

text \<open>Operations that leave the stores of the workflow and the approvals as they are.\<close>

abbreviation w_books :: "(string \<times> string) set \<Rightarrow> webhook_state \<Rightarrow> bool" where
  "w_books D s \<equiv> c_books D (ww_commands s)"

abbreviation w_stores :: "webhook_state \<Rightarrow> stores" where
  "w_stores s \<equiv> Reminder_Workflow.world.wd_stores (cw_world (ww_commands s))"

abbreviation w_approvals :: "webhook_state \<Rightarrow> approval_store" where
  "w_approvals s \<equiv> cw_approvals (ww_commands s)"

definition silent :: "(webhook_state, 'a) op \<Rightarrow> bool" where
  "silent m \<longleftrightarrow> (\<forall>P. keeps (\<lambda>s. P (w_stores s) (w_approvals s)) m)"

lemma silentI: "(\<And>s. w_stores (snd (m s)) = w_stores s \<and> w_approvals (snd (m s)) = w_approvals s) \<Longrightarrow> silent m"
  by (simp add: silent_def keeps_def)

lemma silentD:
  assumes "silent m" "m s = (r, s')"
  shows "w_stores s' = w_stores s" "w_approvals s' = w_approvals s"
  using assms(1) [unfolded silent_def keeps_def, rule_format, of "\<lambda>x y. x = w_stores s \<and> y = w_approvals s" s] assms(2) by simp_all

lemma silent_basic [quiet_intros]: "silent (ret x)" "silent (raise e)" "silent (lift r)" "silent (on_notifications n)"
  by (auto intro!: silentI simp: op_apply on_notifications_def on_field_def split: prod.splits)

lemma silent_bindS [quiet_intros]: "silent m \<Longrightarrow> (\<And>x. silent (f x)) \<Longrightarrow> silent (bindS m f)"
  unfolding silent_def by (blast intro: keeps_bindS)

lemma silent_catchS [quiet_intros]: "silent m \<Longrightarrow> (\<And>e. silent (h e)) \<Longrightarrow> silent (catchS m h)"
  unfolding silent_def by (blast intro: keeps_catchS)

lemma silent_cases [quiet_intros]:
  "(x = None \<Longrightarrow> silent m) \<Longrightarrow> (\<And>y. x = Some y \<Longrightarrow> silent (f y)) \<Longrightarrow> silent (case x of None \<Rightarrow> m | Some y \<Rightarrow> f y)"
  "(\<And>a. v = Inl a \<Longrightarrow> silent (g a)) \<Longrightarrow> (\<And>b. v = Inr b \<Longrightarrow> silent (h b)) \<Longrightarrow> silent (case v of Inl a \<Rightarrow> g a | Inr b \<Rightarrow> h b)"
  "(\<And>a b. q = (a, b) \<Longrightarrow> silent (k a b)) \<Longrightarrow> silent (case q of (a, b) \<Rightarrow> k a b)"
  "(c \<Longrightarrow> silent u) \<Longrightarrow> (\<not> c \<Longrightarrow> silent w) \<Longrightarrow> silent (if c then u else w)"
  by (simp_all split: option.split sum.split prod.split)

lemma silent_world [quiet_intros]: "quiet m \<Longrightarrow> silent (on_commands (on_world m))"
proof (rule silentI)
  fix s :: webhook_state
  assume "quiet m"
  then have "Reminder_Workflow.world.wd_stores (snd (m (cw_world (ww_commands s)))) = Reminder_Workflow.world.wd_stores (cw_world (ww_commands s))"
    using quietD [of m "cw_world (ww_commands s)"] by (metis prod.collapse)
  then show "w_stores (snd (on_commands (on_world m) s)) = w_stores s \<and> w_approvals (snd (on_commands (on_world m) s)) = w_approvals s"
    by (auto simp: on_commands_def on_world_def on_field_def split: prod.split)
qed

lemma silent_draw [quiet_intros]: "silent (on_commands (c_draw c))"
  unfolding c_draw_def by (intro quiet_intros)

lemma silent_trace [quiet_intros]: "silent (webhook_trace env run_id ety tenant upd)"
  unfolding webhook_trace_def record_trace_def by (intro quiet_intros)

lemma silent_send [quiet_intros]: "silent (webhook_send env p request grant)"
  unfolding webhook_send_def by (intro quiet_intros)

lemma silent_replies [quiet_intros]:
  "silent (send_telegram_reply env p chat_id body key)" "silent (send_whatsapp_reply env p recipient body key)"
  "silent (trace_audio_reply_failure env p chat_id body key stage tool e)" "silent (send_telegram_audio_reply env p chat_id body key)"
  unfolding send_telegram_reply_def send_whatsapp_reply_def trace_audio_reply_failure_def send_telegram_audio_reply_def
  by (intro quiet_intros)+

lemma silent_transcription [quiet_intros]:
  "silent (transcribe_telegram_media env m)" "silent (transcribe_whatsapp_media env m)"
  unfolding transcribe_telegram_media_def transcribe_whatsapp_media_def transcribe_with_def early_reply_def Let_def
  by (intro quiet_intros)+

lemma silent_answers [quiet_intros]: "silent (conflict_response env m)" "silent (whatsapp_answer a b c d e)"
  unfolding conflict_response_def whatsapp_answer_def by (intro quiet_intros)+

section \<open>Growth of the booked set\<close>

definition grows :: "principal \<Rightarrow> approval_store \<Rightarrow> (string \<times> string) set \<Rightarrow> (webhook_state, 'a) op \<Rightarrow> bool" where
  "grows p A D m \<longleftrightarrow> (\<forall>s r s'. w_books D s \<longrightarrow> w_approvals s = A \<longrightarrow> m s = (r, s') \<longrightarrow>
     (\<exists>D'. approved_growth p A D D' \<and> w_books D' s'))"

lemma grows_silent: "silent m \<Longrightarrow> grows p A D m"
  unfolding grows_def using silentD(1) by (fastforce simp: approved_growth_def)

lemma grows_prefix:
  assumes "silent m" "\<And>x. grows p A D (f x)"
  shows "grows p A D (bindS m f)"
  unfolding grows_def
proof (intro allI impI)
  fix s r s' assume s: "w_books D s" "w_approvals s = A" "bindS m f s = (r, s')"
  obtain x t where m: "m s = (x, t)" by fastforce
  note q = silentD [OF assms(1) m]
  show "\<exists>D'. approved_growth p A D D' \<and> w_books D' s'"
  proof (cases x)
    case (Inl e)
    with s m have "s' = t" by (simp add: bindS_def)
    then show ?thesis using s(1) q(1) by (auto simp: approved_growth_def)
  next
    case (Inr y)
    with s m have "f y t = (r, s')" by (simp add: bindS_def)
    then show ?thesis using assms(2) [unfolded grows_def, rule_format, of t y r s'] s(1,2) q by simp
  qed
qed

lemma grows_suffix:
  assumes "grows p A D m" "\<And>x. silent (f x)"
  shows "grows p A D (bindS m f)"
  unfolding grows_def
proof (intro allI impI)
  fix s r s' assume s: "w_books D s" "w_approvals s = A" "bindS m f s = (r, s')"
  obtain x t where m: "m s = (x, t)" by fastforce
  obtain D' where D': "approved_growth p A D D'" "w_books D' t" using assms(1) s(1,2) m unfolding grows_def by blast
  show "\<exists>D'. approved_growth p A D D' \<and> w_books D' s'"
  proof (cases x)
    case (Inl e)
    with s m have "s' = t" by (simp add: bindS_def)
    then show ?thesis using D' by blast
  next
    case (Inr y)
    with s m have "f y t = (r, s')" by (simp add: bindS_def)
    then show ?thesis using silentD(1) [OF assms(2)] D' by fastforce
  qed
qed

lemma grows_cases:
  "(x = None \<Longrightarrow> grows p A D m) \<Longrightarrow> (\<And>y. x = Some y \<Longrightarrow> grows p A D (f y)) \<Longrightarrow> grows p A D (case x of None \<Rightarrow> m | Some y \<Rightarrow> f y)"
  "(\<And>a b. q = (a, b) \<Longrightarrow> grows p A D (k a b)) \<Longrightarrow> grows p A D (case q of (a, b) \<Rightarrow> k a b)"
  "(c \<Longrightarrow> grows p A D u) \<Longrightarrow> (\<not> c \<Longrightarrow> grows p A D w) \<Longrightarrow> grows p A D (if c then u else w)"
  by (simp_all split: option.split prod.split)

lemma grows_handle:
  assumes "we_unit_of_work (cs_workflow (wb_commands env))"
  shows "grows p A D (on_commands (command_handle (wb_commands env) p m now tz))"
  unfolding grows_def
proof (intro allI impI)
  fix s r s' assume s: "w_books D s" "w_approvals s = A" "on_commands (command_handle (wb_commands env) p m now tz) s = (r, s')"
  then obtain w where w: "command_handle (wb_commands env) p m now tz (ww_commands s) = (r, w)" "s' = s\<lparr>ww_commands := w\<rparr>"
    by (auto simp: on_commands_def on_field_def split: prod.splits)
  show "\<exists>D'. approved_growth p A D D' \<and> w_books D' s'" using handle_books [OF s(1) assms w(1)] s(2) w(2) by simp
qed

lemma grows_catch: "grows p A D m \<Longrightarrow> (\<And>e. silent (h e)) \<Longrightarrow> grows p A D (catchS m h)"
  unfolding grows_def catchS_def
  by (fastforce split: prod.splits sum.splits dest: silentD(1))

lemma grows_handled:
  assumes "we_unit_of_work (cs_workflow (wb_commands env))"
  shows "grows p A D (handle_or_conflict env p m)"
  unfolding handle_or_conflict_def
  by (intro grows_prefix grows_catch grows_suffix grows_handle assms quiet_intros)

section \<open>Admission\<close>

datatype inbound = TelegramUpdate pyval "string option" | WhatsAppCallback string "string option"

definition webhook :: "webhook_env \<Rightarrow> inbound \<Rightarrow> (webhook_state, webhook_response) op" where
  "webhook env u =
     (case u of TelegramUpdate payload secret \<Rightarrow> telegram_webhook env payload secret
      | WhatsAppCallback raw_body header \<Rightarrow> whatsapp_webhook env raw_body header)"

text \<open>The credentials of a channel, and the principals that it may yield.\<close>

definition credentials :: "webhook_env \<Rightarrow> inbound \<Rightarrow> bool" where
  "credentials env u =
     (let st = wb_settings env in
      case u of
        TelegramUpdate _ secret \<Rightarrow> ws_telegram_webhook_secret st \<noteq> [] \<and> secret = Some (ws_telegram_webhook_secret st)
      | WhatsAppCallback raw_body header \<Rightarrow>
          ws_whatsapp_enabled st \<and> ws_whatsapp_app_secret st \<noteq> []
          \<and> (case header of None \<Rightarrow> False
             | Some h \<Rightarrow> starts_with ''sha256='' h \<and> py_strip (drop 7 h) = wb_hmac env (ws_whatsapp_app_secret st) raw_body))"

definition sender :: "webhook_env \<Rightarrow> inbound \<Rightarrow> principal \<Rightarrow> bool" where
  "sender env u p =
     (let st = wb_settings env in
      pr_tenant_id p = py_strip (ws_tenant_id st) \<and> is_trusted p \<and> pr_permission_tier p = P5
      \<and> (case u of
           TelegramUpdate payload _ \<Rightarrow>
             pr_auth_provider p = Some ''telegram'' \<and> pr_principal_id p \<in> set (ws_telegram_allowed_user_ids st)
             \<and> (\<exists>t m. telegram_normalize (wb_rp env) t payload (ws_tenant_id st) = Inr m \<and> nm_actor_id m = pr_principal_id p)
         | WhatsAppCallback raw_body _ \<Rightarrow>
             pr_auth_provider p = Some ''whatsapp'' \<and> pr_principal_id p \<in> set (ws_whatsapp_allowed_user_ids st)
             \<and> (\<exists>t v m. wb_loads env raw_body = Some v \<and> whatsapp_normalize (wb_rp env) t v (ws_tenant_id st) = Inr m
                      \<and> py_strip (nm_actor_id m) = pr_principal_id p)))"

lemma channel_principal_facts:
  assumes "channel_principal rp actor tenant provider = Inr p" "py_strip actor = actor" "py_strip provider = provider" "provider \<noteq> []"
  shows "pr_principal_id p = actor" "pr_tenant_id p = py_strip tenant" "pr_auth_provider p = Some provider" "is_trusted p" "pr_permission_tier p = P5"
proof -
  obtain c where c: "AuthClaims_from_mapping rp [(''sub'', PStr actor), (''tenant_id'', PStr tenant)] = Inr c"
    "principal_from_auth_claims c None (Some provider) P5 [] = Inr p"
    using assms(1) by (auto simp: channel_principal_def bindR_eq_Inr)
  have "claim_or [(''sub'', PStr actor), (''tenant_id'', PStr tenant)] [''sub'', ''subject'', ''user_id''] = (if actor = [] then None else Some (PStr actor))"
    "claim_or [(''sub'', PStr actor), (''tenant_id'', PStr tenant)] [''tenant_id'', ''tid'', ''tenant'', ''https://personal-assistant/tenant_id'']
       = (if tenant = [] then None else Some (PStr tenant))"
    by (simp_all add: claim_or_def truthy_def)
  then have s: "ac_subject c = py_strip actor" "ac_tenant_id c = py_strip tenant"
    using c(1) by (auto simp: AuthClaims_from_mapping_def Let_def bindR_eq_Inr py_str_def split: if_splits)
  show "pr_principal_id p = actor" "pr_tenant_id p = py_strip tenant" "pr_auth_provider p = Some provider" "is_trusted p" "pr_permission_tier p = P5"
    using c(2) assms(2-4) by (auto simp: principal_from_auth_claims_def trusted_principal_def s truthy_str_def is_trusted_def split: if_splits)
qed

lemma validated_same: "NormalizedMessage_validate x = Inr m \<Longrightarrow> m = x"
  unfolding NormalizedMessage_validate_def by (metis sum.distinct(1) sum.inject(2))

lemma telegram_actor_stripped: "telegram_normalize rp t payload tenant = Inr m \<Longrightarrow> py_strip (nm_actor_id m) = nm_actor_id m"
proof -
  assume "telegram_normalize rp t payload tenant = Inr m"
  then obtain n where "NormalizedMessage_validate (update_fields rp t payload n) = Inr m"
    unfolding telegram_normalize_def by (auto simp: bindR_eq_Inr split: if_splits)
  then have "m = update_fields rp t payload n" by (rule validated_same)
  then show ?thesis by (simp add: update_fields_def Let_def update_actor_def)
qed

lemma telegram_admitted:
  assumes "telegram_admit env payload secret t = Inr (p, m)"
  shows "credentials env (TelegramUpdate payload secret)" "sender env (TelegramUpdate payload secret) p"
proof -
  let ?st = "wb_settings env"
  have a: "require_telegram_webhook_secret ?st secret = Inr ()" "telegram_normalize (wb_rp env) t payload (ws_tenant_id ?st) = Inr m"
    "telegram_principal (wb_rp env) ?st (nm_actor_id m) = Inr p"
    using assms by (auto simp: telegram_admit_def bindR_eq_Inr split: sum.splits)
  show "credentials env (TelegramUpdate payload secret)"
    using a(1) by (cases secret) (auto simp: credentials_def require_telegram_webhook_secret_def truthy_str_def Let_def split: if_splits)
  have c: "nm_actor_id m \<in> set (ws_telegram_allowed_user_ids ?st)" "channel_principal (wb_rp env) (nm_actor_id m) (ws_tenant_id ?st) ''telegram'' = Inr p"
    using a(3) by (auto simp: telegram_principal_def split: if_splits)
  have "py_strip ''telegram'' = ''telegram''" by code_simp
  note f = channel_principal_facts [OF c(2) telegram_actor_stripped [OF a(2)] this]
  show "sender env (TelegramUpdate payload secret) p" using f c(1) a(2) by (auto simp: sender_def Let_def)
qed

lemma whatsapp_admitted:
  assumes "whatsapp_admit env raw_body header t = Inr (Some (p, m))"
  shows "credentials env (WhatsAppCallback raw_body header)" "sender env (WhatsAppCallback raw_body header) p"
proof -
  let ?st = "wb_settings env"
  obtain v where a: "ws_whatsapp_enabled ?st" "verify_whatsapp_signature (wb_hmac env) ?st raw_body header = Inr True"
    "wb_loads env raw_body = Some v" "whatsapp_normalize (wb_rp env) t v (ws_tenant_id ?st) = Inr m"
    "whatsapp_principal (wb_rp env) ?st (nm_actor_id m) = Inr p"
    using assms by (auto simp: whatsapp_admit_def Let_def bindR_eq_Inr split: if_splits option.splits)
  show "credentials env (WhatsAppCallback raw_body header)"
    using a(1,2) by (cases header)
      (auto simp: credentials_def verify_whatsapp_signature_def compare_digest_def truthy_str_def Let_def split: if_splits)
  have c: "py_strip (nm_actor_id m) \<in> set (ws_whatsapp_allowed_user_ids ?st)"
    "channel_principal (wb_rp env) (py_strip (nm_actor_id m)) (ws_tenant_id ?st) ''whatsapp'' = Inr p"
    using a(5) by (auto simp: whatsapp_principal_def Let_def split: if_splits)
  have "py_strip ''whatsapp'' = ''whatsapp''" by code_simp
  note f = channel_principal_facts [OF c(2) py_strip_idem this]
  show "sender env (WhatsAppCallback raw_body header) p" using f c(1) a(3,4) by (auto simp: sender_def Let_def)
qed

section \<open>The routes\<close>

lemma respond_grows:
  assumes "we_unit_of_work (cs_workflow (wb_commands env))"
  shows "grows p A D (telegram_respond env p m)" "grows p A D (whatsapp_respond env p m)"
  unfolding telegram_respond_def whatsapp_respond_def Let_def
  by (intro grows_prefix grows_cases grows_suffix [OF grows_handled] grows_silent assms quiet_intros)+

text \<open>Both routes draw the time, admit the request and then answer it or stop.\<close>

lemma route_grows:
  assumes b: "w_books D s"
    and run: "bindS (on_commands (c_draw c)) (\<lambda>d. bindS (lift (admit (snd d))) k) s = (r, s')"
    and k: "\<And>t x. admit t = Inr x \<Longrightarrow> silent (k x) \<or> (\<exists>p. Q p \<and> grows p (w_approvals s) D (k x))"
  shows "\<exists>D'. w_books D' s' \<and> (D' = D \<or> (\<exists>p. Q p \<and> approved_growth p (w_approvals s) D D'))"
proof -
  obtain d s1 where d: "on_commands (c_draw c) s = (Inr d, s1)"
    by (auto simp: on_commands_def c_draw_def on_world_def on_field_def draw_def)
  note q = silentD [OF silent_draw d]
  have b1: "w_books D s1" "w_approvals s1 = w_approvals s" using b q by simp_all
  show ?thesis
  proof (cases "admit (snd d)")
    case (Inl e)
    with run d have "s' = s1" by (simp add: bindS_def op_apply)
    then show ?thesis using b1(1) by blast
  next
    case (Inr x)
    with run d have kx: "k x s1 = (r, s')" by (simp add: bindS_def op_apply)
    from k [OF Inr] show ?thesis
    proof
      assume "silent (k x)"
      then have "w_stores s' = w_stores s1" using kx by (rule silentD(1))
      then show ?thesis using b1(1) by auto
    next
      assume "\<exists>p. Q p \<and> grows p (w_approvals s) D (k x)"
      then show ?thesis using b1 kx unfolding grows_def by blast
    qed
  qed
qed

text \<open>C7: from a webhook to the stores. Whatever an inbound Telegram update or WhatsApp callback carries, and whether the route
  answers or raises, the stores afterwards represent the same set of booked reminders; or the request presented the channel's
  credentials (the configured secret, or the signature of the body under the application secret of the enabled channel), and
  the set has grown by one reminder of the tenant that the approval store held an undecided or approved approval for, of the principal of
  a sender on the channel's list of allowed users, the one that the payload names.\<close>

theorem webhook_books_only_approved:
  assumes "c_books D (ww_commands s)" and "we_unit_of_work (cs_workflow (wb_commands env))" and "webhook env u s = (r, s')"
  shows "\<exists>D'. c_books D' (ww_commands s')
    \<and> (D' = D \<or> credentials env u \<and> (\<exists>p. sender env u p \<and> approved_growth p (cw_approvals (ww_commands s)) D D'))"
proof -
  let ?Q = "\<lambda>p. credentials env u \<and> sender env u p"
  have "\<exists>D'. w_books D' s' \<and> (D' = D \<or> (\<exists>p. ?Q p \<and> approved_growth p (w_approvals s) D D'))"
  proof (cases u)
    case (TelegramUpdate payload secret)
    with assms(3) have "telegram_webhook env payload secret s = (r, s')" by (simp add: webhook_def)
    from route_grows [OF assms(1) this [unfolded telegram_webhook_def], of ?Q] show ?thesis
      using telegram_admitted respond_grows(1) [OF assms(2)] TelegramUpdate by fastforce
  next
    case (WhatsAppCallback raw_body header)
    with assms(3) have "whatsapp_webhook env raw_body header s = (r, s')" by (simp add: webhook_def)
    from route_grows [OF assms(1) this [unfolded whatsapp_webhook_def], of ?Q] show ?thesis
      using whatsapp_admitted respond_grows(2) [OF assms(2)] WhatsAppCallback silent_answers(2)
      by (fastforce split: option.split)
  qed
  then show ?thesis by blast
qed

definition hook_settings :: webhook_settings where
  "hook_settings = \<lparr>ws_tenant_id = ''t1'', ws_timezone = ''UTC'', ws_telegram_webhook_secret = ''s3cret'', ws_telegram_bot_token = None,
     ws_telegram_allowed_user_ids = [''7''], ws_whatsapp_enabled = True, ws_whatsapp_app_secret = ''app'', ws_whatsapp_verify_token = ''v'',
     ws_whatsapp_allowed_user_ids = [''57''], ws_whatsapp_access_token = None, ws_whatsapp_phone_number_id = [],
     ws_egress_allowed_hosts = [], ws_telegram_audio_reply_mode = ''disabled'', ws_tts_max_reply_characters = 280\<rparr>"

text \<open>A WhatsApp callback with one message of the given kind and no text.\<close>

definition hook_payload :: "string \<Rightarrow> pyval" where
  "hook_payload ty =
     PMap [(''entry'', PList [PMap [(''changes'', PList [PMap [(''value'', PMap [(''messages'',
       PList [PMap [(''from'', PStr ''57''), (''id'', PStr ''w1''), (''type'', PStr ty)]])])]])]])]"

definition hook_env :: webhook_env where
  "hook_env = \<lparr>wb_settings = hook_settings, wb_commands = cd_env, wb_notes = note_env, wb_telegram = (\<lambda>_ _ _ _. Untyped PNone),
     wb_whatsapp = (\<lambda>_ _ _. Untyped PNone), wb_brackets_ok = (\<lambda>_. True), wb_hmac = (\<lambda>k b. k), wb_loads = (\<lambda>raw. Some (hook_payload raw)),
     wb_file_http = (\<lambda>_. ConnectionFailure), wb_download_file = (\<lambda>_. Inl OverflowError), wb_media_http = (\<lambda>_. ConnectionFailure),
     wb_urljoin = (\<lambda>_ l. l), wb_fetch = (\<lambda>_ _. MediaConnectionFailure), wb_prompt = Inr ''p'', wb_transcription = None, wb_tts = None\<rparr>"

definition hook_state :: webhook_state where
  "hook_state = \<lparr>ww_commands = cd_world, ww_notifications = router_init True True\<rparr>"

definition hook_update :: inbound where
  "hook_update = TelegramUpdate (PMap [(''message'', PMap [(''from'', PMap [(''id'', PInt 7)]), (''text'', PStr ''/aprobar ap_1'')])]) (Some ''guess'')"

theorem webhook_books_only_approved_witness:
  "c_books {} (ww_commands (snd (webhook hook_env hook_update hook_state))) \<and> \<not> credentials hook_env hook_update"
proof -
  have "c_books {} (ww_commands hook_state)" "we_unit_of_work (cs_workflow (wb_commands hook_env))"
    by (simp_all add: hook_state_def cd_world_def demo_world_def empty_books hook_env_def cd_env_def lv_env_def demo_env_def)
  from webhook_books_only_approved [OF this prod.collapse [symmetric], of hook_update] obtain D' where
    D': "c_books D' (ww_commands (snd (webhook hook_env hook_update hook_state)))" "D' = {} \<or> credentials hook_env hook_update" by blast
  have "\<not> credentials hook_env hook_update" by (simp add: credentials_def hook_update_def hook_env_def hook_settings_def)
  with D' show ?thesis by blast
qed

section \<open>What the WhatsApp route cannot do\<close>

text \<open>The route means to acknowledge a callback without an actor or text, but the adapter never returns such a message: it raises.
  A reaction, a sticker or a location of an allowed sender, correctly signed, therefore ends in an unhandled error.\<close>

lemma normalized_not_empty: "whatsapp_normalize rp t payload tenant = Inr m \<Longrightarrow> nm_actor_id m \<noteq> [] \<and> nm_text m \<noteq> []"
proof -
  assume "whatsapp_normalize rp t payload tenant = Inr m"
  moreover from this have "tenant \<noteq> []" unfolding whatsapp_normalize_def by (metis sum.distinct(1))
  ultimately have "\<exists>x. NormalizedMessage_validate x = Inr m"
    unfolding whatsapp_normalize_def Let_def by (simp only: if_False bindR_eq_Inr) blast
  then obtain x where "NormalizedMessage_validate x = Inr m" ..
  moreover from this have "x = m" using validated_same by blast
  ultimately show ?thesis by (auto simp: NormalizedMessage_validate_def split: if_splits)
qed

lemma textless_callback: "is_status_only_or_empty_callback (hook_payload ''reaction'') = Inr False"
  by code_simp

lemma textless_message: "tenant \<noteq> [] \<Longrightarrow> whatsapp_normalize rp t (hook_payload ''reaction'') tenant = Inl (ValueError ''invalid normalized message'')"
proof -
  have l: "py_lower (py_strip ''reaction'') = ''reaction''" by code_simp
  assume "tenant \<noteq> []"
  then show ?thesis
    by (simp add: whatsapp_normalize_def hook_payload_def PMap_def payload_get_def first_mapping_def as_mapping_def is_mapping_def truthy_def Let_def
        text_or_empty_def py_str_def l SUPPORTED_MEDIA_TYPES_def whatsapp_media_kind_def optional_int_def NormalizedMessage_validate_def)
qed

lemma textless_message_raises:
  assumes "ws_whatsapp_enabled (wb_settings env)" "verify_whatsapp_signature (wb_hmac env) (wb_settings env) raw_body header = Inr True"
    and "wb_loads env raw_body = Some (hook_payload ''reaction'')" "ws_tenant_id (wb_settings env) \<noteq> []"
  shows "whatsapp_admit env raw_body header t = Inl (ValueError ''invalid normalized message'')"
  using assms textless_callback textless_message by (simp add: whatsapp_admit_def Let_def is_mapping_def hook_payload_def PMap_def)

text \<open>A signature header with a character beyond ASCII makes the comparison raise instead of failing.\<close>

lemma signature_non_ascii_raises:
  assumes "ws_whatsapp_enabled (wb_settings env)" "ws_whatsapp_app_secret (wb_settings env) \<noteq> []"
  shows "whatsapp_admit env raw_body (Some (''sha256='' @ [CHR 0xE9])) t
     = Inl (TypeError ''comparing strings with non-ASCII characters is not supported'')"
proof -
  have "py_strip [CHR 0xE9] = [CHR 0xE9]" by code_simp
  then show ?thesis
    using assms by (simp add: whatsapp_admit_def verify_whatsapp_signature_def truthy_str_def starts_with_def compare_digest_def Let_def)
qed

end
