(* ===== verification/Spec2Isabelle.thy ===== *)
theory Spec2Isabelle
  imports Dispatch_Protocol Dispatch_Liveness Approval_Store Guardrail_Properties Tracing_Properties
    Reminder_Workflow_Properties Command_Properties Document_Properties
    Admin_Auth Migration_Properties Egress_Properties
    Webhook_Properties
begin

text \<open>
  \<^bold>\<open>A verification development for the personal assistant\<close> (\<^verbatim>\<open>src/src/personal_assistant\<close>).

  \<^bold>\<open>The program.\<close> The assistant receives chat messages of a tenant's users, understands reminders in them, asks
  for approval, and after the approval writes a calendar event, schedules a reminder job, appends an event and queues a
  notification, which a worker later sends through a provider. Every write is gated by permission tiers and approval
  grants, every run is made idempotent by a key derived from the request, all stores change together in one
  transaction, and whatever is traced passes a privacy boundary. Messages arrive through the webhooks of Telegram and WhatsApp, and
  what is sent goes out through the notification tools of the two channels. Around this core stand the authentication of
  local administrators, the allowlist of outbound hosts, the summaries of small documents, and the runner of schema
  migrations.

  \<^bold>\<open>Conventions.\<close> A class is a \<open>record\<close>, an enumeration a \<open>datatype\<close>, a method a definition on the record. A
  fallible pure function returns \<open>'a result\<close>, that is \<open>py_error + 'a\<close>, with every \<^verbatim>\<open>raise\<close> of the source as a
  branch; a stateful one has type \<open>('s, 'a) op\<close>, a function from a state to a result and the state after it, so that the
  state after an exception is visible too. A constructor with validators is a function \<open>X_make\<close> or
  \<open>X_validate\<close>; \<^verbatim>\<open>pydantic\<close>'s \<^verbatim>\<open>ValidationError\<close> is a \<^verbatim>\<open>ValueError\<close>, which it is in the source language. A \<^verbatim>\<open>dict\<close> is an association list,
  so that its order is kept. A \<^verbatim>\<open>str\<close> is a list of the 256 characters of Isabelle's \<open>char\<close>, read as the first 256 code points;
  \<^verbatim>\<open>int\<close> is unbounded in both languages. An instant is an \<open>int\<close> of microseconds. Code outside the repository is an argument: the SHA-256
  digest \<open>sha\<close> (where keys must differ, with freedom from collisions on the texts at hand as a hypothesis), the fingerprint
  \<open>fp\<close>, Unicode normalisation, time zones (with the locale \<open>consistent_zone\<close> for what the statements need),
  fresh identifiers and the clock (numbered by a counter of the state), the language model, the prompt and reply
  catalogs, the notification provider, \<^verbatim>\<open>str()\<close> of foreign objects, UTF-8 decoding, the effect of a migration's SQL, the check of bracketed
  hosts in URLs, HMAC, JSON text (\<open>loads\<close>, \<open>dumps\<close>), the joining of URLs, each HTTP exchange (as the reply it gives), transcription and
  speech synthesis.

  \<^bold>\<open>Foundations.\<close>
  \<^item> \<open>Prelude\<close>: errors of \<^verbatim>\<open>domain/common/exceptions.py\<close>, results and operations with their combinators, association lists, Python's
    string functions, the collections of rules the component proofs use.
  \<^item> \<open>Contracts\<close>: the interfaces as locales. \<open>machine\<close> is a labelled step relation with an invariant, \<open>tenant_machine\<close> adds that
    no step of a tenant changes what another tenant sees, \<open>keyed_store\<close> is idempotent writing under a key, \<open>participant\<close> is a
    store that can take part in a transaction. They are interpreted on the outbox, event store, workflow store, approval store,
    scheduler, calendar, unit of work, trace recorder, dispatch protocol and notification router; \<open>prefix_code\<close> (in \<open>Json\<close>) is interpreted on JSON escapes and
    UTF-8, \<open>consistent_zone\<close> on zones of fixed offset.
  \<^item> \<open>Json\<close>, \<open>Py_Value\<close>, \<open>Py_Datetime\<close>, \<open>Py_Regex\<close>: canonical JSON text with a proof that it determines the value, dynamic values, ISO
    dates, and a backtracking matcher for the regular expressions of the sources, proved equivalent to their declarative
    language.

  \<^bold>\<open>Identity and approval\<close> (\<^verbatim>\<open>domain/common/permissions.py\<close>, \<^verbatim>\<open>domain/common/identity.py\<close>, \<^verbatim>\<open>application/dto/commands.py\<close>): \<open>Access_Control\<close> and
  \<open>Approval_Store\<close>. When the approval gate opens, exactly; that a grant is good for its own resource only; that a
  decision on an approval is final.

  \<^bold>\<open>Stores\<close> (\<^verbatim>\<open>adapters/persistence/in_memory.py\<close>, \<^verbatim>\<open>in_memory_uow.py\<close>, \<^verbatim>\<open>adapters/outbound/scheduler/local.py\<close>, \<^verbatim>\<open>calendar/local.py\<close>, \<^verbatim>\<open>application/dto/{delivery,events,workflows}.py\<close>):
  \<open>Delivery\<close>, \<open>Outbox\<close>, \<open>Outbox_Invariants\<close>, \<open>Outbox_Machine\<close>, \<open>Outbox_Properties\<close>, \<open>Event_Store\<close>, \<open>Workflow_Store\<close>, \<open>Scheduler\<close>, \<open>Calendar\<close>,
  \<open>Unit_Of_Work\<close>. Each store has one step rule per public method and an invariant over all reachable states. For the
  outbox: the legal edges of the delivery life cycle, fencing by claim tokens, exclusive leases, idempotent adding. For the
  unit of work: all five stores change together or not at all.

  \<^bold>\<open>Dispatch\<close> (\<^verbatim>\<open>application/use_cases/reminder_notifications_dispatch.py\<close>, \<^verbatim>\<open>reminder_notifications_helpers.py\<close>): \<open>Dispatch\<close> is the loop of one worker;
  \<open>Dispatch_Safety\<close> shows that a provider is called only for a message committed as sending, under the held claim, with an
  approval for the attempt; \<open>Dispatch_Liveness\<close> that an attempt always ends in a settled state; \<open>Dispatch_Protocol\<close> lets any
  number of workers, sweeps and operators interleave transaction by transaction and shows that no attempt key is
  released twice and that a message is tried at most four times.

  \<^bold>\<open>Reminders\<close> (\<^verbatim>\<open>domain/reminders/*.py\<close>, \<^verbatim>\<open>application/use_cases/reminders.py\<close>, \<^verbatim>\<open>application/services/replies.py\<close>): \<open>Idempotency\<close>, \<open>Reminder_Parser\<close> with its properties,
  \<open>Reminder_Draft\<close>, \<open>Replies\<close>, \<open>Reminder_Workflow\<close>, \<open>Reminder_Workflow_Properties\<close>, \<open>Workflow_Liveness\<close>. A parsed wall clock is the one instant with that
  local reading; the stored draft reads back; a run refines the specification of a set of booked keys, in which a booking needs
  an accepted grant and a repeated request books nothing; without a grant nothing is written; a new and clean
  request ends waiting for approval.

  \<^bold>\<open>Commands\<close> (\<^verbatim>\<open>application/use_cases/commands.py\<close>): \<open>Commands\<close>, \<open>Command_Properties\<close>. The router with every command. Handling a message refines the same booking
  specification; only the approve command has effects, whatever the language model reads into the text; the pending
  approval carries exactly the request it was made from.

  \<^bold>\<open>Notification tools\<close> (\<^verbatim>\<open>adapters/outbound/notifications/{telegram,router}.py\<close>, \<^verbatim>\<open>whatsapp_{models,parsing,client,tool}.py\<close>): \<open>Notifications\<close>, \<open>Notification_Properties\<close>. How a provider's
  reply becomes an outcome, the tools of the two channels, the router, and the download of media. A key of a tenant is sent once, except after an
  answer known to be transient or an exception; a download makes at most five requests, all to allowed hosts.

  \<^bold>\<open>Webhooks\<close> (\<^verbatim>\<open>adapters/inbound/channels/*.py\<close>, \<^verbatim>\<open>infrastructure/http_auth{,_whatsapp}.py\<close>, \<^verbatim>\<open>http_routes_{telegram,whatsapp}.py\<close>, \<^verbatim>\<open>http_{telegram,whatsapp}_{transcription,replies}.py\<close>): \<open>Webhooks\<close>,
  \<open>Webhook_Properties\<close>. From the request to the commands and back: normalisation, secret and signature, allowed users, voice
  messages, replies. A request to either route refines the booking specification of the reminders, and books only with the
  credentials of the channel, for an allowed sender, what that sender's stored approval holds.

  \<^bold>\<open>Guardrails, privacy, tracing, runtime\<close> (\<^verbatim>\<open>domain/common/{guardrails,privacy}.py\<close>, \<^verbatim>\<open>application/dto/{tracing,runtime,context}.py\<close>, \<^verbatim>\<open>adapters/observability/local.py\<close>, \<^verbatim>\<open>application/use_cases/runtime.py\<close>):
  \<open>Guardrails\<close>, \<open>Guardrail_Properties\<close>, \<open>Privacy\<close>, \<open>Privacy_Safety\<close>, \<open>Tracing\<close>, \<open>Tracing_Properties\<close>, \<open>Trace_Liveness\<close>, \<open>Runtime\<close>. A scan reports a rule exactly when its pattern
  occurs; what leaves the privacy boundary is clean, hence everything a recorder ever holds; the runtime answers only what
  passes its scans and records each step; a token budget is never exceeded.

  \<^bold>\<open>Documents\<close> (\<^verbatim>\<open>application/use_cases/documents.py\<close>, \<^verbatim>\<open>domain/common/citations.py\<close>): \<open>Documents\<close>, \<open>Document_Properties\<close>. Citations read back, a summary is made of
  the words of exactly the lines it cites, and a readable document is always summarised.

  \<^bold>\<open>Authentication\<close> (\<^verbatim>\<open>adapters/inbound/auth_{peer,local,claims}.py\<close>): \<open>Admin_Auth\<close>. Parsing of IPv4 and IPv6 peers, bearer tokens, the local provider and
  principals from verified claims; who is admitted, exactly.

  \<^bold>\<open>Outbound hosts\<close> (\<^verbatim>\<open>adapters/outbound/egress.py\<close>, the egress check of \<^verbatim>\<open>infrastructure/config_validation.py\<close>): \<open>Egress\<close>, \<open>Egress_Properties\<close>. The allowlist decides by the
  host that the connection goes to, whatever surrounds it in the URL; the derived allowlist covers every enabled provider.

  \<^bold>\<open>Migrations\<close> (\<^verbatim>\<open>infrastructure/migrations/runner.py\<close>, \<^verbatim>\<open>infrastructure/validation.py\<close>): \<open>Migrations\<close>, \<open>Migration_Properties\<close>. The scanner for transaction control is exact on scripts
  of words, comments and quotes; a history is accepted exactly when it is a prefix of the local migrations; applying runs
  what is missing in order, each with its history row or not at all.

  \<^bold>\<open>Termination.\<close> All definitions are total. Recursion that is not structural (splitting lines, block comments, statement
  prefixes, matching) has a measure; no definition takes fuel except the matcher's repetition, whose bound is the length of the text,
  which suffices because every repetition that counts consumes a character. The loops of the dispatcher run over the list that
  a claim returns.

  \<^bold>\<open>Not modelled.\<close> The Postgres adapter (\<^verbatim>\<open>adapters/persistence/postgres.py\<close>) is SQL text whose meaning lies in the database server; its
  in-memory counterparts, which implement the same ports, are modelled. The clients of language models and speech
  services, the notification tool that only remembers its requests, the remaining HTTP routes, the administration pages, the environment
  loader, the wiring of objects and the worker process are I/O, rendering and framework code around the modelled use cases. Of the
  Telegram and WhatsApp clients the bytes on the wire are left out, what they do with the replies is modelled. The checks of worker intervals
  at start-up are comparisons of floats; the rest of the settings is plain data. The offline
  evaluations (\<^verbatim>\<open>evals\<close>), the JSON schemas (\<^verbatim>\<open>contracts\<close>) and the repository's tooling (\<^verbatim>\<open>tools\<close>) do not take part in running the assistant.
\<close>

end
